(* ===== verification/Prelude.thy ===== *)
theory Prelude
  imports Main "HOL-Library.Word"
begin

unbundle bit_operations_syntax

text \<open>
  The types every theory of the development shares (the fixed-width integers of
  \<^verbatim>\<open>src/src/common.h\<close>), the arithmetic of C's signed \<^verbatim>\<open>int\<close>, and the collections of
  rewrite rules the component theories add to.
\<close>

section \<open>Rule collections\<close>

named_theorems prog_defs \<open>definitions of the statement combinators and the library calls\<close>
named_theorems test_defs \<open>definitions of one test program: its handler and its main\<close>
named_theorems linux_defs \<open>definitions of the platform's signal operations\<close>

section \<open>Fixed-width integers\<close>

type_synonym u8 = "8 word"
type_synonym u16 = "16 word"
type_synonym u32 = "32 word"
type_synonym u64 = "64 word"

text \<open>
  A C \<^verbatim>\<open>int\<close> is a mathematical integer in this range; arithmetic that leaves it is
  undefined behaviour and gets its own outcome.
\<close>

definition in_c_int :: "int \<Rightarrow> bool" where
  "in_c_int n \<longleftrightarrow> - (2 ^ 31) \<le> n \<and> n < 2 ^ 31"

lemma in_c_int_small [simp]:
  "in_c_int 0" "in_c_int 1" "in_c_int (numeral w) \<longleftrightarrow> (numeral w :: int) < 2147483648"
proof -
  have "- 2147483648 \<le> (numeral w :: int)"
    by (rule order_trans [of _ 0]) simp_all
  then show "in_c_int (numeral w) \<longleftrightarrow> (numeral w :: int) < 2147483648"
    by (simp add: in_c_int_def)
qed (simp_all add: in_c_int_def)

section \<open>Targets\<close>

text \<open>The Makefile builds each program for both targets; \<^verbatim>\<open>#ifdef __x86_64__\<close> becomes a case on this.\<close>

datatype arch = X64 | X86

definition pointer_size :: "arch \<Rightarrow> int" where
  "pointer_size a = (case a of X64 \<Rightarrow> 8 | X86 \<Rightarrow> 4)"

text \<open>A register value read as a pointer: 32 bits wide on the 32-bit target.\<close>

definition to_ptr :: "arch \<Rightarrow> u64 \<Rightarrow> u64" where
  "to_ptr a w = (case a of X64 \<Rightarrow> w | X86 \<Rightarrow> take_bit 32 w)"

text \<open>A saved register read as the C type \<^verbatim>\<open>greg_t\<close>: \<^verbatim>\<open>long long\<close>, or \<^verbatim>\<open>int\<close> on the 32-bit target.\<close>

definition greg :: "arch \<Rightarrow> u64 \<Rightarrow> int" where
  "greg a w = (case a of X64 \<Rightarrow> sint w | X86 \<Rightarrow> sint (ucast w :: u32))"

text \<open>
  Such a value, or a pointer, converted to \<^verbatim>\<open>u64\<close>: the compiler sign-extends both on the 32-bit
  target.
\<close>

definition widen :: "arch \<Rightarrow> u64 \<Rightarrow> u64" where
  "widen a w = word_of_int (greg a w)"

lemma to_ptr_0 [simp]: "to_ptr a 0 = 0"
  by (simp add: to_ptr_def split: arch.splits)

section \<open>Lists\<close>

lemma eq_map_upt:
  assumes "length xs = n" and "\<And>i. i < n \<Longrightarrow> xs ! i = f i"
  shows "xs = map f [0..<n]"
  using assms by (intro nth_equalityI) simp_all

end
