(* ===== verification/Posix.thy ===== *)
theory Posix
  imports Prelude
begin

text \<open>
  The vocabulary of \<^verbatim>\<open>signal.h\<close>, \<^verbatim>\<open>sys/ucontext.h\<close> and the system calls, as far as the
  test programs use it: signal numbers, signal sets, actions, alternate stacks, the
  information and the context a handler receives, and the requests a program makes of
  its platform with the answers it reads.
\<close>

section \<open>Signals and signal sets\<close>

type_synonym signum = int

abbreviation (input) SIGHUP :: signum where "SIGHUP \<equiv> 1"
abbreviation (input) SIGINT :: signum where "SIGINT \<equiv> 2"
abbreviation (input) SIGQUIT :: signum where "SIGQUIT \<equiv> 3"
abbreviation (input) SIGILL :: signum where "SIGILL \<equiv> 4"
abbreviation (input) SIGTRAP :: signum where "SIGTRAP \<equiv> 5"
abbreviation (input) SIGABRT :: signum where "SIGABRT \<equiv> 6"
abbreviation (input) SIGBUS :: signum where "SIGBUS \<equiv> 7"
abbreviation (input) SIGFPE :: signum where "SIGFPE \<equiv> 8"
abbreviation (input) SIGKILL :: signum where "SIGKILL \<equiv> 9"
abbreviation (input) SIGUSR1 :: signum where "SIGUSR1 \<equiv> 10"
abbreviation (input) SIGSEGV :: signum where "SIGSEGV \<equiv> 11"
abbreviation (input) SIGUSR2 :: signum where "SIGUSR2 \<equiv> 12"
abbreviation (input) SIGPIPE :: signum where "SIGPIPE \<equiv> 13"
abbreviation (input) SIGALRM :: signum where "SIGALRM \<equiv> 14"
abbreviation (input) SIGTERM :: signum where "SIGTERM \<equiv> 15"
abbreviation (input) SIGSTKFLT :: signum where "SIGSTKFLT \<equiv> 16"
abbreviation (input) SIGCHLD :: signum where "SIGCHLD \<equiv> 17"
abbreviation (input) SIGCONT :: signum where "SIGCONT \<equiv> 18"
abbreviation (input) SIGSTOP :: signum where "SIGSTOP \<equiv> 19"
abbreviation (input) SIGTSTP :: signum where "SIGTSTP \<equiv> 20"
abbreviation (input) SIGTTIN :: signum where "SIGTTIN \<equiv> 21"
abbreviation (input) SIGTTOU :: signum where "SIGTTOU \<equiv> 22"
abbreviation (input) SIGURG :: signum where "SIGURG \<equiv> 23"
abbreviation (input) SIGXCPU :: signum where "SIGXCPU \<equiv> 24"
abbreviation (input) SIGXFSZ :: signum where "SIGXFSZ \<equiv> 25"
abbreviation (input) SIGVTALRM :: signum where "SIGVTALRM \<equiv> 26"
abbreviation (input) SIGPROF :: signum where "SIGPROF \<equiv> 27"
abbreviation (input) SIGWINCH :: signum where "SIGWINCH \<equiv> 28"
abbreviation (input) SIGIO :: signum where "SIGIO \<equiv> 29"
abbreviation (input) SIGPWR :: signum where "SIGPWR \<equiv> 30"
abbreviation (input) SIGSYS :: signum where "SIGSYS \<equiv> 31"
abbreviation (input) SIGRTMIN :: signum where "SIGRTMIN \<equiv> 34"

text \<open>A signal set is the kernel's 64-bit mask: bit \<open>s - 1\<close> stands for signal \<open>s\<close>.\<close>

type_synonym sigset = u64

definition sigbit :: "signum \<Rightarrow> sigset" where
  "sigbit s = push_bit (nat (s - 1)) 1"

definition sigemptyset :: sigset where
  "sigemptyset = 0"

text \<open>The C library keeps signals 32 and 33 for itself: \<^verbatim>\<open>sigfillset\<close> leaves them out.\<close>

definition internal_signals :: sigset where
  "internal_signals = sigbit 32 OR sigbit 33"

definition sigfillset :: sigset where
  "sigfillset = NOT internal_signals"

definition sigaddset :: "sigset \<Rightarrow> signum \<Rightarrow> sigset" where
  "sigaddset m s = m OR sigbit s"

definition sigdelset :: "sigset \<Rightarrow> signum \<Rightarrow> sigset" where
  "sigdelset m s = m AND NOT (sigbit s)"

definition sigismember :: "sigset \<Rightarrow> signum \<Rightarrow> bool" where
  "sigismember m s \<longleftrightarrow> bit m (nat (s - 1))"

datatype how = SIG_BLOCK | SIG_UNBLOCK | SIG_SETMASK

section \<open>Actions\<close>

text \<open>\<open>Handler n\<close> is the address of the program's handler number \<open>n\<close>.\<close>

datatype handler = SIG_DFL | SIG_IGN | Handler nat

record sigact =
  sa_sigaction :: handler
  sa_flags :: u64
  sa_mask :: sigset
  sa_restorer :: u64

abbreviation (input) SA_SIGINFO :: u64 where "SA_SIGINFO \<equiv> 0x4"
abbreviation (input) SA_RESTORER :: u64 where "SA_RESTORER \<equiv> 0x04000000"
abbreviation (input) SA_ONSTACK :: u64 where "SA_ONSTACK \<equiv> 0x08000000"
abbreviation (input) SA_RESTART :: u64 where "SA_RESTART \<equiv> 0x10000000"
abbreviation (input) SA_NODEFER :: u64 where "SA_NODEFER \<equiv> 0x40000000"
abbreviation (input) SA_RESETHAND :: u64 where "SA_RESETHAND \<equiv> 0x80000000"

definition has_flag :: "u64 \<Rightarrow> u64 \<Rightarrow> bool" where
  "has_flag w f \<longleftrightarrow> w AND f \<noteq> 0"

section \<open>Alternate stacks\<close>

record stack_t =
  ss_sp :: u64
  ss_size :: u64
  ss_flags :: u32

abbreviation (input) SS_ONSTACK :: u32 where "SS_ONSTACK \<equiv> 1"
abbreviation (input) SS_DISABLE :: u32 where "SS_DISABLE \<equiv> 2"
abbreviation (input) SS_AUTODISARM :: u32 where "SS_AUTODISARM \<equiv> 0x80000000"

section \<open>What a handler receives\<close>

record siginfo =
  si_signo :: int
  si_code :: int
  si_pid :: int
  si_uid :: int
  si_value :: u64
  si_addr :: u64

text \<open>\<^verbatim>\<open>si_value\<close> is a union: \<^verbatim>\<open>sival_int\<close> is its low 32 bits, read as an \<^verbatim>\<open>int\<close>.\<close>

definition sival_int :: "u64 \<Rightarrow> int" where
  "sival_int v = sint (ucast v :: u32)"

definition of_sival_int :: "int \<Rightarrow> u64" where
  "of_sival_int n = ucast (word_of_int n :: u32)"

abbreviation (input) SI_USER :: int where "SI_USER \<equiv> 0"
abbreviation (input) SI_KERNEL :: int where "SI_KERNEL \<equiv> 0x80"
abbreviation (input) SI_QUEUE :: int where "SI_QUEUE \<equiv> - 1"
abbreviation (input) SI_TKILL :: int where "SI_TKILL \<equiv> - 6"
abbreviation (input) SEGV_MAPERR :: int where "SEGV_MAPERR \<equiv> 1"
abbreviation (input) FPE_INTDIV :: int where "FPE_INTDIV \<equiv> 1"
abbreviation (input) ILL_ILLOPN :: int where "ILL_ILLOPN \<equiv> 2"
abbreviation (input) TRAP_TRACE :: int where "TRAP_TRACE \<equiv> 2"

text \<open>
  The saved registers, each an element of the array \<^verbatim>\<open>gregs\<close>. \<^verbatim>\<open>REG_EIP\<close> and \<^verbatim>\<open>REG_EAX\<close> are the names \<^verbatim>\<open>REG_RIP\<close> and
  \<^verbatim>\<open>REG_RAX\<close> have on the 32-bit target, whose segment registers are saved one by one
  and not packed into \<^verbatim>\<open>REG_CSGSFS\<close>.
\<close>

record gregset =
  REG_RAX :: u64
  REG_RIP :: u64
  REG_RSP :: u64
  REG_EFL :: u64
  REG_ERR :: u64
  REG_TRAPNO :: u64
  REG_OLDMASK :: u64
  REG_CR2 :: u64
  REG_CSGSFS :: u64
  REG_CS :: u64
  REG_SS :: u64
  REG_DS :: u64
  REG_ES :: u64
  REG_FS :: u64
  REG_GS :: u64

text \<open>
  The part of the floating point and vector state the programs look at: control, status and tag
  word, the ten bytes of the top register, the magic number of the 32-bit format, two vector
  registers of four words, the bits of the components in use.
\<close>

record fpstate =
  fp_cw :: u32
  fp_sw :: u32
  fp_tag :: u32
  fp_st0 :: "u8 list"
  fp_magic :: u16
  fp_xmm0 :: "u32 list"
  fp_xmm1 :: "u32 list"
  fp_xstate_bv :: u64

text \<open>\<open>fpregs\<close> is a pointer: it may be null.\<close>

record ucontext =
  uc_flags :: u64
  uc_stack :: stack_t
  gregs :: gregset
  fpregs :: "fpstate option"
  uc_sigmask :: sigset

section \<open>Errors\<close>

abbreviation (input) EPERM :: int where "EPERM \<equiv> 1"
abbreviation (input) EINTR :: int where "EINTR \<equiv> 4"
abbreviation (input) EAGAIN :: int where "EAGAIN \<equiv> 11"
abbreviation (input) ENOMEM :: int where "ENOMEM \<equiv> 12"
abbreviation (input) EINVAL :: int where "EINVAL \<equiv> 22"

section \<open>Requests and answers\<close>

text \<open>The single instructions the programs execute for their effect on the processor.\<close>

datatype insn = Div_by_zero | Idiv_by_zero | Hlt | Int3 | Ud2 | Far_jmp | Call_code
  | Nop | Pushf | Popf u64 | Branch u64 | Other_insn nat

text \<open>
  \<open>Pushf\<close> hands the flags to the program and \<open>Popf\<close> takes them from it; \<open>Branch t\<close> is a call of or
  return to the address \<open>t\<close>; \<open>Other_insn n\<close> is an
  instruction of \<open>n\<close> bytes that touches nothing the model has. Floating point and vector
  instructions have no addresses: no program steps through one.
\<close>

datatype fp_insn = Fninit | Fldcw u32 | Fld1 | Fld "u8 list" | Fstp | Fnstcw | Fnstenv
  | Load_xmm nat "u32 list" | Store_xmm nat

datatype segreg = CS | SS | DS | ES | FS | GS

text \<open>
  What a program asks of its platform: system calls, the loads and stores whose faults are
  the point of a test, single instructions at their addresses, reads and writes of the flags register. Two
  requests are not calls of the source: \<open>Enter\<close> is the moment a delivered handler is about
  to run its first instruction, \<open>Sigreturn\<close> the return from it. Each is a point where the
  platform may deliver further signals. \<open>Thread_start\<close> is the same for a thread. The threads of a
  program and its semaphore are known by number; what is read and written is not looked at.
\<close>

datatype req =
    Rt_sigaction signum "sigact option"
  | Rt_sigprocmask how "sigset option"
  | Rt_sigpending
  | Rt_sigsuspend sigset
  | Rt_sigtimedwait sigset bool
  | Rt_sigqueueinfo int signum siginfo
  | Sigaltstack "stack_t option"
  | Raise signum
  | Kill_pid int signum
  | Tgkill int int signum
  | Getpid
  | Gettid
  | Getuid
  | Geteuid
  | Fork
  | Waitpid int int
  | Usleep int
  | Pause
  | Execve
  | Malloc u64
  | Mmap u64
  | Mprotect u64 u64
  | Load_byte u64
  | Store_int u64 int
  | Store_byte u64 u8
  | Atomic_exchange u64 int
  | Atomic_store u64 int
  | Exec_insn insn u64
  | Fp fp_insn
  | Read_flags
  | Write_flags u64
  | Read_segment segreg
  | Read_sp
  | Longjmp int
  | Enter signum siginfo ucontext
  | Sigreturn ucontext
  | Thread_start
  | Pthread_create nat
  | Pthread_join nat
  | Pipe
  | Read int int
  | Write int int
  | Set_pipe_size int int
  | Sem_init int
  | Sem_wait
  | Sem_post

text \<open>
  One answer type for all requests: the raw return value and every kind of value a call
  hands back through a pointer. A program reads the parts its call defines.
\<close>

record resp =
  ret :: int
  r_set :: sigset
  r_act :: sigact
  r_stack :: stack_t
  r_info :: siginfo
  r_word :: u64
  r_status :: int
  r_bytes :: "u8 list"
  r_words :: "u32 list"
  r_fds :: "int \<times> int"

end
