(* ===== verification/Program.thy ===== *)
theory Program
  imports Posix
begin

text \<open>
  Programs as trees of requests, and the machine that runs them. A C function becomes a
  term of type \<open>('g, 'a) prog\<close> over the program's memory \<open>'g\<close> (its globals, a record):
  it reads and writes the memory, makes requests whose answers it branches on, exits, or
  returns. The machine keeps the stack of interrupted requests, so a signal handler is a
  program pushed on top of the request it interrupts.
\<close>

section \<open>Programs\<close>

datatype message = Condition_failed | Got_signal int

datatype (dead 'g, 'a) prog =
    Return 'a
  | Exit int
  | Undefined
  | Out_of_fuel
  | Get "'g \<Rightarrow> ('g, 'a) prog"
  | Put 'g "('g, 'a) prog"
  | Print message "('g, 'a) prog"
  | Setjmp "int \<Rightarrow> ('g, 'a) prog"
  | Call req "resp \<Rightarrow> ('g, 'a) prog"

primrec bind :: "('g, 'a) prog \<Rightarrow> ('a \<Rightarrow> ('g, 'b) prog) \<Rightarrow> ('g, 'b) prog" where
  "bind (Return v) f = f v"
| "bind (Exit n) f = Exit n"
| "bind Undefined f = Undefined"
| "bind Out_of_fuel f = Out_of_fuel"
| "bind (Get k) f = Get (\<lambda>g. bind (k g) f)"
| "bind (Put g p) f = Put g (bind p f)"
| "bind (Print s p) f = Print s (bind p f)"
| "bind (Setjmp k) f = Setjmp (\<lambda>n. bind (k n) f)"
| "bind (Call q k) f = Call q (\<lambda>r. bind (k r) f)"

lemma bind_Return_right [simp]: "bind p Return = p"
  by (induction p) simp_all

lemma bind_assoc: "bind (bind p f) h = bind p (\<lambda>v. bind (f v) h)"
  by (induction p) simp_all

section \<open>Statements\<close>

definition seq :: "('g, unit) prog \<Rightarrow> ('g, 'a) prog \<Rightarrow> ('g, 'a) prog" where
  "seq p q = bind p (\<lambda>_. q)"

text \<open>A brace-enclosed list of statements.\<close>

definition block :: "('g, unit) prog list \<Rightarrow> ('g, unit) prog" where
  "block ss = foldr seq ss (Return ())"

text \<open>
  A program is a finite tree along every path: a loop that may not end is given fuel, and a run that uses it
  up has its own outcome.
\<close>

text \<open>A counted loop \<^verbatim>\<open>for (int i = 0; i < n; i++)\<close>, the body given the list of its indices.\<close>

definition for_each :: "'i list \<Rightarrow> ('i \<Rightarrow> ('g, unit) prog) \<Rightarrow> ('g, unit) prog" where
  "for_each is body = block (map body is)"

definition skip :: "('g, unit) prog" where
  "skip = Return ()"

definition if_then :: "bool \<Rightarrow> ('g, unit) prog \<Rightarrow> ('g, unit) prog" where
  "if_then b p = (if b then p else skip)"

definition get :: "('g, 'g) prog" where
  "get = Get Return"

definition modify :: "('g \<Rightarrow> 'g) \<Rightarrow> ('g, unit) prog" where
  "modify f = Get (\<lambda>g. Put (f g) (Return ()))"

definition call :: "req \<Rightarrow> ('g, resp) prog" where
  "call q = Call q Return"

text \<open>A call statement whose result is dropped.\<close>

definition ignore :: "('g, 'a) prog \<Rightarrow> ('g, unit) prog" where
  "ignore p = bind p (\<lambda>_. skip)"

text \<open>\<^verbatim>\<open>x++\<close> on an \<^verbatim>\<open>int\<close>: read it, add one, store it; overflow is undefined.\<close>

definition incr :: "('g \<Rightarrow> int) \<Rightarrow> (int \<Rightarrow> 'g \<Rightarrow> 'g) \<Rightarrow> ('g, unit) prog" where
  "incr rd wr = Get (\<lambda>g. if in_c_int (rd g + 1) then Put (wr (rd g + 1) g) skip else Undefined)"

text \<open>
  The macro \<^verbatim>\<open>ASSERT\<close> of \<^verbatim>\<open>common.h\<close>: a failed condition prints a message and exits with
  status 1. The condition's text in the message is left out.
\<close>

definition ASSERT :: "bool \<Rightarrow> ('g, unit) prog" where
  "ASSERT cond = (if \<not> cond then Print Condition_failed (Exit 1) else Return ())"

text \<open>\<^verbatim>\<open>ASSERT\<close> of a condition on the result of a call, and of one on the memory.\<close>

definition ASSERT_ret :: "('g, 'a) prog \<Rightarrow> ('a \<Rightarrow> bool) \<Rightarrow> ('g, unit) prog" where
  "ASSERT_ret p cond = bind p (\<lambda>v. ASSERT (cond v))"

definition ASSERT_mem :: "('g \<Rightarrow> bool) \<Rightarrow> ('g, unit) prog" where
  "ASSERT_mem cond = Get (\<lambda>g. ASSERT (cond g))"

lemmas statement_defs = seq_def block_def skip_def if_then_def get_def modify_def
  call_def ignore_def incr_def ASSERT_ret_def ASSERT_mem_def

section \<open>The machine\<close>

datatype event =
    Ans req resp
  | Ret ucontext
  | Out message
  | Jmp int

type_synonym log = "event list"

type_synonym 'g frame = "req \<times> (resp \<Rightarrow> ('g, unit) prog)"

type_synonym 'g jmpbuf = "(int \<Rightarrow> ('g, unit) prog) \<times> 'g frame list"

datatype outcome = Exited int | Undefined_behaviour | Fuel_exhausted | Killed signum | Fell_off

text \<open>
  A live machine waits at a request: the request and what to do with its answer, the
  interrupted requests below it, the saved \<^verbatim>\<open>jmp_buf\<close>, the memory, and the log of what
  has happened, newest first.
\<close>

datatype 'g machine =
    Live "'g frame" "'g frame list" "'g jmpbuf option" 'g log
  | Dead outcome 'g log

text \<open>The handlers of a program by number; a handler returns its (possibly edited) context.\<close>

type_synonym 'g handlers =
  "nat \<Rightarrow> signum \<Rightarrow> siginfo \<Rightarrow> ucontext \<Rightarrow> ('g, ucontext) prog"

text \<open>Run up to the next request.\<close>

primrec settle ::
  "('g, unit) prog \<Rightarrow> 'g frame list \<Rightarrow> 'g jmpbuf option \<Rightarrow> 'g \<Rightarrow> log \<Rightarrow> 'g machine" where
  "settle (Return u) = (\<lambda>fs jb g l. Dead Fell_off g l)"
| "settle (Exit n) = (\<lambda>fs jb g l. Dead (Exited n) g l)"
| "settle Undefined = (\<lambda>fs jb g l. Dead Undefined_behaviour g l)"
| "settle Out_of_fuel = (\<lambda>fs jb g l. Dead Fuel_exhausted g l)"
| "settle (Get k) = (\<lambda>fs jb g l. settle (k g) fs jb g l)"
| "settle (Put g' p) = (\<lambda>fs jb g l. settle p fs jb g' l)"
| "settle (Print s p) = (\<lambda>fs jb g l. settle p fs jb g (Out s # l))"
| "settle (Setjmp k) = (\<lambda>fs jb g l. settle (k 0) fs (Some (k, fs)) g l)"
| "settle (Call q k) = (\<lambda>fs jb g l. Live (q, k) fs jb g l)"

text \<open>A delivered handler: it is entered, runs, and returns through \<^verbatim>\<open>sigreturn\<close>.\<close>

definition handler_prog ::
  "'g handlers \<Rightarrow> nat \<Rightarrow> signum \<Rightarrow> siginfo \<Rightarrow> ucontext \<Rightarrow> ('g, unit) prog" where
  "handler_prog H h s i c =
     Call (Enter s i c) (\<lambda>_. bind (H h s i c) (\<lambda>c'. Call (Sigreturn c') (\<lambda>_. Return ())))"

text \<open>What the platform can do with a machine that waits.\<close>

datatype move =
    Answer resp
  | Deliver nat signum siginfo ucontext
  | Resume
  | Jump
  | Terminate signum
  | Block

fun is_return :: "req \<Rightarrow> bool" where
  "is_return (Sigreturn c) = True"
| "is_return (Longjmp n) = True"
| "is_return _ = False"

fun return_ctx :: "req \<Rightarrow> ucontext option" where
  "return_ctx (Sigreturn c) = Some c"
| "return_ctx _ = None"

text \<open>A move the machine cannot make leaves it as it is.\<close>

fun step :: "'g handlers \<Rightarrow> 'g machine \<Rightarrow> move \<Rightarrow> 'g machine" where
  "step H (Dead r g l) m = Dead r g l"
| "step H (Live (q, k) fs jb g l) m =
     (case m of
        Answer r \<Rightarrow>
          if is_return q then Live (q, k) fs jb g l
          else settle (k r) fs jb g (Ans q r # l)
      | Deliver h s i c \<Rightarrow> settle (handler_prog H h s i c) ((q, k) # fs) jb g l
      | Resume \<Rightarrow>
          (case (q, fs) of
             (Sigreturn c, f # fs') \<Rightarrow> Live f fs' jb g (Ret c # l)
           | _ \<Rightarrow> Live (q, k) fs jb g l)
      | Jump \<Rightarrow>
          (case (q, jb) of
             (Longjmp n, Some (k', fs')) \<Rightarrow> settle (k' n) fs' jb g (Jmp n # l)
           | _ \<Rightarrow> Live (q, k) fs jb g l)
      | Terminate s \<Rightarrow> Dead (Killed s) g l
      | Block \<Rightarrow> Live (q, k) fs jb g l)"

definition replay :: "'g handlers \<Rightarrow> 'g machine \<Rightarrow> move list \<Rightarrow> 'g machine" where
  "replay H m mvs = foldl (step H) m mvs"

text \<open>Start-up: the C runtime passes \<^verbatim>\<open>main\<close>'s result to \<^verbatim>\<open>exit\<close>.\<close>

definition boot :: "('g, int) prog \<Rightarrow> 'g \<Rightarrow> 'g machine" where
  "boot main g = settle (bind main Exit) [] None g []"

lemma step_Dead [simp]: "replay H (Dead r g l) mvs = Dead r g l"
  by (induction mvs) (simp_all add: replay_def)

lemma replay_Nil [simp]: "replay H m [] = m"
  by (simp add: replay_def)

lemma replay_Cons [simp]: "replay H m (v # mvs) = replay H (step H m v) mvs"
  by (simp add: replay_def)

lemma replay_append: "replay H m (xs @ ys) = replay H (replay H m xs) ys"
  by (simp add: replay_def)

text \<open>A test program run under a sequence of platform moves, and its exit status if it has one.\<close>

definition trial :: "'g handlers \<Rightarrow> ('g, int) prog \<Rightarrow> 'g \<Rightarrow> move list \<Rightarrow> 'g machine" where
  "trial H main g mvs = replay H (boot main g) mvs"

fun exit_status :: "'g machine \<Rightarrow> int option" where
  "exit_status (Dead (Exited n) g l) = Some n"
| "exit_status _ = None"

fun log_of :: "'g machine \<Rightarrow> log" where
  "log_of (Dead r g l) = l"
| "log_of (Live f fs jb g l) = l"

fun mem_of :: "'g machine \<Rightarrow> 'g" where
  "mem_of (Dead r g l) = g"
| "mem_of (Live f fs jb g l) = g"

lemma exit_status_Some: "exit_status m = Some n \<Longrightarrow> m = Dead (Exited n) (mem_of m) (log_of m)"
  by (cases m rule: exit_status.cases) simp_all

text \<open>How deep handlers are nested.\<close>

fun depth :: "'g machine \<Rightarrow> nat" where
  "depth (Live f fs jb g l) = length fs"
| "depth (Dead r g l) = 0"

section \<open>Reading the log\<close>

text \<open>The handler entries of a log, oldest first: signal, information and context of each.\<close>

type_synonym delivery = "signum \<times> siginfo \<times> ucontext"

fun entered :: "event \<Rightarrow> delivery list" where
  "entered (Ans (Enter s i c) r) = [(s, i, c)]"
| "entered _ = []"

definition handled :: "log \<Rightarrow> delivery list" where
  "handled l = concat (map entered (rev l))"

definition handled_signals :: "log \<Rightarrow> signum list" where
  "handled_signals l = map fst (handled l)"

lemma handled_Nil [simp]: "handled [] = []"
  by (simp add: handled_def)

lemma handled_Cons [simp]: "handled (e # l) = handled l @ entered e"
  by (simp add: handled_def)

lemma handled_append [simp]: "handled (d @ l) = handled l @ handled d"
  by (simp add: handled_def)

lemma handled_signals_Nil [simp]: "handled_signals [] = []"
  by (simp add: handled_signals_def)

lemma handled_signals_Cons [simp]:
  "handled_signals (e # l) = handled_signals l @ map fst (entered e)"
  by (simp add: handled_signals_def)

text \<open>
  The requests a program checks for success are chosen by a predicate; \<open>calls_ok\<close> says that
  each of them was answered with 0.
\<close>

fun answered_0 :: "(req \<Rightarrow> bool) \<Rightarrow> event \<Rightarrow> bool" where
  "answered_0 checked (Ans q r) = (checked q \<longrightarrow> ret r = 0)"
| "answered_0 checked _ = True"

definition calls_ok :: "(req \<Rightarrow> bool) \<Rightarrow> log \<Rightarrow> bool" where
  "calls_ok checked l = list_all (answered_0 checked) l"

lemma calls_ok_Nil [simp]: "calls_ok checked []"
  by (simp add: calls_ok_def)

lemma calls_ok_Cons [simp]: "calls_ok checked (e # l) \<longleftrightarrow> answered_0 checked e \<and> calls_ok checked l"
  by (simp add: calls_ok_def)

text \<open>The contexts handlers have returned with, oldest first, and the number of handlers running.\<close>

fun returned :: "event \<Rightarrow> ucontext list" where
  "returned (Ret c) = [c]"
| "returned _ = []"

definition returns :: "log \<Rightarrow> ucontext list" where
  "returns l = concat (map returned (rev l))"

lemma returns_Nil [simp]: "returns [] = []"
  by (simp add: returns_def)

lemma returns_Cons [simp]: "returns (e # l) = returns l @ returned e"
  by (simp add: returns_def)

definition active :: "log \<Rightarrow> int" where
  "active l = int (length (handled l)) - int (length (returns l))"

lemma active_Nil [simp]: "active [] = 0"
  by (simp add: active_def)

lemma active_Cons [simp]:
  "active (e # l) = active l + (int (length (entered e)) - int (length (returned e)))"
  by (simp add: active_def)

text \<open>
  The calls the program itself has made outside all handlers, oldest first, with their answers.
\<close>

fun own_call :: "event \<Rightarrow> (req \<times> resp) list" where
  "own_call (Ans (Enter s i c) r) = []"
| "own_call (Ans q r) = [(q, r)]"
| "own_call _ = []"

primrec main_calls :: "log \<Rightarrow> (req \<times> resp) list" where
  "main_calls [] = []"
| "main_calls (e # l) = main_calls l @ (if active l = 0 then own_call e else [])"

text \<open>The cases of \<open>main_calls\<close> for an event that is no call outside all handlers.\<close>

lemma main_calls_inside:
  "main_calls (Ans (Enter s i c) r # l) = main_calls l"
  "main_calls (Ret c # l) = main_calls l"
  "active l \<noteq> 0 \<Longrightarrow> main_calls (e # l) = main_calls l"
  by simp_all

text \<open>A property that each event has in view of the log before it.\<close>

primrec each_event :: "(log \<Rightarrow> event \<Rightarrow> bool) \<Rightarrow> log \<Rightarrow> bool" where
  "each_event P [] = True"
| "each_event P (e # l) \<longleftrightarrow> P l e \<and> each_event P l"

text \<open>Logs only grow.\<close>

definition grows :: "log \<Rightarrow> log \<Rightarrow> bool" where
  "grows l l' \<longleftrightarrow> (\<exists>d. l' = d @ l)"

lemma grows_refl [simp]: "grows l l"
  by (simp add: grows_def)

lemma handled_grows: "x \<in> set (handled l) \<Longrightarrow> grows l l' \<Longrightarrow> x \<in> set (handled l')"
  by (auto simp: grows_def)

lemma handled_after: "grows (e # l) l' \<Longrightarrow> handled l \<noteq> [] \<Longrightarrow> handled l' \<noteq> []"
  by (auto simp: grows_def)

lemma grows_trans [trans]: "grows l l1 \<Longrightarrow> grows l1 l2 \<Longrightarrow> grows l l2"
  by (auto simp: grows_def)

lemma grows_Cons: "grows l l' \<Longrightarrow> grows l (e # l')"
  unfolding grows_def by (metis append_Cons)

lemma grows_ConsD: "grows (e # l) l' \<Longrightarrow> grows l l'"
  by (auto simp: grows_def)

text \<open>A property of every entry of a handler, in view of the log before it.\<close>

fun on_entry :: "(log \<Rightarrow> ucontext \<Rightarrow> bool) \<Rightarrow> log \<Rightarrow> event \<Rightarrow> bool" where
  "on_entry P l (Ans (Enter s i c) r) = P l c"
| "on_entry P l _ = True"

section \<open>Runs of loops\<close>

text \<open>If each iteration runs through on its own moves, so does the loop.\<close>

lemma replay_for_each:
  assumes "\<And>i k l. i \<in> set is \<Longrightarrow>
    \<exists>d. replay H (settle (bind (body i) k) [] jb g l) (mv i) = settle (k ()) [] jb g (d @ l)"
  shows "\<exists>d. replay H (settle (bind (for_each is body) k) [] jb g l) (concat (map mv is))
    = settle (k ()) [] jb g (d @ l)"
  using assms
proof (induction "is" arbitrary: l)
  case Nil
  then show ?case by (auto simp: for_each_def block_def skip_def intro: exI [of _ "[]"])
next
  case (Cons i "is")
  let ?k = "\<lambda>_. bind (for_each is body) k"
  have split: "bind (for_each (i # is) body) k = bind (body i) ?k"
    by (simp add: for_each_def block_def seq_def bind_assoc)
  obtain d where d: "replay H (settle (bind (body i) ?k) [] jb g l) (mv i) = settle (?k ()) [] jb g (d @ l)"
    using Cons.prems [of i] by auto
  have "\<exists>d'. replay H (settle (?k ()) [] jb g (d @ l)) (concat (map mv is))
      = settle (k ()) [] jb g (d' @ d @ l)"
    by (rule Cons.IH) (rule Cons.prems, simp)
  then show ?case
    by (auto simp: split d replay_append simp del: bind.simps replay_Cons simp flip: append_assoc)
qed

lemma settle_grows: "grows l l' \<Longrightarrow> \<exists>d. settle p fs jb g l' = settle p fs jb g (d @ l)"
  by (auto simp: grows_def)

section \<open>Closed runs against a platform\<close>

text \<open>
  A platform with state \<open>'w\<close> answers a waiting machine with one move. A run lasts until the
  machine is dead; a run that never ends has no result.
\<close>

type_synonym 'w platform = "'w \<Rightarrow> req \<Rightarrow> move \<times> 'w"

partial_function (option) run ::
  "'w platform \<Rightarrow> 'g handlers \<Rightarrow> 'g machine \<Rightarrow> 'w \<Rightarrow> ('g machine \<times> 'w) option" where
  "run K H m w =
     (case m of
        Dead r g l \<Rightarrow> Some (Dead r g l, w)
      | Live f fs jb g l \<Rightarrow>
          (case K w (fst f) of (mv, w') \<Rightarrow> run K H (step H (Live f fs jb g l) mv) w'))"

lemma run_Dead [simp, code]: "run K H (Dead r g l) w = Some (Dead r g l, w)"
  by (simp add: run.simps)

lemma run_Live [code]:
  "run K H (Live f fs jb g l) w =
     (case K w (fst f) of (mv, w') \<Rightarrow> run K H (step H (Live f fs jb g l) mv) w')"
  by (subst run.simps) simp

text \<open>A closed run is one of the replays: its verdict is a verdict of the open machine.\<close>

lemma run_is_replay:
  assumes "run K H m w = Some (d, w')"
  shows "\<exists>mvs. replay H m mvs = d"
proof -
  have "\<exists>mvs. replay H m mvs = fst dw" if "run K H m w = Some dw" for dw
  proof (rule run.raw_induct [where P = "\<lambda>K H m w dw. \<exists>mvs. replay H m mvs = fst dw", OF _ that])
    fix rec K H m w dw
    assume IH: "\<And>K H m w dw. rec K H m w = Some dw \<Longrightarrow> \<exists>mvs. replay H m mvs = fst dw"
      and eq: "(case m of Dead r g l \<Rightarrow> Some (Dead r g l, w)
        | Live f fs jb g l \<Rightarrow>
            (case K w (fst f) of (mv, w') \<Rightarrow> rec K H (step H (Live f fs jb g l) mv) w')) = Some dw"
    show "\<exists>mvs. replay H m mvs = fst dw"
    proof (cases m)
      case (Dead r g l)
      with eq have "replay H m [] = fst dw" by auto
      then show ?thesis by blast
    next
      case (Live f fs jb g l)
      obtain mv w1 where "K w (fst f) = (mv, w1)" by fastforce
      with eq Live have "rec K H (step H m mv) w1 = Some dw" by simp
      then obtain mvs where "replay H (step H m mv) mvs = fst dw" using IH by blast
      then have "replay H m (mv # mvs) = fst dw" by simp
      then show ?thesis by blast
    qed
  qed
  with assms show ?thesis by fastforce
qed

end
