(* ===== verification/Logic.thy ===== *)
theory Logic
  imports Program
begin

text \<open>
  A program logic for programs whose platform is unknown. The platform may answer a request
  with anything and may deliver any signal, with any information and context, whenever the
  program waits at a request. A contract consists of an invariant \<open>I\<close> of memory and log that
  holds at every request, a relation \<open>R\<close> from the state at a request to the state in which it
  is answered, and a condition \<open>X\<close> on every exit. \<open>wp\<close> computes the condition under which a
  program meets a contract; the locale \<open>env_contract\<close> says that every handler does, and
  concludes that every exit the machine can reach satisfies \<open>X\<close>.
\<close>

section \<open>Weakest preconditions\<close>

type_synonym 'g pred = "'g \<Rightarrow> log \<Rightarrow> bool"

primrec wp :: "'g pred \<Rightarrow> ('g \<Rightarrow> log \<Rightarrow> 'g pred) \<Rightarrow> (int \<Rightarrow> 'g pred) \<Rightarrow>
    (ucontext \<Rightarrow> 'g pred) \<Rightarrow> ('g, 'a) prog \<Rightarrow> ('a \<Rightarrow> 'g pred) \<Rightarrow> 'g pred" where
  "wp I R X S (Return v) = (\<lambda>Q g l. Q v g l)"
| "wp I R X S (Exit n) = (\<lambda>Q g l. X n g l)"
| "wp I R X S Undefined = (\<lambda>Q g l. True)"
| "wp I R X S Out_of_fuel = (\<lambda>Q g l. True)"
| "wp I R X S (Get k) = (\<lambda>Q g l. wp I R X S (k g) Q g l)"
| "wp I R X S (Put g' p) = (\<lambda>Q g l. wp I R X S p Q g' l)"
| "wp I R X S (Print s p) = (\<lambda>Q g l. wp I R X S p Q g (Out s # l))"
| "wp I R X S (Setjmp k) = (\<lambda>Q g l. False)"
| "wp I R X S (Call q k) = (\<lambda>Q g l. I g l \<and>
     (\<forall>g' l'. grows l l' \<longrightarrow> I g' l' \<longrightarrow> R g l g' l' \<longrightarrow>
        (case return_ctx q of
           Some c \<Rightarrow> S c g' l'
         | None \<Rightarrow> \<not> is_return q \<and> (\<forall>r. wp I R X S (k r) Q g' (Ans q r # l')))))"

lemma wp_bind [simp]:
  "wp I R X S (bind p f) Q g l = wp I R X S p (\<lambda>v. wp I R X S (f v) Q) g l"
proof (induction p arbitrary: g l)
  case (Call q k)
  have "wp I R X S (bind (k r) f) Q = wp I R X S (k r) (\<lambda>v. wp I R X S (f v) Q)" for r
    by (intro ext Call.IH) simp
  then show ?case by (simp split: option.splits)
qed simp_all

lemma wp_bind_fun: "wp I R X S (bind p f) Q = wp I R X S p (\<lambda>v. wp I R X S (f v) Q)"
  by (intro ext) simp

text \<open>The rule for an ordinary request, whatever the request is.\<close>

lemma wp_request:
  assumes "\<not> is_return q"
  shows "wp I R X S (Call q k) Q g l \<longleftrightarrow>
    I g l \<and> (\<forall>g' l' r. grows l l' \<longrightarrow> I g' l' \<longrightarrow> R g l g' l' \<longrightarrow> wp I R X S (k r) Q g' (Ans q r # l'))"
  using assms by (cases q) auto

lemma wp_mono:
  assumes "wp I R X S p Q g l" and "\<And>v g l. Q v g l \<Longrightarrow> Q' v g l"
  shows "wp I R X S p Q' g l"
  using assms(1)
proof (induction p arbitrary: g l)
  case (Call q k)
  from Call.IH have "wp I R X S (k r) Q g l \<Longrightarrow> wp I R X S (k r) Q' g l" for r g l by blast
  with Call.prems show ?case by (auto split: option.splits)
qed (auto simp: assms(2))

lemma wp_post:
  assumes "wp I R X S p Q g l" and "\<And>c g l. S c g l \<Longrightarrow> S' c g l"
  shows "wp I R X S' p Q g l"
  using assms(1)
proof (induction p arbitrary: g l)
  case (Call q k)
  from Call.IH have "wp I R X S (k r) Q g l \<Longrightarrow> wp I R X S' (k r) Q g l" for r g l by blast
  with Call.prems show ?case by (auto split: option.splits intro: assms(2))
qed simp_all

lemma wp_rely:
  assumes "wp I R X S p Q g l" and "\<And>g l g' l'. R' g l g' l' \<Longrightarrow> R g l g' l'"
  shows "wp I R' X S p Q g l"
  using assms(1)
proof (induction p arbitrary: g l)
  case (Call q k)
  from Call.IH have "wp I R X S (k r) Q g l \<Longrightarrow> wp I R' X S (k r) Q g l" for r g l by blast
  with Call.prems show ?case by (auto split: option.splits dest: assms(2))
qed simp_all

lemma wp_grows:
  assumes "wp I R X S p Q g l" and "grows l0 l"
  shows "wp I R X (\<lambda>c g' l'. S c g' l' \<and> grows l0 l') p Q g l"
  using assms
proof (induction p arbitrary: g l)
  case (Call q k)
  from Call.IH have "wp I R X S (k r) Q g l \<Longrightarrow> grows l0 l \<Longrightarrow>
      wp I R X (\<lambda>c g' l'. S c g' l' \<and> grows l0 l') (k r) Q g l" for r g l by blast
  with Call.prems show ?case
    by (fastforce split: option.splits intro: grows_trans grows_Cons)
qed (simp_all add: grows_Cons)

text \<open>Loops: an assertion about the number of finished iterations, kept by each of them.\<close>

lemma wp_for_each:
  assumes "P 0 g l"
    and "\<And>i g l. i < length is \<Longrightarrow> P i g l \<Longrightarrow> wp I R X S (body (is ! i)) (\<lambda>_. P (Suc i)) g l"
    and "\<And>g l. P (length is) g l \<Longrightarrow> Q () g l"
  shows "wp I R X S (for_each is body) Q g l"
  using assms
proof (induction "is" arbitrary: P g l)
  case Nil
  then show ?case by (simp add: for_each_def statement_defs)
next
  case (Cons a "is")
  have rest: "wp I R X S (for_each is body) Q g' l'" if "P (Suc 0) g' l'" for g' l'
  proof (rule Cons.IH [where P = "\<lambda>i. P (Suc i)"])
    show "P (Suc 0) g' l'" by (rule that)
    show "wp I R X S (body (is ! i)) (\<lambda>_. P (Suc (Suc i))) g l"
      if "i < length is" and "P (Suc i) g l" for i g l
      using Cons.prems(2) [of "Suc i" g l] that by simp
    show "Q () g l" if "P (Suc (length is)) g l" for g l
      using Cons.prems(3) [of g l] that by simp
  qed
  have "wp I R X S (body a) (\<lambda>_. P (Suc 0)) g l"
    using Cons.prems(1) Cons.prems(2) [of 0] by simp
  then have "wp I R X S (body a) (\<lambda>_. wp I R X S (for_each is body) Q) g l"
    by (rule wp_mono) (rule rest)
  then show ?case by (simp add: for_each_def statement_defs)
qed

text \<open>A list of assertions holds if each of them does, and ends the program with 1 otherwise.\<close>

lemma wp_assert_all:
  "wp I R X S (for_each is (\<lambda>i. ASSERT (p i))) Q g l \<longleftrightarrow>
     (if list_all p is then Q () g l else X 1 g (Out Condition_failed # l))"
  by (induction "is") (simp_all add: for_each_def block_def seq_def ASSERT_def)

section \<open>Contracts\<close>

locale env_contract =
  fixes H :: "'g handlers"
    and I :: "'g pred"
    and R :: "'g \<Rightarrow> log \<Rightarrow> 'g pred"
    and X :: "int \<Rightarrow> 'g pred"
  assumes rely_refl: "R g l g l"
    and rely_trans: "R g l g1 l1 \<Longrightarrow> R g1 l1 g2 l2 \<Longrightarrow> R g l g2 l2"
    and handler_meets:
      "I g l \<Longrightarrow>
       wp I R X (\<lambda>c' g' l'. I g' (Ret c' # l') \<and> R g l g' (Ret c' # l'))
         (handler_prog H h s i c) (\<lambda>_ _ _. True) g l"
begin

fun frames_ok :: "'g frame list \<Rightarrow> (ucontext \<Rightarrow> 'g pred) \<Rightarrow> bool" where
  "frames_ok [] S = True"
| "frames_ok (f # fs) S =
     (\<exists>S' g0 l0. wp I R X S' (Call (fst f) (snd f)) (\<lambda>_ _ _. True) g0 l0 \<and>
        (\<forall>c g l. S c g l \<longrightarrow> I g (Ret c # l) \<and> R g0 l0 g (Ret c # l) \<and> grows l0 (Ret c # l)) \<and>
        frames_ok fs S')"

fun machine_ok :: "'g machine \<Rightarrow> bool" where
  "machine_ok (Dead r g l) = (case r of Exited n \<Rightarrow> X n g l | _ \<Rightarrow> True)"
| "machine_ok (Live f fs jb g l) =
     (\<exists>S g0 l0. wp I R X S (Call (fst f) (snd f)) (\<lambda>_ _ _. True) g0 l0 \<and>
        grows l0 l \<and> R g0 l0 g l \<and> I g l \<and> frames_ok fs S)"

lemma settle_ok:
  assumes "wp I R X S p (\<lambda>_ _ _. True) g l" and "frames_ok fs S"
  shows "machine_ok (settle p fs jb g l)"
  using assms
proof (induction p arbitrary: g l jb)
  case (Call q k)
  then have "I g l" by simp
  with Call.prems show ?case
    by (simp del: wp.simps) (blast intro: grows_refl rely_refl)
qed auto

lemma step_ok:
  assumes "machine_ok m"
  shows "machine_ok (step H m mv)"
proof (cases m)
  case (Dead r g l)
  with assms show ?thesis by simp
next
  case (Live f fs jb g l)
  obtain q k where f: "f = (q, k)" by fastforce
  from assms Live f obtain S g0 l0 where
    w: "wp I R X S (Call q k) (\<lambda>_ _ _. True) g0 l0" and
    grow: "grows l0 l" and rely: "R g0 l0 g l" and inv: "I g l" and frames: "frames_ok fs S"
    by (auto simp del: wp.simps)
  have same: "machine_ok (Live (q, k) fs jb g l)"
    using w grow rely inv frames by (auto simp del: wp.simps)
  show ?thesis
  proof (cases mv)
    case (Answer r)
    show ?thesis
    proof (cases "is_return q")
      case True
      with Answer Live f same show ?thesis by (simp del: machine_ok.simps)
    next
      case False
      then have "wp I R X S (k r) (\<lambda>_ _ _. True) g (Ans q r # l)"
        using w grow rely inv by (simp add: wp_request del: wp.simps)
      then show ?thesis
        using Answer Live f False frames by (simp add: settle_ok)
    qed
  next
    case (Deliver h s i c)
    let ?S = "\<lambda>c' g' l'. (I g' (Ret c' # l') \<and> R g l g' (Ret c' # l')) \<and> grows l l'"
    have "frames_ok ((q, k) # fs) ?S"
      using w frames rely_trans [OF rely] grows_trans [OF grow] grows_Cons
      by (simp del: wp.simps) blast
    then have "machine_ok (settle (handler_prog H h s i c) ((q, k) # fs) jb g l)"
      by (rule settle_ok [OF wp_grows [OF handler_meets [OF inv] grows_refl]])
    with Deliver Live f show ?thesis by simp
  next
    case Resume
    show ?thesis
    proof (cases "(\<exists>c. q = Sigreturn c) \<and> fs \<noteq> []")
      case True
      then obtain c f' fs' where q: "q = Sigreturn c" and fs: "fs = f' # fs'"
        by (cases fs) auto
      from w q grow rely inv have "S c g l" by simp
      with frames fs obtain S' g1 l1 where
        "wp I R X S' (Call (fst f') (snd f')) (\<lambda>_ _ _. True) g1 l1"
        "I g (Ret c # l)" "R g1 l1 g (Ret c # l)" "grows l1 (Ret c # l)" "frames_ok fs' S'"
        by (auto simp del: wp.simps)
      then have "machine_ok (Live f' fs' jb g (Ret c # l))" by (auto simp del: wp.simps)
      with Resume Live f q fs show ?thesis by (simp del: machine_ok.simps)
    next
      case False
      then have "step H m mv = Live (q, k) fs jb g l"
        using Resume Live f by (cases q; cases fs) simp_all
      with same show ?thesis by (simp only:)
    qed
  next
    case Jump
    have "q \<noteq> Longjmp n" for n
      using w grow rely inv by auto
    then have "step H m mv = Live (q, k) fs jb g l"
      using Jump Live f by (cases q) auto
    with same show ?thesis by (simp only:)
  next
    case (Terminate s)
    with Live f show ?thesis by simp
  next
    case Block
    with Live f same show ?thesis by (simp del: machine_ok.simps)
  qed
qed

lemma replay_ok: "machine_ok m \<Longrightarrow> machine_ok (replay H m mvs)"
  by (induction mvs arbitrary: m) (simp_all add: step_ok)

text \<open>Every exit of a program that meets the contract satisfies \<open>X\<close>, on every platform.\<close>

lemma verdict:
  assumes "wp I R X (\<lambda>_ _ _. False) main (\<lambda>n. X n) g0 []"
    and "trial H main g0 mvs = Dead (Exited n) g l"
  shows "X n g l"
proof -
  have "wp I R X (\<lambda>_ _ _. False) (bind main Exit) (\<lambda>_ _ _. True) g0 []"
    using assms(1) by simp
  then have "machine_ok (boot main g0)"
    unfolding boot_def by (rule settle_ok) simp
  then have "machine_ok (replay H (boot main g0) mvs)" by (rule replay_ok)
  with assms(2) show ?thesis by (simp add: trial_def)
qed

end

text \<open>
  Contracts whose only relation between a request and its answer is the one every program
  has: by the time a request is answered, the handlers that interrupted it have returned.
\<close>

definition balanced :: "'g \<Rightarrow> log \<Rightarrow> 'g pred" where
  "balanced g l g' l' \<longleftrightarrow> active l' = active l"

locale env_invariant =
  fixes H :: "'g handlers"
    and I :: "'g pred"
    and X :: "int \<Rightarrow> 'g pred"
  assumes handler_keeps:
    "I g l \<Longrightarrow>
     wp I balanced X (\<lambda>c' g' l'. I g' (Ret c' # l') \<and> balanced g l g' (Ret c' # l'))
       (handler_prog H h s i c) (\<lambda>_ _ _. True) g l"

sublocale env_invariant \<subseteq> open_env: env_contract H I balanced X
proof unfold_locales
  show "balanced g l g l" for g l by (simp add: balanced_def)
  show "balanced g l g2 l2" if "balanced g l g1 l1" and "balanced g1 l1 g2 l2" for g l g1 l1 g2 l2
    using that by (simp add: balanced_def)
qed (rule handler_keeps)

text \<open>
  Handlers do not make calls outside all handlers: the program's own calls are the same when
  a request is answered as when it was made. This holds of every program that meets such a
  contract, whatever its handlers do.
\<close>

definition layered :: "'g \<Rightarrow> log \<Rightarrow> 'g pred" where
  "layered g l g' l' \<longleftrightarrow> active l' = active l \<and> (0 \<le> active l \<longrightarrow> main_calls l' = main_calls l)"

lemma own_call_Enter: "entered e \<noteq> [] \<Longrightarrow> own_call e = []"
  by (cases e rule: entered.cases) simp_all

lemma wp_inside:
  assumes "wp I balanced X S p Q g l" and "0 < active l"
  shows "wp I layered X (\<lambda>c g' l'. S c g' l' \<and> main_calls l' = main_calls l) p Q g l"
  using assms
proof (induction p arbitrary: g l)
  case (Call q k)
  have rely: "balanced g l g' l'" "active l' = active l" "main_calls l' = main_calls l"
    if "layered g l g' l'" for g' l'
    using that Call.prems(2) by (simp_all add: balanced_def layered_def)
  have more: "0 < active (Ans q r # l')" "main_calls (Ans q r # l') = main_calls l"
    if "active l' = active l" and "main_calls l' = main_calls l" for r l'
    using that Call.prems(2) by simp_all
  have "wp I layered X (\<lambda>c g' l'. S c g' l' \<and> main_calls l' = main_calls l) (k r) Q g' (Ans q r # l')"
    if "active l' = active l" and "main_calls l' = main_calls l"
      and "wp I balanced X S (k r) Q g' (Ans q r # l')" for r g' l'
    by (rule Call.IH [OF _ that(3), unfolded more(2) [OF that(1,2)]]) (use more that in simp_all)
  with Call.prems(1) rely show ?case by (cases "return_ctx q") auto
next
  case (Print s p)
  then have "wp I layered X (\<lambda>c g' l'. S c g' l' \<and> main_calls l' = main_calls (Out s # l)) p Q g (Out s # l)"
    by (intro Print.IH) simp_all
  then show ?case using Print.prems(2) by simp
qed simp_all

locale layered_invariant =
  fixes H :: "'g handlers"
    and I :: "'g pred"
    and X :: "int \<Rightarrow> 'g pred"
  assumes handler_keeps_layers:
    "I g l \<Longrightarrow>
     wp I layered X (\<lambda>c' g' l'. I g' (Ret c' # l') \<and> layered g l g' (Ret c' # l'))
       (handler_prog H h s i c) (\<lambda>_ _ _. True) g l"

sublocale layered_invariant \<subseteq> layers: env_contract H I layered X
proof unfold_locales
  show "layered g l g l" for g l by (simp add: layered_def)
  show "layered g l g2 l2" if "layered g l g1 l1" and "layered g1 l1 g2 l2" for g l g1 l1 g2 l2
    using that by (simp add: layered_def)
qed (rule handler_keeps_layers)

sublocale env_invariant \<subseteq> layered_invariant
proof unfold_locales
  fix g l h s i c
  assume inv: "I g l"
  let ?S = "\<lambda>c' g' l'. I g' (Ret c' # l') \<and> layered g l g' (Ret c' # l')"
  show "wp I layered X ?S (handler_prog H h s i c) (\<lambda>_ _ _. True) g l"
  proof (cases "0 \<le> active l")
    case True
    have "wp I layered X ?S (bind (H h s i c) (\<lambda>c'. Call (Sigreturn c') (\<lambda>_. Return ())))
        (\<lambda>_ _ _. True) g' (Ans (Enter s i c) r # l')"
      if "grows l l'" and "I g' l'" and "layered g l g' l'" for g' l' r
    proof (rule wp_post)
      have "wp I balanced X (\<lambda>c' g' l'. I g' (Ret c' # l') \<and> balanced g l g' (Ret c' # l'))
         (bind (H h s i c) (\<lambda>c'. Call (Sigreturn c') (\<lambda>_. Return ()))) (\<lambda>_ _ _. True) g'
         (Ans (Enter s i c) r # l')"
        using handler_keeps [OF inv, of h s i c] that
        by (simp add: handler_prog_def balanced_def layered_def)
      then show "wp I layered X (\<lambda>c' g2 l2. (I g2 (Ret c' # l2) \<and> balanced g l g2 (Ret c' # l2)) \<and>
          main_calls l2 = main_calls (Ans (Enter s i c) r # l'))
        (bind (H h s i c) (\<lambda>c'. Call (Sigreturn c') (\<lambda>_. Return ()))) (\<lambda>_ _ _. True) g'
        (Ans (Enter s i c) r # l')"
        using True that by (intro wp_inside) (simp_all add: layered_def)
      show "?S c' g2 l2"
        if "(I g2 (Ret c' # l2) \<and> balanced g l g2 (Ret c' # l2)) \<and>
          main_calls l2 = main_calls (Ans (Enter s i c) r # l')" for c' g2 l2
        using that True \<open>layered g l g' l'\<close> by (simp add: balanced_def layered_def)
    qed
    with inv show ?thesis by (simp add: handler_prog_def)
  next
    case False
    have "wp I layered X (\<lambda>c' g' l'. I g' (Ret c' # l') \<and> balanced g l g' (Ret c' # l'))
       (handler_prog H h s i c) (\<lambda>_ _ _. True) g l"
      by (rule wp_rely [OF handler_keeps [OF inv]]) (simp add: balanced_def layered_def)
    then show ?thesis by (rule wp_post) (use False in \<open>simp add: balanced_def layered_def\<close>)
  qed
qed

declare balanced_def [simp] layered_def [simp]

text \<open>
  A program without handlers sees nothing happen while it waits: its verdict is a function
  of the answers, and \<open>X\<close> may describe the whole log.
\<close>

definition undisturbed :: "'g \<Rightarrow> log \<Rightarrow> 'g pred" where
  "undisturbed g l g' l' \<longleftrightarrow> g' = g \<and> l' = l"

declare undisturbed_def [simp]

end
