(* ===== verification/Libc.thy ===== *)
theory Libc
  imports Logic
begin

text \<open>
  The C library's calls as the programs use them: each makes its system call, turns a raw
  result in \<open>-4095..-1\<close> into \<open>-1\<close> and an \<open>errno\<close>, and hands back what the call stores
  through its pointers. \<open>errno\<close> is the first field of every program's memory.
\<close>

section \<open>System call results\<close>

record memory =
  errno :: int

definition is_error :: "int \<Rightarrow> bool" where
  "is_error n \<longleftrightarrow> - 4095 \<le> n \<and> n < 0"

lemma is_error_0 [simp]: "\<not> is_error 0"
  by (simp add: is_error_def)

text \<open>What the C library makes of a raw result.\<close>

definition result :: "resp \<Rightarrow> int" where
  "result r = (if is_error (ret r) then - 1 else ret r)"

lemma result_0 [simp]: "result r = 0 \<longleftrightarrow> ret r = 0"
  by (auto simp: result_def is_error_def)

definition sys :: "req \<Rightarrow> ('m memory_scheme, int \<times> resp) prog" where
  "sys q = Call q (\<lambda>r.
     if is_error (ret r) then Get (\<lambda>g. Put (g\<lparr>errno := - ret r\<rparr>) (Return (- 1, r)))
     else Return (ret r, r))"

text \<open>The call's result alone, and the result with one of the values the call hands back.\<close>

definition sysret :: "req \<Rightarrow> ('m memory_scheme, int) prog" where
  "sysret q = bind (sys q) (\<lambda>v. Return (fst v))"

definition sysget :: "req \<Rightarrow> (resp \<Rightarrow> 'b) \<Rightarrow> ('m memory_scheme, int \<times> 'b) prog" where
  "sysget q out = bind (sys q) (\<lambda>v. Return (fst v, out (snd v)))"

definition set_errno :: "int \<Rightarrow> ('m memory_scheme, unit) prog" where
  "set_errno n = modify (\<lambda>g. g\<lparr>errno := n\<rparr>)"

lemma wp_sys [simp]:
  assumes "\<not> is_return q"
  shows "wp I R X S (sys q) Q g l \<longleftrightarrow>
    I g l \<and> (\<forall>g' l' r. grows l l' \<longrightarrow> I g' l' \<longrightarrow> R g l g' l' \<longrightarrow>
      (if is_error (ret r) then Q (- 1, r) (g'\<lparr>errno := - ret r\<rparr>) (Ans q r # l')
       else Q (ret r, r) g' (Ans q r # l')))"
  using assms by (simp add: sys_def wp_request if_distrib [where f = "\<lambda>p. wp I R X S p Q _ _"] del: wp.simps(9))

text \<open>The memory after a call, and the rules for calls that leave its \<^verbatim>\<open>errno\<close> opaque.\<close>

definition with_errno :: "resp \<Rightarrow> 'm memory_scheme \<Rightarrow> 'm memory_scheme" where
  "with_errno r g = (if is_error (ret r) then g\<lparr>errno := - ret r\<rparr> else g)"

lemma wp_sysret:
  assumes "\<not> is_return q"
  shows "wp I R X S (sysret q) Q g l \<longleftrightarrow>
    I g l \<and> (\<forall>g' l' r. grows l l' \<longrightarrow> I g' l' \<longrightarrow> R g l g' l' \<longrightarrow>
      Q (result r) (with_errno r g') (Ans q r # l'))"
  using assms by (auto simp: sysret_def result_def with_errno_def split: if_splits)

lemma wp_sysget:
  assumes "\<not> is_return q"
  shows "wp I R X S (sysget q out) Q g l \<longleftrightarrow>
    I g l \<and> (\<forall>g' l' r. grows l l' \<longrightarrow> I g' l' \<longrightarrow> R g l g' l' \<longrightarrow>
      Q (result r, out r) (with_errno r g') (Ans q r # l'))"
  using assms by (auto simp: sysget_def result_def with_errno_def split: if_splits)

section \<open>Calls\<close>

text \<open>
  \<^verbatim>\<open>sigprocmask\<close> and \<^verbatim>\<open>pthread_sigmask\<close> take the library's own two signals out of the set
  they pass on; the raw system call does not.
\<close>

text \<open>The action the programs fill in for their \<^verbatim>\<open>signal_handler\<close>, handler number 0.\<close>

definition handler_action :: "u64 \<Rightarrow> sigset \<Rightarrow> sigact" where
  "handler_action flags m =
     \<lparr>sa_sigaction = Handler 0, sa_flags = flags, sa_mask = m, sa_restorer = 0\<rparr>"

definition sigaction :: "signum \<Rightarrow> sigact \<Rightarrow> ('m memory_scheme, int) prog" where
  "sigaction s act = sysret (Rt_sigaction s (Some act))"

text \<open>\<^verbatim>\<open>signal\<close> asks for restarted system calls and blocks the signal itself.\<close>

definition signal :: "signum \<Rightarrow> handler \<Rightarrow> ('m memory_scheme, int) prog" where
  "signal s h = sysret (Rt_sigaction s
     (Some \<lparr>sa_sigaction = h, sa_flags = SA_RESTART, sa_mask = sigbit s, sa_restorer = 0\<rparr>))"

definition sigaction_query :: "signum \<Rightarrow> ('m memory_scheme, int \<times> sigact) prog" where
  "sigaction_query s = sysget (Rt_sigaction s None) r_act"

definition sigprocmask :: "how \<Rightarrow> sigset \<Rightarrow> ('m memory_scheme, int) prog" where
  "sigprocmask h m = sysret (Rt_sigprocmask h (Some (m AND NOT internal_signals)))"

definition sigprocmask_query :: "how \<Rightarrow> ('m memory_scheme, int \<times> sigset) prog" where
  "sigprocmask_query h = sysget (Rt_sigprocmask h None) r_set"

definition sigpending :: "('m memory_scheme, int \<times> sigset) prog" where
  "sigpending = sysget Rt_sigpending r_set"

definition sigsuspend :: "sigset \<Rightarrow> ('m memory_scheme, int) prog" where
  "sigsuspend m = sysret (Rt_sigsuspend m)"

definition sigwaitinfo :: "sigset \<Rightarrow> ('m memory_scheme, int \<times> siginfo) prog" where
  "sigwaitinfo m = sysget (Rt_sigtimedwait m False) r_info"

definition sigtimedwait :: "sigset \<Rightarrow> ('m memory_scheme, int \<times> siginfo) prog" where
  "sigtimedwait m = sysget (Rt_sigtimedwait m True) r_info"

definition sigaltstack :: "stack_t \<Rightarrow> ('m memory_scheme, int) prog" where
  "sigaltstack s = sysret (Sigaltstack (Some s))"

definition sigaltstack_query :: "('m memory_scheme, int \<times> stack_t) prog" where
  "sigaltstack_query = sysget (Sigaltstack None) r_stack"

definition raise :: "signum \<Rightarrow> ('m memory_scheme, int) prog" where
  "raise s = sysret (Raise s)"

definition kill :: "int \<Rightarrow> signum \<Rightarrow> ('m memory_scheme, int) prog" where
  "kill pid s = sysret (Kill_pid pid s)"

definition tgkill :: "int \<Rightarrow> int \<Rightarrow> signum \<Rightarrow> ('m memory_scheme, int) prog" where
  "tgkill pid tid s = sysret (Tgkill pid tid s)"

text \<open>The calls that always succeed.\<close>

definition getpid :: "('g, int) prog" where
  "getpid = Call Getpid (\<lambda>r. Return (ret r))"

definition gettid :: "('g, int) prog" where
  "gettid = Call Gettid (\<lambda>r. Return (ret r))"

definition getuid :: "('g, int) prog" where
  "getuid = Call Getuid (\<lambda>r. Return (ret r))"

definition geteuid :: "('g, int) prog" where
  "geteuid = Call Geteuid (\<lambda>r. Return (ret r))"

definition fork :: "('m memory_scheme, int) prog" where
  "fork = sysret Fork"

definition waitpid :: "int \<Rightarrow> int \<Rightarrow> ('m memory_scheme, int \<times> int) prog" where
  "waitpid pid opts = sysget (Waitpid pid opts) r_status"

definition usleep :: "int \<Rightarrow> ('m memory_scheme, int) prog" where
  "usleep n = sysret (Usleep n)"

text \<open>\<^verbatim>\<open>longjmp\<close> does not return.\<close>

definition longjmp :: "int \<Rightarrow> ('g, 'a) prog" where
  "longjmp n = Call (Longjmp n) (\<lambda>_. Undefined)"

text \<open>Pipes; the program is given the descriptors of both ends.\<close>

definition pipe :: "('m memory_scheme, int \<times> (int \<times> int)) prog" where
  "pipe = sysget Pipe r_fds"

definition read_fd :: "int \<Rightarrow> int \<Rightarrow> ('m memory_scheme, int) prog" where
  "read_fd fd n = sysret (Read fd n)"

definition write_fd :: "int \<Rightarrow> int \<Rightarrow> ('m memory_scheme, int) prog" where
  "write_fd fd n = sysret (Write fd n)"

definition fcntl_setpipe_sz :: "int \<Rightarrow> int \<Rightarrow> ('m memory_scheme, int) prog" where
  "fcntl_setpipe_sz fd n = sysret (Set_pipe_size fd n)"

text \<open>The operations on the program's semaphore.\<close>

definition sem_init :: "int \<Rightarrow> ('m memory_scheme, int) prog" where
  "sem_init n = sysret (Sem_init n)"

definition sem_wait :: "('m memory_scheme, int) prog" where
  "sem_wait = sysret Sem_wait"

definition sem_post :: "('m memory_scheme, int) prog" where
  "sem_post = sysret Sem_post"

text \<open>
  Threads: these calls return an error number instead of setting \<^verbatim>\<open>errno\<close>. A thread is known by the
  number of its start routine.
\<close>

definition pthread_create :: "nat \<Rightarrow> ('g, int) prog" where
  "pthread_create n = Call (Pthread_create n) (\<lambda>r. Return (ret r))"

definition pthread_join :: "nat \<Rightarrow> ('g, int) prog" where
  "pthread_join n = Call (Pthread_join n) (\<lambda>r. Return (ret r))"

definition error_number :: "resp \<Rightarrow> int" where
  "error_number r = (if is_error (ret r) then - ret r else 0)"

definition pthread_sigmask :: "how \<Rightarrow> sigset \<Rightarrow> ('g, int) prog" where
  "pthread_sigmask h m =
     Call (Rt_sigprocmask h (Some (m AND NOT internal_signals))) (\<lambda>r. Return (error_number r))"

definition pthread_sigmask_query :: "how \<Rightarrow> ('g, int \<times> sigset) prog" where
  "pthread_sigmask_query h = Call (Rt_sigprocmask h None) (\<lambda>r. Return (error_number r, r_set r))"

definition malloc :: "u64 \<Rightarrow> ('m memory_scheme, u64) prog" where
  "malloc n = Call (Malloc n) (\<lambda>r. Return (r_word r))"

definition pause :: "('m memory_scheme, int) prog" where
  "pause = sysret Pause"

definition execve :: "('m memory_scheme, int) prog" where
  "execve = sysret Execve"

text \<open>\<^verbatim>\<open>mmap\<close> of fresh memory; \<^verbatim>\<open>MAP_FAILED\<close> is the pointer with all bits set.\<close>

abbreviation (input) MAP_FAILED :: u64 where "MAP_FAILED \<equiv> - 1"

definition mmap :: "u64 \<Rightarrow> ('m memory_scheme, u64) prog" where
  "mmap n = bind (sys (Mmap n)) (\<lambda>v. Return (if fst v = - 1 then MAP_FAILED else r_word (snd v)))"

definition mprotect :: "u64 \<Rightarrow> u64 \<Rightarrow> ('m memory_scheme, int) prog" where
  "mprotect a n = sysret (Mprotect a n)"

text \<open>\<^verbatim>\<open>sigqueue\<close> fills in the sender itself.\<close>

definition queue_info :: "signum \<Rightarrow> int \<Rightarrow> int \<Rightarrow> u64 \<Rightarrow> siginfo" where
  "queue_info s pid uid v = \<lparr>si_signo = s, si_code = SI_QUEUE, si_pid = pid, si_uid = uid,
     si_value = v, si_addr = 0\<rparr>"

definition sigqueue :: "int \<Rightarrow> signum \<Rightarrow> u64 \<Rightarrow> ('m memory_scheme, int) prog" where
  "sigqueue pid s v =
     bind getpid (\<lambda>me. bind getuid (\<lambda>uid. sysret (Rt_sigqueueinfo pid s (queue_info s me uid v))))"

text \<open>The calls most programs check.\<close>

fun checks_sigaction :: "req \<Rightarrow> bool" where
  "checks_sigaction (Rt_sigaction s a) = True"
| "checks_sigaction _ = False"

text \<open>A program that installs no handler: a platform that enters one anyway breaks its contract.\<close>

definition no_handlers :: "'g handlers" where
  "no_handlers h s i c = Undefined"

section \<open>Memory and instructions\<close>

definition loaded :: "resp \<Rightarrow> u8" where
  "loaded r = ucast (r_word r)"

definition load_byte :: "u64 \<Rightarrow> ('g, u8) prog" where
  "load_byte a = Call (Load_byte a) (\<lambda>r. Return (loaded r))"

definition store_int :: "u64 \<Rightarrow> int \<Rightarrow> ('g, unit) prog" where
  "store_int a n = Call (Store_int a n) (\<lambda>_. Return ())"

definition store_byte :: "u64 \<Rightarrow> u8 \<Rightarrow> ('g, unit) prog" where
  "store_byte a b = Call (Store_byte a b) (\<lambda>_. Return ())"

definition atomic_exchange :: "u64 \<Rightarrow> int \<Rightarrow> ('g, int) prog" where
  "atomic_exchange a n = Call (Atomic_exchange a n) (\<lambda>r. Return (ret r))"

definition atomic_store :: "u64 \<Rightarrow> int \<Rightarrow> ('g, unit) prog" where
  "atomic_store a n = Call (Atomic_store a n) (\<lambda>_. Return ())"

definition read_segment :: "segreg \<Rightarrow> ('g, u32) prog" where
  "read_segment s = Call (Read_segment s) (\<lambda>r. Return (ucast (r_word r)))"

definition read_sp :: "('g, u64) prog" where
  "read_sp = Call Read_sp (\<lambda>r. Return (r_word r))"

definition exec_insn :: "insn \<Rightarrow> u64 \<Rightarrow> ('g, unit) prog" where
  "exec_insn i a = Call (Exec_insn i a) (\<lambda>_. Return ())"

text \<open>An instruction that hands the program a word.\<close>

definition exec_insn_get :: "insn \<Rightarrow> u64 \<Rightarrow> ('g, u64) prog" where
  "exec_insn_get i a = Call (Exec_insn i a) (\<lambda>r. Return (r_word r))"

definition fp_insn :: "fp_insn \<Rightarrow> ('g, unit) prog" where
  "fp_insn i = Call (Fp i) (\<lambda>_. Return ())"

definition fp_bytes :: "fp_insn \<Rightarrow> ('g, u8 list) prog" where
  "fp_bytes i = Call (Fp i) (\<lambda>r. Return (r_bytes r))"

definition fp_words :: "fp_insn \<Rightarrow> ('g, u32 list) prog" where
  "fp_words i = Call (Fp i) (\<lambda>r. Return (r_words r))"

definition read_flags :: "('g, u64) prog" where
  "read_flags = Call Read_flags (\<lambda>r. Return (r_word r))"

definition write_flags :: "u64 \<Rightarrow> ('g, unit) prog" where
  "write_flags w = Call (Write_flags w) (\<lambda>_. Return ())"

section \<open>Wait statuses\<close>

definition WIFEXITED :: "int \<Rightarrow> bool" where
  "WIFEXITED s \<longleftrightarrow> s AND 0x7f = 0"

definition WEXITSTATUS :: "int \<Rightarrow> int" where
  "WEXITSTATUS s = drop_bit 8 (s AND 0xff00)"

definition WTERMSIG :: "int \<Rightarrow> int" where
  "WTERMSIG s = s AND 0x7f"

definition WIFSIGNALED :: "int \<Rightarrow> bool" where
  "WIFSIGNALED s \<longleftrightarrow> 0 < drop_bit 1 (signed_take_bit 7 ((s AND 0x7f) + 1))"

definition WIFSTOPPED :: "int \<Rightarrow> bool" where
  "WIFSTOPPED s \<longleftrightarrow> s AND 0xff = 0x7f"

definition WSTOPSIG :: "int \<Rightarrow> int" where
  "WSTOPSIG s = WEXITSTATUS s"

abbreviation (input) WUNTRACED :: int where "WUNTRACED \<equiv> 2"

lemmas libc_defs = set_errno_def sigaction_def signal_def sigaction_query_def
  sigprocmask_def sigprocmask_query_def sigpending_def sigsuspend_def sigwaitinfo_def
  sigtimedwait_def sigaltstack_def sigaltstack_query_def raise_def kill_def tgkill_def
  getpid_def gettid_def getuid_def geteuid_def fork_def waitpid_def usleep_def malloc_def
  pause_def execve_def mmap_def mprotect_def longjmp_def pipe_def read_fd_def write_fd_def
  fcntl_setpipe_sz_def sem_init_def sem_wait_def sem_post_def pthread_create_def pthread_join_def
  pthread_sigmask_def pthread_sigmask_query_def
  sigqueue_def load_byte_def store_int_def store_byte_def atomic_exchange_def atomic_store_def
  read_segment_def read_sp_def exec_insn_def exec_insn_get_def fp_insn_def fp_bytes_def fp_words_def read_flags_def write_flags_def

lemmas call_defs = sysret_def sysget_def libc_defs

lemmas wp_calls = statement_defs libc_defs handler_action_def ASSERT_def handler_prog_def wp_sysret wp_sysget

lemmas prog_unfold = statement_defs call_defs handler_action_def ASSERT_def handler_prog_def

lemma no_handlers_contract:
  "env_contract (no_handlers :: 'm memory_scheme handlers) (\<lambda>_ _. True) undisturbed X"
  by unfold_locales (simp_all add: handler_prog_def no_handlers_def wp_request)

lemmas plain_verdict = env_contract.verdict [OF no_handlers_contract]

end
