(* ===== verification/Pending.thy ===== *)
theory Pending
  imports Posix
begin

text \<open>
  The queue of pending signals: a signal is queued in arrival order, a standard signal at
  most once, and the lowest-numbered deliverable signal is taken first, among several
  instances of one signal the oldest. The interface the platform relies on is the locale
  \<open>signal_queue\<close>; the list of the platform's state is its implementation.
\<close>

section \<open>The interface\<close>

text \<open>
  \<open>view q s\<close> is the sequence of pending instances of signal \<open>s\<close>, oldest first.
\<close>

locale signal_queue =
  fixes view :: "'q \<Rightarrow> signum \<Rightarrow> siginfo list"
    and enq :: "siginfo \<Rightarrow> 'q \<Rightarrow> 'q"
    and deq :: "sigset \<Rightarrow> 'q \<Rightarrow> (siginfo \<times> 'q) option"
  assumes view_enq:
      "view (enq i q) s =
        (if s = si_signo i \<and> (32 \<le> s \<or> view q s = []) then view q s @ [i] else view q s)"
    and deq_None: "deq m q = None \<Longrightarrow> \<not> sigismember m s \<Longrightarrow> view q s = []"
    and deq_Some:
      "deq m q = Some (i, q') \<Longrightarrow> \<not> sigismember m (si_signo i) \<and>
         view q (si_signo i) = i # view q' (si_signo i) \<and>
         (\<forall>s. s \<noteq> si_signo i \<longrightarrow> view q' s = view q s) \<and>
         (\<forall>s < si_signo i. \<not> sigismember m s \<longrightarrow> view q s = [])"
begin

lemma standard_at_most_once:
  assumes "length (view q s) \<le> 1" and "s < 32"
  shows "length (view (enq i q) s) \<le> 1"
  using assms by (auto simp: view_enq)

lemma standard_merges:
  assumes "view q s \<noteq> []" and "s < 32" and "si_signo i = s"
  shows "view (enq i q) = view q"
  using assms by (auto simp: view_enq fun_eq_iff)

lemma deq_takes_oldest:
  assumes "deq m q = Some (i, q')"
  shows "hd (view q (si_signo i)) = i" and "\<not> sigismember m (si_signo i)"
  using deq_Some [OF assms] by simp_all

lemma deq_lowest_first:
  assumes "deq m q = Some (i, q')" and "view q s \<noteq> []" and "\<not> sigismember m s"
  shows "si_signo i \<le> s"
  using deq_Some [OF assms(1)] assms(2,3) by (meson not_less)

end

section \<open>The implementation\<close>

fun least_first :: "siginfo list \<Rightarrow> siginfo option" where
  "least_first [] = None"
| "least_first (i # is) =
     (case least_first is of
        None \<Rightarrow> Some i
      | Some j \<Rightarrow> if si_signo i \<le> si_signo j then Some i else Some j)"

definition queued :: "siginfo list \<Rightarrow> signum \<Rightarrow> siginfo list" where
  "queued q s = filter (\<lambda>i. si_signo i = s) q"

definition enqueue :: "siginfo \<Rightarrow> siginfo list \<Rightarrow> siginfo list" where
  "enqueue i q =
     (if si_signo i < 32 then if si_signo i \<in> set (map si_signo q) then q else q @ [i]
      else q @ [i])"

definition dequeue :: "sigset \<Rightarrow> siginfo list \<Rightarrow> (siginfo \<times> siginfo list) option" where
  "dequeue m q =
     (case least_first (filter (\<lambda>i. \<not> sigismember m (si_signo i)) q) of
        None \<Rightarrow> None
      | Some i \<Rightarrow> Some (i, remove1 i q))"

lemma least_first_None [simp]: "least_first q = None \<longleftrightarrow> q = []"
  by (cases q) (simp_all split: option.splits)

lemma least_first_Some:
  assumes "least_first q = Some i"
  shows "i \<in> set q \<and> (\<forall>j \<in> set q. si_signo i \<le> si_signo j) \<and>
    filter (\<lambda>j. si_signo j = si_signo i) q = i # filter (\<lambda>j. si_signo j = si_signo i) (remove1 i q)"
  using assms
proof (induction q arbitrary: i)
  case (Cons a q)
  show ?case
  proof (cases "least_first q")
    case None
    with Cons.prems show ?thesis by simp
  next
    case (Some j)
    note IH = Cons.IH [OF Some]
    from Cons.prems Some have "i = (if si_signo a \<le> si_signo j then a else j)"
      by (simp split: if_splits)
    with IH show ?thesis by (cases "si_signo a \<le> si_signo j") force+
  qed
qed simp

lemma filter_remove1_other: "\<not> P i \<Longrightarrow> filter P (remove1 i q) = filter P q"
  by (induction q) auto

interpretation list_queue: signal_queue queued enqueue dequeue
proof unfold_locales
  show "queued (enqueue i q) s =
      (if s = si_signo i \<and> (32 \<le> s \<or> queued q s = []) then queued q s @ [i] else queued q s)" for i q s
    by (auto simp: enqueue_def queued_def filter_empty_conv image_iff)
next
  show "queued q s = []" if "dequeue m q = None" and "\<not> sigismember m s" for m q s
    using that by (auto simp: dequeue_def queued_def filter_empty_conv split: option.splits)
next
  fix m q i q'
  assume "dequeue m q = Some (i, q')"
  then have least: "least_first (filter (\<lambda>j. \<not> sigismember m (si_signo j)) q) = Some i"
    and q': "q' = remove1 i q"
    by (auto simp: dequeue_def split: option.splits)
  note facts = least_first_Some [OF least]
  from facts have i: "i \<in> set q" "\<not> sigismember m (si_signo i)" by auto
  have same: "filter (\<lambda>j. si_signo j = si_signo i) (filter (\<lambda>j. \<not> sigismember m (si_signo j)) xs)
      = filter (\<lambda>j. si_signo j = si_signo i) xs" for xs
    using i(2) by (induction xs) auto
  have remove: "remove1 i (filter (\<lambda>j. \<not> sigismember m (si_signo j)) q) =
      filter (\<lambda>j. \<not> sigismember m (si_signo j)) (remove1 i q)"
    using i(2) by (induction q) auto
  from facts have oldest: "queued q (si_signo i) = i # queued q' (si_signo i)"
    unfolding queued_def q' by (simp only: same remove)
  moreover have "queued q' s = queued q s" if "s \<noteq> si_signo i" for s
    using that by (simp add: queued_def q' filter_remove1_other)
  moreover have "queued q s = []" if "s < si_signo i" and "\<not> sigismember m s" for s
    using facts that by (fastforce simp: queued_def filter_empty_conv)
  ultimately show "\<not> sigismember m (si_signo i) \<and>
      queued q (si_signo i) = i # queued q' (si_signo i) \<and>
      (\<forall>s. s \<noteq> si_signo i \<longrightarrow> queued q' s = queued q s) \<and>
      (\<forall>s < si_signo i. \<not> sigismember m s \<longrightarrow> queued q s = [])"
    using i(2) by simp
qed

end
