(* ===== verification/Linux.thy ===== *)
theory Linux
  imports Libc Pending
begin

text \<open>
  The documented behaviour of one Linux thread (\<^verbatim>\<open>signal(7)\<close>, \<^verbatim>\<open>sigaction(2)\<close>,
  \<^verbatim>\<open>sigprocmask(2)\<close>, \<^verbatim>\<open>sigsuspend(2)\<close>, \<^verbatim>\<open>sigaltstack(2)\<close>, \<^verbatim>\<open>sigreturn(2)\<close>) as a
  platform for the machine. It is not code of the repository: the theorems about the test
  programs' verdicts hold for every platform, and this one shows that the behaviour the
  tests accept exists and that they accept the documented one.
\<close>

section \<open>State\<close>

record linux =
  l_arch :: arch
  l_pid :: int
  l_uid :: int
  l_blocked :: sigset
  l_actions :: "signum \<Rightarrow> sigact"
  l_pending :: "siginfo list"
  l_altstack :: stack_t
  l_saved :: "sigset option"
  l_sp :: u64
  l_flags :: u64
  l_fp :: fpstate
  l_rip :: u64
  l_trapno :: u64
  l_err :: u64
  l_cr2 :: u64
  l_heap :: "u64 list"
  l_bytes :: "(u64 \<times> u8) list"
  l_answer :: "resp option"
  l_frames :: "resp option list"

text \<open>
  \<open>l_saved\<close> is the mask a \<^verbatim>\<open>sigsuspend\<close> will put back, \<open>l_rip\<close> the address behind the system
  call instruction, \<open>l_heap\<close> the blocks \<^verbatim>\<open>malloc\<close> and \<^verbatim>\<open>mmap\<close> hand out, \<open>l_bytes\<close> the bytes the
  program has stored, newest first, \<open>l_answer\<close> the result of the
  outstanding request once it has been carried out, \<open>l_frames\<close> the results of the requests
  that handlers have interrupted (none where the request is to be carried out again).
\<close>

definition resp0 :: resp where
  "resp0 = \<lparr>ret = 0, r_set = 0, r_act = \<lparr>sa_sigaction = SIG_DFL, sa_flags = 0, sa_mask = 0, sa_restorer = 0\<rparr>,
     r_stack = \<lparr>ss_sp = 0, ss_size = 0, ss_flags = 0\<rparr>,
     r_info = \<lparr>si_signo = 0, si_code = 0, si_pid = 0, si_uid = 0, si_value = 0, si_addr = 0\<rparr>,
     r_word = 0, r_status = 0, r_bytes = [], r_words = [], r_fds = (0, 0)\<rparr>"

definition no_altstack :: stack_t where
  "no_altstack = \<lparr>ss_sp = 0, ss_size = 0, ss_flags = SS_DISABLE\<rparr>"

text \<open>
  The initial state of the floating point unit and the vector registers. All components count as
  in use.
\<close>

definition zero_st :: "u8 list" where
  "zero_st = replicate 10 0"

definition zero_xmm :: "u32 list" where
  "zero_xmm = replicate 4 0"

definition init_fp :: fpstate where
  "init_fp = \<lparr>fp_cw = 0x37f, fp_sw = 0, fp_tag = 0xffff, fp_st0 = zero_st, fp_magic = 0,
     fp_xmm0 = zero_xmm, fp_xmm1 = zero_xmm, fp_xstate_bv = 3\<rparr>"

text \<open>
  A freshly executed process. \<open>main_sp\<close> is the stack pointer of \<^verbatim>\<open>main\<close>, to which a jump out of the handlers
  returns.
\<close>

definition main_sp :: u64 where
  "main_sp = 0x7ffff000"

definition linux_init :: "arch \<Rightarrow> int \<Rightarrow> int \<Rightarrow> u64 list \<Rightarrow> linux" where
  "linux_init a pid uid heap =
     \<lparr>l_arch = a, l_pid = pid, l_uid = uid, l_blocked = 0,
      l_actions = (\<lambda>_. r_act resp0), l_pending = [], l_altstack = no_altstack,
      l_saved = None, l_sp = main_sp, l_flags = 0x202, l_fp = init_fp, l_rip = 0x401002,
      l_trapno = 0, l_err = 0, l_cr2 = 0, l_heap = heap, l_bytes = [], l_answer = None, l_frames = []\<rparr>"

section \<open>Sending and masking\<close>

text \<open>\<^verbatim>\<open>SIGKILL\<close> and \<^verbatim>\<open>SIGSTOP\<close> cannot be blocked.\<close>

definition blockable :: "sigset \<Rightarrow> sigset" where
  "blockable m = m AND NOT (sigbit SIGKILL OR sigbit SIGSTOP)"

definition default_ignored :: "signum \<Rightarrow> bool" where
  "default_ignored s \<longleftrightarrow> s \<in> {SIGCHLD, SIGCONT, SIGURG, SIGWINCH}"

definition default_stops :: "signum \<Rightarrow> bool" where
  "default_stops s \<longleftrightarrow> s \<in> {SIGSTOP, SIGTSTP, SIGTTIN, SIGTTOU}"

definition ignored :: "linux \<Rightarrow> signum \<Rightarrow> bool" where
  "ignored k s \<longleftrightarrow>
     (case sa_sigaction (l_actions k s) of
        SIG_IGN \<Rightarrow> True | SIG_DFL \<Rightarrow> default_ignored s | Handler h \<Rightarrow> False)"

definition send_signal :: "siginfo \<Rightarrow> linux \<Rightarrow> linux" where
  "send_signal i k =
     (if ignored k (si_signo i) \<and> \<not> sigismember (l_blocked k) (si_signo i) then k
      else k\<lparr>l_pending := enqueue i (l_pending k)\<rparr>)"

definition user_info :: "linux \<Rightarrow> signum \<Rightarrow> int \<Rightarrow> siginfo" where
  "user_info k s code = \<lparr>si_signo = s, si_code = code, si_pid = l_pid k, si_uid = l_uid k,
     si_value = 0, si_addr = 0\<rparr>"

definition do_sigprocmask :: "how \<Rightarrow> sigset option \<Rightarrow> linux \<Rightarrow> linux" where
  "do_sigprocmask h m k =
     (case m of
        None \<Rightarrow> k
      | Some w \<Rightarrow> k\<lparr>l_blocked := blockable
          (case h of
             SIG_BLOCK \<Rightarrow> l_blocked k OR w
           | SIG_UNBLOCK \<Rightarrow> l_blocked k AND NOT w
           | SIG_SETMASK \<Rightarrow> w)\<rparr>)"

section \<open>Alternate stacks\<close>

definition on_sig_stack :: "linux \<Rightarrow> bool" where
  "on_sig_stack k \<longleftrightarrow> (let s = l_altstack k in
     ss_flags s AND SS_AUTODISARM = 0 \<and> ss_sp s < l_sp k \<and> l_sp k - ss_sp s \<le> ss_size s)"

definition query_altstack :: "linux \<Rightarrow> stack_t" where
  "query_altstack k = (let s = l_altstack k in
     s\<lparr>ss_flags := (if ss_size s = 0 then SS_DISABLE else if on_sig_stack k then SS_ONSTACK else 0)
        OR (ss_flags s AND SS_AUTODISARM)\<rparr>)"

definition MINSIGSTKSZ :: u64 where
  "MINSIGSTKSZ = 2048"

definition do_sigaltstack :: "stack_t option \<Rightarrow> linux \<Rightarrow> int \<times> linux" where
  "do_sigaltstack ss k =
     (case ss of
        None \<Rightarrow> (0, k)
      | Some s \<Rightarrow>
          let mode = ss_flags s AND NOT SS_AUTODISARM in
          if on_sig_stack k then (- EPERM, k)
          else if mode \<noteq> SS_DISABLE \<and> mode \<noteq> SS_ONSTACK \<and> mode \<noteq> 0 then (- EINVAL, k)
          else if mode = SS_DISABLE then
            (0, k\<lparr>l_altstack := \<lparr>ss_sp = 0, ss_size = 0, ss_flags = ss_flags s\<rparr>\<rparr>)
          else if ss_size s < MINSIGSTKSZ then (- ENOMEM, k)
          else (0, k\<lparr>l_altstack := s\<rparr>))"

section \<open>Frames\<close>

text \<open>
  The stack pointer at a handler's first instruction: the frame is put below the interrupted
  stack pointer (past the red zone) or at the top of the alternate stack, and aligned as at
  a function's entry. The frame's size is not fixed by any document; 1024 bytes stand for it.
\<close>

definition frame_sp :: "arch \<Rightarrow> u64 \<Rightarrow> u64" where
  "frame_sp a sp = (case a of
      X64 \<Rightarrow> ((sp - 1024) AND NOT 15) - 8
    | X86 \<Rightarrow> ((sp - 1024 + 4) AND NOT 15) - 4)"

definition saved_mask :: "linux \<Rightarrow> sigset" where
  "saved_mask k = (case l_saved k of None \<Rightarrow> l_blocked k | Some m \<Rightarrow> m)"

definition saved_gregs :: "linux \<Rightarrow> resp \<Rightarrow> gregset" where
  "saved_gregs k r =
     \<lparr>REG_RAX = word_of_int (ret r), REG_RIP = l_rip k, REG_RSP = l_sp k, REG_EFL = l_flags k,
      REG_ERR = l_err k, REG_TRAPNO = l_trapno k, REG_OLDMASK = saved_mask k, REG_CR2 = l_cr2 k,
      REG_CSGSFS = 0x002b000000000033,
      REG_CS = (case l_arch k of X64 \<Rightarrow> 0x33 | X86 \<Rightarrow> 0x23), REG_SS = 0x2b, REG_DS = 0x2b,
      REG_ES = 0x2b, REG_FS = 0, REG_GS = (case l_arch k of X64 \<Rightarrow> 0 | X86 \<Rightarrow> 0x63)\<rparr>"

text \<open>The three words of the 32-bit frame have their upper halves set.\<close>

definition saved_fp :: "linux \<Rightarrow> fpstate" where
  "saved_fp k = (let f = l_fp k in case l_arch k of
      X64 \<Rightarrow> f
    | X86 \<Rightarrow> f\<lparr>fp_cw := fp_cw f OR 0xffff0000, fp_sw := fp_sw f OR 0xffff0000,
               fp_tag := fp_tag f OR 0xffff0000\<rparr>)"

text \<open>Back in the registers: 16 bits of each word; a component not in use gets its initial state.\<close>

definition restored_fp :: "fpstate \<Rightarrow> fpstate" where
  "restored_fp f = \<lparr>
     fp_cw = (if bit (fp_xstate_bv f) 0 then fp_cw f AND 0xffff else fp_cw init_fp),
     fp_sw = (if bit (fp_xstate_bv f) 0 then fp_sw f AND 0xffff else fp_sw init_fp),
     fp_tag = (if bit (fp_xstate_bv f) 0 then fp_tag f AND 0xffff else fp_tag init_fp),
     fp_st0 = (if bit (fp_xstate_bv f) 0 then fp_st0 f else zero_st),
     fp_magic = fp_magic f,
     fp_xmm0 = (if bit (fp_xstate_bv f) 1 then fp_xmm0 f else zero_xmm),
     fp_xmm1 = (if bit (fp_xstate_bv f) 1 then fp_xmm1 f else zero_xmm),
     fp_xstate_bv = 3\<rparr>"

definition make_ctx :: "linux \<Rightarrow> resp \<Rightarrow> ucontext" where
  "make_ctx k r =
     \<lparr>uc_flags = (case l_arch k of X64 \<Rightarrow> 7 | X86 \<Rightarrow> 1), uc_stack = l_altstack k,
      gregs = saved_gregs k r, fpregs = Some (saved_fp k),
      uc_sigmask = saved_mask k\<rparr>"

text \<open>Set up the frame of a handler for the signal \<open>i\<close>; \<open>ans\<close> is what the interrupted request returns.\<close>

definition deliver :: "nat \<Rightarrow> siginfo \<Rightarrow> resp option \<Rightarrow> linux \<Rightarrow> move \<times> linux" where
  "deliver h i ans k = (let
     s = si_signo i;
     act = l_actions k s;
     alt = l_altstack k;
     switch = has_flag (sa_flags act) SA_ONSTACK \<and> ss_size alt \<noteq> 0 \<and> \<not> on_sig_stack k;
     sp = (if switch then ss_sp alt + ss_size alt
           else case l_arch k of X64 \<Rightarrow> l_sp k - 128 | X86 \<Rightarrow> l_sp k);
     ctx = make_ctx k (case ans of Some r \<Rightarrow> r | None \<Rightarrow> resp0);
     own = (if has_flag (sa_flags act) SA_NODEFER then 0 else sigbit s)
   in (Deliver h s i ctx,
       k\<lparr>l_blocked := blockable (l_blocked k OR sa_mask act OR own),
         l_actions := (if has_flag (sa_flags act) SA_RESETHAND
           then (l_actions k)(s := act\<lparr>sa_sigaction := SIG_DFL\<rparr>) else l_actions k),
         l_altstack := (if ss_flags alt AND SS_AUTODISARM \<noteq> 0 then no_altstack else alt),
         l_saved := None,
         l_sp := frame_sp (l_arch k) sp,
         l_flags := l_flags k AND NOT 0x500,
         l_answer := None,
         l_frames := ans # l_frames k\<rparr>))"

text \<open>
  Leaving the kernel with the result \<open>r\<close>: deliverable signals first, one at a time; a
  \<^verbatim>\<open>sigsuspend\<close> that no handler has interrupted keeps sleeping.
\<close>

definition leave :: "resp \<Rightarrow> linux \<Rightarrow> move \<times> linux" where
  "leave r k =
     (case dequeue (l_blocked k) (l_pending k) of
        None \<Rightarrow>
          if l_saved k = None then (Answer r, k\<lparr>l_answer := None\<rparr>)
          else (Block, k\<lparr>l_answer := Some r\<rparr>)
      | Some (i, rest) \<Rightarrow>
          let k1 = k\<lparr>l_pending := rest, l_answer := Some r\<rparr> in
          (case sa_sigaction (l_actions k (si_signo i)) of
             Handler h \<Rightarrow> deliver h i (Some r) k1
           | SIG_IGN \<Rightarrow> (Block, k1)
           | SIG_DFL \<Rightarrow>
               if default_ignored (si_signo i) \<or> default_stops (si_signo i) then (Block, k1)
               else (Terminate (si_signo i), k1)))"

text \<open>
  Back from a handler: a faulting instruction is carried out again, unless the handler has
  moved the instruction pointer past it.
\<close>

definition do_sigreturn :: "ucontext \<Rightarrow> linux \<Rightarrow> linux" where
  "do_sigreturn c k = (let
     k1 = k\<lparr>l_blocked := blockable (uc_sigmask c), l_sp := REG_RSP (gregs c),
            l_flags := REG_EFL (gregs c),
            l_fp := (case fpregs c of Some f \<Rightarrow> restored_fp f | None \<Rightarrow> init_fp),
            l_answer := (case l_frames k of
                Some r # _ \<Rightarrow> Some (r\<lparr>ret := sint (REG_RAX (gregs c))\<rparr>)
              | _ \<Rightarrow> if REG_RIP (gregs c) = l_rip k then None else Some resp0),
            l_frames := tl (l_frames k)\<rparr>
   in snd (do_sigaltstack (Some (uc_stack c)) k1))"

section \<open>Floating point and vector instructions\<close>

text \<open>The bytes of 1.0 in the extended format.\<close>

definition one_st :: "u8 list" where
  "one_st = [0, 0, 0, 0, 0, 0, 0, 0x80, 0xff, 0x3f]"

definition do_fp :: "fp_insn \<Rightarrow> linux \<Rightarrow> resp \<times> linux" where
  "do_fp i k = (let f = l_fp k in case i of
      Fninit \<Rightarrow> (resp0, k\<lparr>l_fp := f\<lparr>fp_cw := 0x37f, fp_sw := 0, fp_tag := 0xffff\<rparr>\<rparr>)
    | Fldcw w \<Rightarrow> (resp0, k\<lparr>l_fp := f\<lparr>fp_cw := w AND 0xffff\<rparr>\<rparr>)
    | Fld1 \<Rightarrow> (resp0, k\<lparr>l_fp := f\<lparr>fp_st0 := one_st, fp_sw := 0x3800, fp_tag := 0x3fff\<rparr>\<rparr>)
    | Fld bs \<Rightarrow> (resp0, k\<lparr>l_fp := f\<lparr>fp_st0 := bs, fp_sw := 0x3800, fp_tag := 0x3fff\<rparr>\<rparr>)
    | Fstp \<Rightarrow> (resp0\<lparr>r_bytes := fp_st0 f\<rparr>, k\<lparr>l_fp := f\<lparr>fp_sw := 0, fp_tag := 0xffff\<rparr>\<rparr>)
    | Fnstcw \<Rightarrow> (resp0\<lparr>r_words := [fp_cw f]\<rparr>, k)
    | Fnstenv \<Rightarrow> (resp0\<lparr>r_words := [fp_cw f, fp_sw f, fp_tag f, 0, 0, 0, 0]\<rparr>, k)
    | Load_xmm n ws \<Rightarrow>
        (resp0, k\<lparr>l_fp := (if n = 0 then f\<lparr>fp_xmm0 := ws\<rparr> else f\<lparr>fp_xmm1 := ws\<rparr>)\<rparr>)
    | Store_xmm n \<Rightarrow> (resp0\<lparr>r_words := (if n = 0 then fp_xmm0 f else fp_xmm1 f)\<rparr>, k))"

section \<open>Faults\<close>

text \<open>A fault's signal is forced: it kills the process where it is blocked or not handled.\<close>

definition force_signal :: "siginfo \<Rightarrow> resp option \<Rightarrow> linux \<Rightarrow> move \<times> linux" where
  "force_signal i ans k =
     (case sa_sigaction (l_actions k (si_signo i)) of
        Handler h \<Rightarrow>
          if sigismember (l_blocked k) (si_signo i) then (Terminate (si_signo i), k)
          else deliver h i ans k
      | _ \<Rightarrow> (Terminate (si_signo i), k))"

definition fault_info :: "signum \<Rightarrow> int \<Rightarrow> u64 \<Rightarrow> siginfo" where
  "fault_info s code addr = \<lparr>si_signo = s, si_code = code, si_pid = 0, si_uid = 0,
     si_value = 0, si_addr = addr\<rparr>"

text \<open>
  Where the bytes at an address stop being instructions this platform can run: it knows
  \<^verbatim>\<open>add r, r\<close> and the two prefixed instructions of \<^verbatim>\<open>synchronous-rip.cpp\<close> by their lengths.
\<close>

fun code_fault :: "(u64 \<times> u8) list \<Rightarrow> nat \<Rightarrow> u64 \<Rightarrow> u64" where
  "code_fault m 0 a = a"
| "code_fault m (Suc n) a =
     (case map_of m a of
        Some b \<Rightarrow>
          if b = 0x01 then code_fault m n (a + 2)
          else if b = 0xf3 \<or> b = 0x66 then code_fault m n (a + 4)
          else a
      | None \<Rightarrow> a)"

text \<open>
  An instruction that runs through is followed by a trap if the trap flag was set before it.
\<close>

definition trace_trap :: "resp \<Rightarrow> u64 \<Rightarrow> linux \<Rightarrow> linux \<Rightarrow> move \<times> linux" where
  "trace_trap r pc k k' =
     (if bit (l_flags k) 8
      then force_signal (fault_info SIGTRAP TRAP_TRACE pc) (Some r)
        (k'\<lparr>l_rip := pc, l_trapno := 1, l_err := 0\<rparr>)
      else leave r k')"

definition do_insn :: "insn \<Rightarrow> u64 \<Rightarrow> linux \<Rightarrow> move \<times> linux" where
  "do_insn n a k =
     (case n of
        Div_by_zero \<Rightarrow> force_signal (fault_info SIGFPE FPE_INTDIV a) None
          (k\<lparr>l_rip := a, l_trapno := 0, l_err := 0\<rparr>)
      | Idiv_by_zero \<Rightarrow> force_signal (fault_info SIGFPE FPE_INTDIV a) None
          (k\<lparr>l_rip := a, l_trapno := 0, l_err := 0\<rparr>)
      | Hlt \<Rightarrow> force_signal (fault_info SIGSEGV SI_KERNEL 0) None
          (k\<lparr>l_rip := a, l_trapno := 13, l_err := 0\<rparr>)
      | Int3 \<Rightarrow> force_signal (fault_info SIGTRAP SI_KERNEL 0) (Some resp0)
          (k\<lparr>l_rip := a + 1, l_trapno := 3, l_err := 0\<rparr>)
      | Ud2 \<Rightarrow> force_signal (fault_info SIGILL ILL_ILLOPN a) None
          (k\<lparr>l_rip := a, l_trapno := 6, l_err := 0\<rparr>)
      | Far_jmp \<Rightarrow> force_signal (fault_info SIGSEGV SI_KERNEL 0) None
          (k\<lparr>l_rip := a, l_trapno := 13, l_err := 4\<rparr>)
      | Call_code \<Rightarrow> let pc = code_fault (l_bytes k) 4 a in
          force_signal (fault_info SIGILL ILL_ILLOPN pc) None
            (k\<lparr>l_rip := pc, l_trapno := 6, l_err := 0\<rparr>)
      | Nop \<Rightarrow> trace_trap resp0 (a + 1) k k
      | Pushf \<Rightarrow> trace_trap (resp0\<lparr>r_word := l_flags k\<rparr>) (a + 1) k k
      | Popf w \<Rightarrow> trace_trap resp0 (a + 1) k (k\<lparr>l_flags := w\<rparr>)
      | Branch t \<Rightarrow> trace_trap resp0 t k k
      | Other_insn n \<Rightarrow> trace_trap resp0 (a + of_nat n) k k)"

text \<open>Nothing is mapped where the tests store: the first 4 pages and \<open>0x12340000\<close>.\<close>

definition unmapped :: "u64 \<Rightarrow> bool" where
  "unmapped a \<longleftrightarrow> a < 0x4000 \<or> a = 0x12340000"

section \<open>Requests\<close>

text \<open>
  A byte the program has stored; elsewhere its text: the system call instruction before \<open>l_rip\<close> and
  otherwise \<^verbatim>\<open>nop\<close>s.
\<close>

definition text_byte :: "linux \<Rightarrow> u64 \<Rightarrow> u64" where
  "text_byte k a =
     (case map_of (l_bytes k) a of
        Some b \<Rightarrow> ucast b
      | None \<Rightarrow>
          if a = l_rip k - 2 then (case l_arch k of X64 \<Rightarrow> 0x0f | X86 \<Rightarrow> 0xcd)
          else if a = l_rip k - 1 then (case l_arch k of X64 \<Rightarrow> 0x05 | X86 \<Rightarrow> 0x80)
          else 0x90)"

definition pending_set :: "linux \<Rightarrow> sigset" where
  "pending_set k = foldr (\<lambda>i m. m OR sigbit (si_signo i)) (l_pending k) 0 AND l_blocked k"

text \<open>The requests that return at once.\<close>

fun do_call :: "req \<Rightarrow> linux \<Rightarrow> resp \<times> linux" where
  "do_call (Rt_sigaction s act) k =
     (if s < 1 \<or> 64 < s \<or> (act \<noteq> None \<and> (s = SIGKILL \<or> s = SIGSTOP))
      then (resp0\<lparr>ret := - EINVAL\<rparr>, k)
      else (resp0\<lparr>r_act := l_actions k s\<rparr>,
            case act of None \<Rightarrow> k | Some x \<Rightarrow> k\<lparr>l_actions := (l_actions k)(s := x)\<rparr>))"
| "do_call (Rt_sigprocmask h m) k = (resp0\<lparr>r_set := l_blocked k\<rparr>, do_sigprocmask h m k)"
| "do_call Rt_sigpending k = (resp0\<lparr>r_set := pending_set k\<rparr>, k)"
| "do_call (Rt_sigsuspend m) k =
     (resp0\<lparr>ret := - EINTR\<rparr>, k\<lparr>l_saved := Some (l_blocked k), l_blocked := blockable m\<rparr>)"
| "do_call (Rt_sigtimedwait m timed) k =
     (case dequeue (NOT m) (l_pending k) of
        Some (i, rest) \<Rightarrow> (resp0\<lparr>ret := si_signo i, r_info := i\<rparr>, k\<lparr>l_pending := rest\<rparr>)
      | None \<Rightarrow> (resp0\<lparr>ret := - EAGAIN\<rparr>, k))"
| "do_call (Rt_sigqueueinfo pid s i) k = (resp0, send_signal (i\<lparr>si_signo := s\<rparr>) k)"
| "do_call (Sigaltstack s) k =
     (let rk = do_sigaltstack s k in (resp0\<lparr>ret := fst rk, r_stack := query_altstack k\<rparr>, snd rk))"
| "do_call (Raise s) k = (resp0, send_signal (user_info k s SI_TKILL) k)"
| "do_call (Kill_pid pid s) k = (resp0, send_signal (user_info k s SI_USER) k)"
| "do_call (Tgkill pid tid s) k = (resp0, send_signal (user_info k s SI_TKILL) k)"
| "do_call Getpid k = (resp0\<lparr>ret := l_pid k\<rparr>, k)"
| "do_call Gettid k = (resp0\<lparr>ret := l_pid k\<rparr>, k)"
| "do_call Getuid k = (resp0\<lparr>ret := l_uid k\<rparr>, k)"
| "do_call Geteuid k = (resp0\<lparr>ret := l_uid k\<rparr>, k)"
| "do_call (Malloc n) k =
     (case l_heap k of
        [] \<Rightarrow> (resp0, k)
      | a # as \<Rightarrow> (resp0\<lparr>r_word := a\<rparr>, k\<lparr>l_heap := as\<rparr>))"
| "do_call (Mmap n) k =
     (case l_heap k of
        [] \<Rightarrow> (resp0\<lparr>ret := - ENOMEM\<rparr>, k)
      | a # as \<Rightarrow> (resp0\<lparr>r_word := a\<rparr>, k\<lparr>l_heap := as\<rparr>))"
| "do_call (Store_byte a b) k = (resp0, k\<lparr>l_bytes := (a, b) # l_bytes k\<rparr>)"
| "do_call (Read_segment s) k =
     (let g = saved_gregs k resp0 in
      (resp0\<lparr>r_word := (case s of CS \<Rightarrow> REG_CS g | SS \<Rightarrow> REG_SS g | DS \<Rightarrow> REG_DS g
         | ES \<Rightarrow> REG_ES g | FS \<Rightarrow> REG_FS g | GS \<Rightarrow> REG_GS g)\<rparr>, k))"
| "do_call Read_sp k = (resp0\<lparr>r_word := l_sp k\<rparr>, k)"
| "do_call (Load_byte a) k = (resp0\<lparr>r_word := text_byte k a\<rparr>, k)"
| "do_call (Fp i) k = do_fp i k"
| "do_call Read_flags k = (resp0\<lparr>r_word := l_flags k\<rparr>, k)"
| "do_call (Write_flags w) k = (resp0, k\<lparr>l_flags := w\<rparr>)"
| "do_call q k = (resp0, k)"

text \<open>
  One move of the platform: an outstanding request that has been carried out is answered or
  interrupted by a handler; a new one is carried out first.
\<close>

definition linux_move :: "linux platform" where
  "linux_move k q =
     (case l_answer k of
        Some r \<Rightarrow> leave r k
      | None \<Rightarrow>
          (case q of
             Sigreturn c \<Rightarrow> (Resume, do_sigreturn c k)
           | Longjmp n \<Rightarrow> (Jump, k\<lparr>l_frames := [], l_sp := main_sp\<rparr>)
           | Store_int a n \<Rightarrow>
               if unmapped a then force_signal (fault_info SIGSEGV SEGV_MAPERR a) None
                 (k\<lparr>l_trapno := 14, l_err := 6, l_cr2 := a\<rparr>)
               else leave resp0 k
           | Exec_insn n a \<Rightarrow> do_insn n a k
           | _ \<Rightarrow> (case do_call q k of (r, k') \<Rightarrow> leave r k')))"

lemmas linux_unfold = leave_def deliver_def do_sigreturn_def
  force_signal_def fault_info_def do_insn_def unmapped_def text_byte_def pending_set_def
  frame_sp_def saved_gregs_def saved_mask_def make_ctx_def do_sigaltstack_def query_altstack_def on_sig_stack_def
  MINSIGSTKSZ_def do_sigprocmask_def user_info_def send_signal_def ignored_def
  default_ignored_def default_stops_def blockable_def no_altstack_def resp0_def linux_init_def
  enqueue_def dequeue_def has_flag_def main_sp_def

lemmas sigset_unfold = sigbit_def sigemptyset_def sigfillset_def internal_signals_def
  sigaddset_def sigdelset_def sigismember_def

text \<open>The verdict of a program that runs alone on this platform.\<close>

definition linux_run :: "linux \<Rightarrow> 'g handlers \<Rightarrow> ('g, int) prog \<Rightarrow> 'g \<Rightarrow> int option" where
  "linux_run k H main g =
     (case run linux_move H (boot main g) k of None \<Rightarrow> None | Some mw \<Rightarrow> exit_status (fst mw))"

lemma linux_run_trial:
  assumes "linux_run k H main g = Some n"
  shows "\<exists>mvs g' l. trial H main g mvs = Dead (Exited n) g' l"
proof -
  from assms obtain d w where r: "run linux_move H (boot main g) k = Some (d, w)"
    and n: "exit_status d = Some n"
    by (auto simp: linux_run_def split: option.splits)
  from run_is_replay [OF r] obtain mvs where "trial H main g mvs = d"
    unfolding trial_def by blast
  with exit_status_Some [OF n] show ?thesis by metis
qed

text \<open>
  The platform's run shows that a verdict theorem is about something: it is a sequence of
  moves that leads to the exit the theorem speaks of.
\<close>

lemma linux_witness:
  assumes "linux_run k H main g = Some n"
    and "\<And>mvs g' l. trial H main g mvs = Dead (Exited n) g' l \<Longrightarrow> P l"
  shows "\<exists>mvs g' l. trial H main g mvs = Dead (Exited n) g' l \<and> P l"
  using linux_run_trial [OF assms(1)] assms(2) by blast

text \<open>
  A test decides a property of the platform's behaviour if it exits 0 exactly on the runs that
  have it.
\<close>

definition decides :: "'g handlers \<Rightarrow> ('g, int) prog \<Rightarrow> 'g \<Rightarrow> (log \<Rightarrow> bool) \<Rightarrow> bool" where
  "decides H main g0 P \<longleftrightarrow>
     (\<forall>mvs n g l. trial H main g0 mvs = Dead (Exited n) g l \<longrightarrow> (n = 0 \<longleftrightarrow> P l))"

lemma decidesI:
  "(\<And>mvs n g l. trial H main g0 mvs = Dead (Exited n) g l \<Longrightarrow> n = 0 \<longleftrightarrow> P l) \<Longrightarrow> decides H main g0 P"
  unfolding decides_def by blast

end
