(* ===== verification/Queueing.thy ===== *)
theory Queueing
  imports Linux
begin

text \<open>
  The tests of how blocked signals queue up and in which order they are delivered:
  \<^verbatim>\<open>multiple-realtime\<close>, \<^verbatim>\<open>multiple-standard\<close>, \<^verbatim>\<open>mask-all\<close>, \<^verbatim>\<open>two-signals\<close>.
\<close>

section \<open>\<^verbatim>\<open>multiple-realtime.cpp\<close>\<close>

record multiple_realtime = memory +
  mr_count :: int

abbreviation (input) mysig :: signum where "mysig \<equiv> 40"

definition multiple_realtime_handler ::
  "nat \<Rightarrow> signum \<Rightarrow> siginfo \<Rightarrow> ucontext \<Rightarrow> (multiple_realtime, ucontext) prog" where
  "multiple_realtime_handler h sig info ctx = bind get (\<lambda>g.
     seq (block [
       if mr_count g < 32 then
         block [
           ASSERT (sig = mysig),
           ASSERT (sival_int (si_value info) = 0xCAFE + mr_count g)]
       else
         block [
           ASSERT (sig = mysig + 1),
           ASSERT (sival_int (si_value info) = 0xCAFE + (mr_count g - 32))],
       incr mr_count (\<lambda>n. mr_count_update (\<lambda>_. n))])
     (Return ctx))"

definition multiple_realtime_queue :: "nat \<Rightarrow> (multiple_realtime, unit) prog" where
  "multiple_realtime_queue i = block [
     ASSERT_ret (bind getpid (\<lambda>p. sigqueue p (mysig + 1) (of_sival_int (0xCAFE + int i)))) (\<lambda>r. r = 0),
     ASSERT_ret (bind getpid (\<lambda>p. sigqueue p mysig (of_sival_int (0xCAFE + int i)))) (\<lambda>r. r = 0)]"

definition multiple_realtime_main :: "(multiple_realtime, int) prog" where
  "multiple_realtime_main =
     seq (block [
       ignore (sigprocmask SIG_BLOCK sigfillset),
       ASSERT_ret (sigaction mysig (handler_action SA_SIGINFO sigfillset)) (\<lambda>r. r = 0),
       ASSERT_ret (sigaction (mysig + 1) (handler_action SA_SIGINFO sigfillset)) (\<lambda>r. r = 0),
       for_each [0..<32] multiple_realtime_queue,
       ignore (sigprocmask SIG_UNBLOCK sigfillset),
       ASSERT_mem (\<lambda>g. mr_count g = 64)])
     (Return 0)"

definition multiple_realtime_memory :: multiple_realtime where
  "multiple_realtime_memory = \<lparr>errno = 0, mr_count = 0\<rparr>"

lemmas multiple_realtime_defs = multiple_realtime_handler_def multiple_realtime_main_def multiple_realtime_memory_def

text \<open>The deliveries the test waits for, by position.\<close>

definition multiple_realtime_expected :: "nat \<Rightarrow> signum \<times> int" where
  "multiple_realtime_expected n =
     (if n < 32 then (mysig, 0xCAFE + int n) else (mysig + 1, 0xCAFE + (int n - 32)))"

definition payloads :: "log \<Rightarrow> (signum \<times> int) list" where
  "payloads l = map (\<lambda>(s, i, c). (s, sival_int (si_value i))) (handled l)"

fun multiple_realtime_checked :: "req \<Rightarrow> bool" where
  "multiple_realtime_checked (Rt_sigaction s a) = True"
| "multiple_realtime_checked (Rt_sigqueueinfo p s i) = True"
| "multiple_realtime_checked _ = False"

definition multiple_realtime_inv :: "multiple_realtime \<Rightarrow> log \<Rightarrow> bool" where
  "multiple_realtime_inv g l \<longleftrightarrow> mr_count g = int (length (payloads l)) \<and>
     calls_ok multiple_realtime_checked l \<and>
     payloads l = map multiple_realtime_expected [0..<length (payloads l)]"

definition multiple_realtime_exit :: "int \<Rightarrow> multiple_realtime \<Rightarrow> log \<Rightarrow> bool" where
  "multiple_realtime_exit n g l \<longleftrightarrow>
     (n = 0 \<longleftrightarrow> calls_ok multiple_realtime_checked l \<and>
       payloads l = map multiple_realtime_expected [0..<64])"

lemma payloads_Cons [simp]:
  "payloads (e # l) = payloads l @ map (\<lambda>(s, i, c). (s, sival_int (si_value i))) (entered e)"
  by (simp add: payloads_def)

lemma payloads_Nil [simp]: "payloads [] = []"
  by (simp add: payloads_def)

lemma payloads_wrong:
  assumes "payloads l = map f [0..<length (payloads l)]" and "x \<noteq> f (length (payloads l))"
  shows "payloads l @ [x] \<noteq> map f [0..<n]"
proof
  assume eq: "payloads l @ [x] = map f [0..<n]"
  then have n: "n = Suc (length (payloads l))"
    by (metis length_append_singleton length_map length_upt minus_nat.diff_0)
  from eq have "(payloads l @ [x]) ! length (payloads l) = map f [0..<n] ! length (payloads l)"
    by simp
  with n assms(2) show False by (simp add: nth_append)
qed

lemmas multiple_realtime_spec = multiple_realtime_inv_def multiple_realtime_exit_def

interpretation mr: env_invariant multiple_realtime_handler multiple_realtime_inv multiple_realtime_exit
  by unfold_locales
    (auto simp: prog_unfold multiple_realtime_defs multiple_realtime_spec
       multiple_realtime_expected_def payloads_wrong)

lemma multiple_realtime_fill:
  assumes "multiple_realtime_inv g l" and "\<And>g l. multiple_realtime_inv g l \<Longrightarrow> Q () g l"
  shows "wp multiple_realtime_inv balanced multiple_realtime_exit S
    (for_each [0..<32] multiple_realtime_queue) Q g l"
  using assms
  by (intro wp_for_each [where P = "\<lambda>_. multiple_realtime_inv"])
    (auto simp: prog_unfold multiple_realtime_queue_def multiple_realtime_spec)

lemma multiple_realtime_main_wp:
  "wp multiple_realtime_inv balanced multiple_realtime_exit (\<lambda>_ _ _. False)
     multiple_realtime_main (\<lambda>n. multiple_realtime_exit n) multiple_realtime_memory []"
  by (auto simp: prog_unfold multiple_realtime_defs multiple_realtime_spec
     intro!: multiple_realtime_fill)

text \<open>
  A run that ends with exit status 0: every call is answered with 0, the 64 handlers run one after
  the other while the last \<^verbatim>\<open>sigprocmask\<close> waits.
\<close>

definition zero_ctx :: ucontext where
  "zero_ctx = make_ctx (linux_init X64 1 0 []) resp0"

definition realtime_info :: "nat \<Rightarrow> siginfo" where
  "realtime_info i = (case multiple_realtime_expected i of
     (s, v) \<Rightarrow> queue_info s 0 0 (of_sival_int v))"

definition realtime_delivery :: "nat \<Rightarrow> move list" where
  "realtime_delivery i = [Deliver 0 (fst (multiple_realtime_expected i)) (realtime_info i) zero_ctx,
     Answer resp0, Resume]"

definition realtime_moves :: "move list" where
  "realtime_moves = replicate 3 (Answer resp0) @ concat (replicate 32 (replicate 8 (Answer resp0))) @
     concat (map realtime_delivery [0..<64]) @ [Answer resp0]"

lemma sival_int_of [simp]: "in_c_int n \<Longrightarrow> sival_int (of_sival_int n) = n"
proof -
  assume "in_c_int n"
  moreover have "(ucast (ucast w :: u64) :: u32) = w" for w :: u32
    by (rule bit_word_eqI) (simp add: bit_simps)
  ultimately show "sival_int (of_sival_int n) = n"
    by (simp add: sival_int_def of_sival_int_def in_c_int_def signed_of_int
        signed_take_bit_int_eq_self_iff)
qed

lemma realtime_delivery_step:
  assumes "i < 64"
  shows "\<exists>d. replay multiple_realtime_handler (Live f fs jb \<lparr>errno = e, mr_count = int i\<rparr> l)
      (realtime_delivery i)
    = Live f fs jb \<lparr>errno = e, mr_count = int (Suc i)\<rparr> (d @ l)"
proof -
  have "in_c_int (0xCAFE + int i)" "in_c_int (0xCAFE + (int i - 32))" "in_c_int (int i + 1)"
    using assms by (simp_all add: in_c_int_def)
  then show ?thesis
    using assms
    by (cases f) (auto simp: realtime_delivery_def realtime_info_def multiple_realtime_expected_def
        multiple_realtime_handler_def handler_prog_def statement_defs ASSERT_def queue_info_def)
qed

lemma realtime_deliveries:
  assumes "n \<le> 64"
  shows "\<exists>d. replay multiple_realtime_handler (Live f fs jb \<lparr>errno = e, mr_count = 0\<rparr> l)
      (concat (map realtime_delivery [0..<n]))
    = Live f fs jb \<lparr>errno = e, mr_count = int n\<rparr> (d @ l)"
  using assms
proof (induction n)
  case (Suc n)
  then obtain d where "replay multiple_realtime_handler (Live f fs jb \<lparr>errno = e, mr_count = 0\<rparr> l)
      (concat (map realtime_delivery [0..<n])) = Live f fs jb \<lparr>errno = e, mr_count = int n\<rparr> (d @ l)"
    by auto
  with realtime_delivery_step [of n f fs jb e "d @ l"] Suc.prems show ?case
    by (auto simp: replay_append simp flip: append_assoc)
qed (auto intro: exI [of _ "[]"])

lemma realtime_queue_step:
  "\<exists>d. replay multiple_realtime_handler (settle (bind (multiple_realtime_queue i) k) [] None g l)
      (replicate 8 (Answer resp0)) = settle (k ()) [] None g (d @ l)"
  by (simp add: multiple_realtime_queue_def prog_unfold sys_def resp0_def eval_nat_numeral)
    (rule settle_grows, simp add: grows_Cons)

lemma realtime_queues:
  "\<exists>d. replay multiple_realtime_handler (settle (bind (for_each [0..<32] multiple_realtime_queue) k) [] None g l)
      (concat (replicate 32 (replicate 8 (Answer resp0)))) = settle (k ()) [] None g (d @ l)"
  using replay_for_each [OF realtime_queue_step, of "[0..<32]"] by (simp add: map_replicate_const del: replicate.simps)

lemma multiple_realtime_passes:
  "\<exists>g l. trial multiple_realtime_handler multiple_realtime_main multiple_realtime_memory realtime_moves
     = Dead (Exited 0) g l"
proof -
  let ?H = multiple_realtime_handler and ?g = "\<lparr>errno = 0, mr_count = 0\<rparr>"
  let ?k = "\<lambda>_. bind (block [ignore (sigprocmask SIG_UNBLOCK sigfillset), ASSERT_mem (\<lambda>g. mr_count g = 64)])
    (\<lambda>_. Exit 0)"
  have start: "\<exists>l. replay ?H (boot multiple_realtime_main multiple_realtime_memory) (replicate 3 (Answer resp0))
    = settle (bind (for_each [0..<32] multiple_realtime_queue) ?k) [] None ?g l"
    by (simp add: boot_def multiple_realtime_defs prog_unfold sys_def resp0_def eval_nat_numeral bind_assoc)
      blast
  have queues: "\<exists>l'. replay ?H (settle (bind (for_each [0..<32] multiple_realtime_queue) ?k) [] None ?g l)
      (concat (replicate 32 (replicate 8 (Answer resp0)))) = settle (?k ()) [] None ?g l'" for l
    using realtime_queues by blast
  have finish: "\<exists>g l'. replay ?H (settle (?k ()) [] None ?g l) (concat (map realtime_delivery [0..<64]) @
      [Answer resp0]) = Dead (Exited 0) g l'" for l
  proof -
    obtain f where f: "settle (?k ()) [] None ?g l = Live f [] None ?g l"
      and step: "\<And>d l'. step ?H (Live f [] None (?g\<lparr>mr_count := 64\<rparr>) l') (Answer resp0)
        = Dead (Exited 0) (?g\<lparr>mr_count := 64\<rparr>) (Ans (fst f) resp0 # l')"
      by (simp add: prog_unfold sys_def resp0_def)
    obtain d where "replay ?H (Live f [] None ?g l) (concat (map realtime_delivery [0..<64]))
        = Live f [] None (?g\<lparr>mr_count := 64\<rparr>) (d @ l)"
      using realtime_deliveries [of 64 f "[]" None 0 l] by auto
    with f step show ?thesis by (simp add: replay_append)
  qed
  from start queues finish show ?thesis
    unfolding trial_def realtime_moves_def replay_append by metis
qed

section \<open>\<^verbatim>\<open>multiple-standard.cpp\<close>\<close>

record multiple_standard = memory +
  multiple_standard_count :: int

definition multiple_standard_handler ::
  "nat \<Rightarrow> signum \<Rightarrow> siginfo \<Rightarrow> ucontext \<Rightarrow> (multiple_standard, ucontext) prog" where
  "multiple_standard_handler h sig info ctx =
     seq (incr multiple_standard_count (\<lambda>n. multiple_standard_count_update (\<lambda>_. n))) (Return ctx)"

definition multiple_standard_main :: "(multiple_standard, int) prog" where
  "multiple_standard_main =
     seq (block [
       ASSERT_ret (sigaction SIGUSR1 (handler_action SA_SIGINFO sigemptyset)) (\<lambda>r. r = 0),
       ASSERT_ret (sigprocmask SIG_BLOCK sigfillset) (\<lambda>r. r = 0),
       ignore (raise SIGUSR1),
       ignore (raise SIGUSR1),
       ignore (raise SIGUSR1),
       ignore (raise SIGUSR1),
       ignore (raise SIGUSR1),
       ASSERT_mem (\<lambda>g. multiple_standard_count g = 0),
       ignore (sigprocmask SIG_UNBLOCK sigfillset),
       ASSERT_mem (\<lambda>g. multiple_standard_count g = 1)])
     (Return 0)"

definition multiple_standard_memory :: multiple_standard where
  "multiple_standard_memory = \<lparr>errno = 0, multiple_standard_count = 0\<rparr>"

lemmas multiple_standard_defs = multiple_standard_handler_def multiple_standard_main_def
  multiple_standard_memory_def

fun raise_events :: "event \<Rightarrow> nat" where
  "raise_events (Ans (Raise s) r) = 1"
| "raise_events _ = 0"

definition raises :: "log \<Rightarrow> nat" where
  "raises l = sum_list (map raise_events l)"

lemma raises_Cons [simp]: "raises (e # l) = raise_events e + raises l"
  by (simp add: raises_def)

lemma raises_grows: "grows l l' \<Longrightarrow> raises l \<le> raises l'"
  by (auto simp: grows_def raises_def)

text \<open>The state in which the five signals have been raised and none has been handled.\<close>

definition all_raised_none_handled :: "log \<Rightarrow> bool" where
  "all_raised_none_handled l \<longleftrightarrow> 5 \<le> raises l \<and> handled l = []"

definition multiple_standard_inv :: "multiple_standard \<Rightarrow> log \<Rightarrow> bool" where
  "multiple_standard_inv g l \<longleftrightarrow> multiple_standard_count g = int (length (handled l))"

definition multiple_standard_exit :: "int \<Rightarrow> multiple_standard \<Rightarrow> log \<Rightarrow> bool" where
  "multiple_standard_exit n g l \<longleftrightarrow> (n = 0 \<longrightarrow> length (handled l) = 1 \<and>
     (\<exists>l0. grows l0 l \<and> all_raised_none_handled l0))"

lemmas multiple_standard_spec = multiple_standard_inv_def multiple_standard_exit_def

interpretation multiple_standard: env_invariant multiple_standard_handler multiple_standard_inv
    multiple_standard_exit
  by unfold_locales (auto simp: prog_unfold multiple_standard_defs multiple_standard_spec)

lemma multiple_standard_main_wp:
  "wp multiple_standard_inv balanced multiple_standard_exit (\<lambda>_ _ _. False)
     multiple_standard_main (\<lambda>n. multiple_standard_exit n) multiple_standard_memory []"
proof -
  have marker: "\<exists>l0. grows l0 (e # l) \<and> all_raised_none_handled l0"
    if "grows l0 l" and "5 \<le> raises l0" and "handled l0 = []" for e l l0
    using that grows_Cons by (auto simp: all_raised_none_handled_def)
  show ?thesis
    by (simp add: prog_unfold multiple_standard_defs multiple_standard_spec)
      (clarify, erule marker, auto dest!: raises_grows)
qed

section \<open>\<^verbatim>\<open>mask-all.cpp\<close>\<close>

record mask_all = memory +
  mask_all_count :: int

definition mask_all_handler ::
  "nat \<Rightarrow> signum \<Rightarrow> siginfo \<Rightarrow> ucontext \<Rightarrow> (mask_all, ucontext) prog" where
  "mask_all_handler h sig info ctx =
     seq (block [
       bind get (\<lambda>g. if mask_all_count g = 0 then ASSERT (sig = mysig) else ASSERT (sig = mysig + 1)),
       incr mask_all_count (\<lambda>n. mask_all_count_update (\<lambda>_. n))])
     (Return ctx)"

definition mask_all_main :: "(mask_all, int) prog" where
  "mask_all_main =
     seq (block [
       ignore (sigprocmask SIG_BLOCK sigfillset),
       ASSERT_ret (sigaction mysig (handler_action SA_SIGINFO sigfillset)) (\<lambda>r. r = 0),
       ASSERT_ret (sigaction (mysig + 1) (handler_action SA_SIGINFO sigfillset)) (\<lambda>r. r = 0),
       ignore (raise mysig),
       ignore (raise (mysig + 1)),
       ASSERT_ret (sigprocmask SIG_UNBLOCK sigfillset) (\<lambda>r. r = 0),
       ASSERT_mem (\<lambda>g. mask_all_count g = 2)])
     (Return 0)"

definition mask_all_memory :: mask_all where
  "mask_all_memory = \<lparr>errno = 0, mask_all_count = 0\<rparr>"

lemmas mask_all_defs = mask_all_handler_def mask_all_main_def mask_all_memory_def

fun mask_all_checked :: "req \<Rightarrow> bool" where
  "mask_all_checked (Rt_sigaction s a) = True"
| "mask_all_checked (Rt_sigprocmask SIG_UNBLOCK m) = True"
| "mask_all_checked _ = False"

definition mask_all_order :: "signum list \<Rightarrow> bool" where
  "mask_all_order ss \<longleftrightarrow> (\<forall>i < length ss. ss ! i = (if i = 0 then mysig else mysig + 1))"

lemma mask_all_order_Nil [simp]: "mask_all_order []"
  by (simp add: mask_all_order_def)

lemma mask_all_order_single [simp]: "mask_all_order [s] \<longleftrightarrow> s = mysig"
  by (simp add: mask_all_order_def)

lemma mask_all_order_snoc [simp]:
  "mask_all_order (ss @ [s]) \<longleftrightarrow> mask_all_order ss \<and> s = (if ss = [] then mysig else mysig + 1)"
  by (auto simp: mask_all_order_def nth_append less_Suc_eq)

lemma mask_all_order_2: "ss = [40, 41] \<longleftrightarrow> mask_all_order ss \<and> length ss = 2"
  by (auto simp: mask_all_order_def numeral_2_eq_2 length_Suc_conv)

definition mask_all_inv :: "mask_all \<Rightarrow> log \<Rightarrow> bool" where
  "mask_all_inv g l \<longleftrightarrow> calls_ok mask_all_checked l \<and>
     mask_all_count g = int (length (handled_signals l)) \<and>
     mask_all_order (handled_signals l)"

definition mask_all_exit :: "int \<Rightarrow> mask_all \<Rightarrow> log \<Rightarrow> bool" where
  "mask_all_exit n g l \<longleftrightarrow>
     (n = 0 \<longleftrightarrow> calls_ok mask_all_checked l \<and> mask_all_order (handled_signals l) \<and>
       length (handled_signals l) = 2)"

lemmas mask_all_spec = mask_all_inv_def mask_all_exit_def

interpretation mask_all: env_invariant mask_all_handler mask_all_inv mask_all_exit
  by unfold_locales (auto simp: prog_unfold mask_all_defs mask_all_spec)

lemma mask_all_main_wp:
  "wp mask_all_inv balanced mask_all_exit (\<lambda>_ _ _. False)
     mask_all_main (\<lambda>n. mask_all_exit n) mask_all_memory []"
  by (auto simp: prog_unfold mask_all_defs mask_all_spec)

section \<open>\<^verbatim>\<open>two-signals.cpp\<close>\<close>

record two_signals = memory +
  sigurg_ok :: bool
  sigpwr_ok :: bool

definition two_signals_handler ::
  "nat \<Rightarrow> signum \<Rightarrow> siginfo \<Rightarrow> ucontext \<Rightarrow> (two_signals, ucontext) prog" where
  "two_signals_handler h sig info ctx =
     seq (block [
       if sig = SIGURG then modify (sigurg_ok_update (\<lambda>_. True))
       else if_then (sig = SIGPWR) (modify (sigpwr_ok_update (\<lambda>_. True))),
       Print (Got_signal sig) skip])
     (Return ctx)"

definition two_signals_main :: "(two_signals, int) prog" where
  "two_signals_main =
     seq (block [
       ignore (sigaction SIGURG (handler_action SA_SIGINFO sigemptyset)),
       ignore (sigaction SIGPWR (handler_action SA_SIGINFO sigemptyset)),
       ignore (sigprocmask SIG_BLOCK sigfillset),
       ignore (raise SIGURG),
       ignore (raise SIGPWR),
       ignore (sigprocmask SIG_UNBLOCK sigfillset)])
     (bind get (\<lambda>g. if sigurg_ok g \<and> sigpwr_ok g then Return 0 else Return 1))"

definition two_signals_memory :: two_signals where
  "two_signals_memory = \<lparr>errno = 0, sigurg_ok = False, sigpwr_ok = False\<rparr>"

lemmas two_signals_defs = two_signals_handler_def two_signals_main_def two_signals_memory_def

definition two_signals_inv :: "two_signals \<Rightarrow> log \<Rightarrow> bool" where
  "two_signals_inv g l \<longleftrightarrow> sigurg_ok g = (SIGURG \<in> set (handled_signals l)) \<and>
     sigpwr_ok g = (SIGPWR \<in> set (handled_signals l))"

definition two_signals_exit :: "int \<Rightarrow> two_signals \<Rightarrow> log \<Rightarrow> bool" where
  "two_signals_exit n g l \<longleftrightarrow> (n = 0 \<longleftrightarrow> {SIGURG, SIGPWR} \<subseteq> set (handled_signals l))"

lemmas two_signals_spec = two_signals_inv_def two_signals_exit_def

interpretation two_signals: env_invariant two_signals_handler two_signals_inv two_signals_exit
  by unfold_locales (auto simp: prog_unfold two_signals_defs two_signals_spec)

lemma two_signals_main_wp:
  "wp two_signals_inv balanced two_signals_exit (\<lambda>_ _ _. False)
     two_signals_main (\<lambda>n. two_signals_exit n) two_signals_memory []"
  by (auto simp: prog_unfold two_signals_defs two_signals_spec)

section \<open>Verdicts\<close>

text \<open>
  C1. \<^verbatim>\<open>multiple-realtime\<close> exits 0 on a platform exactly when every checked call succeeds and
  the handler is entered 64 times: first for the 32 instances of signal 40 and then for the 32
  of signal 41, each signal's payloads in the order in which they were queued. A lost,
  duplicated, merged or reordered real-time signal makes it fail.
\<close>

theorem multiple_realtime_verdict:
  assumes "trial multiple_realtime_handler multiple_realtime_main multiple_realtime_memory mvs
    = Dead (Exited n) g l"
  shows "n = 0 \<longleftrightarrow> calls_ok multiple_realtime_checked l \<and>
    payloads l = map (\<lambda>i. (mysig, 0xCAFE + int i)) [0..<32] @
                 map (\<lambda>i. (mysig + 1, 0xCAFE + int i)) [0..<32]"
proof -
  have "map multiple_realtime_expected [0..<64] =
    map (\<lambda>i. (mysig, 0xCAFE + int i)) [0..<32] @ map (\<lambda>i. (mysig + 1, 0xCAFE + int i)) [0..<32]"
    by (intro nth_equalityI) (auto simp: multiple_realtime_expected_def nth_append)
  with mr.open_env.verdict [OF multiple_realtime_main_wp assms] show ?thesis
    by (simp add: multiple_realtime_exit_def)
qed

theorem multiple_realtime_verdict_witness:
  "\<exists>mvs g l. trial multiple_realtime_handler multiple_realtime_main multiple_realtime_memory mvs
      = Dead (Exited 0) g l \<and>
    ((0::int) = 0 \<longleftrightarrow> calls_ok multiple_realtime_checked l \<and>
      payloads l = map (\<lambda>i. (mysig, 0xCAFE + int i)) [0..<32] @
                   map (\<lambda>i. (mysig + 1, 0xCAFE + int i)) [0..<32])"
proof -
  obtain g l where "trial multiple_realtime_handler multiple_realtime_main multiple_realtime_memory
      realtime_moves = Dead (Exited 0) g l"
    using multiple_realtime_passes by blast
  from this multiple_realtime_verdict [OF this] show ?thesis by blast
qed

text \<open>
  C16. If \<^verbatim>\<open>multiple-standard\<close> exits 0, its handler was entered exactly once, and at some
  moment of the run all five \<^verbatim>\<open>raise\<close> calls had returned while no handler had been entered:
  the platform blocked the signal and merged its five instances.
\<close>

theorem multiple_standard_verdict:
  assumes "trial multiple_standard_handler multiple_standard_main multiple_standard_memory mvs
    = Dead (Exited 0) g l"
  shows "length (handled l) = 1 \<and> (\<exists>l0. grows l0 l \<and> 5 \<le> raises l0 \<and> handled l0 = [])"
  using multiple_standard.open_env.verdict [OF multiple_standard_main_wp assms]
  by (simp add: multiple_standard_exit_def all_raised_none_handled_def)

lemma multiple_standard_linux:
  "linux_run (linux_init a pid uid heap) multiple_standard_handler multiple_standard_main
     multiple_standard_memory = Some 0"
  by (cases a; simp only:; code_simp)

theorem multiple_standard_verdict_witness:
  "\<exists>mvs g l. trial multiple_standard_handler multiple_standard_main multiple_standard_memory mvs
      = Dead (Exited 0) g l \<and>
    (length (handled l) = 1 \<and> (\<exists>l0. grows l0 l \<and> 5 \<le> raises l0 \<and> handled l0 = []))"
  by (rule linux_witness [OF multiple_standard_linux [of X64 1 0 "[]"] multiple_standard_verdict])

text \<open>
  \<^verbatim>\<open>mask-all\<close> exits 0 exactly when both \<^verbatim>\<open>sigaction\<close> calls and the final
  \<^verbatim>\<open>sigprocmask\<close> succeed and its handler is entered twice, for signal 40 and then for 41.
\<close>

lemma mask_all_verdict:
  assumes "trial mask_all_handler mask_all_main mask_all_memory mvs = Dead (Exited n) g l"
  shows "n = 0 \<longleftrightarrow> calls_ok mask_all_checked l \<and> handled_signals l = [mysig, mysig + 1]"
  using mask_all.open_env.verdict [OF mask_all_main_wp assms]
  by (simp add: mask_all_exit_def mask_all_order_2)

lemma mask_all_linux:
  "linux_run (linux_init a pid uid heap) mask_all_handler mask_all_main mask_all_memory = Some 0"
  by (cases a; simp only:; code_simp)

text \<open>
  \<^verbatim>\<open>two-signals\<close> exits 0 exactly when its handler is entered for both signals, in any
  order and however often.
\<close>

lemma two_signals_verdict:
  assumes "trial two_signals_handler two_signals_main two_signals_memory mvs = Dead (Exited n) g l"
  shows "n = 0 \<longleftrightarrow> {SIGURG, SIGPWR} \<subseteq> set (handled_signals l)"
  using two_signals.open_env.verdict [OF two_signals_main_wp assms]
  by (simp add: two_signals_exit_def)

lemma two_signals_linux:
  "linux_run (linux_init a pid uid heap) two_signals_handler two_signals_main two_signals_memory = Some 0"
  by (cases a; simp only:; code_simp)

section \<open>Verdicts\<close>

text \<open>
  \<^verbatim>\<open>mask-all\<close> exits 0 exactly when both \<^verbatim>\<open>sigaction\<close> calls and the final \<^verbatim>\<open>sigprocmask\<close>
  succeed and its handler is entered twice, for signal 40 and then for 41; \<^verbatim>\<open>two-signals\<close> exits 0
  exactly when its handler is entered for both signals, in any order and however often.
\<close>

lemma queueing_decided:
  "decides mask_all_handler mask_all_main mask_all_memory
     (\<lambda>l. calls_ok mask_all_checked l \<and> handled_signals l = [mysig, mysig + 1]) \<and>
   decides two_signals_handler two_signals_main two_signals_memory
     (\<lambda>l. {SIGURG, SIGPWR} \<subseteq> set (handled_signals l))"
  by (intro conjI decidesI mask_all_verdict two_signals_verdict)


text \<open>
  On the platform with the documented behaviour, on either target and with any process and user
  number, \<^verbatim>\<open>multiple-standard\<close>, \<^verbatim>\<open>mask-all\<close>,
  \<^verbatim>\<open>two-signals\<close> run to their end and exit 0: they accept a correct
  platform.
\<close>

lemma queueing_accept_linux:
  "linux_run (linux_init a pid uid heap) multiple_standard_handler multiple_standard_main multiple_standard_memory
     = Some 0 \<and>
   linux_run (linux_init a pid uid heap) mask_all_handler mask_all_main mask_all_memory
     = Some 0 \<and>
   linux_run (linux_init a pid uid heap) two_signals_handler two_signals_main two_signals_memory
     = Some 0"
  by (intro conjI multiple_standard_linux mask_all_linux two_signals_linux)


end
