(* ===== verification/Nesting.thy ===== *)
theory Nesting
  imports Linux
begin

text \<open>
  The tests of signals raised while a handler runs: \<^verbatim>\<open>same-signal\<close>, \<^verbatim>\<open>nodefer\<close>,
  \<^verbatim>\<open>resethand\<close>. What their verdicts depend on is the order in which handlers are entered
  and calls of \<^verbatim>\<open>raise\<close> return.
\<close>

section \<open>Entries and returns of \<^verbatim>\<open>raise\<close>\<close>

datatype mark = Entered | Raised

fun event_mark :: "event \<Rightarrow> mark list" where
  "event_mark (Ans (Enter s i c) r) = [Entered]"
| "event_mark (Ans (Raise s) r) = [Raised]"
| "event_mark _ = []"

definition marks :: "log \<Rightarrow> mark list" where
  "marks l = concat (map event_mark (rev l))"

lemma marks_Nil [simp]: "marks [] = []"
  by (simp add: marks_def)

lemma marks_Cons [simp]: "marks (e # l) = marks l @ event_mark e"
  by (simp add: marks_def)

section \<open>\<^verbatim>\<open>same-signal.cpp\<close>\<close>

record same_signal = memory +
  inside_signal_handler :: bool
  same_signal_count :: int

definition same_signal_handler ::
  "nat \<Rightarrow> signum \<Rightarrow> siginfo \<Rightarrow> ucontext \<Rightarrow> (same_signal, ucontext) prog" where
  "same_signal_handler h sig info ctx =
     seq (block [
       ASSERT_mem (\<lambda>g. \<not> inside_signal_handler g),
       modify (inside_signal_handler_update (\<lambda>_. True)),
       incr same_signal_count (\<lambda>n. same_signal_count_update (\<lambda>_. n)),
       bind get (\<lambda>g. if_then (same_signal_count g = 1) (ignore (raise SIGUSR1))),
       modify (inside_signal_handler_update (\<lambda>_. False))])
     (Return ctx)"

definition same_signal_main :: "(same_signal, int) prog" where
  "same_signal_main =
     seq (block [
       ignore (sigaction SIGUSR1 (handler_action SA_SIGINFO sigemptyset)),
       ignore (raise SIGUSR1),
       ASSERT_mem (\<lambda>g. same_signal_count g = 2)])
     (Return 0)"

definition same_signal_memory :: same_signal where
  "same_signal_memory =
     \<lparr>errno = 0, inside_signal_handler = False, same_signal_count = 0\<rparr>"

lemmas same_signal_defs = same_signal_handler_def same_signal_main_def same_signal_memory_def

text \<open>
  While the handler's body runs, it waits only inside its \<^verbatim>\<open>raise\<close>; nothing else may be
  entered until that call has returned.
\<close>

definition same_signal_inv :: "same_signal \<Rightarrow> log \<Rightarrow> bool" where
  "same_signal_inv g l \<longleftrightarrow> (let n = same_signal_count g in
     if inside_signal_handler g then n = 1 \<and> marks l = [Entered]
     else n = 0 \<and> marks l = [] \<or> n = 1 \<and> marks l = [Entered, Raised] \<or>
          n = 2 \<and> marks l = [Entered, Raised, Entered] \<or> 3 \<le> n)"

definition same_signal_rely :: "same_signal \<Rightarrow> log \<Rightarrow> same_signal \<Rightarrow> log \<Rightarrow> bool" where
  "same_signal_rely g l g' l' \<longleftrightarrow>
     (inside_signal_handler g \<longrightarrow> inside_signal_handler g' \<and> same_signal_count g' = same_signal_count g)"

definition same_signal_exit :: "int \<Rightarrow> same_signal \<Rightarrow> log \<Rightarrow> bool" where
  "same_signal_exit n g l \<longleftrightarrow> (n = 0 \<longrightarrow> marks l = [Entered, Raised, Entered, Raised])"

lemmas same_signal_spec = same_signal_inv_def same_signal_rely_def same_signal_exit_def

interpretation same_signal: env_contract same_signal_handler same_signal_inv same_signal_rely
    same_signal_exit
  by unfold_locales
    (auto simp: prog_unfold same_signal_defs same_signal_spec Let_def split: if_splits)

lemma same_signal_main_wp:
  "wp same_signal_inv same_signal_rely same_signal_exit (\<lambda>_ _ _. False)
     same_signal_main (\<lambda>n. same_signal_exit n) same_signal_memory []"
  by (auto simp: prog_unfold same_signal_defs same_signal_spec Let_def split: if_splits)

text \<open>
  C5. If \<^verbatim>\<open>same-signal\<close> exits 0, then the signal raised inside its handler was held back until that
  handler had run: the handler was entered, the \<^verbatim>\<open>raise\<close> inside it returned, the handler was entered a
  second time, and the \<^verbatim>\<open>raise\<close> of \<^verbatim>\<open>main\<close> returned, in this order and with nothing else in between.
\<close>

theorem same_signal_verdict:
  assumes "trial same_signal_handler same_signal_main same_signal_memory mvs = Dead (Exited 0) g l"
  shows "marks l = [Entered, Raised, Entered, Raised]"
  using same_signal.verdict [OF same_signal_main_wp assms] by (simp add: same_signal_exit_def)

lemma same_signal_linux:
  "linux_run (linux_init a pid uid heap) same_signal_handler same_signal_main same_signal_memory = Some 0"
  by (cases a; simp only:; code_simp)

theorem same_signal_verdict_witness:
  "\<exists>mvs g l. trial same_signal_handler same_signal_main same_signal_memory mvs = Dead (Exited 0) g l \<and>
     marks l = [Entered, Raised, Entered, Raised]"
  by (rule linux_witness [OF same_signal_linux [of X64 1 0 "[]"] same_signal_verdict])

section \<open>\<^verbatim>\<open>nodefer.cpp\<close>\<close>

record nodefer = memory +
  nodefer_finished :: bool
  nodefer_count :: int

definition nodefer_handler ::
  "nat \<Rightarrow> signum \<Rightarrow> siginfo \<Rightarrow> ucontext \<Rightarrow> (nodefer, ucontext) prog" where
  "nodefer_handler h sig info ctx =
     seq (block [
       ASSERT_mem (\<lambda>g. \<not> nodefer_finished g),
       bind get (\<lambda>g. if_then (nodefer_count g < 5) (block [
         incr nodefer_count (\<lambda>n. nodefer_count_update (\<lambda>_. n)),
         ignore (raise SIGUSR1)])),
       modify (nodefer_finished_update (\<lambda>_. True))])
     (Return ctx)"

definition nodefer_main :: "(nodefer, int) prog" where
  "nodefer_main =
     seq (block [
       ASSERT_ret (sigaction SIGUSR1 (handler_action (SA_SIGINFO OR SA_NODEFER) sigemptyset)) (\<lambda>r. r = 0),
       ignore (raise SIGUSR1),
       ASSERT_mem (\<lambda>g. nodefer_count g = 5)])
     (Return 0)"

definition nodefer_memory :: nodefer where
  "nodefer_memory = \<lparr>errno = 0, nodefer_finished = False, nodefer_count = 0\<rparr>"

lemmas nodefer_defs = nodefer_handler_def nodefer_main_def nodefer_memory_def

text \<open>
  Once a handler has finished, no further one may be entered: all entries come before the
  first return of a handler's \<^verbatim>\<open>raise\<close>.
\<close>

definition nested_marks :: "nat \<Rightarrow> nat \<Rightarrow> mark list" where
  "nested_marks n k = replicate n Entered @ replicate k Raised"

definition nodefer_state :: "bool \<Rightarrow> int \<Rightarrow> mark list \<Rightarrow> bool" where
  "nodefer_state fin c ms \<longleftrightarrow> (\<exists>n k. ms = nested_marks n k \<and> c = int (min n 5) \<and> n \<le> 6 \<and>
     (\<not> fin \<longrightarrow> k = 0 \<and> n \<le> 5))"

lemma nodefer_state_enter:
  assumes "nodefer_state False c ms"
  shows "nodefer_state (\<not> c < 5) (if c < 5 then c + 1 else c) (ms @ [Entered])"
proof -
  from assms obtain n where n: "ms = nested_marks n 0" "c = int (min n 5)" "n \<le> 5"
    by (auto simp: nodefer_state_def)
  then have "ms @ [Entered] = nested_marks (Suc n) 0"
    by (simp add: nested_marks_def replicate_append_same)
  with n show ?thesis unfolding nodefer_state_def
    by (intro exI [of _ "Suc n"] exI [of _ 0]) (auto simp: min_def)
qed

lemma nodefer_state_raise:
  assumes "nodefer_state fin c ms"
  shows "nodefer_state True c (ms @ [Raised])"
proof -
  from assms obtain n k where n: "ms = nested_marks n k" "c = int (min n 5)" "n \<le> 6"
    by (auto simp: nodefer_state_def)
  then have "ms @ [Raised] = nested_marks n (Suc k)"
    by (simp add: nested_marks_def replicate_append_same)
  with n show ?thesis unfolding nodefer_state_def by auto
qed

lemma nodefer_state_bounds: "nodefer_state fin c ms \<Longrightarrow> 0 \<le> c \<and> c \<le> 5"
  by (auto simp: nodefer_state_def)

definition nodefer_inv :: "nodefer \<Rightarrow> log \<Rightarrow> bool" where
  "nodefer_inv g l \<longleftrightarrow> nodefer_state (nodefer_finished g) (nodefer_count g) (marks l)"

definition nodefer_exit :: "int \<Rightarrow> nodefer \<Rightarrow> log \<Rightarrow> bool" where
  "nodefer_exit n g l \<longleftrightarrow> (n = 0 \<longrightarrow> (\<exists>k m. (k = 5 \<or> k = 6) \<and> marks l = nested_marks k m))"

lemmas nodefer_spec = nodefer_inv_def nodefer_exit_def

interpretation nodefer: env_invariant nodefer_handler nodefer_inv nodefer_exit
  by unfold_locales
    (auto simp: prog_unfold nodefer_defs nodefer_spec
       dest: nodefer_state_enter nodefer_state_raise)

lemma nodefer_state_5:
  assumes "nodefer_state fin 5 ms"
  shows "\<exists>k. (k = 5 \<or> k = 6) \<and> (\<exists>m. ms @ [Raised] = nested_marks k m)"
proof -
  from assms obtain n k where n: "ms = nested_marks n k" "int (min n 5) = 5" "n \<le> 6"
    by (auto simp: nodefer_state_def)
  then have "n = 5 \<or> n = 6" by linarith
  from n have "ms @ [Raised] = nested_marks n (Suc k)"
    by (simp add: nested_marks_def replicate_append_same)
  with \<open>n = 5 \<or> n = 6\<close> show ?thesis by auto
qed

lemma nodefer_state_0 [simp]: "nodefer_state False 0 []"
  by (auto simp: nodefer_state_def nested_marks_def)

lemma nodefer_main_wp:
  "wp nodefer_inv balanced nodefer_exit (\<lambda>_ _ _. False)
     nodefer_main (\<lambda>n. nodefer_exit n) nodefer_memory []"
  by (auto simp: prog_unfold nodefer_defs nodefer_spec intro!: nodefer_state_5)

text \<open>
  C10. If \<^verbatim>\<open>nodefer\<close> exits 0, then every entry of its handler came before the first return of a
  \<^verbatim>\<open>raise\<close>: the handlers were nested. The test does not tell five nested entries from six.
\<close>

theorem nodefer_verdict:
  assumes "trial nodefer_handler nodefer_main nodefer_memory mvs = Dead (Exited 0) g l"
  shows "\<exists>k m. (k = 5 \<or> k = 6) \<and> marks l = replicate k Entered @ replicate m Raised"
  using nodefer.open_env.verdict [OF nodefer_main_wp assms]
  by (simp add: nodefer_exit_def nested_marks_def)

lemma nodefer_linux:
  "linux_run (linux_init a pid uid heap) nodefer_handler nodefer_main nodefer_memory = Some 0"
  by (cases a; simp only:; code_simp)

theorem nodefer_verdict_witness:
  "\<exists>mvs g l. trial nodefer_handler nodefer_main nodefer_memory mvs = Dead (Exited 0) g l \<and>
     (\<exists>k m. (k = 5 \<or> k = 6) \<and> marks l = replicate k Entered @ replicate m Raised)"
  by (rule linux_witness [OF nodefer_linux [of X64 1 0 "[]"] nodefer_verdict])

section \<open>\<^verbatim>\<open>resethand.cpp\<close>\<close>

record resethand = memory +
  resethand_count :: int

definition resethand_handler ::
  "nat \<Rightarrow> signum \<Rightarrow> siginfo \<Rightarrow> ucontext \<Rightarrow> (resethand, ucontext) prog" where
  "resethand_handler h sig info ctx =
     seq (incr resethand_count (\<lambda>n. resethand_count_update (\<lambda>_. n))) (Return ctx)"

definition resethand_main :: "(resethand, int) prog" where
  "resethand_main =
     seq (block [
       ASSERT_ret (sigaction SIGURG (handler_action (SA_SIGINFO OR SA_RESETHAND) sigemptyset)) (\<lambda>r. r = 0),
       ignore (raise SIGURG),
       ignore (raise SIGURG),
       ASSERT_mem (\<lambda>g. resethand_count g = 1)])
     (Return 0)"

definition resethand_memory :: resethand where
  "resethand_memory = \<lparr>errno = 0, resethand_count = 0\<rparr>"

lemmas resethand_defs = resethand_handler_def resethand_main_def resethand_memory_def

definition resethand_inv :: "resethand \<Rightarrow> log \<Rightarrow> bool" where
  "resethand_inv g l \<longleftrightarrow> resethand_count g = int (length (handled l)) \<and> calls_ok checks_sigaction l"

definition resethand_exit :: "int \<Rightarrow> resethand \<Rightarrow> log \<Rightarrow> bool" where
  "resethand_exit n g l \<longleftrightarrow> (n = 0 \<longleftrightarrow> calls_ok checks_sigaction l \<and> length (handled l) = 1)"

lemmas resethand_spec = resethand_inv_def resethand_exit_def

interpretation resethand: env_invariant resethand_handler resethand_inv resethand_exit
  by unfold_locales (auto simp: prog_unfold resethand_defs resethand_spec)

lemma resethand_main_wp:
  "wp resethand_inv balanced resethand_exit (\<lambda>_ _ _. False)
     resethand_main (\<lambda>n. resethand_exit n) resethand_memory []"
  by (auto simp: prog_unfold resethand_defs resethand_spec)

text \<open>
  \<^verbatim>\<open>resethand\<close> exits 0 exactly when \<^verbatim>\<open>sigaction\<close> succeeds and its handler is entered once,
  although the signal is raised twice.
\<close>

lemma resethand_verdict:
  assumes "trial resethand_handler resethand_main resethand_memory mvs = Dead (Exited n) g l"
  shows "n = 0 \<longleftrightarrow> calls_ok checks_sigaction l \<and> length (handled l) = 1"
  using resethand.open_env.verdict [OF resethand_main_wp assms] by (simp add: resethand_exit_def)

lemma resethand_decided:
  "decides resethand_handler resethand_main resethand_memory
     (\<lambda>l. calls_ok checks_sigaction l \<and> length (handled l) = 1)"
  by (intro decidesI resethand_verdict)

lemma resethand_linux:
  "linux_run (linux_init a pid uid heap) resethand_handler resethand_main resethand_memory = Some 0"
  by (cases a; simp only:; code_simp)


text \<open>
  On the platform with the documented behaviour, on either target and with any process and user
  number, \<^verbatim>\<open>same-signal\<close>, \<^verbatim>\<open>nodefer\<close>,
  \<^verbatim>\<open>resethand\<close> run to their end and exit 0: they accept a correct
  platform.
\<close>

lemma nesting_accept_linux:
  "linux_run (linux_init a pid uid heap) same_signal_handler same_signal_main same_signal_memory
     = Some 0 \<and>
   linux_run (linux_init a pid uid heap) nodefer_handler nodefer_main nodefer_memory = Some 0 \<and>
   linux_run (linux_init a pid uid heap) resethand_handler resethand_main resethand_memory
     = Some 0"
  by (intro conjI same_signal_linux nodefer_linux resethand_linux)


end
