(* ===== verification/Interrupted.thy ===== *)
theory Interrupted
  imports Linux
begin

text \<open>
  What several tests check of a handler that has interrupted a system call: the result
  \<^verbatim>\<open>-EINTR\<close> in its context, and the bytes of the system call instruction before the
  context's instruction pointer.
\<close>

text \<open>The two bytes of the system call instruction before \<^verbatim>\<open>rip\<close>: \<^verbatim>\<open>syscall\<close> or \<^verbatim>\<open>int 0x80\<close>.\<close>

definition syscall_byte :: "arch \<Rightarrow> u64 \<Rightarrow> u8" where
  "syscall_byte a back = (case a of
      X64 \<Rightarrow> if back = 2 then 0x0f else 0x05
    | X86 \<Rightarrow> if back = 2 then 0xcd else 0x80)"

definition check_syscall_bytes :: "arch \<Rightarrow> ucontext \<Rightarrow> ('g, unit) prog" where
  "check_syscall_bytes a ctx = (let rip = to_ptr a (REG_RIP (gregs ctx)) in
     block [
       ASSERT_ret (load_byte (to_ptr a (rip - 2))) (\<lambda>b. b = syscall_byte a 2),
       ASSERT_ret (load_byte (to_ptr a (rip - 1))) (\<lambda>b. b = syscall_byte a 1)])"

text \<open>The program has read the byte \<open>b\<close> at the address \<open>x\<close>.\<close>

definition read_byte :: "log \<Rightarrow> u64 \<Rightarrow> u8 \<Rightarrow> bool" where
  "read_byte l x b \<longleftrightarrow> (\<exists>r. Ans (Load_byte x) r \<in> set l \<and> loaded r = b)"

lemma read_byte_Cons [simp]:
  "read_byte (e # l) x b \<longleftrightarrow> read_byte l x b \<or> (\<exists>r. e = Ans (Load_byte x) r \<and> loaded r = b)"
  by (auto simp: read_byte_def)

lemma read_byte_grows: "read_byte l x b \<Longrightarrow> grows l l' \<Longrightarrow> read_byte l' x b"
  by (auto simp: read_byte_def grows_def)

text \<open>The context's instruction pointer is behind a system call instruction the program has read.\<close>

definition after_syscall :: "arch \<Rightarrow> log \<Rightarrow> ucontext \<Rightarrow> bool" where
  "after_syscall a l c \<longleftrightarrow> (\<forall>back \<in> {1, 2}.
     read_byte l (to_ptr a (to_ptr a (REG_RIP (gregs c)) - back)) (syscall_byte a back))"

lemma after_syscall_Cons: "after_syscall a l c \<Longrightarrow> after_syscall a (e # l) c"
  by (auto simp: after_syscall_def)

lemma after_syscall_grows: "after_syscall a l c \<Longrightarrow> grows l l' \<Longrightarrow> after_syscall a l' c"
  by (auto simp: after_syscall_def intro: read_byte_grows)

lemma wp_check_syscall_bytes:
  assumes "I g l"
    and "\<And>g l x r. I g l \<Longrightarrow> I g (Ans (Load_byte x) r # l)"
    and "\<And>g l. X 1 g l"
    and "\<And>g' l'. grows l l' \<Longrightarrow> I g' l' \<Longrightarrow> active l' = active l \<Longrightarrow> after_syscall a l' c \<Longrightarrow> Q () g' l'"
  shows "wp I balanced X S (check_syscall_bytes a c) Q g l"
proof -
  let ?rip = "to_ptr a (REG_RIP (gregs c))"
  have "Q () g2 (Ans (Load_byte (to_ptr a (?rip - 1))) r1 # l2)"
    if "grows l l1" and "grows (Ans (Load_byte (to_ptr a (?rip - 2))) r2 # l1) l2"
      and "I g2 l2" and "active l2 = active l"
      and "loaded r2 = syscall_byte a 2" and "loaded r1 = syscall_byte a 1"
    for g2 l1 l2 r1 r2
  proof (rule assms(4))
    from that(2,5) have "read_byte l2 (to_ptr a (?rip - 2)) (syscall_byte a 2)"
      by (rule_tac read_byte_grows) simp_all
    with that(6) show "after_syscall a (Ans (Load_byte (to_ptr a (?rip - 1))) r1 # l2) c"
      by (simp add: after_syscall_def)
    from that(1,2) show "grows l (Ans (Load_byte (to_ptr a (?rip - 1))) r1 # l2)"
      by (blast intro: grows_Cons grows_ConsD grows_trans)
  qed (use that assms(2) in simp_all)
  then show ?thesis
    using assms(1-3) by (simp add: check_syscall_bytes_def prog_unfold Let_def)
qed

text \<open>
  A property of the contexts of the handlers that have returned, which the log up to the
  return establishes.
\<close>

definition each_return :: "(log \<Rightarrow> ucontext \<Rightarrow> bool) \<Rightarrow> log \<Rightarrow> bool" where
  "each_return P l \<longleftrightarrow> (\<forall>c \<in> set (returns l). P l c)"

lemma each_return_Nil [simp]: "each_return P []"
  by (simp add: each_return_def)

definition in_sigsuspend :: "arch \<Rightarrow> log \<Rightarrow> ucontext \<Rightarrow> bool" where
  "in_sigsuspend a l c \<longleftrightarrow> greg a (REG_RAX (gregs c)) = - EINTR \<and> after_syscall a l c"

lemma each_return_in_sigsuspend [intro!]:
  assumes "each_return (in_sigsuspend a) l" and "\<And>c. e = Ret c \<Longrightarrow> in_sigsuspend a l c"
  shows "each_return (in_sigsuspend a) (e # l)"
  using assms after_syscall_Cons
  by (cases e) (auto simp: each_return_def in_sigsuspend_def)

end
