(* ===== verification/Masks.thy ===== *)
theory Masks
  imports Interrupted
begin

text \<open>
  The tests of signal masks: \<^verbatim>\<open>block-rtmin\<close>, \<^verbatim>\<open>rt-sigaction-oldact\<close>, \<^verbatim>\<open>uc_mask\<close>,
  \<^verbatim>\<open>sigsuspend-mask\<close>, \<^verbatim>\<open>sigsuspend-multiple\<close>, \<^verbatim>\<open>sigwait-sigpending\<close>.
\<close>

text \<open>Every signal, and every signal that can be blocked.\<close>

definition full_mask :: u64 where
  "full_mask = - 1"

definition kill_bit :: u64 where
  "kill_bit = push_bit (nat (SIGKILL - 1)) 1"

definition stop_bit :: u64 where
  "stop_bit = push_bit (nat (SIGSTOP - 1)) 1"

section \<open>\<^verbatim>\<open>block-rtmin.cpp\<close>\<close>

definition block_rtmin_main :: "(memory, int) prog" where
  "block_rtmin_main =
     seq (ASSERT_ret (sysret (Rt_sigprocmask SIG_BLOCK (Some full_mask))) (\<lambda>r. r = 0))
     (bind (sysget (Rt_sigprocmask SIG_SETMASK None) r_set) (\<lambda>(r, old).
        seq (block [
          ASSERT (r = 0),
          ASSERT (old = full_mask AND NOT (kill_bit OR stop_bit))])
        (Return 0)))"

definition block_rtmin_exit :: "int \<Rightarrow> memory \<Rightarrow> log \<Rightarrow> bool" where
  "block_rtmin_exit n g l \<longleftrightarrow> (n = 0 \<longleftrightarrow>
     (\<exists>r1 r2. l = [Ans (Rt_sigprocmask SIG_SETMASK None) r2,
                   Ans (Rt_sigprocmask SIG_BLOCK (Some full_mask)) r1] \<and>
        ret r1 = 0 \<and> ret r2 = 0 \<and> r_set r2 = blockable (- 1)))"

lemma block_rtmin_main_wp:
  "wp (\<lambda>_ _. True) undisturbed block_rtmin_exit (\<lambda>_ _ _. False)
     block_rtmin_main (\<lambda>n. block_rtmin_exit n) \<lparr>errno = 0\<rparr> []"
  by (auto simp: prog_unfold block_rtmin_main_def block_rtmin_exit_def blockable_def full_mask_def
      kill_bit_def stop_bit_def sigbit_def)

lemma block_rtmin_linux:
  "linux_run (linux_init a pid uid heap) no_handlers block_rtmin_main \<lparr>errno = 0\<rparr> = Some 0"
  by (cases a; simp only:; code_simp)

section \<open>\<^verbatim>\<open>rt-sigaction-oldact.cpp\<close>\<close>

text \<open>
  \<^verbatim>\<open>dummy_handler\<close> is handler number 0; \<open>restorer\<close> is the address of
  \<^verbatim>\<open>dummy_restorer_impl\<close>. The program looks at the first word of the mask, an
  \<^verbatim>\<open>unsigned long\<close>: 64 bits, or 32 bits on the 32-bit target.
\<close>

definition rt_sigaction_oldact_act :: "u64 \<Rightarrow> sigact" where
  "rt_sigaction_oldact_act restorer =
     \<lparr>sa_sigaction = Handler 0, sa_flags = SA_RESTORER OR SA_NODEFER,
      sa_mask = push_bit (nat (SIGURG - 1)) 1, sa_restorer = restorer\<rparr>"

definition rt_sigaction_oldact_main :: "arch \<Rightarrow> u64 \<Rightarrow> (memory, int) prog" where
  "rt_sigaction_oldact_main a restorer =
     seq (ASSERT_ret (sysret (Rt_sigaction SIGPWR (Some (rt_sigaction_oldact_act restorer)))) (\<lambda>r. r = 0))
     (bind (sysget (Rt_sigaction SIGPWR None) r_act) (\<lambda>(r, old).
        seq (block [
          ASSERT (r = 0),
          ASSERT (sa_sigaction old = Handler 0),
          ASSERT (sa_flags old = SA_RESTORER OR SA_NODEFER),
          ASSERT (to_ptr a (sa_mask old) = push_bit (nat (SIGURG - 1)) 1),
          ASSERT (sa_restorer old = restorer)])
        (Return 0)))"

text \<open>The action reported back is the one installed, as far as the program looks.\<close>

definition rt_sigaction_oldact_log :: "arch \<Rightarrow> u64 \<Rightarrow> log \<Rightarrow> bool" where
  "rt_sigaction_oldact_log a restorer l \<longleftrightarrow> (\<exists>r1 r2. let act = rt_sigaction_oldact_act restorer in
     l = [Ans (Rt_sigaction SIGPWR None) r2, Ans (Rt_sigaction SIGPWR (Some act)) r1] \<and>
     ret r1 = 0 \<and> ret r2 = 0 \<and>
     (r_act r2)\<lparr>sa_mask := to_ptr a (sa_mask (r_act r2))\<rparr> = act)"

definition rt_sigaction_oldact_exit :: "arch \<Rightarrow> u64 \<Rightarrow> int \<Rightarrow> memory \<Rightarrow> log \<Rightarrow> bool" where
  "rt_sigaction_oldact_exit a restorer n g l \<longleftrightarrow> (n = 0 \<longleftrightarrow> rt_sigaction_oldact_log a restorer l)"

lemma rt_sigaction_oldact_main_wp:
  "wp (\<lambda>_ _. True) undisturbed (rt_sigaction_oldact_exit a restorer) (\<lambda>_ _ _. False)
     (rt_sigaction_oldact_main a restorer) (\<lambda>n. rt_sigaction_oldact_exit a restorer n) \<lparr>errno = 0\<rparr> []"
  by (auto simp: prog_unfold rt_sigaction_oldact_main_def rt_sigaction_oldact_exit_def
      rt_sigaction_oldact_log_def rt_sigaction_oldact_act_def Let_def sigact.defs
      intro: sigact.equality)

lemma rt_sigaction_oldact_linux:
  "linux_run (linux_init a pid uid heap) no_handlers (rt_sigaction_oldact_main a restorer) \<lparr>errno = 0\<rparr>
     = Some 0"
  by (cases a; simp only:; code_simp)

lemma block_rtmin_decides:
  "decides no_handlers block_rtmin_main \<lparr>errno = 0\<rparr>
     (\<lambda>l. \<exists>r1 r2. l = [Ans (Rt_sigprocmask SIG_SETMASK None) r2,
                       Ans (Rt_sigprocmask SIG_BLOCK (Some full_mask)) r1] \<and>
        ret r1 = 0 \<and> ret r2 = 0 \<and> r_set r2 = blockable (- 1))"
  by (rule decidesI)
    (use plain_verdict [OF block_rtmin_main_wp] in \<open>simp add: block_rtmin_exit_def\<close>)

lemma rt_sigaction_oldact_decides:
  "decides no_handlers (rt_sigaction_oldact_main a restorer) \<lparr>errno = 0\<rparr>
     (rt_sigaction_oldact_log a restorer)"
  by (rule decidesI)
    (use plain_verdict [OF rt_sigaction_oldact_main_wp] in \<open>simp add: rt_sigaction_oldact_exit_def\<close>)

text \<open>
  \<^verbatim>\<open>block-rtmin\<close> exits 0 exactly when the platform blocks every signal but \<^verbatim>\<open>SIGKILL\<close> and
  \<^verbatim>\<open>SIGSTOP\<close> on request, the library's own two included, and reports that mask;
  \<^verbatim>\<open>rt-sigaction-oldact\<close> exactly when the platform reports the action installed, its handler, flags, mask and
  restorer.
\<close>

lemma raw_calls_decided:
  "decides no_handlers block_rtmin_main \<lparr>errno = 0\<rparr>
     (\<lambda>l. \<exists>r1 r2. l = [Ans (Rt_sigprocmask SIG_SETMASK None) r2,
                       Ans (Rt_sigprocmask SIG_BLOCK (Some full_mask)) r1] \<and>
        ret r1 = 0 \<and> ret r2 = 0 \<and> r_set r2 = blockable (- 1)) \<and>
   decides no_handlers (rt_sigaction_oldact_main a restorer) \<lparr>errno = 0\<rparr>
     (rt_sigaction_oldact_log a restorer)"
  by (intro conjI block_rtmin_decides rt_sigaction_oldact_decides)

section \<open>\<^verbatim>\<open>uc_mask.cpp\<close>\<close>

definition uc_mask_handler ::
  "nat \<Rightarrow> signum \<Rightarrow> siginfo \<Rightarrow> ucontext \<Rightarrow> (memory, ucontext) prog" where
  "uc_mask_handler h sig info ctx =
     seq (block [
       ASSERT (\<not> sigismember (uc_sigmask ctx) SIGURG),
       bind (sigprocmask_query SIG_SETMASK) (\<lambda>(r, current). ASSERT (sigismember current SIGURG))])
     (Return ctx)"

definition uc_mask_main :: "(memory, int) prog" where
  "uc_mask_main =
     seq (block [
       ASSERT_ret (sigaction SIGUSR1 (handler_action SA_SIGINFO (sigaddset sigemptyset SIGURG))) (\<lambda>r. r = 0),
       ignore (raise SIGUSR1),
       bind (sigprocmask_query SIG_SETMASK) (\<lambda>(r, current). ASSERT (\<not> sigismember current SIGURG))])
     (Return 0)"

lemmas uc_mask_defs = uc_mask_handler_def uc_mask_main_def

text \<open>The masks the program has asked for, oldest first, each with the number of handlers running.\<close>

fun mask_views :: "log \<Rightarrow> (int \<times> sigset) list" where
  "mask_views [] = []"
| "mask_views (Ans (Rt_sigprocmask h None) r # l) = mask_views l @ [(active l, r_set r)]"
| "mask_views (e # l) = mask_views l"

definition uc_mask_seen :: "log \<Rightarrow> bool" where
  "uc_mask_seen l \<longleftrightarrow> calls_ok checks_sigaction l \<and>
     (\<forall>(s, i, c) \<in> set (handled l). \<not> sigismember (uc_sigmask c) SIGURG) \<and>
     (\<forall>(d, m) \<in> set (mask_views l). sigismember m SIGURG \<longleftrightarrow> 0 < d)"

definition uc_mask_inv :: "memory \<Rightarrow> log \<Rightarrow> bool" where
  "uc_mask_inv g l \<longleftrightarrow> uc_mask_seen l \<and> 0 \<le> active l"

definition uc_mask_exit :: "int \<Rightarrow> memory \<Rightarrow> log \<Rightarrow> bool" where
  "uc_mask_exit n g l \<longleftrightarrow> (n = 0 \<longleftrightarrow> uc_mask_seen l)"

lemmas uc_mask_spec = uc_mask_inv_def uc_mask_exit_def uc_mask_seen_def

interpretation uc_mask: env_invariant uc_mask_handler uc_mask_inv uc_mask_exit
  by unfold_locales (auto simp: prog_unfold uc_mask_defs uc_mask_spec)

lemma uc_mask_main_wp:
  "wp uc_mask_inv balanced uc_mask_exit (\<lambda>_ _ _. False)
     uc_mask_main (\<lambda>n. uc_mask_exit n) \<lparr>errno = 0\<rparr> []"
  by (auto simp: prog_unfold uc_mask_defs uc_mask_spec)

text \<open>
  \<^verbatim>\<open>uc_mask\<close> exits 0 exactly when \<^verbatim>\<open>sigaction\<close> succeeds, no context a handler is given has
  \<^verbatim>\<open>SIGURG\<close> blocked, and a query of the mask shows \<^verbatim>\<open>SIGURG\<close> blocked just when a handler makes it.
\<close>

lemma uc_mask_verdict:
  assumes "trial uc_mask_handler uc_mask_main \<lparr>errno = 0\<rparr> mvs = Dead (Exited n) g l"
  shows "n = 0 \<longleftrightarrow> calls_ok checks_sigaction l \<and>
    (\<forall>(s, i, c) \<in> set (handled l). \<not> sigismember (uc_sigmask c) SIGURG) \<and>
    (\<forall>(d, m) \<in> set (mask_views l). sigismember m SIGURG \<longleftrightarrow> 0 < d)"
  using uc_mask.open_env.verdict [OF uc_mask_main_wp assms]
  by (simp only: uc_mask_exit_def uc_mask_seen_def)

lemma uc_mask_decided:
  "decides uc_mask_handler uc_mask_main \<lparr>errno = 0\<rparr> uc_mask_seen"
  unfolding uc_mask_seen_def by (intro decidesI uc_mask_verdict)

lemma uc_mask_linux:
  "linux_run (linux_init a pid uid heap) uc_mask_handler uc_mask_main \<lparr>errno = 0\<rparr> = Some 0"
  by (cases a; simp only:; code_simp)

section \<open>\<^verbatim>\<open>sigsuspend-mask.cpp\<close>\<close>

record sigsuspend_mask = memory +
  sigsuspend_mask_ok :: bool

definition sigsuspend_mask_handler ::
  "arch \<Rightarrow> nat \<Rightarrow> signum \<Rightarrow> siginfo \<Rightarrow> ucontext \<Rightarrow> (sigsuspend_mask, ucontext) prog" where
  "sigsuspend_mask_handler a h sig info ctx =
     seq (block [
       modify (sigsuspend_mask_ok_update (\<lambda>_. True)),
       ASSERT (greg a (REG_RAX (gregs ctx)) = - EINTR),
       check_syscall_bytes a ctx,
       ASSERT (uc_sigmask ctx = full_mask AND NOT (kill_bit OR stop_bit))])
     (Return ctx)"

definition sigsuspend_mask_main :: "(sigsuspend_mask, int) prog" where
  "sigsuspend_mask_main =
     seq (block [
       ASSERT_ret (sigaction SIGUSR1 (handler_action SA_SIGINFO sigfillset)) (\<lambda>r. r = 0),
       ASSERT_ret (sysret (Rt_sigprocmask SIG_BLOCK (Some full_mask))) (\<lambda>r. r = 0),
       ASSERT_ret (raise SIGUSR1) (\<lambda>r. r = 0),
       ignore (sysret (Rt_sigsuspend 0)),
       ASSERT_mem sigsuspend_mask_ok])
     (Return 0)"

definition sigsuspend_mask_memory :: sigsuspend_mask where
  "sigsuspend_mask_memory = \<lparr>errno = 0, sigsuspend_mask_ok = False\<rparr>"

lemmas sigsuspend_mask_defs = sigsuspend_mask_handler_def sigsuspend_mask_main_def
  sigsuspend_mask_memory_def

fun sigsuspend_checked :: "req \<Rightarrow> bool" where
  "sigsuspend_checked (Rt_sigaction s a) = True"
| "sigsuspend_checked (Rt_sigprocmask h m) = True"
| "sigsuspend_checked (Raise s) = True"
| "sigsuspend_checked _ = False"

text \<open>The mask of a context is the one the thread had before \<^verbatim>\<open>sigsuspend\<close> replaced it.\<close>

definition masks_restored :: "log \<Rightarrow> bool" where
  "masks_restored l \<longleftrightarrow> (\<forall>c \<in> set (returns l). uc_sigmask c = blockable (- 1))"

lemma masks_restored_simps [simp]:
  "masks_restored []"
  "masks_restored (e # l) \<longleftrightarrow>
     masks_restored l \<and> (\<forall>c. e = Ret c \<longrightarrow> uc_sigmask c = blockable (- 1))"
  by (simp_all add: masks_restored_def) (cases e; auto)

definition sigsuspend_mask_inv :: "arch \<Rightarrow> sigsuspend_mask \<Rightarrow> log \<Rightarrow> bool" where
  "sigsuspend_mask_inv a g l \<longleftrightarrow> calls_ok sigsuspend_checked l \<and>
     each_return (in_sigsuspend a) l \<and> masks_restored l \<and>
     (sigsuspend_mask_ok g \<longrightarrow> handled l \<noteq> [])"

definition sigsuspend_mask_exit :: "arch \<Rightarrow> int \<Rightarrow> sigsuspend_mask \<Rightarrow> log \<Rightarrow> bool" where
  "sigsuspend_mask_exit a n g l \<longleftrightarrow> (n = 0 \<longrightarrow> calls_ok sigsuspend_checked l \<and>
     handled l \<noteq> [] \<and> active l = 0 \<and> each_return (in_sigsuspend a) l \<and> masks_restored l)"

lemmas sigsuspend_mask_spec = sigsuspend_mask_inv_def sigsuspend_mask_exit_def

lemma full_but_unblockable: "full_mask AND NOT kill_bit AND NOT stop_bit = blockable (- 1)"
  by (simp add: full_mask_def kill_bit_def stop_bit_def blockable_def sigbit_def)

interpretation sigsuspend_mask: env_invariant "sigsuspend_mask_handler a" "sigsuspend_mask_inv a"
    "sigsuspend_mask_exit a" for a
  by unfold_locales
    (auto simp: prog_unfold sigsuspend_mask_defs sigsuspend_mask_spec full_but_unblockable
       in_sigsuspend_def intro!: wp_check_syscall_bytes intro: after_syscall_grows)

lemma sigsuspend_mask_main_wp:
  "wp (sigsuspend_mask_inv a) balanced (sigsuspend_mask_exit a) (\<lambda>_ _ _. False)
     sigsuspend_mask_main (\<lambda>n. sigsuspend_mask_exit a n) sigsuspend_mask_memory []"
  by (auto simp: prog_unfold sigsuspend_mask_defs sigsuspend_mask_spec)

text \<open>
  C3. If \<^verbatim>\<open>sigsuspend-mask\<close> exits 0, then the checked calls succeeded, its handler was entered, and every
  handler returned with a context of a system call interrupted with \<^verbatim>\<open>EINTR\<close> (the program has read the
  bytes of the system call instruction before its instruction pointer), whose mask is the thread's and not
  the one of \<^verbatim>\<open>sigsuspend\<close>: every signal but \<^verbatim>\<open>SIGKILL\<close> and \<^verbatim>\<open>SIGSTOP\<close>.
\<close>

theorem sigsuspend_mask_verdict:
  assumes "trial (sigsuspend_mask_handler a) sigsuspend_mask_main sigsuspend_mask_memory mvs
    = Dead (Exited 0) g l"
  shows "calls_ok sigsuspend_checked l \<and> handled l \<noteq> [] \<and> active l = 0 \<and>
    (\<forall>c \<in> set (returns l). in_sigsuspend a l c \<and> uc_sigmask c = blockable (- 1))"
  using sigsuspend_mask.open_env.verdict [OF sigsuspend_mask_main_wp assms]
  by (simp add: sigsuspend_mask_exit_def each_return_def masks_restored_def)

lemma sigsuspend_mask_linux:
  "linux_run (linux_init a pid uid heap) (sigsuspend_mask_handler a) sigsuspend_mask_main
     sigsuspend_mask_memory = Some 0"
  by (cases a; simp only:; code_simp)

theorem sigsuspend_mask_verdict_witness:
  "\<exists>mvs g l. trial (sigsuspend_mask_handler X64) sigsuspend_mask_main sigsuspend_mask_memory mvs
      = Dead (Exited 0) g l \<and>
    (calls_ok sigsuspend_checked l \<and> handled l \<noteq> [] \<and> active l = 0 \<and>
     (\<forall>c \<in> set (returns l). in_sigsuspend X64 l c \<and> uc_sigmask c = blockable (- 1)))"
  by (rule linux_witness [OF sigsuspend_mask_linux [of X64 1 0 "[]"] sigsuspend_mask_verdict])

section \<open>\<^verbatim>\<open>sigsuspend-multiple.cpp\<close>\<close>

record sigsuspend_multiple = memory +
  sigsuspend_multiple_count :: int

definition sigsuspend_multiple_handler ::
  "arch \<Rightarrow> nat \<Rightarrow> signum \<Rightarrow> siginfo \<Rightarrow> ucontext \<Rightarrow> (sigsuspend_multiple, ucontext) prog" where
  "sigsuspend_multiple_handler a h sig info ctx =
     seq (block [
       incr sigsuspend_multiple_count (\<lambda>n. sigsuspend_multiple_count_update (\<lambda>_. n)),
       ASSERT (greg a (REG_RAX (gregs ctx)) = - EINTR),
       check_syscall_bytes a ctx])
     (Return ctx)"

definition sigsuspend_multiple_main :: "(sigsuspend_multiple, int) prog" where
  "sigsuspend_multiple_main =
     seq (block [
       ASSERT_ret (sigaction SIGUSR1 (handler_action SA_SIGINFO sigfillset)) (\<lambda>r. r = 0),
       ASSERT_ret (sigaction SIGUSR2 (handler_action SA_SIGINFO sigfillset)) (\<lambda>r. r = 0),
       ASSERT_ret (sigaction SIGURG (handler_action SA_SIGINFO sigfillset)) (\<lambda>r. r = 0),
       ASSERT_ret (sigaction 40 (handler_action SA_SIGINFO sigfillset)) (\<lambda>r. r = 0),
       ASSERT_ret (sysret (Rt_sigprocmask SIG_BLOCK (Some full_mask))) (\<lambda>r. r = 0),
       ASSERT_ret (raise SIGUSR1) (\<lambda>r. r = 0),
       ASSERT_ret (raise SIGUSR2) (\<lambda>r. r = 0),
       ASSERT_ret (raise SIGURG) (\<lambda>r. r = 0),
       ASSERT_ret (raise 40) (\<lambda>r. r = 0),
       ignore (sysret (Rt_sigsuspend 0)),
       ASSERT_mem (\<lambda>g. sigsuspend_multiple_count g = 1)])
     (Return 0)"

definition sigsuspend_multiple_memory :: sigsuspend_multiple where
  "sigsuspend_multiple_memory = \<lparr>errno = 0, sigsuspend_multiple_count = 0\<rparr>"

lemmas sigsuspend_multiple_defs = sigsuspend_multiple_handler_def sigsuspend_multiple_main_def
  sigsuspend_multiple_memory_def

definition sigsuspend_multiple_inv :: "arch \<Rightarrow> sigsuspend_multiple \<Rightarrow> log \<Rightarrow> bool" where
  "sigsuspend_multiple_inv a g l \<longleftrightarrow> calls_ok sigsuspend_checked l \<and>
     each_return (in_sigsuspend a) l \<and> sigsuspend_multiple_count g = int (length (handled l))"

definition sigsuspend_multiple_exit :: "arch \<Rightarrow> int \<Rightarrow> sigsuspend_multiple \<Rightarrow> log \<Rightarrow> bool" where
  "sigsuspend_multiple_exit a n g l \<longleftrightarrow> (n = 0 \<longrightarrow> calls_ok sigsuspend_checked l \<and>
     length (handled l) = 1 \<and> active l = 0 \<and> each_return (in_sigsuspend a) l)"

lemmas sigsuspend_multiple_spec = sigsuspend_multiple_inv_def sigsuspend_multiple_exit_def

interpretation sigsuspend_multiple: env_invariant "sigsuspend_multiple_handler a"
    "sigsuspend_multiple_inv a" "sigsuspend_multiple_exit a" for a
  by unfold_locales
    (auto simp: prog_unfold sigsuspend_multiple_defs sigsuspend_multiple_spec in_sigsuspend_def
       intro!: wp_check_syscall_bytes intro: after_syscall_grows)

lemma sigsuspend_multiple_main_wp:
  "wp (sigsuspend_multiple_inv a) balanced (sigsuspend_multiple_exit a) (\<lambda>_ _ _. False)
     sigsuspend_multiple_main (\<lambda>n. sigsuspend_multiple_exit a n) sigsuspend_multiple_memory []"
  by (auto simp: prog_unfold sigsuspend_multiple_defs sigsuspend_multiple_spec)

text \<open>
  C19. If \<^verbatim>\<open>sigsuspend-multiple\<close> exits 0, then of its four pending signals exactly one was handled, and
  its handler interrupted a system call with \<^verbatim>\<open>EINTR\<close>.
\<close>

theorem sigsuspend_multiple_verdict:
  assumes "trial (sigsuspend_multiple_handler a) sigsuspend_multiple_main sigsuspend_multiple_memory mvs
    = Dead (Exited 0) g l"
  shows "calls_ok sigsuspend_checked l \<and> length (handled l) = 1 \<and>
    (\<exists>c. returns l = [c] \<and> in_sigsuspend a l c)"
  using sigsuspend_multiple.open_env.verdict [OF sigsuspend_multiple_main_wp assms]
  by (cases "returns l") (auto simp: sigsuspend_multiple_exit_def each_return_def active_def)

lemma sigsuspend_multiple_linux:
  "linux_run (linux_init a pid uid heap) (sigsuspend_multiple_handler a) sigsuspend_multiple_main
     sigsuspend_multiple_memory = Some 0"
  by (cases a; simp only:; code_simp)

theorem sigsuspend_multiple_verdict_witness:
  "\<exists>mvs g l. trial (sigsuspend_multiple_handler X64) sigsuspend_multiple_main sigsuspend_multiple_memory mvs
      = Dead (Exited 0) g l \<and>
    (calls_ok sigsuspend_checked l \<and> length (handled l) = 1 \<and> (\<exists>c. returns l = [c]
     \<and> in_sigsuspend X64 l c))"
  by (rule linux_witness [OF sigsuspend_multiple_linux [of X64 1 0 "[]"] sigsuspend_multiple_verdict])

section \<open>\<^verbatim>\<open>sigwait-sigpending.cpp\<close>\<close>

abbreviation (input) rtsig :: signum where "rtsig \<equiv> SIGRTMIN + 3"

definition sigwait_set :: sigset where
  "sigwait_set = sigaddset (sigaddset sigemptyset SIGUSR1) rtsig"

definition sigwait_sigpending_main :: "(memory, int) prog" where
  "sigwait_sigpending_main =
     seq (block [
       ASSERT_ret (sigprocmask SIG_BLOCK sigwait_set) (\<lambda>r. r = 0),
       ASSERT_ret (bind getpid (\<lambda>p. sigqueue p rtsig (of_sival_int 0x1234))) (\<lambda>r. r = 0),
       bind sigpending (\<lambda>(r, pending). block [
         ASSERT (r = 0),
         ASSERT (sigismember pending rtsig),
         ASSERT (\<not> sigismember pending SIGUSR1)]),
       bind (sigwaitinfo sigwait_set) (\<lambda>(r, si). block [
         ASSERT (r = rtsig),
         ASSERT (si_signo si = rtsig),
         ASSERT (si_code si = SI_QUEUE),
         ASSERT (sival_int (si_value si) = 0x1234),
         ASSERT_ret getpid (\<lambda>p. si_pid si = p)]),
       bind sigpending (\<lambda>(r, pending). block [
         ASSERT (r = 0),
         ASSERT (\<not> sigismember pending rtsig)]),
       set_errno 0,
       bind (sigtimedwait sigwait_set) (\<lambda>(r, si). block [
         ASSERT (r = - 1),
         ASSERT_mem (\<lambda>g. errno g = EAGAIN)])])
     (Return 0)"

text \<open>The log of a run, oldest first, and what its answers must be.\<close>

definition sigwait_sigpending_log :: "log \<Rightarrow> bool" where
  "sigwait_sigpending_log l \<longleftrightarrow>
     (\<exists>block p me uid queued pending1 got p' pending2 none.
        rev l = [
          Ans (Rt_sigprocmask SIG_BLOCK (Some sigwait_set)) block,
          Ans Getpid p, Ans Getpid me, Ans Getuid uid,
          Ans (Rt_sigqueueinfo (ret p) rtsig
            (queue_info rtsig (ret me) (ret uid) (of_sival_int 0x1234))) queued,
          Ans Rt_sigpending pending1,
          Ans (Rt_sigtimedwait sigwait_set False) got, Ans Getpid p',
          Ans Rt_sigpending pending2,
          Ans (Rt_sigtimedwait sigwait_set True) none] \<and>
        ret block = 0 \<and> ret queued = 0 \<and>
        ret pending1 = 0 \<and> sigismember (r_set pending1) rtsig \<and>
        \<not> sigismember (r_set pending1) SIGUSR1 \<and>
        ret got = rtsig \<and> si_signo (r_info got) = rtsig \<and> si_code (r_info got) = SI_QUEUE \<and>
        sival_int (si_value (r_info got)) = 0x1234 \<and> si_pid (r_info got) = ret p' \<and>
        ret pending2 = 0 \<and> \<not> sigismember (r_set pending2) rtsig \<and>
        ret none = - EAGAIN)"

definition sigwait_sigpending_exit :: "int \<Rightarrow> memory \<Rightarrow> log \<Rightarrow> bool" where
  "sigwait_sigpending_exit n g l \<longleftrightarrow> (n = 0 \<longleftrightarrow> sigwait_sigpending_log l)"

lemma sigwait_set_external: "sigwait_set AND NOT internal_signals = sigwait_set"
  by (simp add: sigwait_set_def sigaddset_def sigemptyset_def internal_signals_def sigbit_def)

lemma sigwait_sigpending_main_wp:
  "wp (\<lambda>_ _. True) undisturbed sigwait_sigpending_exit (\<lambda>_ _ _. False)
     sigwait_sigpending_main (\<lambda>n. sigwait_sigpending_exit n) \<lparr>errno = 0\<rparr> []"
  by (auto simp: prog_unfold sigwait_sigpending_main_def sigwait_sigpending_exit_def
      sigwait_sigpending_log_def sigwait_set_external is_error_def)

text \<open>
  C18. \<^verbatim>\<open>sigwait-sigpending\<close> exits 0 exactly on the answers a correct queue gives: the signal queued is
  pending and the other is not, \<^verbatim>\<open>sigwaitinfo\<close> returns it with its number, code, payload and sender, it is
  not pending any more, and \<^verbatim>\<open>sigtimedwait\<close> then fails with \<^verbatim>\<open>EAGAIN\<close>.
\<close>

theorem sigwait_sigpending_verdict:
  assumes "trial no_handlers sigwait_sigpending_main \<lparr>errno = 0\<rparr> mvs = Dead (Exited n) g l"
  shows "n = 0 \<longleftrightarrow> sigwait_sigpending_log l"
  using plain_verdict [OF sigwait_sigpending_main_wp assms] by (simp add: sigwait_sigpending_exit_def)

lemma sigwait_sigpending_linux:
  "linux_run (linux_init a pid uid heap) no_handlers sigwait_sigpending_main \<lparr>errno = 0\<rparr> = Some 0"
  by (cases a; simp only:; code_simp)

theorem sigwait_sigpending_verdict_witness:
  "\<exists>mvs g l. trial no_handlers sigwait_sigpending_main \<lparr>errno = 0\<rparr> mvs
      = Dead (Exited 0) g l \<and>
    ((0::int) = 0 \<longleftrightarrow> sigwait_sigpending_log l)"
  by (rule linux_witness [OF sigwait_sigpending_linux [of X64 1 0 "[]"] sigwait_sigpending_verdict])


text \<open>
  On the platform with the documented behaviour, on either target and with any process and user
  number, \<^verbatim>\<open>block-rtmin\<close>, \<^verbatim>\<open>rt-sigaction-oldact\<close>,
  \<^verbatim>\<open>uc_mask\<close>, \<^verbatim>\<open>sigsuspend-mask\<close>,
  \<^verbatim>\<open>sigsuspend-multiple\<close>, \<^verbatim>\<open>sigwait-sigpending\<close>
  run to their end and exit 0: they accept a correct platform.
\<close>

lemma masks_accept_linux:
  "linux_run (linux_init a pid uid heap) no_handlers block_rtmin_main \<lparr>errno = 0\<rparr>
     = Some 0 \<and>
   linux_run (linux_init a pid uid heap) no_handlers (rt_sigaction_oldact_main a restorer) \<lparr>errno = 0\<rparr>
     = Some 0 \<and>
   linux_run (linux_init a pid uid heap) uc_mask_handler uc_mask_main \<lparr>errno = 0\<rparr>
     = Some 0 \<and>
   linux_run (linux_init a pid uid heap) (sigsuspend_mask_handler a) sigsuspend_mask_main sigsuspend_mask_memory
     = Some 0 \<and>
   linux_run (linux_init a pid uid heap) (sigsuspend_multiple_handler a) sigsuspend_multiple_main sigsuspend_multiple_memory
     = Some 0 \<and>
   linux_run (linux_init a pid uid heap) no_handlers sigwait_sigpending_main \<lparr>errno = 0\<rparr>
     = Some 0"
  by (intro conjI block_rtmin_linux rt_sigaction_oldact_linux uc_mask_linux sigsuspend_mask_linux sigsuspend_multiple_linux sigwait_sigpending_linux)



text \<open>
  \<^verbatim>\<open>uc_mask\<close> cannot tell whether its signal is delivered: it also exits 0 on a platform that
  answers every call with success and never enters a handler.
\<close>

lemma uc_mask_blind:
  "\<exists>g l. trial uc_mask_handler uc_mask_main \<lparr>errno = 0\<rparr>
       [Answer resp0, Answer resp0, Answer resp0] = Dead (Exited 0) g l \<and> handled l = []"
  by (simp add: trial_def boot_def prog_unfold uc_mask_defs sys_def resp0_def sigismember_def)

end
