(* ===== verification/Contexts.thy ===== *)
theory Contexts
  imports Linux
begin

text \<open>
  The tests of what a handler finds in its context and in the flags register: \<^verbatim>\<open>uc-flags\<close>,
  \<^verbatim>\<open>uc-oldmask\<close>, \<^verbatim>\<open>sigcontext-segments\<close>, \<^verbatim>\<open>segments\<close>, \<^verbatim>\<open>df-reset\<close>.
\<close>

section \<open>\<^verbatim>\<open>uc-flags.cpp\<close>\<close>

abbreviation (input) UC_FP_XSTATE :: u64 where "UC_FP_XSTATE \<equiv> 0x1"
abbreviation (input) UC_SIGCONTEXT_SS :: u64 where "UC_SIGCONTEXT_SS \<equiv> 0x2"
abbreviation (input) UC_STRICT_RESTORE_SS :: u64 where "UC_STRICT_RESTORE_SS \<equiv> 0x4"

record uc_flags_test = memory +
  uc_flags_ran :: bool

definition uc_flags_handler ::
  "arch \<Rightarrow> nat \<Rightarrow> signum \<Rightarrow> siginfo \<Rightarrow> ucontext \<Rightarrow> (uc_flags_test, ucontext) prog" where
  "uc_flags_handler a h sig info ctx =
     seq (block [
       modify (uc_flags_ran_update (\<lambda>_. True)),
       ASSERT (has_flag (uc_flags ctx) UC_FP_XSTATE),
       (case a of
          X64 \<Rightarrow> block [
            ASSERT (has_flag (uc_flags ctx) UC_SIGCONTEXT_SS),
            ASSERT (has_flag (uc_flags ctx) UC_STRICT_RESTORE_SS)]
        | X86 \<Rightarrow> skip)])
     (Return ctx)"

definition uc_flags_main :: "(uc_flags_test, int) prog" where
  "uc_flags_main =
     seq (block [
       ASSERT_ret (sigaction SIGUSR1 (handler_action SA_SIGINFO sigemptyset)) (\<lambda>r. r = 0),
       ignore (raise SIGUSR1),
       ASSERT_mem uc_flags_ran])
     (Return 0)"

definition uc_flags_memory :: uc_flags_test where
  "uc_flags_memory = \<lparr>errno = 0, uc_flags_ran = False\<rparr>"

lemmas uc_flags_defs = uc_flags_handler_def uc_flags_main_def uc_flags_memory_def

definition uc_flags_expected :: "arch \<Rightarrow> u64 \<Rightarrow> bool" where
  "uc_flags_expected a w \<longleftrightarrow> has_flag w UC_FP_XSTATE \<and>
     (a = X64 \<longrightarrow> has_flag w UC_SIGCONTEXT_SS \<and> has_flag w UC_STRICT_RESTORE_SS)"

definition uc_flags_seen :: "arch \<Rightarrow> log \<Rightarrow> bool" where
  "uc_flags_seen a l \<longleftrightarrow> calls_ok checks_sigaction l \<and>
     (\<forall>(s, i, c) \<in> set (handled l). uc_flags_expected a (uc_flags c))"

definition uc_flags_inv :: "arch \<Rightarrow> uc_flags_test \<Rightarrow> log \<Rightarrow> bool" where
  "uc_flags_inv a g l \<longleftrightarrow> uc_flags_seen a l \<and> uc_flags_ran g = (handled l \<noteq> [])"

definition uc_flags_exit :: "arch \<Rightarrow> int \<Rightarrow> uc_flags_test \<Rightarrow> log \<Rightarrow> bool" where
  "uc_flags_exit a n g l \<longleftrightarrow> (n = 0 \<longleftrightarrow> uc_flags_seen a l \<and> handled l \<noteq> [])"

lemmas uc_flags_spec = uc_flags_inv_def uc_flags_exit_def uc_flags_seen_def uc_flags_expected_def

interpretation uc_flags: env_invariant "uc_flags_handler a" "uc_flags_inv a" "uc_flags_exit a" for a
  by unfold_locales (cases a; auto simp: prog_unfold uc_flags_defs uc_flags_spec)

lemma uc_flags_main_wp:
  "wp (uc_flags_inv a) balanced (uc_flags_exit a) (\<lambda>_ _ _. False)
     uc_flags_main (\<lambda>n. uc_flags_exit a n) uc_flags_memory []"
  by (auto simp: prog_unfold uc_flags_defs uc_flags_spec)

text \<open>
  \<^verbatim>\<open>uc-flags\<close> exits 0 exactly when \<^verbatim>\<open>sigaction\<close> succeeds, its handler is entered, and the flags of
  every context have the extended state bit and, on the 64-bit target, both stack segment bits.
\<close>

lemma uc_flags_verdict:
  assumes "trial (uc_flags_handler a) uc_flags_main uc_flags_memory mvs = Dead (Exited n) g l"
  shows "n = 0 \<longleftrightarrow> uc_flags_seen a l \<and> handled l \<noteq> []"
  using uc_flags.open_env.verdict [OF uc_flags_main_wp assms]
  by (simp add: uc_flags_exit_def)

lemma uc_flags_linux:
  "linux_run (linux_init a pid uid heap) (uc_flags_handler a) uc_flags_main uc_flags_memory = Some 0"
  by (cases a; simp only:; code_simp)

section \<open>\<^verbatim>\<open>uc-oldmask.cpp\<close>\<close>

record uc_oldmask = memory +
  uc_oldmask_ran :: bool
  expected_mask :: u64

definition uc_oldmask_handler ::
  "arch \<Rightarrow> nat \<Rightarrow> signum \<Rightarrow> siginfo \<Rightarrow> ucontext \<Rightarrow> (uc_oldmask, ucontext) prog" where
  "uc_oldmask_handler a h sig info ctx =
     seq (block [
       modify (uc_oldmask_ran_update (\<lambda>_. True)),
       ASSERT_mem (\<lambda>g. to_ptr a (REG_OLDMASK (gregs ctx)) = expected_mask g)])
     (Return ctx)"

definition uc_oldmask_main :: "(uc_oldmask, int) prog" where
  "uc_oldmask_main =
     seq (block [
       ASSERT_ret (sigprocmask SIG_BLOCK (sigaddset (sigaddset sigemptyset SIGURG) SIGVTALRM)) (\<lambda>r. r = 0),
       modify (expected_mask_update (\<lambda>_.
         push_bit (nat (SIGURG - 1)) 1 OR push_bit (nat (SIGVTALRM - 1)) 1)),
       ASSERT_ret (sigaction SIGUSR1 (handler_action SA_SIGINFO sigemptyset)) (\<lambda>r. r = 0),
       ignore (raise SIGUSR1),
       ASSERT_mem uc_oldmask_ran])
     (Return 0)"

definition uc_oldmask_memory :: uc_oldmask where
  "uc_oldmask_memory = \<lparr>errno = 0, uc_oldmask_ran = False, expected_mask = 0\<rparr>"

lemmas uc_oldmask_defs = uc_oldmask_handler_def uc_oldmask_main_def uc_oldmask_memory_def

text \<open>The mask the program has blocked so far: nothing before its first call has returned.\<close>

definition uc_oldmask_blocked :: "log \<Rightarrow> sigset" where
  "uc_oldmask_blocked l = (if main_calls l = [] then 0 else sigbit SIGURG OR sigbit SIGVTALRM)"

fun masks_and_actions :: "req \<Rightarrow> bool" where
  "masks_and_actions (Rt_sigaction s a) = True"
| "masks_and_actions (Rt_sigprocmask h m) = True"
| "masks_and_actions _ = False"

definition uc_oldmask_seen :: "arch \<Rightarrow> log \<Rightarrow> bool" where
  "uc_oldmask_seen a l \<longleftrightarrow> calls_ok masks_and_actions l \<and>
     each_event (on_entry (\<lambda>l0 c. to_ptr a (REG_OLDMASK (gregs c)) = uc_oldmask_blocked l0)) l"

definition uc_oldmask_inv :: "arch \<Rightarrow> uc_oldmask \<Rightarrow> log \<Rightarrow> bool" where
  "uc_oldmask_inv a g l \<longleftrightarrow> uc_oldmask_seen a l \<and> uc_oldmask_ran g = (handled l \<noteq> []) \<and>
     expected_mask g = uc_oldmask_blocked l"

definition uc_oldmask_exit :: "arch \<Rightarrow> int \<Rightarrow> uc_oldmask \<Rightarrow> log \<Rightarrow> bool" where
  "uc_oldmask_exit a n g l \<longleftrightarrow> (n = 0 \<longleftrightarrow> uc_oldmask_seen a l \<and> handled l \<noteq> [])"

lemmas uc_oldmask_spec = uc_oldmask_inv_def uc_oldmask_exit_def uc_oldmask_seen_def uc_oldmask_blocked_def

interpretation uc_oldmask: env_invariant "uc_oldmask_handler a" "uc_oldmask_inv a" "uc_oldmask_exit a"
  for a
  by unfold_locales (auto simp: prog_unfold uc_oldmask_defs uc_oldmask_spec)

lemma uc_oldmask_main_wp:
  "wp (uc_oldmask_inv a) layered (uc_oldmask_exit a) (\<lambda>_ _ _. False)
     uc_oldmask_main (\<lambda>n. uc_oldmask_exit a n) uc_oldmask_memory []"
  by (auto simp: prog_unfold uc_oldmask_defs uc_oldmask_spec sigbit_def)

text \<open>
  \<^verbatim>\<open>uc-oldmask\<close> exits 0 exactly when its calls succeed, its handler is entered, and the old mask saved
  in every context is the mask the program had blocked by the time of that entry.
\<close>

lemma uc_oldmask_verdict:
  assumes "trial (uc_oldmask_handler a) uc_oldmask_main uc_oldmask_memory mvs = Dead (Exited n) g l"
  shows "n = 0 \<longleftrightarrow> uc_oldmask_seen a l \<and> handled l \<noteq> []"
  using uc_oldmask.layers.verdict [OF uc_oldmask_main_wp assms]
  by (simp add: uc_oldmask_exit_def)

lemma uc_oldmask_linux:
  "linux_run (linux_init a pid uid heap) (uc_oldmask_handler a) uc_oldmask_main uc_oldmask_memory = Some 0"
  by (cases a; simp only:; code_simp)

section \<open>\<^verbatim>\<open>sigcontext-segments.cpp\<close>\<close>

record sigcontext_segments = memory +
  sigcontext_segments_ran :: bool

definition sigcontext_segments_handler ::
  "arch \<Rightarrow> nat \<Rightarrow> signum \<Rightarrow> siginfo \<Rightarrow> ucontext \<Rightarrow> (sigcontext_segments, ucontext) prog" where
  "sigcontext_segments_handler a h sig info ctx =
     seq (block [
       modify (sigcontext_segments_ran_update (\<lambda>_. True)),
       (case a of
          X64 \<Rightarrow> let csgsfs = REG_CSGSFS (gregs ctx) in block [
            ASSERT (csgsfs AND 0xFFFF = 0x33),
            ASSERT (drop_bit 16 csgsfs AND 0xFFFF = 0),
            ASSERT (drop_bit 32 csgsfs AND 0xFFFF = 0),
            ASSERT (drop_bit 48 csgsfs AND 0xFFFF = 0x2b)]
        | X86 \<Rightarrow> block [
            ASSERT (greg a (REG_CS (gregs ctx)) = 0x23),
            ASSERT (greg a (REG_SS (gregs ctx)) = 0x2b),
            ASSERT (greg a (REG_DS (gregs ctx)) = 0x2b),
            ASSERT (greg a (REG_ES (gregs ctx)) = 0x2b)])])
     (Return ctx)"

definition sigcontext_segments_main :: "(sigcontext_segments, int) prog" where
  "sigcontext_segments_main =
     seq (block [
       ASSERT_ret (sigaction SIGUSR1 (handler_action SA_SIGINFO sigemptyset)) (\<lambda>r. r = 0),
       ignore (raise SIGUSR1),
       ASSERT_mem sigcontext_segments_ran])
     (Return 0)"

definition sigcontext_segments_memory :: sigcontext_segments where
  "sigcontext_segments_memory = \<lparr>errno = 0, sigcontext_segments_ran = False\<rparr>"

lemmas sigcontext_segments_defs = sigcontext_segments_handler_def sigcontext_segments_main_def
  sigcontext_segments_memory_def

text \<open>The selectors of a Linux process: four 16-bit fields of one word, or four registers.\<close>

definition selectors :: "arch \<Rightarrow> gregset \<Rightarrow> int list" where
  "selectors a g = (case a of
      X64 \<Rightarrow> map (\<lambda>k. uint (ucast (drop_bit (16 * k) (REG_CSGSFS g)) :: u16)) [0, 1, 2, 3]
    | X86 \<Rightarrow> map (\<lambda>f. greg X86 (f g)) [REG_CS, REG_SS, REG_DS, REG_ES])"

definition linux_selectors :: "arch \<Rightarrow> int list" where
  "linux_selectors a = (case a of X64 \<Rightarrow> [0x33, 0, 0, 0x2b] | X86 \<Rightarrow> [0x23, 0x2b, 0x2b, 0x2b])"

lemma and_16_bits: "w AND 0xFFFF = word_of_int n \<longleftrightarrow> uint (ucast w :: u16) = n"
  if "0 \<le> n" and "n < 0x10000" for w :: u64 and n
proof -
  have "w AND 0xFFFF = take_bit 16 w"
    by (simp add: take_bit_eq_mask mask_eq_exp_minus_1)
  moreover have "uint (take_bit 16 w) = uint (ucast w :: u16)"
    by (simp add: unsigned_take_bit_eq unsigned_ucast_eq)
  moreover have "uint (word_of_int n :: u64) = n"
    using that by (simp add: unsigned_of_int take_bit_int_eq_self_iff)
  ultimately show ?thesis
    by (metis word_uint_eqI)
qed

lemma selectors_linux:
  "selectors a g = linux_selectors a \<longleftrightarrow> (case a of
      X64 \<Rightarrow> REG_CSGSFS g AND 0xFFFF = 0x33 \<and> drop_bit 16 (REG_CSGSFS g) AND 0xFFFF = 0 \<and>
        drop_bit 32 (REG_CSGSFS g) AND 0xFFFF = 0 \<and> drop_bit 48 (REG_CSGSFS g) AND 0xFFFF = 0x2b
    | X86 \<Rightarrow> greg X86 (REG_CS g) = 0x23 \<and> greg X86 (REG_SS g) = 0x2b \<and>
        greg X86 (REG_DS g) = 0x2b \<and> greg X86 (REG_ES g) = 0x2b)"
proof -
  have bits: "w AND 0xFFFF = word_of_int 0x33 \<longleftrightarrow> uint (ucast w :: u16) = 0x33"
    "w AND 0xFFFF = word_of_int 0x2b \<longleftrightarrow> uint (ucast w :: u16) = 0x2b"
    "w AND 0xFFFF = word_of_int 0 \<longleftrightarrow> uint (ucast w :: u16) = 0" for w :: u64
    by (rule and_16_bits; simp)+
  show ?thesis
    by (simp add: selectors_def linux_selectors_def bits [simplified] split: arch.splits)
qed

definition sigcontext_segments_seen :: "arch \<Rightarrow> log \<Rightarrow> bool" where
  "sigcontext_segments_seen a l \<longleftrightarrow> calls_ok checks_sigaction l \<and>
     (\<forall>(s, i, c) \<in> set (handled l). selectors a (gregs c) = linux_selectors a)"

definition sigcontext_segments_inv :: "arch \<Rightarrow> sigcontext_segments \<Rightarrow> log \<Rightarrow> bool" where
  "sigcontext_segments_inv a g l \<longleftrightarrow> sigcontext_segments_seen a l \<and>
     sigcontext_segments_ran g = (handled l \<noteq> [])"

definition sigcontext_segments_exit :: "arch \<Rightarrow> int \<Rightarrow> sigcontext_segments \<Rightarrow> log \<Rightarrow> bool" where
  "sigcontext_segments_exit a n g l \<longleftrightarrow> (n = 0 \<longleftrightarrow> sigcontext_segments_seen a l \<and> handled l \<noteq> [])"

lemmas sigcontext_segments_spec = sigcontext_segments_inv_def sigcontext_segments_exit_def
  sigcontext_segments_seen_def selectors_linux

interpretation sigcontext_segments: env_invariant "sigcontext_segments_handler a"
    "sigcontext_segments_inv a" "sigcontext_segments_exit a" for a
  by unfold_locales
    (cases a; auto simp: prog_unfold sigcontext_segments_defs sigcontext_segments_spec Let_def)

lemma sigcontext_segments_main_wp:
  "wp (sigcontext_segments_inv a) balanced (sigcontext_segments_exit a) (\<lambda>_ _ _. False)
     sigcontext_segments_main (\<lambda>n. sigcontext_segments_exit a n) sigcontext_segments_memory []"
  by (auto simp: prog_unfold sigcontext_segments_defs sigcontext_segments_spec)

text \<open>
  \<^verbatim>\<open>sigcontext-segments\<close> exits 0 exactly when \<^verbatim>\<open>sigaction\<close> succeeds, its handler is entered, and
  every context holds the segment selectors of a Linux process: the 16-bit fields of one register on the
  64-bit target, separate registers on the 32-bit one.
\<close>

lemma sigcontext_segments_verdict:
  assumes "trial (sigcontext_segments_handler a) sigcontext_segments_main sigcontext_segments_memory mvs
    = Dead (Exited n) g l"
  shows "n = 0 \<longleftrightarrow> sigcontext_segments_seen a l \<and> handled l \<noteq> []"
  using sigcontext_segments.open_env.verdict [OF sigcontext_segments_main_wp assms]
  by (simp add: sigcontext_segments_exit_def)

lemma sigcontext_segments_linux:
  "linux_run (linux_init a pid uid heap) (sigcontext_segments_handler a) sigcontext_segments_main
     sigcontext_segments_memory = Some 0"
  by (cases a; simp only:; code_simp)

section \<open>\<^verbatim>\<open>segments.cpp\<close>\<close>

record segments = memory +
  vcs :: u32
  vss :: u32
  vds :: u32
  ves :: u32
  vgs :: u32
  vfs :: u32

text \<open>The 64-bit build has no handler: its \<^verbatim>\<open>main\<close> installs none.\<close>

definition segments_handler ::
  "arch \<Rightarrow> nat \<Rightarrow> signum \<Rightarrow> siginfo \<Rightarrow> ucontext \<Rightarrow> (segments, ucontext) prog" where
  "segments_handler a h sig info ctx = (case a of
      X64 \<Rightarrow> Undefined
    | X86 \<Rightarrow>
        seq (block [
          ASSERT_mem (\<lambda>g. ucast (REG_ES (gregs ctx)) = ves g),
          ASSERT_mem (\<lambda>g. ucast (REG_CS (gregs ctx)) = vcs g),
          ASSERT_mem (\<lambda>g. ucast (REG_DS (gregs ctx)) = vds g),
          ASSERT_mem (\<lambda>g. ucast (REG_SS (gregs ctx)) = vss g),
          ASSERT_mem (\<lambda>g. ucast (REG_GS (gregs ctx)) = vgs g),
          ASSERT_mem (\<lambda>g. ucast (REG_FS (gregs ctx)) = vfs g)])
        (Return ctx))"

definition segments_main :: "arch \<Rightarrow> (segments, int) prog" where
  "segments_main a = (case a of
      X64 \<Rightarrow> Return 0
    | X86 \<Rightarrow>
        seq (block [
          ignore (sigaction SIGUSR1 (handler_action SA_SIGINFO sigemptyset)),
          bind (read_segment CS) (\<lambda>v. modify (vcs_update (\<lambda>_. v))),
          bind (read_segment DS) (\<lambda>v. modify (vds_update (\<lambda>_. v))),
          bind (read_segment SS) (\<lambda>v. modify (vss_update (\<lambda>_. v))),
          bind (read_segment ES) (\<lambda>v. modify (ves_update (\<lambda>_. v))),
          bind (read_segment FS) (\<lambda>v. modify (vfs_update (\<lambda>_. v))),
          bind (read_segment GS) (\<lambda>v. modify (vgs_update (\<lambda>_. v))),
          ignore (raise SIGUSR1)])
        (Return 0))"

definition segments_memory :: segments where
  "segments_memory = \<lparr>errno = 0, vcs = 0, vss = 0, vds = 0, ves = 0, vgs = 0, vfs = 0\<rparr>"

lemmas segments_defs = segments_handler_def segments_main_def segments_memory_def

text \<open>What the program has read from a segment register so far, 0 before it has.\<close>

fun reads_segment :: "segreg \<Rightarrow> req \<times> resp \<Rightarrow> bool" where
  "reads_segment s (Read_segment s', r) = (s = s')"
| "reads_segment s _ = False"

definition segment_read :: "segreg \<Rightarrow> (req \<times> resp) list \<Rightarrow> u32" where
  "segment_read s calls = (case filter (reads_segment s) calls of
      [] \<Rightarrow> 0 | cs \<Rightarrow> ucast (r_word (snd (last cs))))"

text \<open>A context that has the selectors the program has read.\<close>

definition same_segments :: "log \<Rightarrow> ucontext \<Rightarrow> bool" where
  "same_segments l c \<longleftrightarrow> (let v = (\<lambda>s. segment_read s (main_calls l)); g = gregs c in
     ucast (REG_ES g) = v ES \<and> ucast (REG_CS g) = v CS \<and> ucast (REG_DS g) = v DS \<and>
     ucast (REG_SS g) = v SS \<and> ucast (REG_GS g) = v GS \<and> ucast (REG_FS g) = v FS)"

definition segments_inv :: "segments \<Rightarrow> log \<Rightarrow> bool" where
  "segments_inv g l \<longleftrightarrow> each_event (on_entry same_segments) l \<and>
     (let v = (\<lambda>s. segment_read s (main_calls l)) in
      vcs g = v CS \<and> vss g = v SS \<and> vds g = v DS \<and> ves g = v ES \<and> vgs g = v GS \<and> vfs g = v FS)"

definition segments_exit :: "int \<Rightarrow> segments \<Rightarrow> log \<Rightarrow> bool" where
  "segments_exit n g l \<longleftrightarrow> (n = 0 \<longleftrightarrow> each_event (on_entry same_segments) l)"

lemmas segments_spec = segments_inv_def segments_exit_def

interpretation segments: env_invariant "segments_handler X86" segments_inv segments_exit
  by unfold_locales
    (auto simp: prog_unfold segments_defs segments_spec same_segments_def Let_def)

lemma segments_main_wp:
  "wp segments_inv layered segments_exit (\<lambda>_ _ _. False)
     (segments_main X86) (\<lambda>n. segments_exit n) segments_memory []"
  by (simp add: prog_unfold segments_defs segments_spec segment_read_def Let_def)

text \<open>
  The 32-bit build of \<^verbatim>\<open>segments\<close> exits 0 exactly when every context a handler is entered with has
  the selectors the program had read from its segment registers by then.
\<close>

lemma segments_verdict:
  assumes "trial (segments_handler X86) (segments_main X86) segments_memory mvs = Dead (Exited n) g l"
  shows "n = 0 \<longleftrightarrow> each_event (on_entry same_segments) l"
  using segments.layers.verdict [OF segments_main_wp assms] by (simp add: segments_exit_def)

lemma segments_linux:
  "linux_run (linux_init a pid uid heap) (segments_handler a) (segments_main a) segments_memory = Some 0"
  by (cases a; simp only:; code_simp)

section \<open>\<^verbatim>\<open>df-reset.cpp\<close>\<close>

text \<open>\<^verbatim>\<open>pushf; pop rax; shr eax, 10; and eax, 1\<close>, and \<^verbatim>\<open>or rax, rdi; push rax; popf\<close>.\<close>

definition get_df :: "('g, bool) prog" where
  "get_df = bind read_flags (\<lambda>w. Return (drop_bit 10 w AND 1 \<noteq> 0))"

definition set_df :: "bool \<Rightarrow> ('g, unit) prog" where
  "set_df v = bind read_flags (\<lambda>w. write_flags (w OR push_bit 10 (of_bool v)))"

definition clear_df :: "ucontext \<Rightarrow> ucontext" where
  "clear_df c = c\<lparr>gregs := (gregs c)\<lparr>REG_EFL := REG_EFL (gregs c) AND NOT (push_bit 10 1)\<rparr>\<rparr>"

definition df_reset_handler ::
  "nat \<Rightarrow> signum \<Rightarrow> siginfo \<Rightarrow> ucontext \<Rightarrow> (memory, ucontext) prog" where
  "df_reset_handler h sig info ctx =
     seq (block [
       ASSERT_ret get_df (\<lambda>df. \<not> df),
       ASSERT (drop_bit 10 (REG_EFL (gregs ctx)) AND 1 \<noteq> 0)])
     (Return (clear_df ctx))"

definition df_reset_main :: "(memory, int) prog" where
  "df_reset_main =
     seq (block [
       ASSERT_ret (sigaction SIGUSR1 (handler_action SA_SIGINFO sigemptyset)) (\<lambda>r. r = 0),
       set_df True,
       ignore (raise SIGUSR1),
       ASSERT_ret get_df (\<lambda>df. \<not> df)])
     (Return 0)"

lemmas df_reset_defs = df_reset_handler_def df_reset_main_def get_df_def set_df_def

lemma df_bit: "drop_bit 10 w AND 1 \<noteq> 0 \<longleftrightarrow> bit w 10" for w :: u64
  by (simp add: and_one_eq odd_iff_mod_2_eq_one bit_iff_odd_drop_bit)

text \<open>
  A handler's read of the flags shows the direction flag clear; a handler that returns clears
  the flag in a context that had it set.
\<close>

fun df_event :: "log \<Rightarrow> event \<Rightarrow> bool" where
  "df_event l (Ans Read_flags r) = (0 < active l \<longrightarrow> \<not> bit (r_word r) 10)"
| "df_event l (Ret c) = (\<not> bit (REG_EFL (gregs c)) 10 \<and>
     (\<exists>(s, i, c') \<in> set (handled l). bit (REG_EFL (gregs c')) 10 \<and> c = clear_df c'))"
| "df_event l _ = True"

lemma df_event_return [intro!]:
  assumes "bit (REG_EFL (gregs c)) 10" and "grows (Ans (Enter s i c) r # l0) l1"
    and "grows (Ans Read_flags r' # l1) l2"
  shows "df_event l2 (Ret (clear_df c))"
proof -
  have "(s, i, c) \<in> set (handled l1)" by (rule handled_grows [OF _ assms(2)]) simp
  then have "(s, i, c) \<in> set (handled l2)" by (intro handled_grows [OF _ assms(3)]) simp
  with assms(1) show ?thesis by (force simp: clear_df_def bit_simps)
qed

definition df_reset_seen :: "log \<Rightarrow> bool" where
  "df_reset_seen l \<longleftrightarrow> calls_ok checks_sigaction l \<and> each_event df_event l"

definition df_reset_inv :: "memory \<Rightarrow> log \<Rightarrow> bool" where
  "df_reset_inv g l \<longleftrightarrow> df_reset_seen l \<and> 0 \<le> active l"

definition df_reset_exit :: "int \<Rightarrow> memory \<Rightarrow> log \<Rightarrow> bool" where
  "df_reset_exit n g l \<longleftrightarrow> (n = 0 \<longrightarrow> df_reset_seen l \<and>
     (\<exists>r0 r1 r2 r3 r4. \<not> bit (r_word r4) 10 \<and>
        main_calls l = [(Rt_sigaction SIGUSR1 (Some (handler_action SA_SIGINFO sigemptyset)), r0),
          (Read_flags, r1), (Write_flags (r_word r1 OR push_bit 10 1), r2), (Raise SIGUSR1, r3),
          (Read_flags, r4)] \<and> ret r0 = 0))"

lemmas df_reset_spec = df_reset_inv_def df_reset_exit_def df_reset_seen_def

interpretation df_reset: env_invariant df_reset_handler df_reset_inv df_reset_exit
  by unfold_locales (auto simp: prog_unfold df_reset_defs df_reset_spec df_bit simp del: df_event.simps(2))

lemma df_reset_main_wp:
  "wp df_reset_inv layered df_reset_exit (\<lambda>_ _ _. False)
     df_reset_main (\<lambda>n. df_reset_exit n) \<lparr>errno = 0\<rparr> []"
  by (simp add: prog_unfold df_reset_defs df_reset_spec df_bit)

text \<open>
  C17. If \<^verbatim>\<open>df-reset\<close> exits 0, then every handler ran with the direction flag clear, was given a context with
  the flag set and returned that context with the flag cleared; the program set the flag before the signal
  and found it clear afterwards.
\<close>

theorem df_reset_verdict:
  assumes "trial df_reset_handler df_reset_main \<lparr>errno = 0\<rparr> mvs = Dead (Exited 0) g l"
  shows "each_event df_event l \<and>
    (\<exists>r0 r1 r2 r3 r4. \<not> bit (r_word r4) 10 \<and>
       main_calls l = [(Rt_sigaction SIGUSR1 (Some (handler_action SA_SIGINFO sigemptyset)), r0),
         (Read_flags, r1), (Write_flags (r_word r1 OR push_bit 10 1), r2), (Raise SIGUSR1, r3),
         (Read_flags, r4)] \<and> ret r0 = 0)"
  using df_reset.layers.verdict [OF df_reset_main_wp assms]
  by (simp add: df_reset_exit_def df_reset_seen_def)

lemma df_reset_linux:
  "linux_run (linux_init a pid uid heap) df_reset_handler df_reset_main \<lparr>errno = 0\<rparr> = Some 0"
  by (cases a; simp only:; code_simp)

theorem df_reset_verdict_witness:
  "\<exists>mvs g l. trial df_reset_handler df_reset_main \<lparr>errno = 0\<rparr> mvs
      = Dead (Exited 0) g l \<and>
    (each_event df_event l \<and> (\<exists>r0 r1 r2 r3 r4. \<not> bit (r_word r4) 10 \<and>
     main_calls l = [(Rt_sigaction SIGUSR1 (Some (handler_action SA_SIGINFO sigemptyset)), r0),
     (Read_flags, r1), (Write_flags (r_word r1 OR push_bit 10 1), r2), (Raise SIGUSR1, r3),
     (Read_flags, r4)] \<and> ret r0 = 0))"
  by (rule linux_witness [OF df_reset_linux [of X64 1 0 "[]"] df_reset_verdict])

section \<open>Verdicts\<close>

text \<open>
  The tests of what a context holds exit 0 exactly when their calls succeed, their handler is entered
  and every context it is given is right. \<^verbatim>\<open>uc-flags\<close>: the flags have the extended state bit and, on
  the 64-bit target, both stack segment bits. \<^verbatim>\<open>uc-oldmask\<close>: the old mask is the one the program had
  blocked by the time of the entry. \<^verbatim>\<open>sigcontext-segments\<close>: the selectors are those of a Linux process.
  \<^verbatim>\<open>segments\<close>, whose 32-bit build asks for no entry at all: the selectors are those the program had
  read from its segment registers by then.
\<close>

lemma contexts_decided:
  "decides (uc_flags_handler a) uc_flags_main uc_flags_memory (\<lambda>l. uc_flags_seen a l \<and> handled l \<noteq> []) \<and>
   decides (uc_oldmask_handler a) uc_oldmask_main uc_oldmask_memory
     (\<lambda>l. uc_oldmask_seen a l \<and> handled l \<noteq> []) \<and>
   decides (sigcontext_segments_handler a) sigcontext_segments_main sigcontext_segments_memory
     (\<lambda>l. sigcontext_segments_seen a l \<and> handled l \<noteq> []) \<and>
   decides (segments_handler X86) (segments_main X86) segments_memory (each_event (on_entry same_segments))"
  by (intro conjI decidesI uc_flags_verdict uc_oldmask_verdict sigcontext_segments_verdict segments_verdict)

text \<open>
  On the platform with the documented behaviour, on either target and with any process and user
  number, \<^verbatim>\<open>uc-flags\<close>, \<^verbatim>\<open>uc-oldmask\<close>,
  \<^verbatim>\<open>sigcontext-segments\<close>, \<^verbatim>\<open>segments\<close>,
  \<^verbatim>\<open>df-reset\<close> run to their end and exit 0: they accept a correct platform.
\<close>

lemma contexts_accept_linux:
  "linux_run (linux_init a pid uid heap) (uc_flags_handler a) uc_flags_main uc_flags_memory
     = Some 0 \<and>
   linux_run (linux_init a pid uid heap) (uc_oldmask_handler a) uc_oldmask_main uc_oldmask_memory
     = Some 0 \<and>
   linux_run (linux_init a pid uid heap) (sigcontext_segments_handler a) sigcontext_segments_main sigcontext_segments_memory
     = Some 0 \<and>
   linux_run (linux_init a pid uid heap) (segments_handler a) (segments_main a) segments_memory
     = Some 0 \<and>
   linux_run (linux_init a pid uid heap) df_reset_handler df_reset_main \<lparr>errno = 0\<rparr>
     = Some 0"
  by (intro conjI uc_flags_linux uc_oldmask_linux sigcontext_segments_linux segments_linux df_reset_linux)


end
