(* ===== verification/Faults.thy ===== *)
theory Faults
  imports Linux
begin

text \<open>
  The tests of signals that an instruction of the program itself causes: \<^verbatim>\<open>segv-cr2\<close>,
  \<^verbatim>\<open>segv-trapno\<close>, the \<^verbatim>\<open>synchronous-*\<close> tests, \<^verbatim>\<open>illegal-cs\<close>. Most of their handlers
  check what they receive and exit.
\<close>

section \<open>Handlers that exit\<close>

text \<open>No handler has been entered; and the verdict that one entry gives.\<close>

definition no_entry :: "'g \<Rightarrow> log \<Rightarrow> bool" where
  "no_entry g l \<longleftrightarrow> handled l = []"

definition fault_exit ::
  "(signum \<Rightarrow> siginfo \<Rightarrow> ucontext \<Rightarrow> bool) \<Rightarrow> int \<Rightarrow> 'g \<Rightarrow> log \<Rightarrow> bool" where
  "fault_exit P n g l \<longleftrightarrow> (n = 0 \<longleftrightarrow> (\<exists>s i c. handled l = [(s, i, c)] \<and> P s i c))"

lemmas fault_spec = no_entry_def fault_exit_def

text \<open>A test whose handler exits: its handler and its \<^verbatim>\<open>main\<close> meet that contract.\<close>

locale fault_test = env_invariant H no_entry "fault_exit P" for H :: "'g handlers" and P +
  fixes main :: "('g, int) prog"
    and g0 :: 'g
  assumes main_meets: "wp no_entry balanced (fault_exit P) (\<lambda>_ _ _. False) main (\<lambda>n. fault_exit P n) g0 []"
begin

lemma exits_0_iff:
  "trial H main g0 mvs = Dead (Exited n) g l \<Longrightarrow>
     n = 0 \<longleftrightarrow> (\<exists>s i c. handled l = [(s, i, c)] \<and> P s i c)"
  using open_env.verdict [OF main_meets] by (simp add: fault_exit_def)

lemma verdict_of: "decides H main g0 (\<lambda>l. \<exists>s i c. handled l = [(s, i, c)] \<and> P s i c)"
  by (rule decidesI) (rule exits_0_iff)

end

text \<open>The first statements of each \<^verbatim>\<open>main\<close>: the same action for a list of signals.\<close>

definition install :: "signum list \<Rightarrow> ('m memory_scheme, unit) prog" where
  "install ss = for_each ss (\<lambda>s.
     ASSERT_ret (sigaction s (handler_action SA_SIGINFO sigemptyset)) (\<lambda>r. r = 0))"

lemmas fault_unfold = prog_unfold install_def for_each_def fault_spec

section \<open>\<^verbatim>\<open>segv-cr2.cpp\<close>, \<^verbatim>\<open>segv-trapno.cpp\<close>\<close>

definition bad_address :: u64 where
  "bad_address = 0x12340000"

definition segv_cr2_handler ::
  "arch \<Rightarrow> nat \<Rightarrow> signum \<Rightarrow> siginfo \<Rightarrow> ucontext \<Rightarrow> (memory, ucontext) prog" where
  "segv_cr2_handler a h sig info ctx =
     seq (ASSERT (to_ptr a (REG_CR2 (gregs ctx)) = bad_address)) (Exit 0)"

definition segv_cr2_main :: "(memory, int) prog" where
  "segv_cr2_main =
     seq (block [
       ASSERT_ret (sigaction SIGSEGV (handler_action SA_SIGINFO sigemptyset)) (\<lambda>r. r = 0),
       store_int bad_address 5,
       ASSERT False])
     (Return 1)"

definition segv_cr2_ok :: "arch \<Rightarrow> signum \<Rightarrow> siginfo \<Rightarrow> ucontext \<Rightarrow> bool" where
  "segv_cr2_ok a s i c \<longleftrightarrow> to_ptr a (REG_CR2 (gregs c)) = bad_address"

lemmas segv_cr2_defs = segv_cr2_handler_def segv_cr2_main_def segv_cr2_ok_def

interpretation segv_cr2: fault_test "segv_cr2_handler a" "segv_cr2_ok a" segv_cr2_main "\<lparr>errno = 0\<rparr>" for a
  by unfold_locales (auto simp: fault_unfold segv_cr2_defs)

lemma segv_cr2_linux:
  "linux_run (linux_init a pid uid heap) (segv_cr2_handler a) segv_cr2_main \<lparr>errno = 0\<rparr> = Some 0"
  by (cases a; simp only:; code_simp)

definition segv_trapno_handler ::
  "arch \<Rightarrow> nat \<Rightarrow> signum \<Rightarrow> siginfo \<Rightarrow> ucontext \<Rightarrow> (memory, ucontext) prog" where
  "segv_trapno_handler a h sig info ctx =
     seq (block [
       ASSERT (si_code info = SEGV_MAPERR),
       ASSERT (si_addr info = bad_address),
       ASSERT (greg a (REG_TRAPNO (gregs ctx)) = 14),
       ASSERT (greg a (REG_ERR (gregs ctx)) = 0x6)])
     (Exit 0)"

definition segv_trapno_main :: "(memory, int) prog" where
  "segv_trapno_main =
     seq (block [
       ASSERT_ret (sigaction SIGSEGV (handler_action SA_SIGINFO sigemptyset)) (\<lambda>r. r = 0),
       store_int bad_address 5,
       ASSERT False])
     (Return 1)"

definition segv_trapno_ok :: "arch \<Rightarrow> signum \<Rightarrow> siginfo \<Rightarrow> ucontext \<Rightarrow> bool" where
  "segv_trapno_ok a s i c \<longleftrightarrow> si_code i = SEGV_MAPERR \<and> si_addr i = 0x12340000 \<and>
     greg a (REG_TRAPNO (gregs c)) = 14 \<and> greg a (REG_ERR (gregs c)) = 6"

lemmas segv_trapno_defs = segv_trapno_handler_def segv_trapno_main_def segv_trapno_ok_def bad_address_def

interpretation segv_trapno: fault_test "segv_trapno_handler a" "segv_trapno_ok a" segv_trapno_main
    "\<lparr>errno = 0\<rparr>" for a
  by unfold_locales (auto simp: fault_unfold segv_trapno_defs)

lemma segv_trapno_linux:
  "linux_run (linux_init a pid uid heap) (segv_trapno_handler a) segv_trapno_main \<lparr>errno = 0\<rparr> = Some 0"
  by (cases a; simp only:; code_simp)

section \<open>Faults at an address\<close>

definition synchronous_null_handler ::
  "nat \<Rightarrow> signum \<Rightarrow> siginfo \<Rightarrow> ucontext \<Rightarrow> (memory, ucontext) prog" where
  "synchronous_null_handler h sig info ctx =
     seq (block [
       ASSERT (sig = SIGSEGV),
       ASSERT (si_code info = SEGV_MAPERR),
       ASSERT (si_addr info = 0)])
     (Exit 0)"

definition synchronous_null_main :: "(memory, int) prog" where
  "synchronous_null_main =
     seq (block [install [SIGSEGV, SIGBUS, SIGILL, SIGFPE], store_int 0 0]) (Return 1)"

definition synchronous_high_address_handler ::
  "nat \<Rightarrow> signum \<Rightarrow> siginfo \<Rightarrow> ucontext \<Rightarrow> (memory, ucontext) prog" where
  "synchronous_high_address_handler h sig info ctx =
     seq (block [
       ASSERT (sig = SIGSEGV),
       ASSERT (si_code info = SEGV_MAPERR),
       ASSERT (si_addr info = 0x1000)])
     (Exit 0)"

definition synchronous_high_address_main :: "(memory, int) prog" where
  "synchronous_high_address_main =
     seq (block [install [SIGSEGV, SIGBUS, SIGILL, SIGFPE], store_int 0x1000 0]) (Return 1)"

definition maperr_at :: "u64 \<Rightarrow> signum \<Rightarrow> siginfo \<Rightarrow> ucontext \<Rightarrow> bool" where
  "maperr_at addr s i c \<longleftrightarrow> s = SIGSEGV \<and> si_code i = SEGV_MAPERR \<and> si_addr i = addr"

lemmas maperr_defs = synchronous_null_handler_def synchronous_null_main_def
  synchronous_high_address_handler_def synchronous_high_address_main_def maperr_at_def

interpretation synchronous_null: fault_test synchronous_null_handler "maperr_at 0" synchronous_null_main
    "\<lparr>errno = 0\<rparr>"
  by unfold_locales (auto simp: fault_unfold maperr_defs)

interpretation synchronous_high_address: fault_test synchronous_high_address_handler "maperr_at 0x1000"
    synchronous_high_address_main "\<lparr>errno = 0\<rparr>"
  by unfold_locales (auto simp: fault_unfold maperr_defs)

lemma synchronous_null_linux:
  "linux_run (linux_init a pid uid heap) synchronous_null_handler synchronous_null_main \<lparr>errno = 0\<rparr>
     = Some 0"
  by (cases a; simp only:; code_simp)

lemma synchronous_high_address_linux:
  "linux_run (linux_init a pid uid heap) synchronous_high_address_handler synchronous_high_address_main
     \<lparr>errno = 0\<rparr> = Some 0"
  by (cases a; simp only:; code_simp)

section \<open>Faulting instructions\<close>

text \<open>The addresses of the instructions are the linker's choice, a parameter \<open>pc\<close>.\<close>

definition synchronous_hlt_handler ::
  "nat \<Rightarrow> signum \<Rightarrow> siginfo \<Rightarrow> ucontext \<Rightarrow> (memory, ucontext) prog" where
  "synchronous_hlt_handler h sig info ctx =
     seq (block [
       ASSERT (sig = SIGSEGV),
       ASSERT (si_code info = SI_KERNEL),
       ASSERT (si_addr info = 0)])
     (Exit 0)"

definition synchronous_hlt_main :: "u64 \<Rightarrow> (memory, int) prog" where
  "synchronous_hlt_main pc =
     seq (block [install [SIGSEGV, SIGBUS, SIGILL, SIGFPE], exec_insn Hlt pc]) (Return 1)"

definition synchronous_int3_handler ::
  "arch \<Rightarrow> u64 \<Rightarrow> nat \<Rightarrow> signum \<Rightarrow> siginfo \<Rightarrow> ucontext \<Rightarrow> (memory, ucontext) prog" where
  "synchronous_int3_handler a pc h sig info ctx =
     seq (block [
       ASSERT (sig = SIGTRAP),
       ASSERT (si_code info = SI_KERNEL),
       ASSERT (si_addr info = 0),
       ASSERT (widen a pc = widen a (REG_RIP (gregs ctx)) - 1)])
     (Exit 0)"

definition synchronous_int3_main :: "u64 \<Rightarrow> (memory, int) prog" where
  "synchronous_int3_main pc =
     seq (block [install [SIGSEGV, SIGBUS, SIGILL, SIGFPE, SIGTRAP], exec_insn Int3 pc]) (Return 1)"

definition synchronous_ud2_handler ::
  "arch \<Rightarrow> nat \<Rightarrow> signum \<Rightarrow> siginfo \<Rightarrow> ucontext \<Rightarrow> (memory, ucontext) prog" where
  "synchronous_ud2_handler a h sig info ctx =
     seq (block [
       ASSERT (sig = SIGILL),
       ASSERT (si_code info = ILL_ILLOPN),
       ASSERT (si_addr info = to_ptr a (REG_RIP (gregs ctx)))])
     (Exit 0)"

definition synchronous_ud2_main :: "u64 \<Rightarrow> (memory, int) prog" where
  "synchronous_ud2_main pc =
     seq (block [install [SIGSEGV, SIGBUS, SIGILL, SIGFPE], exec_insn Ud2 pc]) (Return 1)"

text \<open>
  \<^verbatim>\<open>synchronous-div-zero\<close> and \<^verbatim>\<open>synchronous-idiv-zero\<close> divide \<^verbatim>\<open>volatile\<close> variables that hold
  1 and 0, the first as \<^verbatim>\<open>unsigned\<close> and the second as \<^verbatim>\<open>int\<close>.
\<close>

definition synchronous_div_zero_handler ::
  "arch \<Rightarrow> nat \<Rightarrow> signum \<Rightarrow> siginfo \<Rightarrow> ucontext \<Rightarrow> (memory, ucontext) prog" where
  "synchronous_div_zero_handler a h sig info ctx =
     seq (block [
       ASSERT (sig = SIGFPE),
       ASSERT (si_code info = FPE_INTDIV),
       ASSERT (si_addr info = to_ptr a (REG_RIP (gregs ctx)))])
     (Exit 0)"

definition synchronous_div_zero_main :: "u64 \<Rightarrow> (memory, int) prog" where
  "synchronous_div_zero_main pc =
     seq (block [install [SIGSEGV, SIGBUS, SIGILL, SIGFPE], exec_insn Div_by_zero pc]) (Return 1)"

definition synchronous_idiv_zero_handler ::
  "arch \<Rightarrow> nat \<Rightarrow> signum \<Rightarrow> siginfo \<Rightarrow> ucontext \<Rightarrow> (memory, ucontext) prog" where
  "synchronous_idiv_zero_handler a h sig info ctx =
     seq (block [
       ASSERT (sig = SIGFPE),
       ASSERT (si_code info = FPE_INTDIV),
       ASSERT (si_addr info = to_ptr a (REG_RIP (gregs ctx)))])
     (Exit 0)"

definition synchronous_idiv_zero_main :: "u64 \<Rightarrow> (memory, int) prog" where
  "synchronous_idiv_zero_main pc =
     seq (block [install [SIGSEGV, SIGBUS, SIGILL, SIGFPE], exec_insn Idiv_by_zero pc]) (Return 1)"

text \<open>What the handlers accept.\<close>

definition fault_at_rip :: "signum \<Rightarrow> int \<Rightarrow> arch \<Rightarrow> signum \<Rightarrow> siginfo \<Rightarrow> ucontext \<Rightarrow> bool" where
  "fault_at_rip sig code a s i c \<longleftrightarrow>
     s = sig \<and> si_code i = code \<and> si_addr i = to_ptr a (REG_RIP (gregs c))"

definition hlt_ok :: "signum \<Rightarrow> siginfo \<Rightarrow> ucontext \<Rightarrow> bool" where
  "hlt_ok s i c \<longleftrightarrow> s = SIGSEGV \<and> si_code i = SI_KERNEL \<and> si_addr i = 0"

definition int3_ok :: "arch \<Rightarrow> u64 \<Rightarrow> signum \<Rightarrow> siginfo \<Rightarrow> ucontext \<Rightarrow> bool" where
  "int3_ok a pc s i c \<longleftrightarrow> s = SIGTRAP \<and> si_code i = SI_KERNEL \<and> si_addr i = 0 \<and>
     widen a (REG_RIP (gregs c)) = widen a pc + 1"

lemmas instruction_defs = synchronous_hlt_handler_def synchronous_hlt_main_def
  synchronous_int3_handler_def synchronous_int3_main_def
  synchronous_ud2_handler_def synchronous_ud2_main_def
  synchronous_div_zero_handler_def synchronous_div_zero_main_def
  synchronous_idiv_zero_handler_def synchronous_idiv_zero_main_def
  fault_at_rip_def hlt_ok_def int3_ok_def

interpretation synchronous_hlt: fault_test synchronous_hlt_handler hlt_ok "synchronous_hlt_main pc"
    "\<lparr>errno = 0\<rparr>" for pc
  by unfold_locales (auto simp: fault_unfold instruction_defs)

interpretation synchronous_int3: fault_test "synchronous_int3_handler a pc" "int3_ok a pc"
    "synchronous_int3_main pc" "\<lparr>errno = 0\<rparr>" for a pc
  by unfold_locales (auto simp: fault_unfold instruction_defs)

interpretation synchronous_ud2: fault_test "synchronous_ud2_handler a"
    "fault_at_rip SIGILL ILL_ILLOPN a" "synchronous_ud2_main pc" "\<lparr>errno = 0\<rparr>" for a pc
  by unfold_locales (auto simp: fault_unfold instruction_defs)

interpretation synchronous_div_zero: fault_test "synchronous_div_zero_handler a"
    "fault_at_rip SIGFPE FPE_INTDIV a" "synchronous_div_zero_main pc" "\<lparr>errno = 0\<rparr>" for a pc
  by unfold_locales (auto simp: fault_unfold instruction_defs)

interpretation synchronous_idiv_zero: fault_test "synchronous_idiv_zero_handler a"
    "fault_at_rip SIGFPE FPE_INTDIV a" "synchronous_idiv_zero_main pc" "\<lparr>errno = 0\<rparr>" for a pc
  by unfold_locales (auto simp: fault_unfold instruction_defs)

lemma synchronous_hlt_linux:
  "linux_run (linux_init a pid uid heap) synchronous_hlt_handler
     (synchronous_hlt_main 0x401000) \<lparr>errno = 0\<rparr> = Some 0"
  by (cases a; simp only:; code_simp)

lemma synchronous_int3_linux:
  "linux_run (linux_init a pid uid heap) (synchronous_int3_handler a 0x401000)
     (synchronous_int3_main 0x401000) \<lparr>errno = 0\<rparr> = Some 0"
  by (cases a; simp only:; code_simp)

lemma synchronous_ud2_linux:
  "linux_run (linux_init a pid uid heap) (synchronous_ud2_handler a)
     (synchronous_ud2_main 0x401000) \<lparr>errno = 0\<rparr> = Some 0"
  by (cases a; simp only:; code_simp)

lemma synchronous_div_zero_linux:
  "linux_run (linux_init a pid uid heap) (synchronous_div_zero_handler a)
     (synchronous_div_zero_main 0x401000) \<lparr>errno = 0\<rparr> = Some 0"
  by (cases a; simp only:; code_simp)

lemma synchronous_idiv_zero_linux:
  "linux_run (linux_init a pid uid heap) (synchronous_idiv_zero_handler a)
     (synchronous_idiv_zero_main 0x401000) \<lparr>errno = 0\<rparr> = Some 0"
  by (cases a; simp only:; code_simp)

section \<open>\<^verbatim>\<open>synchronous-rip.cpp\<close>\<close>

record synchronous_rip = memory +
  expected_rip :: u64

definition synchronous_rip_handler ::
  "arch \<Rightarrow> nat \<Rightarrow> signum \<Rightarrow> siginfo \<Rightarrow> ucontext \<Rightarrow> (synchronous_rip, ucontext) prog" where
  "synchronous_rip_handler a h sig info ctx =
     seq (block [
       ASSERT (sig = SIGILL),
       ASSERT (si_code info = ILL_ILLOPN),
       ASSERT (si_addr info = to_ptr a (REG_RIP (gregs ctx))),
       ASSERT_mem (\<lambda>g. widen a (REG_RIP (gregs ctx)) = expected_rip g)])
     (Exit 0)"

text \<open>
  \<^verbatim>\<open>add eax, ebx\<close>, \<^verbatim>\<open>movss xmm0, xmm1\<close>, \<^verbatim>\<open>psadbw xmm0, xmm1\<close>, \<^verbatim>\<open>ud2\<close>: the stores
  \<^verbatim>\<open>code[0] = 0x01\<close> to \<^verbatim>\<open>code[11] = 0x0b\<close>.
\<close>

definition rip_code :: "u8 list" where
  "rip_code = [0x01, 0xd8, 0xf3, 0x0f, 0x10, 0xc1, 0x66, 0x0f, 0xf6, 0xc1, 0x0f, 0x0b]"

definition store_code :: "u64 \<Rightarrow> ('g, unit) prog" where
  "store_code code = for_each [0..<12] (\<lambda>i. store_byte (code + of_nat i) (rip_code ! i))"

definition synchronous_rip_main :: "arch \<Rightarrow> (synchronous_rip, int) prog" where
  "synchronous_rip_main a =
     seq (block [
       install [SIGSEGV, SIGBUS, SIGILL, SIGFPE],
       bind (mmap 4096) (\<lambda>code. block [
         ASSERT (code \<noteq> MAP_FAILED),
         store_code code,
         modify (expected_rip_update (\<lambda>_. widen a code + 10)),
         ASSERT_ret (mprotect code 4096) (\<lambda>r. r = 0),
         exec_insn Call_code code])])
     (Return 1)"

definition synchronous_rip_memory :: synchronous_rip where
  "synchronous_rip_memory = \<lparr>errno = 0, expected_rip = - 1\<rparr>"

lemmas synchronous_rip_defs = synchronous_rip_handler_def synchronous_rip_main_def
  synchronous_rip_memory_def

text \<open>
  The expected address: none until the 17th call (the store of the last byte) has returned, then the
  address of the \<^verbatim>\<open>ud2\<close> in the page that the fifth call mapped.
\<close>

definition ud2_address :: "arch \<Rightarrow> (req \<times> resp) list \<Rightarrow> u64" where
  "ud2_address a calls =
     (if length calls < 17 then - 1 else widen a (r_word (snd (calls ! 4))) + 10)"

definition synchronous_rip_inv :: "arch \<Rightarrow> synchronous_rip \<Rightarrow> log \<Rightarrow> bool" where
  "synchronous_rip_inv a g l \<longleftrightarrow> handled l = [] \<and> expected_rip g = ud2_address a (main_calls l)"

definition synchronous_rip_exit :: "arch \<Rightarrow> int \<Rightarrow> synchronous_rip \<Rightarrow> log \<Rightarrow> bool" where
  "synchronous_rip_exit a n g l \<longleftrightarrow> (n = 0 \<longleftrightarrow>
     (\<exists>s i c. handled l = [(s, i, c)] \<and> fault_at_rip SIGILL ILL_ILLOPN a s i c \<and>
        widen a (REG_RIP (gregs c)) = ud2_address a (main_calls l)))"

lemmas synchronous_rip_spec = synchronous_rip_inv_def synchronous_rip_exit_def fault_at_rip_def

interpretation synchronous_rip: env_invariant "synchronous_rip_handler a" "synchronous_rip_inv a"
    "synchronous_rip_exit a" for a
  by unfold_locales (auto simp: prog_unfold synchronous_rip_defs synchronous_rip_spec)

text \<open>The first four calls; then the page is mapped at \<open>code\<close> and \<open>i\<close> of its bytes have been stored.\<close>

definition rip_started :: "nat \<Rightarrow> synchronous_rip \<Rightarrow> log \<Rightarrow> bool" where
  "rip_started i g l \<longleftrightarrow> handled l = [] \<and> active l = 0 \<and> expected_rip g = - 1 \<and>
     length (main_calls l) = i"

definition rip_stored :: "u64 \<Rightarrow> nat \<Rightarrow> synchronous_rip \<Rightarrow> log \<Rightarrow> bool" where
  "rip_stored code i g l \<longleftrightarrow> rip_started (5 + i) g l \<and> r_word (snd (main_calls l ! 4)) = code"

lemma rip_install_wp:
  assumes "rip_started 0 g l" and "\<And>g l. rip_started 4 g l \<Longrightarrow> Q () g l"
  shows "wp (synchronous_rip_inv a) layered (synchronous_rip_exit a) S
    (install [SIGSEGV, SIGBUS, SIGILL, SIGFPE]) Q g l"
  unfolding install_def
  by (rule wp_for_each [where P = rip_started])
    (use assms in \<open>auto simp: prog_unfold rip_started_def synchronous_rip_spec ud2_address_def\<close>)

lemma rip_mmap_wp:
  assumes "rip_started 4 g l" and "\<And>code g l. rip_stored code 0 g l \<Longrightarrow> Q code g l"
    and "\<And>g l. handled l = [] \<Longrightarrow> Q MAP_FAILED g l"
  shows "wp (synchronous_rip_inv a) layered X S (mmap 4096) Q g l"
proof -
  have "rip_stored (r_word r) 0 g' (Ans (Mmap 4096) r # l')"
    if "layered g l g' l'" and "handled l' = []" and "expected_rip g' = - 1" for g' l' r
    using that assms(1) by (simp add: rip_stored_def rip_started_def nth_append)
  with assms show ?thesis
    by (auto simp: mmap_def rip_started_def synchronous_rip_inv_def ud2_address_def)
qed

lemma store_code_wp:
  assumes "rip_stored code 0 g l" and "\<And>g l. rip_stored code 12 g l \<Longrightarrow> Q () g l"
  shows "wp (synchronous_rip_inv a) layered X S (store_code code) Q g l"
  unfolding store_code_def
  by (rule wp_for_each [where P = "rip_stored code"])
    (use assms in \<open>auto simp: prog_unfold rip_started_def rip_stored_def synchronous_rip_inv_def
       ud2_address_def nth_append\<close>)

lemma synchronous_rip_main_wp:
  "wp (synchronous_rip_inv a) layered (synchronous_rip_exit a) (\<lambda>_ _ _. False)
     (synchronous_rip_main a) (\<lambda>n. synchronous_rip_exit a n) synchronous_rip_memory []"
  by (auto simp: statement_defs synchronous_rip_defs sysret_def mprotect_def exec_insn_def ASSERT_def
      intro!: rip_install_wp rip_mmap_wp store_code_wp)
    (auto simp: rip_started_def rip_stored_def synchronous_rip_spec ud2_address_def nth_append)

text \<open>
  \<^verbatim>\<open>synchronous-rip\<close> exits 0 exactly when a handler is entered once, for \<^verbatim>\<open>SIGILL\<close> with code
  \<^verbatim>\<open>ILL_ILLOPN\<close> at the instruction pointer of the context, and that is the address of the \<^verbatim>\<open>ud2\<close> the
  program has stored in the page it mapped (none before it has stored it).
\<close>

lemma synchronous_rip_verdict:
  assumes "trial (synchronous_rip_handler a) (synchronous_rip_main a) synchronous_rip_memory mvs
    = Dead (Exited n) g l"
  shows "n = 0 \<longleftrightarrow> (\<exists>s i c. handled l = [(s, i, c)] \<and> fault_at_rip SIGILL ILL_ILLOPN a s i c \<and>
    widen a (REG_RIP (gregs c)) = ud2_address a (main_calls l))"
  using synchronous_rip.layers.verdict [OF synchronous_rip_main_wp assms]
  by (simp add: synchronous_rip_exit_def)

lemma synchronous_rip_linux:
  "linux_run (linux_init a pid uid [0x10000]) (synchronous_rip_handler a) (synchronous_rip_main a)
     synchronous_rip_memory = Some 0"
  by (cases a; simp only:; code_simp)

section \<open>\<^verbatim>\<open>illegal-cs.cpp\<close>\<close>

record illegal_cs = memory +
  fault_count :: int
  fault_rip :: u64
  fault_sig :: int
  fault_trapno :: int
  fault_err :: int

text \<open>\<^verbatim>\<open>fault_trapno\<close> and \<^verbatim>\<open>fault_err\<close> are \<^verbatim>\<open>int\<close>s: the low 32 bits of a \<^verbatim>\<open>greg_t\<close>.\<close>

definition to_int :: "u64 \<Rightarrow> int" where
  "to_int w = sint (ucast w :: u32)"

text \<open>
  The handler sends the program to \<^verbatim>\<open>recovery\<close> with a legal code segment; \<^verbatim>\<open>do_far_jmp\<close>
  returns from there.
\<close>

definition fix_context :: "arch \<Rightarrow> u64 \<Rightarrow> ucontext \<Rightarrow> ucontext" where
  "fix_context a recovery ctx = ctx\<lparr>gregs := (case a of
      X64 \<Rightarrow> (gregs ctx)\<lparr>REG_CSGSFS := (REG_CSGSFS (gregs ctx) AND NOT 0xFFFF) OR 0x33,
                          REG_RIP := recovery\<rparr>
    | X86 \<Rightarrow> (gregs ctx)\<lparr>REG_CS := 0x23, REG_RIP := to_ptr a recovery\<rparr>)\<rparr>"

definition illegal_cs_handler ::
  "arch \<Rightarrow> u64 \<Rightarrow> nat \<Rightarrow> signum \<Rightarrow> siginfo \<Rightarrow> ucontext \<Rightarrow> (illegal_cs, ucontext) prog" where
  "illegal_cs_handler a recovery h sig info ctx =
     seq (block [
       incr fault_count (\<lambda>n. fault_count_update (\<lambda>_. n)),
       modify (fault_sig_update (\<lambda>_. sig)),
       modify (fault_rip_update (\<lambda>_. widen a (REG_RIP (gregs ctx)))),
       modify (fault_trapno_update (\<lambda>_. to_int (REG_TRAPNO (gregs ctx)))),
       modify (fault_err_update (\<lambda>_. to_int (REG_ERR (gregs ctx))))])
     (Return (fix_context a recovery ctx))"

definition illegal_cs_main :: "u64 \<Rightarrow> (illegal_cs, int) prog" where
  "illegal_cs_main pc =
     seq (block [
       ignore (sigaction SIGSEGV (handler_action SA_SIGINFO sigemptyset)),
       ignore (sigaction SIGBUS (handler_action SA_SIGINFO sigemptyset)),
       exec_insn Far_jmp pc,
       ASSERT_mem (\<lambda>g. fault_count g = 1),
       ASSERT_mem (\<lambda>g. fault_sig g = SIGSEGV),
       ASSERT_mem (\<lambda>g. fault_trapno g = 13)])
     (Return 0)"

definition illegal_cs_memory :: illegal_cs where
  "illegal_cs_memory = \<lparr>errno = 0, fault_count = 0, fault_rip = 0, fault_sig = 0, fault_trapno = 0,
     fault_err = 0\<rparr>"

lemmas illegal_cs_defs = illegal_cs_handler_def illegal_cs_main_def illegal_cs_memory_def

text \<open>Every context a handler returns with is a repaired one that it was given.\<close>

fun repaired :: "arch \<Rightarrow> u64 \<Rightarrow> log \<Rightarrow> event \<Rightarrow> bool" where
  "repaired a recovery l (Ret c) =
     (\<exists>(s, i, c0) \<in> set (handled l). c = fix_context a recovery c0)"
| "repaired a recovery l _ = True"

lemma repaired_return [intro!]:
  assumes "grows (Ans (Enter s i c) r # l0) l"
  shows "repaired a recovery l (Ret (fix_context a recovery c))"
  using handled_grows [OF _ assms, of "(s, i, c)"] by force

text \<open>The globals describe the last entry.\<close>

definition illegal_cs_inv :: "arch \<Rightarrow> u64 \<Rightarrow> illegal_cs \<Rightarrow> log \<Rightarrow> bool" where
  "illegal_cs_inv a recovery g l \<longleftrightarrow> each_event (repaired a recovery) l \<and>
     fault_count g = int (length (handled l)) \<and>
     (handled l \<noteq> [] \<longrightarrow> (\<exists>i c. last (handled l) = (fault_sig g, i, c) \<and>
        fault_trapno g = to_int (REG_TRAPNO (gregs c))))"

definition illegal_cs_exit :: "arch \<Rightarrow> u64 \<Rightarrow> int \<Rightarrow> illegal_cs \<Rightarrow> log \<Rightarrow> bool" where
  "illegal_cs_exit a recovery n g l \<longleftrightarrow> each_event (repaired a recovery) l \<and>
     (n = 0 \<longleftrightarrow> (\<exists>i c. handled l = [(SIGSEGV, i, c)] \<and> to_int (REG_TRAPNO (gregs c)) = 13))"

lemmas illegal_cs_spec = illegal_cs_inv_def illegal_cs_exit_def

interpretation illegal_cs: env_invariant "illegal_cs_handler a recovery" "illegal_cs_inv a recovery"
    "illegal_cs_exit a recovery" for a recovery
  by unfold_locales
    (auto simp: prog_unfold illegal_cs_defs illegal_cs_spec simp del: repaired.simps(1))

lemma illegal_cs_main_wp:
  "wp (illegal_cs_inv a recovery) balanced (illegal_cs_exit a recovery) (\<lambda>_ _ _. False)
     (illegal_cs_main pc) (\<lambda>n. illegal_cs_exit a recovery n) illegal_cs_memory []"
  by (auto simp: prog_unfold illegal_cs_defs illegal_cs_spec length_Suc_conv)

text \<open>
  \<^verbatim>\<open>illegal-cs\<close> exits 0 exactly when its handler is entered once, for \<^verbatim>\<open>SIGSEGV\<close> with the trap number 13 of a
  general protection fault.
\<close>

lemma illegal_cs_verdict:
  assumes "trial (illegal_cs_handler a recovery) (illegal_cs_main pc) illegal_cs_memory mvs
    = Dead (Exited n) g l"
  shows "n = 0 \<longleftrightarrow>
    (\<exists>i c. handled l = [(SIGSEGV, i, c)] \<and> sint (ucast (REG_TRAPNO (gregs c)) :: u32) = 13)"
  using illegal_cs.open_env.verdict [OF illegal_cs_main_wp assms]
  by (simp add: illegal_cs_exit_def to_int_def)

lemma illegal_cs_linux:
  "linux_run (linux_init a pid uid heap) (illegal_cs_handler a 0x402000) (illegal_cs_main 0x401000)
     illegal_cs_memory = Some 0"
  by (cases a; simp only:; code_simp)

section \<open>Verdicts\<close>

text \<open>
  C13. The fault tests each exit 0 exactly when their handler is entered once and is told of their fault.
  For those that store to an unmapped address that is the fault address register (\<^verbatim>\<open>segv-cr2\<close>), the
  code, address, trap number 14 and error code 6 (\<^verbatim>\<open>segv-trapno\<close>), or signal, code and address
  (\<^verbatim>\<open>synchronous-null\<close>, \<^verbatim>\<open>synchronous-high-address\<close>). For the faulting instructions it is the
  signal, the code and the address of that instruction's fault: \<^verbatim>\<open>hlt\<close>, \<^verbatim>\<open>int3\<close> (whose context is
  behind the instruction), \<^verbatim>\<open>ud2\<close>, and the unsigned and the signed division by zero (whose contexts are
  at it); for \<^verbatim>\<open>synchronous-rip\<close> the \<^verbatim>\<open>ud2\<close> it has stored behind two other instructions in the page it
  mapped, at the instruction pointer of the context; for \<^verbatim>\<open>illegal-cs\<close> a \<^verbatim>\<open>SIGSEGV\<close> with the trap
  number 13 of a general protection fault. A run in which no handler is entered, or the instruction has
  no effect, is rejected.
\<close>

theorem faults_decided:
  "decides (segv_cr2_handler a) segv_cr2_main \<lparr>errno = 0\<rparr>
     (\<lambda>l. \<exists>s i c. handled l = [(s, i, c)] \<and> segv_cr2_ok a s i c) \<and>
   decides (segv_trapno_handler a) segv_trapno_main \<lparr>errno = 0\<rparr>
     (\<lambda>l. \<exists>s i c. handled l = [(s, i, c)] \<and> segv_trapno_ok a s i c) \<and>
   decides synchronous_null_handler synchronous_null_main \<lparr>errno = 0\<rparr>
     (\<lambda>l. \<exists>s i c. handled l = [(s, i, c)] \<and> maperr_at 0 s i c) \<and>
   decides synchronous_high_address_handler synchronous_high_address_main \<lparr>errno = 0\<rparr>
     (\<lambda>l. \<exists>s i c. handled l = [(s, i, c)] \<and> maperr_at 0x1000 s i c) \<and>
   decides synchronous_hlt_handler (synchronous_hlt_main pc) \<lparr>errno = 0\<rparr>
     (\<lambda>l. \<exists>s i c. handled l = [(s, i, c)] \<and> hlt_ok s i c) \<and>
   decides (synchronous_int3_handler a pc) (synchronous_int3_main pc) \<lparr>errno = 0\<rparr>
     (\<lambda>l. \<exists>s i c. handled l = [(s, i, c)] \<and> int3_ok a pc s i c) \<and>
   decides (synchronous_ud2_handler a) (synchronous_ud2_main pc) \<lparr>errno = 0\<rparr>
     (\<lambda>l. \<exists>s i c. handled l = [(s, i, c)] \<and> fault_at_rip SIGILL ILL_ILLOPN a s i c) \<and>
   decides (synchronous_div_zero_handler a) (synchronous_div_zero_main pc) \<lparr>errno = 0\<rparr>
     (\<lambda>l. \<exists>s i c. handled l = [(s, i, c)] \<and> fault_at_rip SIGFPE FPE_INTDIV a s i c) \<and>
   decides (synchronous_idiv_zero_handler a) (synchronous_idiv_zero_main pc) \<lparr>errno = 0\<rparr>
     (\<lambda>l. \<exists>s i c. handled l = [(s, i, c)] \<and> fault_at_rip SIGFPE FPE_INTDIV a s i c) \<and>
   decides (synchronous_rip_handler a) (synchronous_rip_main a) synchronous_rip_memory
     (\<lambda>l. \<exists>s i c. handled l = [(s, i, c)] \<and> fault_at_rip SIGILL ILL_ILLOPN a s i c \<and>
        widen a (REG_RIP (gregs c)) = ud2_address a (main_calls l)) \<and>
   decides (illegal_cs_handler a recovery) (illegal_cs_main pc) illegal_cs_memory
     (\<lambda>l. \<exists>i c. handled l = [(SIGSEGV, i, c)] \<and> sint (ucast (REG_TRAPNO (gregs c)) :: u32) = 13)"
  by (intro conjI segv_cr2.verdict_of segv_trapno.verdict_of synchronous_null.verdict_of
      synchronous_high_address.verdict_of
      synchronous_hlt.verdict_of synchronous_int3.verdict_of synchronous_ud2.verdict_of
      synchronous_div_zero.verdict_of synchronous_idiv_zero.verdict_of
      decidesI synchronous_rip_verdict illegal_cs_verdict)

text \<open>
  On the platform with the documented behaviour, on either target and with any process and user
  number, \<^verbatim>\<open>segv-cr2\<close>, \<^verbatim>\<open>segv-trapno\<close>,
  \<^verbatim>\<open>synchronous-null\<close>,
  \<^verbatim>\<open>synchronous-high-address\<close>, \<^verbatim>\<open>synchronous-hlt\<close>,
  \<^verbatim>\<open>synchronous-int3\<close>, \<^verbatim>\<open>synchronous-ud2\<close>,
  \<^verbatim>\<open>synchronous-div-zero\<close>,
  \<^verbatim>\<open>synchronous-idiv-zero\<close>, \<^verbatim>\<open>synchronous-rip\<close>,
  \<^verbatim>\<open>illegal-cs\<close> run to their end and exit 0: they accept a correct
  platform.
\<close>

lemma faults_accept_linux:
  "linux_run (linux_init a pid uid heap) (segv_cr2_handler a) segv_cr2_main \<lparr>errno = 0\<rparr>
     = Some 0 \<and>
   linux_run (linux_init a pid uid heap) (segv_trapno_handler a) segv_trapno_main \<lparr>errno = 0\<rparr>
     = Some 0 \<and>
   linux_run (linux_init a pid uid heap) synchronous_null_handler synchronous_null_main \<lparr>errno = 0\<rparr>
     = Some 0 \<and>
   linux_run (linux_init a pid uid heap) synchronous_high_address_handler synchronous_high_address_main \<lparr>errno = 0\<rparr>
     = Some 0 \<and>
   linux_run (linux_init a pid uid heap) synchronous_hlt_handler (synchronous_hlt_main 0x401000) \<lparr>errno = 0\<rparr>
     = Some 0 \<and>
   linux_run (linux_init a pid uid heap) (synchronous_int3_handler a 0x401000) (synchronous_int3_main 0x401000) \<lparr>errno = 0\<rparr>
     = Some 0 \<and>
   linux_run (linux_init a pid uid heap) (synchronous_ud2_handler a) (synchronous_ud2_main 0x401000) \<lparr>errno = 0\<rparr>
     = Some 0 \<and>
   linux_run (linux_init a pid uid heap) (synchronous_div_zero_handler a) (synchronous_div_zero_main 0x401000) \<lparr>errno = 0\<rparr>
     = Some 0 \<and>
   linux_run (linux_init a pid uid heap) (synchronous_idiv_zero_handler a) (synchronous_idiv_zero_main 0x401000) \<lparr>errno = 0\<rparr>
     = Some 0 \<and>
   linux_run (linux_init a pid uid [0x10000]) (synchronous_rip_handler a) (synchronous_rip_main a) synchronous_rip_memory
     = Some 0 \<and>
   linux_run (linux_init a pid uid heap) (illegal_cs_handler a 0x402000) (illegal_cs_main 0x401000) illegal_cs_memory
     = Some 0"
  by (intro conjI segv_cr2_linux segv_trapno_linux synchronous_null_linux synchronous_high_address_linux synchronous_hlt_linux synchronous_int3_linux synchronous_ud2_linux synchronous_div_zero_linux synchronous_idiv_zero_linux synchronous_rip_linux illegal_cs_linux)


end
