(* ===== verification/Layout.thy ===== *)
theory Layout
  imports Prelude
begin

text \<open>
  The layout of the C structs in which the tests of saved state look at a signal frame:
  \<^verbatim>\<open>fpstate_32\<close>, declared in \<^verbatim>\<open>fpstate-x87-32.cpp\<close> and again in \<^verbatim>\<open>fpstate-legacy-32.cpp\<close>,
  \<^verbatim>\<open>sigcontext_32\<close>, and \<^verbatim>\<open>kernel_sigaction\<close>. The other theories name the fields; this one says where
  they are, and that reading and writing them by offset is reading and writing them by name.
\<close>

section \<open>Types and their layout\<close>

text \<open>A struct may be packed; then its fields follow each other without padding.\<close>

datatype ctype = U8 | U16 | U32 | U64 | Array nat ctype | Struct bool "(string \<times> ctype) list"

definition align_up :: "nat \<Rightarrow> nat \<Rightarrow> nat" where
  "align_up al off = (off + al - 1) div al * al"

fun align_of :: "ctype \<Rightarrow> nat" and max_align :: "(string \<times> ctype) list \<Rightarrow> nat" where
  "align_of U8 = 1"
| "align_of U16 = 2"
| "align_of U32 = 4"
| "align_of U64 = 8"
| "align_of (Array n t) = align_of t"
| "align_of (Struct packed fs) = (if packed then 1 else max_align fs)"
| "max_align [] = 1"
| "max_align ((x, t) # fs) = max (align_of t) (max_align fs)"

text \<open>\<open>end_of packed off fs\<close> is the offset behind fields placed from \<open>off\<close> on.\<close>

fun size_of :: "ctype \<Rightarrow> nat" and end_of :: "bool \<Rightarrow> nat \<Rightarrow> (string \<times> ctype) list \<Rightarrow> nat" where
  "size_of U8 = 1"
| "size_of U16 = 2"
| "size_of U32 = 4"
| "size_of U64 = 8"
| "size_of (Array n t) = n * size_of t"
| "size_of (Struct packed fs) = align_up (align_of (Struct packed fs)) (end_of packed 0 fs)"
| "end_of packed off [] = off"
| "end_of packed off ((x, t) # fs) =
     end_of packed ((if packed then off else align_up (align_of t) off) + size_of t) fs"

text \<open>The fields' names, offsets and sizes.\<close>

fun place :: "bool \<Rightarrow> nat \<Rightarrow> (string \<times> ctype) list \<Rightarrow> (string \<times> nat \<times> nat) list" where
  "place packed off [] = []"
| "place packed off ((x, t) # fs) =
     (let o1 = (if packed then off else align_up (align_of t) off) in
      (x, o1, size_of t) # place packed (o1 + size_of t) fs)"

fun fields :: "ctype \<Rightarrow> (string \<times> nat \<times> nat) list" where
  "fields (Struct packed fs) = place packed 0 fs"
| "fields _ = []"

definition field_at :: "ctype \<Rightarrow> string \<Rightarrow> (nat \<times> nat) option" where
  "field_at t x = map_of (fields t) x"

section \<open>Fields do not overlap\<close>

lemma align_of_pos: "0 < align_of t" and max_align_pos: "0 < max_align fs"
  by (induction t and fs rule: align_of_max_align.induct) auto

lemma align_up_ge:
  assumes "0 < al"
  shows "off \<le> align_up al off"
proof -
  have "off + al - 1 = (off + al - 1) div al * al + (off + al - 1) mod al" by simp
  moreover have "(off + al - 1) mod al < al" using assms by simp
  ultimately show ?thesis unfolding align_up_def by linarith
qed

lemma align_up_dvd [simp]: "al dvd align_up al off"
  by (simp add: align_up_def)

definition start :: "bool \<Rightarrow> ctype \<Rightarrow> nat \<Rightarrow> nat" where
  "start packed t off = (if packed then off else align_up (align_of t) off)"

lemma start_ge: "off \<le> start packed t off"
  by (simp add: start_def align_up_ge align_of_pos)

text \<open>The fields lie one behind the other between two offsets.\<close>

fun in_order :: "nat \<Rightarrow> (string \<times> nat \<times> nat) list \<Rightarrow> nat \<Rightarrow> bool" where
  "in_order lo [] hi \<longleftrightarrow> lo \<le> hi"
| "in_order lo ((x, off, n) # ps) hi \<longleftrightarrow> lo \<le> off \<and> in_order (off + n) ps hi"

lemma place_in_order: "in_order off (place packed off fs) (end_of packed off fs)"
proof (induction packed off fs rule: place.induct)
  case (2 packed off x t fs)
  then show ?case using start_ge [of off packed t] by (simp add: start_def Let_def)
qed simp

lemma in_order_weaken: "in_order lo ps hi \<Longrightarrow> lo' \<le> lo \<Longrightarrow> hi \<le> hi' \<Longrightarrow> in_order lo' ps hi'"
proof (induction ps arbitrary: lo lo')
  case (Cons p ps)
  obtain x off n where p: "p = (x, off, n)" by (cases p) auto
  have "in_order (off + n) ps hi'" by (rule Cons.IH [of "off + n"]) (use Cons.prems p in auto)
  then show ?case using Cons.prems p by simp
qed simp

lemma in_order_le: "in_order lo ps hi \<Longrightarrow> lo \<le> hi"
  by (induction lo ps hi rule: in_order.induct) auto

lemma fields_in_order: "in_order 0 (fields t) (size_of t)"
proof (cases t)
  case (Struct packed fs)
  have "end_of packed 0 fs \<le> size_of t"
    unfolding Struct size_of.simps by (intro align_up_ge align_of_pos)
  then show ?thesis
    unfolding Struct fields.simps by (rule in_order_weaken [OF place_in_order order_refl])
qed simp_all

lemma in_order_bounds: "in_order lo ps hi \<Longrightarrow> map_of ps x = Some (off, n) \<Longrightarrow> lo \<le> off \<and> off + n \<le> hi"
proof (induction lo ps hi rule: in_order.induct)
  case (2 lo y off' n' ps hi)
  then show ?case using in_order_le [of "off' + n'" ps hi] by (auto split: if_splits)
qed simp

lemma in_order_apart:
  assumes "in_order lo ps hi" and "map_of ps x = Some (o1, n1)" and "map_of ps y = Some (o2, n2)" and "x \<noteq> y"
  shows "o1 + n1 \<le> o2 \<or> o2 + n2 \<le> o1"
  using assms
proof (induction lo ps hi rule: in_order.induct)
  case (2 lo z off n ps hi)
  then show ?case using in_order_bounds [of "off + n" ps hi] by (auto split: if_splits)
qed simp

lemma field_bounds: "field_at t x = Some (off, n) \<Longrightarrow> off + n \<le> size_of t"
  using in_order_bounds [OF fields_in_order] by (auto simp: field_at_def)

lemma fields_apart:
  "field_at t x = Some (o1, n1) \<Longrightarrow> field_at t y = Some (o2, n2) \<Longrightarrow> x \<noteq> y \<Longrightarrow>
     o1 + n1 \<le> o2 \<or> o2 + n2 \<le> o1"
  unfolding field_at_def by (rule in_order_apart [OF fields_in_order])

section \<open>Memory\<close>

text \<open>The bytes of memory from some address on, and words in them, the low byte first.\<close>

type_synonym image = "nat \<Rightarrow> u8"

definition get_bytes :: "nat \<Rightarrow> nat \<Rightarrow> image \<Rightarrow> u8 list" where
  "get_bytes off n img = map img [off..<off + n]"

definition put_bytes :: "nat \<Rightarrow> u8 list \<Rightarrow> image \<Rightarrow> image" where
  "put_bytes off bs img = (\<lambda>i. if off \<le> i \<and> i < off + length bs then bs ! (i - off) else img i)"

fun bytes_of :: "nat \<Rightarrow> 'a :: len word \<Rightarrow> u8 list" where
  "bytes_of 0 w = []"
| "bytes_of (Suc n) w = ucast w # bytes_of n (drop_bit 8 w)"

fun word_of :: "u8 list \<Rightarrow> 'a :: len word" where
  "word_of [] = 0"
| "word_of (b # bs) = ucast b OR push_bit 8 (word_of bs)"

definition get_word :: "nat \<Rightarrow> nat \<Rightarrow> image \<Rightarrow> 'a :: len word" where
  "get_word off n img = word_of (get_bytes off n img)"

definition put_word :: "nat \<Rightarrow> nat \<Rightarrow> 'a :: len word \<Rightarrow> image \<Rightarrow> image" where
  "put_word off n w = put_bytes off (bytes_of n w)"

lemma length_bytes_of [simp]: "length (bytes_of n w) = n"
  by (induction n w rule: bytes_of.induct) simp_all

lemma get_put_same: "n = length bs \<Longrightarrow> get_bytes off n (put_bytes off bs img) = bs"
  by (auto simp: get_bytes_def put_bytes_def intro: nth_equalityI)

lemma get_put_other:
  "off + n \<le> off' \<or> off' + length bs \<le> off \<Longrightarrow> get_bytes off n (put_bytes off' bs img) = get_bytes off n img"
  by (auto simp: get_bytes_def put_bytes_def)

text \<open>The bytes of a word read as a word of another width: the low bits of as many bytes as there are.\<close>

lemma word_of_bytes_of:
  fixes w :: "'a :: len word"
  shows "(word_of (bytes_of n w) :: 'b :: len word) = take_bit (8 * n) (ucast w)"
proof (induction n w rule: bytes_of.induct)
  case (2 n w)
  show ?case
    by (rule bit_word_eqI)
      (auto simp: 2 bit_or_iff bit_push_bit_iff bit_take_bit_iff bit_drop_bit_eq bit_ucast_iff
         bit_unsigned_iff not_le dest: bit_imp_le_length)
qed simp

lemma drop_bytes_of:
  fixes w :: "'a :: len word"
  shows "drop k (bytes_of n w) = bytes_of (n - k) (drop_bit (8 * k) w)"
proof (induction n w arbitrary: k rule: bytes_of.induct)
  case (2 n w)
  then show ?case by (cases k) (simp_all add: add.commute)
qed simp

lemma take_bytes_of:
  fixes w :: "'a :: len word"
  shows "take k (bytes_of n w) = bytes_of (min k n) w"
proof (induction n w arbitrary: k rule: bytes_of.induct)
  case (2 n w)
  then show ?case by (cases k) simp_all
qed simp

lemma get_put_word:
  fixes w :: "'a :: len word"
  assumes "LENGTH('a) \<le> 8 * n"
  shows "get_word off n (put_word off n w img) = w"
  using assms by (simp add: get_word_def put_word_def get_put_same word_of_bytes_of take_bit_word_eq_self)

lemma get_word_other:
  "off + n \<le> off' \<or> off' + n' \<le> off \<Longrightarrow> get_word off n (put_word off' n' w img) = get_word off n img"
  by (simp add: get_word_def put_word_def get_put_other)

lemma get_bytes_put_word:
  "off + n \<le> off' \<or> off' + n' \<le> off \<Longrightarrow> get_bytes off n (put_word off' n' w img) = get_bytes off n img"
  by (simp add: put_word_def get_put_other)

lemma get_word_put_bytes:
  "off + n \<le> off' \<or> off' + length bs \<le> off \<Longrightarrow> get_word off n (put_bytes off' bs img) = get_word off n img"
  by (simp add: get_word_def get_put_other)

lemmas image_laws = get_put_word get_word_other get_put_same get_put_other get_bytes_put_word get_word_put_bytes

text \<open>Some of the low bytes of a word, read as a word of another width.\<close>

lemma bit_word_of:
  "bit (word_of bs :: 'a :: len word) n \<longleftrightarrow> n < LENGTH('a) \<and> n < 8 * length bs \<and> bit (bs ! (n div 8)) (n mod 8)"
proof (induction bs arbitrary: n)
  case (Cons b bs)
  have "n div 8 = Suc ((n - 8) div 8)" "n mod 8 = (n - 8) mod 8" if "8 \<le> n"
    using that by (simp_all add: div_if mod_if)
  then show ?case
    by (cases "n < 8") (auto simp: bit_or_iff bit_push_bit_iff bit_unsigned_iff Cons dest: bit_imp_le_length)
qed simp

lemma ucast_get_word:
  assumes "LENGTH('b) \<le> 8 * m" and "m \<le> n" and "LENGTH('b) \<le> LENGTH('a)"
  shows "ucast (get_word off n img :: 'a :: len word) = (get_word off m img :: 'b :: len word)"
  by (rule bit_word_eqI)
    (use assms in \<open>auto simp: bit_unsigned_iff get_word_def bit_word_of get_bytes_def\<close>)

lemma take_bit_get_word:
  assumes "m \<le> n"
  shows "take_bit (8 * m) (get_word off n img :: 'a :: len word) = get_word off m img"
  by (rule bit_word_eqI) (use assms in \<open>auto simp: bit_take_bit_iff get_word_def bit_word_of get_bytes_def\<close>)

section \<open>Fields of a struct in memory\<close>

text \<open>
  The field \<open>x\<close> of a struct of type \<open>t\<close> at the beginning of memory. Reading or writing a field the
  struct does not have is a compile-time error: it reads 0 bytes or leaves memory as it is.
\<close>

definition get_field :: "ctype \<Rightarrow> string \<Rightarrow> image \<Rightarrow> 'a :: len word" where
  "get_field t x img = (case field_at t x of None \<Rightarrow> 0 | Some (off, n) \<Rightarrow> get_word off n img)"

definition put_field :: "ctype \<Rightarrow> string \<Rightarrow> 'a :: len word \<Rightarrow> image \<Rightarrow> image" where
  "put_field t x w img = (case field_at t x of None \<Rightarrow> img | Some (off, n) \<Rightarrow> put_word off n w img)"

lemma get_put_field:
  "get_field t x (put_field t y w img) =
     (if x = y then get_field t x (put_field t x w img) else get_field t x img)"
  using fields_apart [of t x _ _ y]
  by (auto simp: get_field_def put_field_def get_word_other split: option.splits)

text \<open>The offset of an array in a struct.\<close>

definition offset_of :: "ctype \<Rightarrow> string \<Rightarrow> nat" where
  "offset_of t x = (case field_at t x of None \<Rightarrow> 0 | Some (off, n) \<Rightarrow> off)"

section \<open>The structs of the tests\<close>

text \<open>Two files declare \<^verbatim>\<open>fpstate_32\<close>, one of them with \<^verbatim>\<open>xmmreg\<close> for the vector registers.\<close>

definition fpstate_32 :: ctype where
  "fpstate_32 = Struct False
     [(''cw'', U32), (''sw'', U32), (''tag'', U32), (''ipoff'', U32), (''cssel'', U32),
      (''dataoff'', U32), (''datasel'', U32),
      (''_st'', Array 80 U8),
      (''status'', U16), (''magic'', U16),
      (''_fxsr_env'', Array 6 U32),
      (''mxcsr'', U32), (''reserved'', U32),
      (''_fxsr_st'', Array 128 U8),
      (''_xmm'', Array 128 U8)]"

definition xmmreg :: ctype where
  "xmmreg = Struct False [(''element'', Array 4 U32)]"

definition legacy_fpstate_32 :: ctype where
  "legacy_fpstate_32 = Struct False
     [(''cw'', U32), (''sw'', U32), (''tag'', U32), (''ipoff'', U32), (''cssel'', U32),
      (''dataoff'', U32), (''datasel'', U32),
      (''_st'', Array 80 U8),
      (''status'', U16),
      (''magic'', U16),
      (''_fxsr_env'', Array 6 U32),
      (''mxcsr'', U32),
      (''reserved'', U32),
      (''_fxsr_st'', Array 128 U8),
      (''_xmm'', Array 8 xmmreg)]"

definition sigcontext_32 :: ctype where
  "sigcontext_32 = Struct True
     [(''gs'', U16), (''__gsh'', U16),
      (''fs'', U16), (''__fsh'', U16),
      (''es'', U16), (''__esh'', U16),
      (''ds'', U16), (''__dsh'', U16),
      (''di'', U32), (''si'', U32), (''bp'', U32), (''sp'', U32), (''bx'', U32), (''dx'', U32),
      (''cx'', U32), (''ax'', U32),
      (''trapno'', U32), (''err'', U32), (''ip'', U32),
      (''cs'', U16), (''__csh'', U16),
      (''flags'', U32), (''sp_at_signal'', U32),
      (''ss'', U16), (''__ssh'', U16),
      (''fpstate'', U32),
      (''oldmask'', U32),
      (''cr2'', U32)]"

text \<open>A pointer and an \<^verbatim>\<open>unsigned long\<close> have the width of the target.\<close>

definition long_type :: "arch \<Rightarrow> ctype" where
  "long_type a = (case a of X64 \<Rightarrow> U64 | X86 \<Rightarrow> U32)"

definition kernel_sigaction :: "arch \<Rightarrow> ctype" where
  "kernel_sigaction a = Struct False
     [(''handler'', long_type a),
      (''flags'', long_type a),
      (''restorer'', long_type a),
      (''mask'', Array (if pointer_size a = 8 then 1 else 2) (long_type a))]"

text \<open>The offset from \<^verbatim>\<open>fpregs\<close> of the word that says which components of the state are in use.\<close>

definition XSTATE_BV_OFFSET :: "arch \<Rightarrow> nat" where
  "XSTATE_BV_OFFSET a = (case a of X64 \<Rightarrow> 512 | X86 \<Rightarrow> 624)"

lemmas layout_defs = fpstate_32_def xmmreg_def legacy_fpstate_32_def sigcontext_32_def long_type_def
  kernel_sigaction_def XSTATE_BV_OFFSET_def pointer_size_def

text \<open>The two \<^verbatim>\<open>static_assert\<close>s.\<close>

lemma static_asserts: "size_of fpstate_32 = 400" "size_of legacy_fpstate_32 = 400"
  by code_simp+

end
