(* ===== verification/Farjump.thy ===== *)
theory Farjump
  imports Faults Layout
begin

text \<open>
  The assembly of \<^verbatim>\<open>illegal-cs.cpp\<close>: the far jump through a pointer on the stack, and the code at
  \<^verbatim>\<open>recovery\<close> to which the handler sends the program. The theory \<^verbatim>\<open>Faults\<close> has the jump as one
  instruction that faults; here is what it is given, and that the program is back in \<^verbatim>\<open>main\<close> behind the
  call, with the stack as it was, once the handler has repaired the context.
\<close>

section \<open>The instructions\<close>

text \<open>
  Instructions of the routine by their positions in it, the addresses of which the assembler chooses:
  \<open>Lea t\<close> loads the address of instruction \<open>t\<close>, \<open>Call_next\<close> calls the next instruction,
  \<open>Add_ax t b\<close> adds the distance from \<open>b\<close> to \<open>t\<close>, \<open>Ljmp\<close> jumps through the far pointer at the top of the
  stack, \<open>Add_sp\<close> drops bytes from it.
\<close>

datatype asm = Lea nat | Call_next | Pop_ax | Add_ax nat nat | Push_imm u64 | Push_ax | Ljmp | Nop
  | Add_sp nat | Near_ret

definition do_far_jmp :: "arch \<Rightarrow> asm list" where
  "do_far_jmp a = (case a of
      X64 \<Rightarrow> [Lea 4, Push_imm 0x07, Push_ax, Ljmp, Nop, Add_sp 16, Near_ret]
    | X86 \<Rightarrow> [Call_next, Pop_ax, Add_ax 6 1, Push_imm 0x07, Push_ax, Ljmp, Nop, Add_sp 8, Near_ret])"

text \<open>The positions of the labels \<^verbatim>\<open>target\<close> and \<^verbatim>\<open>recovery\<close> and of the jump.\<close>

definition target :: "arch \<Rightarrow> nat" where
  "target a = (case a of X64 \<Rightarrow> 4 | X86 \<Rightarrow> 6)"

definition recovery_label :: "arch \<Rightarrow> nat" where
  "recovery_label a = Suc (target a)"

definition jump :: "arch \<Rightarrow> nat" where
  "jump a = target a - 1"

section \<open>Execution\<close>

text \<open>
  The accumulator and the bytes of the stack, its top first. A stack slot has the width of a pointer.
\<close>

record cpu =
  ax :: u64
  stack :: "u8 list"

definition slot :: "arch \<Rightarrow> nat" where
  "slot a = nat (pointer_size a)"

definition push :: "arch \<Rightarrow> u64 \<Rightarrow> cpu \<Rightarrow> cpu" where
  "push a v c = c\<lparr>stack := bytes_of (slot a) v @ stack c\<rparr>"

definition top :: "arch \<Rightarrow> cpu \<Rightarrow> u64" where
  "top a c = word_of (take (slot a) (stack c))"

definition drop_stack :: "nat \<Rightarrow> cpu \<Rightarrow> cpu" where
  "drop_stack n c = c\<lparr>stack := drop n (stack c)\<rparr>"

text \<open>
  Where an execution leaves the routine: in a far jump to an offset in a code segment, with the address
  of the jump, by its return, or by running past its end.
\<close>

datatype leaving = Far u16 u64 u64 cpu | Back u64 cpu | Off_the_end

text \<open>
  \<open>asm_run a n adr i is c\<close> runs the instructions \<open>is\<close>, the first of which has position \<open>i\<close>. The
  function \<open>adr\<close> gives the positions' addresses. A far pointer is an offset of \<open>n\<close> bytes and then the
  selector.
\<close>

fun asm_run :: "arch \<Rightarrow> nat \<Rightarrow> (nat \<Rightarrow> u64) \<Rightarrow> nat \<Rightarrow> asm list \<Rightarrow> cpu \<Rightarrow> leaving" where
  "asm_run a n adr i [] c = Off_the_end"
| "asm_run a n adr i (s # is) c = (case s of
      Lea t \<Rightarrow> asm_run a n adr (i + 1) is (c\<lparr>ax := to_ptr a (adr t)\<rparr>)
    | Call_next \<Rightarrow> asm_run a n adr (i + 1) is (push a (adr (i + 1)) c)
    | Pop_ax \<Rightarrow> asm_run a n adr (i + 1) is (drop_stack (slot a) (c\<lparr>ax := top a c\<rparr>))
    | Add_ax t b \<Rightarrow> asm_run a n adr (i + 1) is (c\<lparr>ax := to_ptr a (ax c + (adr t - adr b))\<rparr>)
    | Push_imm v \<Rightarrow> asm_run a n adr (i + 1) is (push a v c)
    | Push_ax \<Rightarrow> asm_run a n adr (i + 1) is (push a (ax c) c)
    | Ljmp \<Rightarrow> Far (word_of (take 2 (drop n (stack c)))) (word_of (take n (stack c))) (adr i) c
    | Nop \<Rightarrow> asm_run a n adr (i + 1) is c
    | Add_sp k \<Rightarrow> asm_run a n adr (i + 1) is (drop_stack k c)
    | Near_ret \<Rightarrow> Back (top a c) (drop_stack (slot a) c))"

text \<open>The routine from one of its positions on.\<close>

definition run_from :: "arch \<Rightarrow> nat \<Rightarrow> (nat \<Rightarrow> u64) \<Rightarrow> nat \<Rightarrow> cpu \<Rightarrow> leaving" where
  "run_from a n adr i = asm_run a n adr i (drop i (do_far_jmp a))"

lemma push_imm_7: "bytes_of 8 (7 :: u64) = [7, 0, 0, 0, 0, 0, 0, 0]" "bytes_of 4 (7 :: u64) = [7, 0, 0, 0]"
  by code_simp+

lemmas far_defs = run_from_def do_far_jmp_def target_def recovery_label_def jump_def slot_def pointer_size_def
  push_def top_def drop_stack_def

lemma add_distance: "take_bit 32 (take_bit 32 b + (t - b)) = take_bit 32 (t :: u64)"
  by transfer (simp add: take_bit_eq_mod mod_simps)

lemma positions: "Suc (Suc (Suc 0)) = 3" "Suc (Suc (Suc (Suc (Suc 0)))) = 5"
  by simp_all

text \<open>The stack the jump finds: the far pointer's two slots above the return address.\<close>

definition jump_stack :: "arch \<Rightarrow> (nat \<Rightarrow> u64) \<Rightarrow> u8 list \<Rightarrow> u8 list" where
  "jump_stack a adr st = bytes_of (slot a) (to_ptr a (adr (target a))) @ bytes_of (slot a) (0x07 :: u64) @ st"

lemma to_the_jump:
  "run_from a n adr 0 (c\<lparr>stack := st\<rparr>) =
     Far (word_of (take 2 (drop n (jump_stack a adr st)))) (word_of (take n (jump_stack a adr st)))
       (adr (jump a)) (c\<lparr>ax := to_ptr a (adr (target a)), stack := jump_stack a adr st\<rparr>)"
  by (cases a)
    (simp_all add: far_defs jump_stack_def to_ptr_def word_of_bytes_of add_distance take_bytes_of positions)

lemma from_recovery:
  "run_from a n adr (recovery_label a) (c\<lparr>stack := jump_stack a adr (bytes_of (slot a) caller @ st)\<rparr>) =
     Back (to_ptr a caller) (c\<lparr>stack := st\<rparr>)"
  by (cases a)
    (simp_all add: far_defs jump_stack_def to_ptr_def word_of_bytes_of take_bytes_of take_bit_word_eq_self)

text \<open>The far pointer in those slots.\<close>

lemma far_pointer:
  "word_of (take 4 (jump_stack X86 adr st)) = to_ptr X86 (adr (target X86))"
  "(word_of (take 2 (drop 4 (jump_stack X86 adr st))) :: u16) = 0x07"
  "word_of (take 8 (jump_stack X64 adr st)) = adr (target X64)"
  "(word_of (take 2 (drop 8 (jump_stack X64 adr st))) :: u16) = 0x07"
  "word_of (take 4 (jump_stack X64 adr st)) = take_bit 32 (adr (target X64))"
  "(word_of (take 2 (drop 4 (jump_stack X64 adr st))) :: u16) = ucast (drop_bit 32 (adr (target X64)))"
  by (simp_all add: jump_stack_def slot_def pointer_size_def to_ptr_def word_of_bytes_of take_bytes_of
      drop_bytes_of take_bit_word_eq_self)

text \<open>The processor where \<^verbatim>\<open>main\<close> has called the routine, and where the jump faults.\<close>

definition called :: "arch \<Rightarrow> u64 \<Rightarrow> cpu \<Rightarrow> cpu" where
  "called a caller c = push a caller c"

definition faulted :: "arch \<Rightarrow> (nat \<Rightarrow> u64) \<Rightarrow> u64 \<Rightarrow> cpu \<Rightarrow> cpu" where
  "faulted a adr caller c =
     \<lparr>ax = to_ptr a (adr (target a)), stack = jump_stack a adr (stack (called a caller c))\<rparr>"

lemma reaches_jump:
  "run_from a n adr 0 (called a caller c) =
     Far (word_of (take 2 (drop n (stack (faulted a adr caller c)))))
       (word_of (take n (stack (faulted a adr caller c)))) (adr (jump a)) (faulted a adr caller c)"
  using to_the_jump [of a n adr "stack (called a caller c)" "called a caller c"]
  by (simp add: faulted_def)

lemma recovers:
  "run_from a n adr (recovery_label a) (faulted a adr caller c) =
     Back (to_ptr a caller) (c\<lparr>ax := to_ptr a (adr (target a))\<rparr>)"
  using from_recovery [of a n adr caller "stack c" "faulted a adr caller c"]
  by (simp add: faulted_def called_def push_def)

lemma context_code_segment: "(ucast (w AND - 65536 OR 51 :: u64) :: u16) = 51"
proof -
  have low: "(- 65536 :: u64) = NOT (mask 16)" by (simp add: mask_eq_exp_minus_1)
  have "(ucast (w AND - 65536 :: u64) :: u16) = 0"
    unfolding low by (rule bit_word_eqI) (simp add: bit_ucast_iff bit_and_iff bit_not_iff bit_mask_iff)
  moreover have "(ucast (v OR 51 :: u64) :: u16) = ucast v OR ucast (51 :: u64)" for v
    by (rule bit_word_eqI) (simp add: bit_ucast_iff bit_or_iff)
  ultimately show ?thesis by simp
qed

text \<open>
  C30. \<^verbatim>\<open>do_far_jmp\<close> jumps through the pointer it has pushed, and \<^verbatim>\<open>recovery\<close> undoes it. If the
  instruction takes an offset as wide as a pointer, it jumps to \<^verbatim>\<open>target\<close> with the selector \<^verbatim>\<open>0x07\<close> that
  the test means to be illegal. On the 64-bit target its default offset has 4 bytes: then the selector is bits
  32 to 47 of the address of \<^verbatim>\<open>target\<close>, and the \<^verbatim>\<open>0x07\<close> that was pushed is not used. In each case, and
  whatever else the stack holds, a program that goes on with the stack of the fault at the instruction pointer
  of the context that the handler has repaired, which is \<^verbatim>\<open>recovery\<close> in the code segment of the target,
  returns to the caller of \<^verbatim>\<open>do_far_jmp\<close> with the stack as it was before the call.
\<close>

theorem far_jump_recovered:
  "run_from a (slot a) adr 0 (called a caller c) =
     Far 0x07 (to_ptr a (adr (target a))) (adr (jump a)) (faulted a adr caller c) \<and>
   run_from X64 4 adr 0 (called X64 caller c) =
     Far (ucast (drop_bit 32 (adr (target X64)))) (take_bit 32 (adr (target X64))) (adr (jump X64))
       (faulted X64 adr caller c) \<and>
   run_from a n adr (recovery_label a) (faulted a adr caller c) =
     Back (to_ptr a caller) (c\<lparr>ax := to_ptr a (adr (target a))\<rparr>) \<and>
   (let ctx' = fix_context a (adr (recovery_label a)) ctx in
      REG_RIP (gregs ctx') = to_ptr a (adr (recovery_label a)) \<and> REG_RSP (gregs ctx') = REG_RSP (gregs ctx) \<and>
      (ucast (case a of X64 \<Rightarrow> REG_CSGSFS (gregs ctx') | X86 \<Rightarrow> REG_CS (gregs ctx')) :: u16) =
        (case a of X64 \<Rightarrow> 0x33 | X86 \<Rightarrow> 0x23))"
proof (intro conjI)
  show "run_from a (slot a) adr 0 (called a caller c) =
     Far 0x07 (to_ptr a (adr (target a))) (adr (jump a)) (faulted a adr caller c)"
    by (cases a) (simp_all add: reaches_jump, simp_all add: faulted_def slot_def pointer_size_def far_pointer to_ptr_def)
  show "run_from X64 4 adr 0 (called X64 caller c) =
     Far (ucast (drop_bit 32 (adr (target X64)))) (take_bit 32 (adr (target X64))) (adr (jump X64))
       (faulted X64 adr caller c)"
    by (simp add: reaches_jump) (simp add: faulted_def far_pointer)
  show "run_from a n adr (recovery_label a) (faulted a adr caller c) =
     Back (to_ptr a caller) (c\<lparr>ax := to_ptr a (adr (target a))\<rparr>)"
    by (rule recovers)
qed (cases a; simp add: fix_context_def Let_def context_code_segment to_ptr_def)

end
