(* ===== verification/Altstack.thy ===== *)
theory Altstack
  imports Linux
begin

text \<open>
  The tests of alternate signal stacks and of the frames put on them:
  \<^verbatim>\<open>sigaltstack-errors\<close>, \<^verbatim>\<open>sigaltstack-query\<close>, \<^verbatim>\<open>two-signals-alt-stack\<close>,
  \<^verbatim>\<open>two-signals-alt-stack-disarm\<close>, \<^verbatim>\<open>uc-stack-always\<close>, \<^verbatim>\<open>uc-stack-restore\<close>,
  \<^verbatim>\<open>frame-alignment\<close>.
\<close>

abbreviation (input) ALTSZ :: u64 where "ALTSZ \<equiv> 0x100000"

definition stack :: "u64 \<Rightarrow> u64 \<Rightarrow> u32 \<Rightarrow> stack_t" where
  "stack sp sz flags = \<lparr>ss_sp = sp, ss_size = sz, ss_flags = flags\<rparr>"

lemma stack_eq [simp]:
  "x = stack sp sz flags \<longleftrightarrow> ss_sp x = sp \<and> ss_size x = sz \<and> ss_flags x = flags"
  by (cases x) (simp add: stack_def)

lemma stack_fields [simp]:
  "ss_sp (stack sp sz flags) = sp" "ss_size (stack sp sz flags) = sz" "ss_flags (stack sp sz flags) = flags"
  by (simp_all add: stack_def)

text \<open>The statements \<^verbatim>\<open>sigaltstack(nullptr, &q)\<close> and the assertions about \<^verbatim>\<open>q\<close>.\<close>

definition check_stack :: "u64 \<Rightarrow> u64 \<Rightarrow> u32 \<Rightarrow> ('m memory_scheme, unit) prog" where
  "check_stack sp sz flags = bind sigaltstack_query (\<lambda>(r, q). block [
     ASSERT (r = 0),
     ASSERT (ss_sp q = sp),
     ASSERT (ss_size q = sz),
     ASSERT (ss_flags q = flags)])"

section \<open>\<^verbatim>\<open>sigaltstack-errors.cpp\<close>\<close>

definition sigaltstack_errors_main :: "(memory, int) prog" where
  "sigaltstack_errors_main =
     bind (malloc ALTSZ) (\<lambda>alt. seq (block [
       set_errno 0,
       ASSERT_ret (sigaltstack (stack alt 1 0)) (\<lambda>r. r = - 1),
       ASSERT_mem (\<lambda>g. errno g = ENOMEM),
       set_errno 0,
       ASSERT_ret (sigaltstack (stack alt ALTSZ 0x1234)) (\<lambda>r. r = - 1),
       ASSERT_mem (\<lambda>g. errno g = EINVAL),
       check_stack 0 0 SS_DISABLE,
       ASSERT_ret (sigaltstack (stack alt ALTSZ 0)) (\<lambda>r. r = 0),
       set_errno 0,
       ASSERT_ret (sigaltstack (stack alt 1 0)) (\<lambda>r. r = - 1),
       ASSERT_mem (\<lambda>g. errno g = ENOMEM),
       check_stack alt ALTSZ 0])
     (Return 0))"

text \<open>
  The answers of a correct platform: a stack that is too small, and flags that mean nothing, are
  refused and leave the setting as it was.
\<close>

definition sigaltstack_errors_log :: "log \<Rightarrow> bool" where
  "sigaltstack_errors_log l \<longleftrightarrow>
     (\<exists>m small1 flags q1 good small2 q2.
        rev l = [
          Ans (Malloc ALTSZ) m,
          Ans (Sigaltstack (Some (stack (r_word m) 1 0))) small1,
          Ans (Sigaltstack (Some (stack (r_word m) ALTSZ 0x1234))) flags,
          Ans (Sigaltstack None) q1,
          Ans (Sigaltstack (Some (stack (r_word m) ALTSZ 0))) good,
          Ans (Sigaltstack (Some (stack (r_word m) 1 0))) small2,
          Ans (Sigaltstack None) q2] \<and>
        ret small1 = - ENOMEM \<and> ret flags = - EINVAL \<and>
        ret q1 = 0 \<and> r_stack q1 = stack 0 0 SS_DISABLE \<and>
        ret good = 0 \<and> ret small2 = - ENOMEM \<and>
        ret q2 = 0 \<and> r_stack q2 = stack (r_word m) ALTSZ 0)"

definition sigaltstack_errors_exit :: "int \<Rightarrow> memory \<Rightarrow> log \<Rightarrow> bool" where
  "sigaltstack_errors_exit n g l \<longleftrightarrow> (n = 0 \<longleftrightarrow> sigaltstack_errors_log l)"

lemma sigaltstack_errors_main_wp:
  "wp (\<lambda>_ _. True) undisturbed sigaltstack_errors_exit (\<lambda>_ _ _. False)
     sigaltstack_errors_main (\<lambda>n. sigaltstack_errors_exit n) \<lparr>errno = 0\<rparr> []"
  by (auto simp: prog_unfold sigaltstack_errors_main_def check_stack_def sigaltstack_errors_exit_def
      sigaltstack_errors_log_def is_error_def)

text \<open>
  \<^verbatim>\<open>sigaltstack-errors\<close> exits 0 exactly on the answers of a platform that refuses a small
  stack with \<^verbatim>\<open>ENOMEM\<close> and bad flags with \<^verbatim>\<open>EINVAL\<close>, and whose setting the refused calls leave alone.
\<close>

lemma sigaltstack_errors_verdict:
  assumes "trial no_handlers sigaltstack_errors_main \<lparr>errno = 0\<rparr> mvs = Dead (Exited n) g l"
  shows "n = 0 \<longleftrightarrow> sigaltstack_errors_log l"
  using plain_verdict [OF sigaltstack_errors_main_wp assms] by (simp add: sigaltstack_errors_exit_def)

lemma sigaltstack_errors_linux:
  "linux_run (linux_init a pid uid [0x10000]) no_handlers sigaltstack_errors_main \<lparr>errno = 0\<rparr> = Some 0"
  by (cases a; simp only:; code_simp)

section \<open>\<^verbatim>\<open>sigaltstack-query.cpp\<close>\<close>

record sigaltstack_query_test = memory +
  sq_alt :: u64
  sq_ran :: bool

definition sigaltstack_query_handler ::
  "nat \<Rightarrow> signum \<Rightarrow> siginfo \<Rightarrow> ucontext \<Rightarrow> (sigaltstack_query_test, ucontext) prog" where
  "sigaltstack_query_handler h sig info ctx =
     seq (block [
       modify (sq_ran_update (\<lambda>_. True)),
       bind sigaltstack_query (\<lambda>(r, q). block [
         ASSERT (r = 0),
         ASSERT_mem (\<lambda>g. ss_sp q = sq_alt g),
         ASSERT (ss_size q = ALTSZ),
         ASSERT (ss_flags q = SS_ONSTACK)])])
     (Return ctx)"

definition sigaltstack_query_main :: "(sigaltstack_query_test, int) prog" where
  "sigaltstack_query_main =
     seq (block [
       bind (malloc ALTSZ) (\<lambda>p. modify (sq_alt_update (\<lambda>_. p))),
       check_stack 0 0 SS_DISABLE,
       bind get (\<lambda>g. ASSERT_ret (sigaltstack (stack (sq_alt g) ALTSZ 0)) (\<lambda>r. r = 0)),
       bind get (\<lambda>g. check_stack (sq_alt g) ALTSZ 0),
       ASSERT_ret (sigaction SIGUSR1 (handler_action (SA_SIGINFO OR SA_ONSTACK) sigemptyset)) (\<lambda>r. r = 0),
       ignore (raise SIGUSR1),
       ASSERT_mem sq_ran,
       bind sigaltstack_query (\<lambda>(r, q). block [
         ASSERT (r = 0),
         ASSERT (ss_flags q = 0)]),
       bind get (\<lambda>g. ASSERT_ret (sigaltstack (stack (sq_alt g) ALTSZ SS_DISABLE)) (\<lambda>r. r = 0)),
       check_stack 0 0 SS_DISABLE])
     (Return 0)"

definition sigaltstack_query_memory :: sigaltstack_query_test where
  "sigaltstack_query_memory = \<lparr>errno = 0, sq_alt = 0, sq_ran = False\<rparr>"

lemmas sigaltstack_query_defs = sigaltstack_query_handler_def sigaltstack_query_main_def
  sigaltstack_query_memory_def check_stack_def

text \<open>The block the program's first call has allocated; no block before it has returned.\<close>

definition first_block :: "(req \<times> resp) list \<Rightarrow> u64" where
  "first_block calls = (case calls of [] \<Rightarrow> 0 | c # cs \<Rightarrow> r_word (snd c))"

lemma first_block_simps [simp]:
  "first_block [] = 0"
  "first_block (c # cs) = r_word (snd c)"
  by (simp_all add: first_block_def)

text \<open>A query a handler makes shows the whole block, in use.\<close>

fun on_stack_view :: "log \<Rightarrow> event \<Rightarrow> bool" where
  "on_stack_view l (Ans (Sigaltstack None) r) = (0 < active l \<longrightarrow>
     ret r = 0 \<and> r_stack r = stack (first_block (main_calls l)) ALTSZ SS_ONSTACK)"
| "on_stack_view l _ = True"

text \<open>The calls outside the handler: the setting before, with and after the alternate stack.\<close>

definition sigaltstack_query_calls :: "(req \<times> resp) list \<Rightarrow> bool" where
  "sigaltstack_query_calls calls \<longleftrightarrow>
     (\<exists>m none install q1 act sent q2 disable q3. let alt = r_word m in
        calls = [
          (Malloc ALTSZ, m), (Sigaltstack None, none),
          (Sigaltstack (Some (stack alt ALTSZ 0)), install), (Sigaltstack None, q1),
          (Rt_sigaction SIGUSR1 (Some (handler_action (SA_SIGINFO OR SA_ONSTACK) sigemptyset)), act),
          (Raise SIGUSR1, sent), (Sigaltstack None, q2),
          (Sigaltstack (Some (stack alt ALTSZ SS_DISABLE)), disable), (Sigaltstack None, q3)] \<and>
        (\<forall>r \<in> {none, install, q1, act, q2, disable, q3}. ret r = 0) \<and>
        r_stack none = stack 0 0 SS_DISABLE \<and> r_stack q1 = stack alt ALTSZ 0 \<and>
        ss_flags (r_stack q2) = 0 \<and> r_stack q3 = stack 0 0 SS_DISABLE)"

definition sigaltstack_query_inv :: "sigaltstack_query_test \<Rightarrow> log \<Rightarrow> bool" where
  "sigaltstack_query_inv g l \<longleftrightarrow> each_event on_stack_view l \<and> 0 \<le> active l \<and>
     sq_alt g = first_block (main_calls l) \<and> (sq_ran g \<longleftrightarrow> handled l \<noteq> [])"

definition sigaltstack_query_exit :: "int \<Rightarrow> sigaltstack_query_test \<Rightarrow> log \<Rightarrow> bool" where
  "sigaltstack_query_exit n g l \<longleftrightarrow> (n = 0 \<longleftrightarrow> each_event on_stack_view l \<and> handled l \<noteq> [] \<and>
     sigaltstack_query_calls (main_calls l))"

lemmas sigaltstack_query_spec = sigaltstack_query_inv_def sigaltstack_query_exit_def

interpretation sigaltstack_query: env_invariant sigaltstack_query_handler sigaltstack_query_inv
    sigaltstack_query_exit
  by unfold_locales (auto simp: prog_unfold sigaltstack_query_defs sigaltstack_query_spec)

lemma sigaltstack_query_main_wp:
  "wp sigaltstack_query_inv layered sigaltstack_query_exit (\<lambda>_ _ _. False)
     sigaltstack_query_main (\<lambda>n. sigaltstack_query_exit n) sigaltstack_query_memory []"
  by (simp add: prog_unfold sigaltstack_query_defs sigaltstack_query_spec sigaltstack_query_calls_def
      Let_def)
    (intro allI impI, elim conjE, (assumption | erule handled_after)+)

text \<open>
  C11. \<^verbatim>\<open>sigaltstack-query\<close> exits 0 exactly when its handler is entered, every query a handler makes shows the
  allocated block in use, and the calls of \<^verbatim>\<open>main\<close> get the answers of a setting that is disabled,
  then installed, then disabled again.
\<close>

theorem sigaltstack_query_verdict:
  assumes "trial sigaltstack_query_handler sigaltstack_query_main sigaltstack_query_memory mvs
    = Dead (Exited n) g l"
  shows "n = 0 \<longleftrightarrow> each_event on_stack_view l \<and> handled l \<noteq> [] \<and>
    sigaltstack_query_calls (main_calls l)"
  using sigaltstack_query.layers.verdict [OF sigaltstack_query_main_wp assms]
  by (simp add: sigaltstack_query_exit_def)

lemma sigaltstack_query_linux:
  "linux_run (linux_init a pid uid [0x10000]) sigaltstack_query_handler sigaltstack_query_main
     sigaltstack_query_memory = Some 0"
  by (cases a; simp only:; code_simp)

theorem sigaltstack_query_verdict_witness:
  "\<exists>mvs g l. trial sigaltstack_query_handler sigaltstack_query_main sigaltstack_query_memory mvs
      = Dead (Exited 0) g l \<and>
    ((0::int) = 0 \<longleftrightarrow> each_event on_stack_view l \<and> handled l \<noteq> []
     \<and> sigaltstack_query_calls (main_calls l))"
  by (rule linux_witness [OF sigaltstack_query_linux [of X64 1 0] sigaltstack_query_verdict])

section \<open>\<^verbatim>\<open>two-signals-alt-stack.cpp\<close>\<close>

record two_signals_alt_stack = memory +
  tsa_sigurg_ok :: bool
  tsa_sigpwr_ok :: bool
  tsa_new_stack :: u64

definition two_signals_alt_stack_handler ::
  "nat \<Rightarrow> signum \<Rightarrow> siginfo \<Rightarrow> ucontext \<Rightarrow> (two_signals_alt_stack, ucontext) prog" where
  "two_signals_alt_stack_handler h sig info ctx =
     seq (block [
       if sig = SIGURG then modify (tsa_sigurg_ok_update (\<lambda>_. True))
       else if_then (sig = SIGPWR) (modify (tsa_sigpwr_ok_update (\<lambda>_. True))),
       Print (Got_signal sig) skip])
     (Return ctx)"

definition two_signals_alt_stack_main :: "(two_signals_alt_stack, int) prog" where
  "two_signals_alt_stack_main =
     seq (block [
       bind (malloc (1024 * 1024)) (\<lambda>p. modify (tsa_new_stack_update (\<lambda>_. p))),
       bind get (\<lambda>g. ASSERT_ret (sigaltstack (stack (tsa_new_stack g) (1024 * 1024) 0)) (\<lambda>r. r = 0)),
       ignore (sigaction SIGURG (handler_action (SA_SIGINFO OR SA_ONSTACK) sigemptyset)),
       ignore (sigaction SIGPWR (handler_action (SA_SIGINFO OR SA_ONSTACK) sigemptyset)),
       ignore (sigprocmask SIG_BLOCK sigfillset),
       ignore (raise SIGURG),
       ignore (raise SIGPWR),
       ignore (sigprocmask SIG_UNBLOCK sigfillset)])
     (bind get (\<lambda>g. if tsa_sigurg_ok g \<and> tsa_sigpwr_ok g then Return 0 else Return 1))"

definition two_signals_alt_stack_memory :: two_signals_alt_stack where
  "two_signals_alt_stack_memory =
     \<lparr>errno = 0, tsa_sigurg_ok = False, tsa_sigpwr_ok = False, tsa_new_stack = 0\<rparr>"

lemmas two_signals_alt_stack_defs = two_signals_alt_stack_handler_def two_signals_alt_stack_main_def
  two_signals_alt_stack_memory_def

fun checks_sigaltstack :: "req \<Rightarrow> bool" where
  "checks_sigaltstack (Sigaltstack s) = True"
| "checks_sigaltstack _ = False"

definition two_signals_alt_stack_inv :: "two_signals_alt_stack \<Rightarrow> log \<Rightarrow> bool" where
  "two_signals_alt_stack_inv g l \<longleftrightarrow> calls_ok checks_sigaltstack l \<and>
     tsa_sigurg_ok g = (SIGURG \<in> set (handled_signals l)) \<and>
     tsa_sigpwr_ok g = (SIGPWR \<in> set (handled_signals l))"

definition two_signals_alt_stack_exit :: "int \<Rightarrow> two_signals_alt_stack \<Rightarrow> log \<Rightarrow> bool" where
  "two_signals_alt_stack_exit n g l \<longleftrightarrow> (n = 0 \<longleftrightarrow> calls_ok checks_sigaltstack l \<and>
     {SIGURG, SIGPWR} \<subseteq> set (handled_signals l))"

lemmas two_signals_alt_stack_spec = two_signals_alt_stack_inv_def two_signals_alt_stack_exit_def

interpretation two_signals_alt_stack: env_invariant two_signals_alt_stack_handler
    two_signals_alt_stack_inv two_signals_alt_stack_exit
  by unfold_locales (auto simp: prog_unfold two_signals_alt_stack_defs two_signals_alt_stack_spec)

lemma two_signals_alt_stack_main_wp:
  "wp two_signals_alt_stack_inv balanced two_signals_alt_stack_exit (\<lambda>_ _ _. False)
     two_signals_alt_stack_main (\<lambda>n. two_signals_alt_stack_exit n) two_signals_alt_stack_memory []"
  by (auto simp: prog_unfold two_signals_alt_stack_defs two_signals_alt_stack_spec)

theorem two_signals_alt_stack_verdict:
  assumes "trial two_signals_alt_stack_handler two_signals_alt_stack_main two_signals_alt_stack_memory
    mvs = Dead (Exited n) g l"
  shows "n = 0 \<longleftrightarrow> calls_ok checks_sigaltstack l \<and> {SIGURG, SIGPWR} \<subseteq> set (handled_signals l)"
  using two_signals_alt_stack.open_env.verdict [OF two_signals_alt_stack_main_wp assms]
  by (simp add: two_signals_alt_stack_exit_def)

lemma two_signals_alt_stack_linux:
  "linux_run (linux_init a pid uid [0x10000]) two_signals_alt_stack_handler two_signals_alt_stack_main
     two_signals_alt_stack_memory = Some 0"
  by (cases a; simp only:; code_simp)

theorem two_signals_alt_stack_verdict_witness:
  "\<exists>mvs g l. trial two_signals_alt_stack_handler two_signals_alt_stack_main two_signals_alt_stack_memory mvs
      = Dead (Exited 0) g l \<and>
    ((0::int) = 0 \<longleftrightarrow> calls_ok checks_sigaltstack l \<and> {SIGURG, SIGPWR}
     \<subseteq> set (handled_signals l))"
  by (rule linux_witness [OF two_signals_alt_stack_linux [of X64 1 0] two_signals_alt_stack_verdict])

section \<open>\<^verbatim>\<open>uc-stack-always.cpp\<close>\<close>

record uc_stack_always = memory +
  usa_alt :: u64
  usa_count :: int

definition uc_stack_always_handler ::
  "nat \<Rightarrow> signum \<Rightarrow> siginfo \<Rightarrow> ucontext \<Rightarrow> (uc_stack_always, ucontext) prog" where
  "uc_stack_always_handler h sig info ctx =
     seq (block [
       incr usa_count (\<lambda>n. usa_count_update (\<lambda>_. n)),
       ASSERT_mem (\<lambda>g. ss_sp (uc_stack ctx) = usa_alt g),
       ASSERT (ss_size (uc_stack ctx) = ALTSZ),
       ASSERT (ss_flags (uc_stack ctx) = 0)])
     (Return ctx)"

definition uc_stack_always_main :: "(uc_stack_always, int) prog" where
  "uc_stack_always_main =
     seq (block [
       bind (malloc ALTSZ) (\<lambda>p. modify (usa_alt_update (\<lambda>_. p))),
       bind get (\<lambda>g. ASSERT_ret (sigaltstack (stack (usa_alt g) ALTSZ 0)) (\<lambda>r. r = 0)),
       ASSERT_ret (sigaction SIGUSR1 (handler_action SA_SIGINFO sigemptyset)) (\<lambda>r. r = 0),
       ignore (raise SIGUSR1),
       ASSERT_ret (sigaction SIGUSR1 (handler_action (SA_SIGINFO OR SA_ONSTACK) sigemptyset)) (\<lambda>r. r = 0),
       ignore (raise SIGUSR1),
       ASSERT_mem (\<lambda>g. usa_count g = 2)])
     (Return 0)"

definition uc_stack_always_memory :: uc_stack_always where
  "uc_stack_always_memory = \<lparr>errno = 0, usa_alt = 0, usa_count = 0\<rparr>"

lemmas uc_stack_always_defs = uc_stack_always_handler_def uc_stack_always_main_def
  uc_stack_always_memory_def

fun stack_and_actions :: "req \<Rightarrow> bool" where
  "stack_and_actions (Sigaltstack s) = True"
| "stack_and_actions (Rt_sigaction s a) = True"
| "stack_and_actions _ = False"

text \<open>The context an entry comes with names the allocated block.\<close>

fun entry_stack :: "log \<Rightarrow> event \<Rightarrow> bool" where
  "entry_stack l (Ans (Enter s i c) r) = (uc_stack c = stack (first_block (main_calls l)) ALTSZ 0)"
| "entry_stack l _ = True"

definition uc_stack_always_inv :: "uc_stack_always \<Rightarrow> log \<Rightarrow> bool" where
  "uc_stack_always_inv g l \<longleftrightarrow> calls_ok stack_and_actions l \<and> each_event entry_stack l \<and>
     usa_count g = int (length (handled l)) \<and> usa_alt g = first_block (main_calls l)"

definition uc_stack_always_exit :: "int \<Rightarrow> uc_stack_always \<Rightarrow> log \<Rightarrow> bool" where
  "uc_stack_always_exit n g l \<longleftrightarrow> (n = 0 \<longleftrightarrow> calls_ok stack_and_actions l \<and>
     each_event entry_stack l \<and> length (handled l) = 2)"

lemmas uc_stack_always_spec = uc_stack_always_inv_def uc_stack_always_exit_def

interpretation uc_stack_always: env_invariant uc_stack_always_handler uc_stack_always_inv
    uc_stack_always_exit
  by unfold_locales (auto simp: prog_unfold uc_stack_always_defs uc_stack_always_spec)

lemma uc_stack_always_main_wp:
  "wp uc_stack_always_inv layered uc_stack_always_exit (\<lambda>_ _ _. False)
     uc_stack_always_main (\<lambda>n. uc_stack_always_exit n) uc_stack_always_memory []"
  by (auto simp: prog_unfold uc_stack_always_defs uc_stack_always_spec)

text \<open>
  \<^verbatim>\<open>uc-stack-always\<close> exits 0 exactly when its calls succeed and its handler is entered twice, each
  time with a context that names the allocated alternate stack, whether or not the handler runs on it.
\<close>

lemma uc_stack_always_verdict:
  assumes "trial uc_stack_always_handler uc_stack_always_main uc_stack_always_memory mvs
    = Dead (Exited n) g l"
  shows "n = 0 \<longleftrightarrow> calls_ok stack_and_actions l \<and> each_event entry_stack l \<and> length (handled l) = 2"
  using uc_stack_always.layers.verdict [OF uc_stack_always_main_wp assms]
  by (simp add: uc_stack_always_exit_def)

lemma uc_stack_always_linux:
  "linux_run (linux_init a pid uid [0x10000]) uc_stack_always_handler uc_stack_always_main
     uc_stack_always_memory = Some 0"
  by (cases a; simp only:; code_simp)

section \<open>\<^verbatim>\<open>uc-stack-restore.cpp\<close>\<close>

record uc_stack_restore = memory +
  usr_alt :: u64
  usr_alt2 :: u64

definition uc_stack_restore_handler ::
  "nat \<Rightarrow> signum \<Rightarrow> siginfo \<Rightarrow> ucontext \<Rightarrow> (uc_stack_restore, ucontext) prog" where
  "uc_stack_restore_handler h sig info ctx =
     bind get (\<lambda>g. Return (ctx\<lparr>uc_stack := stack (usr_alt2 g) ALTSZ 0\<rparr>))"

definition uc_stack_restore_main :: "(uc_stack_restore, int) prog" where
  "uc_stack_restore_main =
     seq (block [
       bind (malloc ALTSZ) (\<lambda>p. modify (usr_alt_update (\<lambda>_. p))),
       bind (malloc ALTSZ) (\<lambda>p. modify (usr_alt2_update (\<lambda>_. p))),
       bind get (\<lambda>g. ASSERT_ret (sigaltstack (stack (usr_alt g) ALTSZ 0)) (\<lambda>r. r = 0)),
       ASSERT_ret (sigaction SIGUSR1 (handler_action SA_SIGINFO sigemptyset)) (\<lambda>r. r = 0),
       ignore (raise SIGUSR1),
       bind get (\<lambda>g. check_stack (usr_alt2 g) ALTSZ 0)])
     (Return 0)"

definition uc_stack_restore_memory :: uc_stack_restore where
  "uc_stack_restore_memory = \<lparr>errno = 0, usr_alt = 0, usr_alt2 = 0\<rparr>"

lemmas uc_stack_restore_defs = uc_stack_restore_handler_def uc_stack_restore_main_def
  uc_stack_restore_memory_def check_stack_def

text \<open>The block of the second call; a handler's context asks for it.\<close>

definition second_block :: "(req \<times> resp) list \<Rightarrow> u64" where
  "second_block calls = first_block (tl calls)"

fun asks_for_stack :: "log \<Rightarrow> event \<Rightarrow> bool" where
  "asks_for_stack l (Ret c) =
     (uc_stack c = stack (second_block (main_calls l)) ALTSZ 0)"
| "asks_for_stack l _ = True"

definition uc_stack_restore_calls :: "(req \<times> resp) list \<Rightarrow> bool" where
  "uc_stack_restore_calls calls \<longleftrightarrow> (\<exists>m m2 install act sent q.
     calls = [(Malloc ALTSZ, m), (Malloc ALTSZ, m2),
       (Sigaltstack (Some (stack (r_word m) ALTSZ 0)), install),
       (Rt_sigaction SIGUSR1 (Some (handler_action SA_SIGINFO sigemptyset)), act),
       (Raise SIGUSR1, sent), (Sigaltstack None, q)] \<and>
     ret install = 0 \<and> ret act = 0 \<and> ret q = 0 \<and> r_stack q = stack (r_word m2) ALTSZ 0)"

definition uc_stack_restore_inv :: "uc_stack_restore \<Rightarrow> log \<Rightarrow> bool" where
  "uc_stack_restore_inv g l \<longleftrightarrow> each_event asks_for_stack l \<and> 0 \<le> active l \<and>
     usr_alt g = first_block (main_calls l) \<and> usr_alt2 g = second_block (main_calls l)"

definition uc_stack_restore_exit :: "int \<Rightarrow> uc_stack_restore \<Rightarrow> log \<Rightarrow> bool" where
  "uc_stack_restore_exit n g l \<longleftrightarrow> each_event asks_for_stack l \<and>
     (n = 0 \<longleftrightarrow> uc_stack_restore_calls (main_calls l))"

lemmas uc_stack_restore_spec = uc_stack_restore_inv_def uc_stack_restore_exit_def

interpretation uc_stack_restore: layered_invariant uc_stack_restore_handler uc_stack_restore_inv
    uc_stack_restore_exit
  by unfold_locales (auto simp: prog_unfold uc_stack_restore_defs uc_stack_restore_spec)

lemma uc_stack_restore_main_wp:
  "wp uc_stack_restore_inv layered uc_stack_restore_exit (\<lambda>_ _ _. False)
     uc_stack_restore_main (\<lambda>n. uc_stack_restore_exit n) uc_stack_restore_memory []"
  by (simp add: prog_unfold uc_stack_restore_defs uc_stack_restore_spec uc_stack_restore_calls_def
      second_block_def)

text \<open>
  \<^verbatim>\<open>uc-stack-restore\<close> exits 0 exactly when its calls succeed and the last query shows the second
  block; every handler returns a context that asks for that block.
\<close>

lemma uc_stack_restore_verdict:
  assumes "trial uc_stack_restore_handler uc_stack_restore_main uc_stack_restore_memory mvs
    = Dead (Exited n) g l"
  shows "(n = 0 \<longleftrightarrow> uc_stack_restore_calls (main_calls l)) \<and> each_event asks_for_stack l"
  using uc_stack_restore.layers.verdict [OF uc_stack_restore_main_wp assms]
  by (simp add: uc_stack_restore_exit_def)

lemma uc_stack_restore_linux:
  "linux_run (linux_init a pid uid [0x10000, 0x200000]) uc_stack_restore_handler uc_stack_restore_main
     uc_stack_restore_memory = Some 0"
  by (cases a; simp only:; code_simp)

text \<open>
  C34. \<^verbatim>\<open>sigaltstack-errors\<close> exits 0 exactly on the answers of a platform that refuses a small stack with
  \<^verbatim>\<open>ENOMEM\<close> and bad flags with \<^verbatim>\<open>EINVAL\<close>, and whose setting the refused calls leave alone;
  \<^verbatim>\<open>uc-stack-always\<close> exactly when its calls succeed and its handler is entered twice, each time with a
  context that names the allocated alternate stack, whether or not the handler runs on it;
  \<^verbatim>\<open>uc-stack-restore\<close> exactly when its calls succeed, every handler returns a context that asks for the
  second block, and the last query shows that block.
\<close>

theorem stack_settings_decided:
  "decides no_handlers sigaltstack_errors_main \<lparr>errno = 0\<rparr> sigaltstack_errors_log \<and>
   decides uc_stack_always_handler uc_stack_always_main uc_stack_always_memory
     (\<lambda>l. calls_ok stack_and_actions l \<and> each_event entry_stack l \<and> length (handled l) = 2) \<and>
   decides uc_stack_restore_handler uc_stack_restore_main uc_stack_restore_memory
     (\<lambda>l. uc_stack_restore_calls (main_calls l) \<and> each_event asks_for_stack l)"
  by (intro conjI decidesI) (simp_all add: sigaltstack_errors_verdict uc_stack_always_verdict uc_stack_restore_verdict)

section \<open>\<^verbatim>\<open>two-signals-alt-stack-disarm.cpp\<close>\<close>

record alt_stack_disarm = memory +
  disarm_stack :: u64
  disarm_count :: int

definition was_on_alt_stack :: "arch \<Rightarrow> u64 \<Rightarrow> ucontext \<Rightarrow> bool" where
  "was_on_alt_stack a base ctx \<longleftrightarrow> widen a base < widen a (REG_RSP (gregs ctx)) \<and>
     widen a (REG_RSP (gregs ctx)) - widen a base \<le> 1024 * 1024"

definition alt_stack_disarm_checks :: "arch \<Rightarrow> ucontext \<Rightarrow> stack_t \<Rightarrow> (alt_stack_disarm, unit) prog" where
  "alt_stack_disarm_checks a ctx old_stack = block [
     incr disarm_count (\<lambda>n. disarm_count_update (\<lambda>_. n)),
     bind get (\<lambda>g.
       if disarm_count g = 1 then block [
         ASSERT (ss_sp old_stack = 0),
         ASSERT (ss_sp (uc_stack ctx) = 0),
         ASSERT (was_on_alt_stack a (disarm_stack g) ctx)]
       else if disarm_count g = 2 then block [
         ASSERT (ss_sp old_stack = 0),
         ASSERT (ss_sp (uc_stack ctx) = 0),
         ASSERT (was_on_alt_stack a (disarm_stack g) ctx)]
       else if disarm_count g = 3 then block [
         ASSERT (ss_sp old_stack = 0),
         ASSERT (ss_sp (uc_stack ctx) = disarm_stack g),
         ASSERT (\<not> was_on_alt_stack a (disarm_stack g) ctx)]
       else ASSERT False)]"

definition alt_stack_disarm_handler ::
  "arch \<Rightarrow> nat \<Rightarrow> signum \<Rightarrow> siginfo \<Rightarrow> ucontext \<Rightarrow> (alt_stack_disarm, ucontext) prog" where
  "alt_stack_disarm_handler a h sig info ctx =
     seq (bind sigaltstack_query (\<lambda>(r, old_stack). alt_stack_disarm_checks a ctx old_stack))
     (Return ctx)"

definition alt_stack_disarm_main :: "(alt_stack_disarm, int) prog" where
  "alt_stack_disarm_main =
     seq (block [
       bind (malloc (1024 * 1024)) (\<lambda>p. modify (disarm_stack_update (\<lambda>_. p))),
       bind get (\<lambda>g.
         ASSERT_ret (sigaltstack (stack (disarm_stack g) (1024 * 1024) SS_AUTODISARM)) (\<lambda>r. r = 0)),
       ignore (sigaction SIGURG (handler_action (SA_SIGINFO OR SA_ONSTACK) sigemptyset)),
       ignore (sigaction SIGPWR (handler_action (SA_SIGINFO OR SA_ONSTACK) sigemptyset)),
       ignore (sigaction SIGUSR1 (handler_action (SA_SIGINFO OR SA_ONSTACK) sigemptyset)),
       ignore (sigprocmask SIG_BLOCK sigfillset),
       ignore (raise SIGURG),
       ignore (raise SIGPWR),
       ignore (raise SIGUSR1),
       ignore (sigprocmask SIG_UNBLOCK sigfillset)])
     (Return 0)"

definition alt_stack_disarm_memory :: alt_stack_disarm where
  "alt_stack_disarm_memory = \<lparr>errno = 0, disarm_stack = 0, disarm_count = 0\<rparr>"

lemmas alt_stack_disarm_defs = alt_stack_disarm_handler_def alt_stack_disarm_main_def
  alt_stack_disarm_memory_def

text \<open>The contexts of the handlers that are running, the innermost first, and how often the setting was queried.\<close>

fun frames :: "log \<Rightarrow> ucontext list" where
  "frames [] = []"
| "frames (Ans (Enter s i c) r # l) = c # frames l"
| "frames (Ret c # l) = tl (frames l)"
| "frames (e # l) = frames l"

fun queries :: "log \<Rightarrow> nat" where
  "queries [] = 0"
| "queries (Ans (Sigaltstack None) r # l) = Suc (queries l)"
| "queries (e # l) = queries l"

text \<open>
  What the handlers find, in the order of their queries. None finds an alternate stack set, as it is disarmed
  while they run. The first two have interrupted another handler: their contexts name no stack and are on the
  block. The third, which the kernel set up first, has interrupted the program itself: its context names the
  block and is not on it. There is no fourth.
\<close>

fun disarm_view :: "arch \<Rightarrow> log \<Rightarrow> event \<Rightarrow> bool" where
  "disarm_view a l (Ans (Sigaltstack None) r) \<longleftrightarrow>
     (let base = first_block (main_calls l); c = hd (frames l) in
        ss_sp (r_stack r) = 0 \<and>
        (if queries l < 2 then ss_sp (uc_stack c) = 0 \<and> was_on_alt_stack a base c
         else queries l = 2 \<and> ss_sp (uc_stack c) = base \<and> \<not> was_on_alt_stack a base c))"
| "disarm_view a l _ \<longleftrightarrow> True"

text \<open>The calls outside the handlers; only the setting of the stack is checked.\<close>

definition alt_stack_disarm_calls :: "(req \<times> resp) list \<Rightarrow> bool" where
  "alt_stack_disarm_calls calls \<longleftrightarrow> (\<exists>m install a1 a2 a3 blocked r1 r2 r3 unblocked.
     let act = Some (handler_action (SA_SIGINFO OR SA_ONSTACK) sigemptyset);
         all = Some (sigfillset AND NOT internal_signals) in
     calls = [(Malloc (1024 * 1024), m),
       (Sigaltstack (Some (stack (r_word m) (1024 * 1024) SS_AUTODISARM)), install),
       (Rt_sigaction SIGURG act, a1), (Rt_sigaction SIGPWR act, a2), (Rt_sigaction SIGUSR1 act, a3),
       (Rt_sigprocmask SIG_BLOCK all, blocked), (Raise SIGURG, r1), (Raise SIGPWR, r2), (Raise SIGUSR1, r3),
       (Rt_sigprocmask SIG_UNBLOCK all, unblocked)] \<and> ret install = 0)"

definition disarmed :: "arch \<Rightarrow> log \<Rightarrow> bool" where
  "disarmed a l \<longleftrightarrow> each_event (disarm_view a) l \<and> alt_stack_disarm_calls (main_calls l)"

definition alt_stack_disarm_inv :: "arch \<Rightarrow> alt_stack_disarm \<Rightarrow> log \<Rightarrow> bool" where
  "alt_stack_disarm_inv a g l \<longleftrightarrow> each_event (disarm_view a) l \<and> 0 \<le> active l \<and>
     disarm_stack g = first_block (main_calls l) \<and> disarm_count g = int (queries l)"

definition disarm_rely :: "alt_stack_disarm \<Rightarrow> log \<Rightarrow> alt_stack_disarm \<Rightarrow> log \<Rightarrow> bool" where
  "disarm_rely g l g' l' \<longleftrightarrow> layered g l g' l' \<and> frames l' = frames l"

definition alt_stack_disarm_exit :: "arch \<Rightarrow> int \<Rightarrow> alt_stack_disarm \<Rightarrow> log \<Rightarrow> bool" where
  "alt_stack_disarm_exit a n g l \<longleftrightarrow> (n = 0 \<longleftrightarrow> disarmed a l)"

lemmas alt_stack_disarm_spec = alt_stack_disarm_inv_def disarm_rely_def alt_stack_disarm_exit_def disarmed_def

text \<open>The handler's checks at the answer to its query are that the answer is the view expected.\<close>

lemma alt_stack_disarm_checks_wp:
  assumes inv: "alt_stack_disarm_inv a g l" and frame: "frames l = c # fs" and inside: "0 < active l"
    and post: "\<And>g'. alt_stack_disarm_inv a g' (Ans (Sigaltstack None) r # l) \<Longrightarrow>
      Q () g' (Ans (Sigaltstack None) r # l)"
  shows "wp I R (alt_stack_disarm_exit a) S (alt_stack_disarm_checks a c (r_stack r)) Q g
    (Ans (Sigaltstack None) r # l)"
proof -
  let ?e = "Ans (Sigaltstack None) r"
  have bad: "alt_stack_disarm_exit a 1 g' (Out Condition_failed # ?e # l)" if "\<not> disarm_view a l ?e" for g'
    using that by (simp add: alt_stack_disarm_exit_def disarmed_def del: disarm_view.simps(1))
  have good: "Q () (g\<lparr>disarm_count := disarm_count g + 1\<rparr>) (?e # l)" if "disarm_view a l ?e"
    by (rule post) (use inv inside that in \<open>simp add: alt_stack_disarm_inv_def del: disarm_view.simps(1)\<close>)
  show ?thesis
    using bad good inv frame
    by (auto simp: alt_stack_disarm_checks_def statement_defs ASSERT_def alt_stack_disarm_inv_def Let_def)
qed

interpretation alt_stack_disarm: env_contract "alt_stack_disarm_handler a" "alt_stack_disarm_inv a"
    disarm_rely "alt_stack_disarm_exit a" for a
proof unfold_locales
  fix g l h s i c
  assume inv: "alt_stack_disarm_inv a g l"
  have calm: "alt_stack_disarm_inv a g' (e # l')"
    if "alt_stack_disarm_inv a g' l'" and "0 \<le> active (e # l')" and "main_calls (e # l') = main_calls l'"
      and "queries (e # l') = queries l'" and "disarm_view a l' e" for g' l' e
    using that by (simp add: alt_stack_disarm_inv_def del: active_Cons main_calls.simps(2))
  have errno: "alt_stack_disarm_inv a (g'\<lparr>errno := n\<rparr>) l' = alt_stack_disarm_inv a g' l'" for g' l' n
    by (simp add: alt_stack_disarm_inv_def)
  have inside: "0 \<le> active l'" if "alt_stack_disarm_inv a g' l'" for g' l'
    using that by (simp add: alt_stack_disarm_inv_def)
  show "wp (alt_stack_disarm_inv a) disarm_rely (alt_stack_disarm_exit a)
      (\<lambda>c' g' l'. alt_stack_disarm_inv a g' (Ret c' # l') \<and> disarm_rely g l g' (Ret c' # l'))
      (handler_prog (alt_stack_disarm_handler a) h s i c) (\<lambda>_ _ _. True) g l"
    using inv inside [OF inv]
    by (auto simp: handler_prog_def alt_stack_disarm_handler_def seq_def sigaltstack_query_def sysget_def
        disarm_rely_def main_calls_inside errno simp del: main_calls.simps(2)
        intro!: calm alt_stack_disarm_checks_wp)
qed (auto simp: disarm_rely_def)

lemma alt_stack_disarm_main_wp:
  "wp (alt_stack_disarm_inv a) disarm_rely (alt_stack_disarm_exit a) (\<lambda>_ _ _. False)
     alt_stack_disarm_main (\<lambda>n. alt_stack_disarm_exit a n) alt_stack_disarm_memory []"
  by (simp add: prog_unfold alt_stack_disarm_defs alt_stack_disarm_spec alt_stack_disarm_calls_def Let_def)

text \<open>
  C12. \<^verbatim>\<open>two-signals-alt-stack-disarm\<close> exits 0 exactly when setting the stack succeeds, the other calls
  come to an end, and every query a handler makes finds what its turn demands: the first and the second find the
  stack disarmed, in a handler whose context names no stack and was on the block; the third finds it disarmed in
  the handler whose context names the block and was not on it; and there is no fourth.
\<close>

theorem alt_stack_disarm_decided:
  "decides (alt_stack_disarm_handler a) alt_stack_disarm_main alt_stack_disarm_memory (disarmed a)"
  by (rule decidesI)
    (use alt_stack_disarm.verdict [OF alt_stack_disarm_main_wp] in \<open>simp add: alt_stack_disarm_exit_def\<close>)

lemma alt_stack_disarm_linux:
  "linux_run (linux_init a pid uid [0x10000]) (alt_stack_disarm_handler a) alt_stack_disarm_main
     alt_stack_disarm_memory = Some 0"
  by (cases a; simp only:; code_simp)

section \<open>\<^verbatim>\<open>frame-alignment.cpp\<close>\<close>

record frame_alignment = memory +
  entry_sp :: u64
  frame_count :: int

text \<open>\<^verbatim>\<open>record\<close>, called with the stack pointer the handler was entered with.\<close>

definition record_entry :: "u64 \<Rightarrow> (frame_alignment, unit) prog" where
  "record_entry sp = block [
     modify (entry_sp_update (\<lambda>_. sp)),
     incr frame_count (\<lambda>n. frame_count_update (\<lambda>_. n))]"

definition frame_alignment_handler ::
  "nat \<Rightarrow> signum \<Rightarrow> siginfo \<Rightarrow> ucontext \<Rightarrow> (frame_alignment, ucontext) prog" where
  "frame_alignment_handler h sig info ctx = seq (bind read_sp record_entry) (Return ctx)"

definition aligned :: "arch \<Rightarrow> u64 \<Rightarrow> bool" where
  "aligned a sp \<longleftrightarrow> uint sp mod 16 = 16 - pointer_size a"

definition frame_alignment_main :: "arch \<Rightarrow> (frame_alignment, int) prog" where
  "frame_alignment_main a =
     bind (malloc (1024 * 1024)) (\<lambda>alt. seq (block [
       ASSERT_ret (sigaction SIGUSR1 (handler_action SA_SIGINFO sigemptyset)) (\<lambda>r. r = 0),
       ignore (raise SIGUSR1),
       ASSERT_mem (\<lambda>g. frame_count g = 1),
       ASSERT_mem (\<lambda>g. aligned a (entry_sp g)),
       ASSERT_ret (sigaltstack (stack (alt + 7) (1024 * 1024 - 7) 0)) (\<lambda>r. r = 0),
       ASSERT_ret (sigaction SIGUSR1 (handler_action (SA_SIGINFO OR SA_ONSTACK) sigemptyset)) (\<lambda>r. r = 0),
       ignore (raise SIGUSR1),
       ASSERT_mem (\<lambda>g. frame_count g = 2),
       ASSERT_mem (\<lambda>g. aligned a (entry_sp g)),
       ASSERT_ret (sigaction SIGUSR2 (handler_action 0 sigemptyset)) (\<lambda>r. r = 0),
       ignore (raise SIGUSR2),
       ASSERT_mem (\<lambda>g. frame_count g = 3),
       ASSERT_mem (\<lambda>g. aligned a (entry_sp g))])
     (Return 0))"

definition frame_alignment_memory :: frame_alignment where
  "frame_alignment_memory = \<lparr>errno = 0, entry_sp = 0, frame_count = 0\<rparr>"

lemmas frame_alignment_defs = frame_alignment_handler_def frame_alignment_main_def
  frame_alignment_memory_def record_entry_def

text \<open>The stack pointers the handlers have been entered with, oldest first.\<close>

fun entry_sps :: "log \<Rightarrow> u64 list" where
  "entry_sps [] = []"
| "entry_sps (Ans Read_sp r # l) = entry_sps l @ [r_word r]"
| "entry_sps (e # l) = entry_sps l"

lemma entry_sps_append: "\<exists>xs. entry_sps (d @ l) = entry_sps l @ xs"
proof (induction d)
  case (Cons e d)
  have "\<exists>ys. entry_sps (e # d @ l) = entry_sps (d @ l) @ ys"
    by (cases "(e # d @ l)" rule: entry_sps.cases) simp_all
  with Cons show ?case by auto
qed simp

text \<open>The stack pointers of the first \<open>n\<close> entries are aligned, and there are that many.\<close>

definition aligned_entries :: "arch \<Rightarrow> nat \<Rightarrow> log \<Rightarrow> bool" where
  "aligned_entries a n l \<longleftrightarrow> n \<le> length (entry_sps l) \<and> (\<forall>sp \<in> set (take n (entry_sps l)). aligned a sp)"

lemma aligned_entries_grows: "aligned_entries a n l \<Longrightarrow> grows l l' \<Longrightarrow> aligned_entries a n l'"
proof (unfold grows_def aligned_entries_def, elim exE conjE)
  fix d
  assume d: "l' = d @ l" and n: "n \<le> length (entry_sps l)" "\<forall>sp \<in> set (take n (entry_sps l)). aligned a sp"
  obtain xs where "entry_sps l' = entry_sps l @ xs" using entry_sps_append d by blast
  with n show "n \<le> length (entry_sps l') \<and> (\<forall>sp \<in> set (take n (entry_sps l')). aligned a sp)" by simp
qed

lemma aligned_entries_after: "grows (e # l) l' \<Longrightarrow> aligned_entries a n l \<Longrightarrow> aligned_entries a n l'"
  using aligned_entries_grows grows_ConsD by blast

lemma aligned_entries_Suc:
  assumes "aligned_entries a n l" and "length (entry_sps l) = Suc n" and "aligned a (last (entry_sps l))"
  shows "aligned_entries a (Suc n) l"
proof -
  obtain xs x where l: "entry_sps l = xs @ [x]"
    using assms(2) by (cases "entry_sps l" rule: rev_cases) auto
  with assms show ?thesis by (auto simp: aligned_entries_def)
qed

definition frame_alignment_inv :: "frame_alignment \<Rightarrow> log \<Rightarrow> bool" where
  "frame_alignment_inv g l \<longleftrightarrow> calls_ok stack_and_actions l \<and>
     frame_count g = int (length (entry_sps l)) \<and>
     (entry_sps l \<noteq> [] \<longrightarrow> entry_sp g = last (entry_sps l))"

definition frame_alignment_exit :: "arch \<Rightarrow> int \<Rightarrow> frame_alignment \<Rightarrow> log \<Rightarrow> bool" where
  "frame_alignment_exit a n g l \<longleftrightarrow> (n = 0 \<longrightarrow> calls_ok stack_and_actions l \<and>
     length (entry_sps l) = 3 \<and> aligned_entries a 3 l)"

lemmas frame_alignment_spec = frame_alignment_inv_def frame_alignment_exit_def

interpretation frame_alignment: env_invariant frame_alignment_handler frame_alignment_inv
    "frame_alignment_exit a" for a
  by unfold_locales (auto simp: prog_unfold frame_alignment_defs frame_alignment_spec)

lemma frame_alignment_inv_simps:
  "frame_alignment_inv (g\<lparr>errno := n\<rparr>) l = frame_alignment_inv g l"
  "frame_alignment_inv g (Ans (Malloc k) r # l) = frame_alignment_inv g l"
  "frame_alignment_inv g (Ans (Raise s) r # l) = frame_alignment_inv g l"
  "frame_alignment_inv g (Ans (Sigaltstack x) r # l) \<longleftrightarrow> ret r = 0 \<and> frame_alignment_inv g l"
  "frame_alignment_inv g (Ans (Rt_sigaction s y) r # l) \<longleftrightarrow> ret r = 0 \<and> frame_alignment_inv g l"
  by (auto simp: frame_alignment_inv_def)

lemma frame_alignment_next:
  assumes "frame_alignment_inv g l" and "aligned a (entry_sp g)"
  shows "frame_count g = 1 \<Longrightarrow> aligned_entries a 1 l"
    and "frame_count g = 2 \<Longrightarrow> aligned_entries a 1 l \<Longrightarrow> aligned_entries a 2 l"
    and "frame_count g = 3 \<Longrightarrow> aligned_entries a 2 l \<Longrightarrow> aligned_entries a 3 l"
  using assms aligned_entries_Suc [of a _ l]
  by (auto simp: frame_alignment_inv_def aligned_entries_def eval_nat_numeral)

lemma frame_alignment_finish:
  assumes "frame_alignment_inv g l" and "frame_count g = 3" and "aligned a (entry_sp g)"
    and "aligned_entries a 2 l"
  shows "frame_alignment_exit a 0 g (Ans (Raise s) r # l)"
    and "frame_alignment_exit a 0 (g\<lparr>errno := n\<rparr>) (Ans (Raise s) r # l)"
  using frame_alignment_next(3) [OF assms(1,3,2,4)] assms(1,2)
  by (auto simp: frame_alignment_inv_def frame_alignment_exit_def aligned_entries_def)

lemma frame_alignment_main_wp:
  "wp frame_alignment_inv balanced (frame_alignment_exit a) (\<lambda>_ _ _. False)
     (frame_alignment_main a) (\<lambda>n. frame_alignment_exit a n) frame_alignment_memory []"
proof -
  have start: "frame_alignment_inv frame_alignment_memory []"
    by (simp add: frame_alignment_inv_def frame_alignment_memory_def)
  have fail: "frame_alignment_exit a 1 g l" for g l
    by (simp add: frame_alignment_exit_def)
  show ?thesis
    by (simp add: prog_unfold frame_alignment_main_def frame_alignment_inv_simps start fail)
      (intro allI impI conjI, (rule frame_alignment_finish, assumption, assumption, assumption |
         rule frame_alignment_next, assumption, assumption, assumption | erule aligned_entries_after)+)
qed

text \<open>
  C9. If \<^verbatim>\<open>frame-alignment\<close> exits 0, then its calls succeeded and its handlers were entered three times, each
  with the stack pointer a function has at its entry: 8 (or 4) below a multiple of 16, also on the
  alternate stack that starts at an odd address.
\<close>

theorem frame_alignment_verdict:
  assumes "trial frame_alignment_handler (frame_alignment_main a) frame_alignment_memory mvs
    = Dead (Exited 0) g l"
  shows "calls_ok stack_and_actions l \<and> length (entry_sps l) = 3 \<and>
    (\<forall>sp \<in> set (entry_sps l). uint sp mod 16 = 16 - pointer_size a)"
  using frame_alignment.open_env.verdict [OF frame_alignment_main_wp assms]
  by (simp add: frame_alignment_exit_def aligned_entries_def aligned_def)

lemma frame_alignment_linux:
  "linux_run (linux_init a pid uid [0x10000]) frame_alignment_handler (frame_alignment_main a)
     frame_alignment_memory = Some 0"
  by (cases a; simp only:; code_simp)

theorem frame_alignment_verdict_witness:
  "\<exists>mvs g l. trial frame_alignment_handler (frame_alignment_main X64) frame_alignment_memory mvs
      = Dead (Exited 0) g l \<and>
    (calls_ok stack_and_actions l \<and> length (entry_sps l) = 3 \<and> (\<forall>sp \<in> set
     (entry_sps l). uint sp mod 16 = 16 - pointer_size X64))"
  by (rule linux_witness [OF frame_alignment_linux [of X64 1 0] frame_alignment_verdict])


text \<open>
  On the platform with the documented behaviour, on either target and with any process and user
  number, \<^verbatim>\<open>sigaltstack-errors\<close>,
  \<^verbatim>\<open>sigaltstack-query\<close>, \<^verbatim>\<open>two-signals-alt-stack\<close>,
  \<^verbatim>\<open>uc-stack-always\<close>, \<^verbatim>\<open>uc-stack-restore\<close>,
  \<^verbatim>\<open>two-signals-alt-stack-disarm\<close>,
  \<^verbatim>\<open>frame-alignment\<close> run to their end and exit 0: they accept a correct
  platform.
\<close>

lemma altstack_accept_linux:
  "linux_run (linux_init a pid uid [0x10000]) no_handlers sigaltstack_errors_main \<lparr>errno = 0\<rparr>
     = Some 0 \<and>
   linux_run (linux_init a pid uid [0x10000]) sigaltstack_query_handler sigaltstack_query_main sigaltstack_query_memory
     = Some 0 \<and>
   linux_run (linux_init a pid uid [0x10000]) two_signals_alt_stack_handler two_signals_alt_stack_main two_signals_alt_stack_memory
     = Some 0 \<and>
   linux_run (linux_init a pid uid [0x10000]) uc_stack_always_handler uc_stack_always_main uc_stack_always_memory
     = Some 0 \<and>
   linux_run (linux_init a pid uid [0x10000, 0x200000]) uc_stack_restore_handler uc_stack_restore_main uc_stack_restore_memory
     = Some 0 \<and>
   linux_run (linux_init a pid uid [0x10000]) (alt_stack_disarm_handler a) alt_stack_disarm_main alt_stack_disarm_memory
     = Some 0 \<and>
   linux_run (linux_init a pid uid [0x10000]) frame_alignment_handler (frame_alignment_main a) frame_alignment_memory
     = Some 0"
  by (intro conjI sigaltstack_errors_linux sigaltstack_query_linux two_signals_alt_stack_linux uc_stack_always_linux uc_stack_restore_linux alt_stack_disarm_linux frame_alignment_linux)



text \<open>
  \<^verbatim>\<open>two-signals-alt-stack-disarm\<close> cannot tell whether its signals are delivered: it also exits 0
  on a platform that answers every call with success and never enters a handler, because \<^verbatim>\<open>main\<close> does
  not check \<^verbatim>\<open>signal_count\<close>.
\<close>

lemma alt_stack_disarm_blind:
  "\<exists>g l. trial (alt_stack_disarm_handler a) alt_stack_disarm_main alt_stack_disarm_memory
       (replicate 10 (Answer resp0)) = Dead (Exited 0) g l \<and> handled l = []"
  by (simp add: trial_def boot_def prog_unfold alt_stack_disarm_defs sys_def resp0_def eval_nat_numeral)

end
