(* ===== verification/Defaults.thy ===== *)
theory Defaults
  imports Linux
begin

text \<open>
  The tests of default actions, which a parent observes in a child it forks:
  \<^verbatim>\<open>sigdfl-segv\<close>, \<^verbatim>\<open>sigdfl-usr1\<close>, \<^verbatim>\<open>sigdfl-urg\<close>, \<^verbatim>\<open>sigdfl-all\<close>,
  \<^verbatim>\<open>syscall-sigign\<close>. One definition models both processes: the answer to \<^verbatim>\<open>fork\<close> says
  which of them the run is of. A \<^verbatim>\<open>return\<close> from within a loop or a branch of \<^verbatim>\<open>main\<close> is the
  exit it leads to.
\<close>

section \<open>Wait statuses\<close>

text \<open>How a child ends or stops, and the status Linux reports.\<close>

datatype fate = Exits int | Dies_of signum bool | Stops_of signum

fun status_of :: "fate \<Rightarrow> int" where
  "status_of (Exits n) = 256 * n"
| "status_of (Dies_of s core) = s + (if core then 128 else 0)"
| "status_of (Stops_of s) = 256 * s + 0x7f"

text \<open>What the macros of \<^verbatim>\<open>sys/wait.h\<close> make of the statuses of the fates the tests ask for.\<close>

lemma take_7: "s AND 0x7f = s mod 128" for s :: int
  using take_bit_eq_mask [of 7 s] by (simp add: take_bit_eq_mod mask_eq_exp_minus_1)

lemma status_killed:
  assumes "1 \<le> k" and "k \<le> 64"
  shows "WIFSIGNALED s \<and> WTERMSIG s = k \<longleftrightarrow> s mod 128 = k"
proof -
  have "0 < drop_bit 1 (signed_take_bit 7 (k + 1))"
    using assms by (simp add: signed_take_bit_int_eq_self drop_bit_eq_div)
  then show ?thesis by (auto simp: WIFSIGNALED_def WTERMSIG_def take_7)
qed

lemma take_8: "s AND 0xff = s mod 256" for s :: int
  using take_bit_eq_mask [of 8 s] by (simp add: take_bit_eq_mod mask_eq_exp_minus_1)

lemma WEXITSTATUS_byte: "WEXITSTATUS s = (s div 256) mod 256"
proof -
  have "drop_bit 8 (s AND 0xff00) = drop_bit 8 s AND drop_bit 8 0xff00"
    by (simp add: drop_bit_and)
  also have "drop_bit 8 s AND drop_bit 8 0xff00 = (drop_bit 8 s) mod 256"
    by (simp add: take_8)
  finally show ?thesis by (simp add: WEXITSTATUS_def drop_bit_eq_div)
qed

lemma status_exited:
  "WIFEXITED s \<and> WEXITSTATUS s = n \<longleftrightarrow> s mod 128 = 0 \<and> (s div 256) mod 256 = n"
  by (simp add: WIFEXITED_def WEXITSTATUS_byte take_7)

lemma is_error_neg: "is_error n \<Longrightarrow> n < 0"
  by (simp add: is_error_def)

text \<open>A program without handlers decides what its weakest precondition says of every log.\<close>

lemma plain_decides:
  fixes main :: "('m memory_scheme, int) prog"
  assumes "wp (\<lambda>_ _. True) undisturbed (\<lambda>n g l. n = 0 \<longleftrightarrow> P l) (\<lambda>_ _ _. False) main
    (\<lambda>n g l. n = 0 \<longleftrightarrow> P l) g0 []"
  shows "decides no_handlers main g0 P"
  by (rule decidesI) (rule plain_verdict [OF assms])

section \<open>\<^verbatim>\<open>sigdfl-segv.cpp\<close>\<close>

text \<open>These programs have no globals of their own: their memory is \<^verbatim>\<open>errno\<close>.\<close>

definition start_memory :: memory where
  "start_memory = \<lparr>errno = 0\<rparr>"

definition sigdfl_segv_main :: "(memory, int) prog" where
  "sigdfl_segv_main = bind fork (\<lambda>pid.
     if pid < 0 then Return 1
     else seq (block [
       if_then (pid = 0) (block [
         ignore (signal SIGSEGV SIG_DFL),
         ignore (raise SIGSEGV),
         ASSERT False])])
     (bind (waitpid pid 0) (\<lambda>(w, status).
       if w = - 1 then Return 1
       else if WIFSIGNALED status \<and> WTERMSIG status = SIGSEGV then Return 0
       else Return 1)))"

text \<open>The parent's log: it forks a child and is told that the signal \<open>s\<close> has killed it.\<close>

definition killed_child :: "signum \<Rightarrow> log \<Rightarrow> bool" where
  "killed_child s l \<longleftrightarrow> (\<exists>f w. rev l = [Ans Fork f, Ans (Waitpid (ret f) 0) w] \<and>
     0 < ret f \<and> result w \<noteq> - 1 \<and> r_status w mod 128 = s)"

lemma sigdfl_segv_decided: "decides no_handlers sigdfl_segv_main start_memory (killed_child SIGSEGV)"
  by (rule plain_decides)
    (auto simp: prog_unfold sigdfl_segv_main_def killed_child_def status_killed result_def is_error_def split: if_splits)

section \<open>\<^verbatim>\<open>sigdfl-usr1.cpp\<close>\<close>

definition sigdfl_usr1_main :: "(memory, int) prog" where
  "sigdfl_usr1_main = bind fork (\<lambda>pid.
     if pid < 0 then Return 1
     else seq (block [
       if_then (pid = 0) (block [
         ignore (signal SIGUSR1 SIG_DFL),
         ignore (raise SIGUSR1),
         ASSERT False])])
     (bind (waitpid pid 0) (\<lambda>(w, status).
       if w = - 1 then Return 1
       else if WIFSIGNALED status \<and> WTERMSIG status = SIGUSR1 then Return 0
       else Return 1)))"

lemma sigdfl_usr1_decided: "decides no_handlers sigdfl_usr1_main start_memory (killed_child SIGUSR1)"
  by (rule plain_decides)
    (auto simp: prog_unfold sigdfl_usr1_main_def killed_child_def status_killed result_def is_error_def split: if_splits)

section \<open>\<^verbatim>\<open>sigdfl-urg.cpp\<close>\<close>

definition sigdfl_urg_main :: "(memory, int) prog" where
  "sigdfl_urg_main = bind fork (\<lambda>pid.
     if pid < 0 then Return 1
     else seq (block [
       if_then (pid = 0) (block [
         ignore (raise SIGURG),
         Exit 0])])
     (bind (waitpid pid 0) (\<lambda>(w, status).
       if w = - 1 then Return 1
       else if WIFEXITED status \<and> WEXITSTATUS status = 0 then Return 0
       else Return 1)))"

text \<open>Status 0 ends the child once its \<^verbatim>\<open>raise\<close> has returned, or the parent which is told so.\<close>

definition urg_ignored :: "log \<Rightarrow> bool" where
  "urg_ignored l \<longleftrightarrow>
     (\<exists>f r. rev l = [Ans Fork f, Ans (Raise SIGURG) r] \<and> ret f = 0) \<or>
     (\<exists>f w. rev l = [Ans Fork f, Ans (Waitpid (ret f) 0) w] \<and> 0 < ret f \<and> result w \<noteq> - 1 \<and>
        r_status w mod 128 = 0 \<and> (r_status w div 256) mod 256 = 0)"

lemma sigdfl_urg_decided: "decides no_handlers sigdfl_urg_main start_memory urg_ignored"
  by (rule plain_decides)
    (auto simp: prog_unfold sigdfl_urg_main_def urg_ignored_def status_exited result_def is_error_def split: if_splits)

section \<open>\<^verbatim>\<open>sigdfl-all.cpp\<close>\<close>

datatype behavior = Ignore | Stop | Core | Terminates | What

definition get_behavior :: "signum \<Rightarrow> behavior" where
  "get_behavior sig =
     (if sig \<in> {SIGHUP, SIGALRM, SIGINT, SIGIO, SIGPIPE, SIGPROF, SIGPWR, SIGSTKFLT, SIGTERM,
                SIGUSR1, SIGUSR2, SIGVTALRM} \<or> 32 \<le> sig \<and> sig \<le> 64 then Terminates
      else if sig \<in> {SIGABRT, SIGBUS, SIGFPE, SIGILL, SIGQUIT, SIGSEGV, SIGSYS, SIGTRAP, SIGXCPU,
                SIGXFSZ} then Core
      else if sig \<in> {SIGCONT, SIGURG, SIGWINCH, SIGCHLD} then Ignore
      else if sig \<in> {SIGTSTP, SIGTTIN, SIGTTOU, SIGSTOP} then Stop
      else What)"

text \<open>
  The action the child passes to the raw system call. The program fills in the C library's
  structure and the kernel reads its own, but everything in the part the kernel reads is 0.
\<close>

definition sigdfl_all_sa :: sigact where
  "sigdfl_all_sa = \<lparr>sa_sigaction = SIG_DFL, sa_flags = 0, sa_mask = sigemptyset, sa_restorer = 0\<rparr>"

text \<open>The child, whose \<^verbatim>\<open>return\<close> is the exit of its process.\<close>

definition sigdfl_all_child :: "signum \<Rightarrow> (memory, unit) prog" where
  "sigdfl_all_child i = block [
     if_then (i \<noteq> SIGSTOP)
       (bind (sigaction i sigdfl_all_sa) (\<lambda>r. if_then (r \<noteq> 0) (Exit 1))),
     ASSERT_ret (bind getpid (\<lambda>p. bind gettid (\<lambda>t. tgkill p t i))) (\<lambda>r. r = 0),
     Exit 42]"

text \<open>The test of the wait status, and the wait for a stopped child which is continued.\<close>

definition exited_42 :: "int \<Rightarrow> bool" where
  "exited_42 status \<longleftrightarrow> WIFEXITED status \<and> WEXITSTATUS status AND 0xFF = 42"

definition sigdfl_all_check :: "signum \<Rightarrow> int \<Rightarrow> int \<Rightarrow> (memory, unit) prog" where
  "sigdfl_all_check i pid status =
     (case get_behavior i of
        Terminates \<Rightarrow> if WIFSIGNALED status \<and> WTERMSIG status = i then skip else Exit 1
      | Core \<Rightarrow> if WIFSIGNALED status \<and> WTERMSIG status = i then skip else Exit 1
      | Stop \<Rightarrow>
          if WIFSTOPPED status \<and> WSTOPSIG status = i then
            seq (ignore (kill pid SIGCONT))
              (bind (waitpid pid 0) (\<lambda>(w, status).
                 if w = - 1 then Exit 1
                 else if exited_42 status then skip else Exit 1))
          else Exit 1
      | Ignore \<Rightarrow> if exited_42 status then skip else Exit 1
      | What \<Rightarrow> Exit 1)"

definition sigdfl_all_body :: "signum \<Rightarrow> (memory, unit) prog" where
  "sigdfl_all_body i =
     (if i = SIGKILL then skip
      else bind fork (\<lambda>pid.
        if pid < 0 then Exit 1
        else seq (if_then (pid = 0) (sigdfl_all_child i))
          (bind (waitpid pid WUNTRACED) (\<lambda>(w, status).
             if w = - 1 then Exit 1 else sigdfl_all_check i pid status))))"

definition sigdfl_all_main :: "(memory, int) prog" where
  "sigdfl_all_main = seq (for_each [1..64] sigdfl_all_body) (Return 0)"

text \<open>The table agrees with the documented default actions (\<^verbatim>\<open>signal(7)\<close>).\<close>

lemma get_behavior_What: "get_behavior s = What \<longleftrightarrow> s < 1 \<or> 64 < s \<or> s = SIGKILL"
proof (cases "s \<in> set [1..64]")
  case True
  have "\<forall>s \<in> set [1..64]. get_behavior s = What \<longleftrightarrow> s = SIGKILL" by code_simp
  with True show ?thesis by auto
next
  case False
  then show ?thesis by (auto simp: get_behavior_def)
qed

lemma get_behavior_cases:
  "get_behavior s = Ignore \<longleftrightarrow> default_ignored s"
  "get_behavior s = Stop \<longleftrightarrow> default_stops s"
  by (auto simp: get_behavior_def default_ignored_def default_stops_def)

text \<open>
  What a wait status says of a child that the signal \<open>s\<close> has reached and that exits with 42 if it
  survives it.
\<close>

definition shows_default :: "signum \<Rightarrow> int \<Rightarrow> bool" where
  "shows_default s status \<longleftrightarrow>
     (if default_ignored s then status mod 128 = 0 \<and> (status div 256) mod 256 = 42
      else if default_stops s then status mod 256 = 127 \<and> (status div 256) mod 256 = s
      else status mod 128 = s)"

lemma status_stopped: "WIFSTOPPED s \<and> WSTOPSIG s = n \<longleftrightarrow> s mod 256 = 127 \<and> (s div 256) mod 256 = n"
  using status_exited [of s n] by (auto simp: WIFSTOPPED_def WSTOPSIG_def WEXITSTATUS_byte take_8)

lemma exited_42: "exited_42 s \<longleftrightarrow> s mod 128 = 0 \<and> (s div 256) mod 256 = 42"
  by (auto simp: exited_42_def WIFEXITED_def WEXITSTATUS_byte take_7 take_8)

text \<open>
  The parent's log, oldest event first, taken apart: what is left of it after the events that
  belong to the signal \<open>s\<close>, if they report the documented default action.
\<close>

definition resumed :: "int \<Rightarrow> event list \<Rightarrow> event list option" where
  "resumed p es = (case es of
      Ans (Kill_pid p1 c) k # Ans (Waitpid p2 opts) w # es' \<Rightarrow>
        if p1 = p \<and> c = SIGCONT \<and> p2 = p \<and> opts = 0 \<and> result w \<noteq> - 1 \<and>
          r_status w mod 128 = 0 \<and> (r_status w div 256) mod 256 = 42
        then Some es' else None
    | _ \<Rightarrow> None)"

definition child_report :: "signum \<Rightarrow> event list \<Rightarrow> event list option" where
  "child_report s es =
     (if s = SIGKILL then Some es
      else case es of
        Ans Fork f # Ans (Waitpid p opts) w # es' \<Rightarrow>
          if 0 < ret f \<and> p = ret f \<and> opts = WUNTRACED \<and> result w \<noteq> - 1 \<and> shows_default s (r_status w)
          then if default_stops s then resumed p es' else Some es'
          else None
      | _ \<Rightarrow> None)"

fun child_reports :: "signum list \<Rightarrow> event list \<Rightarrow> bool" where
  "child_reports [] es \<longleftrightarrow> es = []"
| "child_reports (s # ss) es \<longleftrightarrow>
     (case child_report s es of None \<Rightarrow> False | Some es' \<Rightarrow> child_reports ss es')"

definition all_default :: "log \<Rightarrow> bool" where
  "all_default l \<longleftrightarrow> child_reports [1..64] (rev l)"

text \<open>What an iteration leaves of the log to be read, whichever way the log goes on.\<close>

definition remains :: "log \<Rightarrow> signum list \<Rightarrow> bool" where
  "remains l ss \<longleftrightarrow> (\<forall>es. child_reports [1..64] (rev l @ es) \<longleftrightarrow> child_reports ss es)"

lemma remains_more: "remains l ss \<Longrightarrow> all_default (d @ l) \<longleftrightarrow> child_reports ss (rev d)"
  by (simp add: all_default_def remains_def)

lemma remains_done: "remains l ss \<Longrightarrow> all_default l \<longleftrightarrow> child_reports ss []"
  using remains_more [of l ss "[]"] by simp

text \<open>A log that no continuation turns into a report of default actions.\<close>

definition spoiled :: "log \<Rightarrow> bool" where
  "spoiled l \<longleftrightarrow> (\<forall>d. \<not> all_default (d @ l))"

lemma spoiled_Cons: "spoiled l \<Longrightarrow> spoiled (e # l)"
  unfolding spoiled_def by (metis append_Cons append_Nil append_assoc)

lemma spoiledD [simp]: "spoiled l \<Longrightarrow> \<not> all_default l"
  unfolding spoiled_def by (metis append_Nil)

lemma spoiled_fork:
  assumes "remains l (s # ss)" and "s \<noteq> SIGKILL" and "\<not> 0 < ret f"
  shows "spoiled (Ans Fork f # l)"
  using assms remains_more [OF assms(1), of "_ @ [Ans Fork f]"]
  by (auto simp: spoiled_def child_report_def split: list.splits event.splits req.splits)

lemma sigdfl_all_child_wp:
  assumes "spoiled l"
  shows "wp (\<lambda>_ _. True) undisturbed (\<lambda>n g l. n = 0 \<longleftrightarrow> all_default l) S (sigdfl_all_child s) Q g l"
  using assms by (auto simp: prog_unfold sigdfl_all_child_def spoiled_Cons)

text \<open>The reports of a status the parent accepts, and of one it does not.\<close>

lemma remains_wait:
  assumes "remains l (s # ss)" and "s \<noteq> SIGKILL" and "0 < ret f" and "result w \<noteq> - 1"
    and "shows_default s (r_status w)" and "\<not> default_stops s"
  shows "remains (Ans (Waitpid (ret f) WUNTRACED) w # Ans Fork f # l) ss"
  using assms by (simp add: remains_def child_report_def)

lemma spoiled_wait:
  assumes "remains l (s # ss)" and "s \<noteq> SIGKILL" and "0 < ret f"
    and "result w = - 1 \<or> \<not> shows_default s (r_status w)"
  shows "spoiled (Ans (Waitpid (ret f) WUNTRACED) w # Ans Fork f # l)"
  using assms remains_more [OF assms(1), of "_ @ [Ans (Waitpid (ret f) WUNTRACED) w, Ans Fork f]"]
  by (auto simp: spoiled_def child_report_def)

lemma remains_resume:
  assumes "remains l (s # ss)" and "s \<noteq> SIGKILL" and "0 < ret f" and "result w \<noteq> - 1"
    and "shows_default s (r_status w)" and "default_stops s"
    and "result v \<noteq> - 1" and "r_status v mod 128 = 0" and "(r_status v div 256) mod 256 = 42"
  shows "remains (Ans (Waitpid (ret f) 0) v # Ans (Kill_pid (ret f) SIGCONT) k #
    Ans (Waitpid (ret f) WUNTRACED) w # Ans Fork f # l) ss"
  using assms by (simp add: remains_def child_report_def resumed_def)

lemma spoiled_resume:
  assumes "remains l (s # ss)" and "s \<noteq> SIGKILL" and "default_stops s"
    and "result v = - 1 \<or> \<not> (r_status v mod 128 = 0 \<and> (r_status v div 256) mod 256 = 42)"
  shows "spoiled (Ans (Waitpid (ret f) 0) v # Ans (Kill_pid (ret f) SIGCONT) k #
    Ans (Waitpid (ret f) WUNTRACED) w # Ans Fork f # l)"
  using assms remains_more [OF assms(1), of "_ @ [Ans (Waitpid (ret f) 0) v, Ans (Kill_pid (ret f) SIGCONT) k,
    Ans (Waitpid (ret f) WUNTRACED) w, Ans Fork f]"]
  by (auto simp: spoiled_def child_report_def resumed_def)

text \<open>What the parent's check makes of the status.\<close>

lemma shows_default_behavior:
  assumes "1 \<le> s" and "s \<le> 64"
  shows "shows_default s status \<longleftrightarrow>
    (case get_behavior s of
       Ignore \<Rightarrow> exited_42 status
     | Stop \<Rightarrow> WIFSTOPPED status \<and> WSTOPSIG status = s
     | _ \<Rightarrow> WIFSIGNALED status \<and> WTERMSIG status = s)"
  using assms status_killed [OF assms]
  by (auto simp: shows_default_def status_stopped exited_42 simp flip: get_behavior_cases split: behavior.splits)

lemma sigdfl_all_check_alt:
  assumes "1 \<le> s" and "s \<le> 64" and "s \<noteq> SIGKILL"
  shows "sigdfl_all_check s pid status =
    (if \<not> shows_default s status then Exit 1
     else if default_stops s then
       seq (ignore (kill pid SIGCONT))
         (bind (waitpid pid 0) (\<lambda>(w, status).
            if w = - 1 then Exit 1 else if exited_42 status then skip else Exit 1))
     else skip)"
proof -
  have "get_behavior s \<noteq> What" using assms by (simp add: get_behavior_What)
  then show ?thesis
    by (cases "get_behavior s")
      (simp_all add: sigdfl_all_check_def shows_default_behavior [OF assms(1,2)] flip: get_behavior_cases)
qed

text \<open>
  C7. The switch of \<^verbatim>\<open>sigdfl-all\<close> over its own table of default actions is the same program as a check of
  the wait status against the documented default actions, for every status; a signal that the table does not know
  fails the test, and these are exactly the numbers that are no signals and \<^verbatim>\<open>SIGKILL\<close>.
\<close>

theorem sigdfl_switch_equivalence:
  "sigdfl_all_check s pid status =
    (if 1 \<le> s \<and> s \<le> 64 \<and> s \<noteq> SIGKILL \<and> shows_default s status then
       (if default_stops s then
          seq (ignore (kill pid SIGCONT))
            (bind (waitpid pid 0) (\<lambda>(w, status).
               if w = - 1 then Exit 1 else if exited_42 status then skip else Exit 1))
        else skip)
     else Exit 1)"
proof (cases "1 \<le> s \<and> s \<le> 64 \<and> s \<noteq> SIGKILL")
  case True
  then show ?thesis by (simp add: sigdfl_all_check_alt)
next
  case False
  then have "get_behavior s = What" by (auto simp: get_behavior_What)
  then have "sigdfl_all_check s pid status = Exit 1" by (simp add: sigdfl_all_check_def)
  moreover from False have "\<not> (1 \<le> s \<and> s \<le> 64 \<and> s \<noteq> SIGKILL \<and> shows_default s status)" by blast
  ultimately show ?thesis by (simp only: if_False)
qed

lemma sigdfl_all_check_wp:
  assumes "1 \<le> s" and "s \<le> 64" and "s \<noteq> SIGKILL" and "remains l0 (s # ss)" and "0 < ret f"
    and "result w \<noteq> - 1" and "l = Ans (Waitpid (ret f) WUNTRACED) w # Ans Fork f # l0"
    and "\<And>g l. remains l ss \<Longrightarrow> Q () g l"
  shows "wp (\<lambda>_ _. True) undisturbed (\<lambda>n g l. n = 0 \<longleftrightarrow> all_default l) S
    (sigdfl_all_check s (ret f) (r_status w)) Q g l"
proof (cases "shows_default s (r_status w)")
  case False
  with assms(3-7) have "spoiled l" by (simp add: spoiled_wait)
  with False show ?thesis by (simp add: sigdfl_all_check_alt [OF assms(1-3)])
next
  case True
  show ?thesis
  proof (cases "default_stops s")
    case False
    have "Q () g l"
      unfolding assms(7) using assms(3-6) True False by (intro assms(8) remains_wait)
    with False True show ?thesis by (simp add: sigdfl_all_check_alt [OF assms(1-3)] skip_def)
  next
    case stops: True
    show ?thesis
      using remains_resume [OF assms(4,3,5,6) True stops] spoiled_resume [OF assms(4,3) stops] assms(8)
      by (auto simp: sigdfl_all_check_alt [OF assms(1-3)] prog_unfold exited_42 assms(7) result_def True stops)
  qed
qed

lemma sigdfl_all_body_wp:
  assumes "1 \<le> s" and "s \<le> 64" and "remains l (s # ss)"
    and "\<And>g l. remains l ss \<Longrightarrow> Q () g l"
  shows "wp (\<lambda>_ _. True) undisturbed (\<lambda>n g l. n = 0 \<longleftrightarrow> all_default l) S (sigdfl_all_body s) Q g l"
proof (cases "s = SIGKILL")
  case True
  then have "remains l ss" using assms(3) by (simp add: remains_def child_report_def)
  with True show ?thesis by (simp add: sigdfl_all_body_def skip_def assms(4))
next
  case False
  then show ?thesis
    using spoiled_fork [OF assms(3) False] spoiled_wait [OF assms(3) False]
    by (auto simp: sigdfl_all_body_def statement_defs fork_def waitpid_def sysret_def sysget_def result_def
      sigdfl_all_child_wp sigdfl_all_check_wp [OF assms(1,2) False assms(3)] assms(4) dest: is_error_neg)
qed

text \<open>
  C20. \<^verbatim>\<open>sigdfl-all\<close> exits 0 exactly on the logs of a parent that is told, for each signal from 1
  to 64 but \<^verbatim>\<open>SIGKILL\<close> and in this order, that the child it has forked met the documented default
  action of the signal: ignored signals leave it to exit with 42, stopping signals stop it and let it exit
  with 42 once it is continued, all others kill it.
\<close>

theorem sigdfl_all_verdict:
  "decides no_handlers sigdfl_all_main start_memory all_default"
proof (rule plain_decides)
  have "wp (\<lambda>_ _. True) undisturbed (\<lambda>n g l. n = 0 \<longleftrightarrow> all_default l) (\<lambda>_ _ _. False)
    (for_each [1..64] sigdfl_all_body) (\<lambda>_ g l. all_default l) start_memory []"
  proof (rule wp_for_each [where P = "\<lambda>i g l. remains l (drop i [1..64])"])
    show "remains [] (drop 0 [1..64])" by (simp add: remains_def)
    show "all_default l" if "remains l (drop (length [1..64]) [1..64])" for l
      using remains_done [OF that] by simp
    fix i g l
    assume i: "i < length ([1..64] :: int list)" and "remains l (drop i [1..64])"
    then have "remains l ([1..64] ! i # drop (Suc i) [1..64])" by (metis Cons_nth_drop_Suc)
    then show "wp (\<lambda>_ _. True) undisturbed (\<lambda>n g l. n = 0 \<longleftrightarrow> all_default l) (\<lambda>_ _ _. False)
        (sigdfl_all_body ([1..64] ! i)) (\<lambda>_ _ l. remains l (drop (Suc i) [1..64])) g l"
      by (rule sigdfl_all_body_wp [rotated 2]) (use i in \<open>simp_all add: nth_upto\<close>)
  qed
  then show "wp (\<lambda>_ _. True) undisturbed (\<lambda>n g l. n = 0 \<longleftrightarrow> all_default l) (\<lambda>_ _ _. False)
    sigdfl_all_main (\<lambda>n g l. n = 0 \<longleftrightarrow> all_default l) start_memory []"
    by (simp add: sigdfl_all_main_def seq_def)
qed

text \<open>
  What becomes of the child of each signal on Linux, as a parent sees it, and the moves that tell the
  parent.
\<close>

definition default_fates :: "signum \<Rightarrow> fate list" where
  "default_fates s =
     (if s = SIGKILL then []
      else if default_ignored s then [Exits 42]
      else if default_stops s then [Stops_of s, Exits 42]
      else [Dies_of s (get_behavior s = Core)])"

definition fork_moves :: "fate \<Rightarrow> move list" where
  "fork_moves f = [Answer (resp0\<lparr>ret := 77\<rparr>), Answer (resp0\<lparr>ret := 77, r_status := status_of f\<rparr>)]"

definition sigdfl_all_moves :: "signum \<Rightarrow> move list" where
  "sigdfl_all_moves s = concat (map fork_moves (default_fates s))"

lemma sigdfl_all_body_run:
  assumes "1 \<le> s" and "s \<le> 64"
  shows "\<exists>d. replay no_handlers (settle (bind (sigdfl_all_body s) k) [] jb g l) (sigdfl_all_moves s) =
    settle (k ()) [] jb g (d @ l)"
proof (cases "s = SIGKILL")
  case True
  then show ?thesis
    by (simp add: sigdfl_all_body_def sigdfl_all_moves_def default_fates_def skip_def)
      (rule settle_grows, rule grows_refl)
next
  case False
  have noerr: "is_error 77 = False" by (simp add: is_error_def)
  note run = sigdfl_all_body_def sigdfl_all_check_alt [OF assms False] sigdfl_all_moves_def fork_moves_def
    default_fates_def False noerr resp0_def prog_unfold sys_def
  consider (ignored) "default_ignored s" | (stops) "default_stops s" "\<not> default_ignored s"
    | (dies) "\<not> default_ignored s" "\<not> default_stops s" by blast
  then show ?thesis
  proof cases
    case ignored
    then have "\<not> default_stops s" by (auto simp: default_ignored_def default_stops_def)
    moreover have "shows_default s (256 * 42)" using ignored by (simp add: shows_default_def)
    ultimately show ?thesis using ignored by (simp add: run) (intro conjI impI settle_grows grows_Cons grows_refl)
  next
    case stops
    moreover have "shows_default s (256 * s + 0x7f)"
      using stops assms by (simp add: shows_default_def)
    moreover have "exited_42 (256 * 42)" by (simp add: exited_42)
    ultimately show ?thesis by (simp add: run) (intro conjI impI settle_grows grows_Cons grows_refl)
  next
    case dies
    moreover have "shows_default s (s + (if c then 128 else 0))" for c
      using dies assms by (simp add: shows_default_def)
    ultimately show ?thesis by (simp add: run) (intro conjI impI settle_grows grows_Cons grows_refl)
  qed
qed

lemma sigdfl_all_accepts:
  "\<exists>g l. trial no_handlers sigdfl_all_main start_memory (concat (map sigdfl_all_moves [1..64])) =
    Dead (Exited 0) g l"
proof -
  let ?k = "\<lambda>_ :: unit. Exit 0 :: (memory, unit) prog"
  have "\<exists>d. replay no_handlers (settle (bind (for_each [1..64] sigdfl_all_body) ?k) [] None start_memory [])
      (concat (map sigdfl_all_moves [1..64])) = settle (?k ()) [] None start_memory (d @ [])"
    by (rule replay_for_each) (simp add: sigdfl_all_body_run)
  then show ?thesis
    by (auto simp: trial_def boot_def sigdfl_all_main_def seq_def bind_assoc)
qed

text \<open>The child alone on Linux: how it ends, a stop being followed by its continuation.\<close>

fun outcome_of :: "'g machine \<Rightarrow> outcome option" where
  "outcome_of (Dead r g l) = Some r"
| "outcome_of _ = None"

definition run_alone :: "arch \<Rightarrow> ('m memory_scheme, unit) prog \<Rightarrow> 'm memory_scheme \<Rightarrow> outcome option" where
  "run_alone a p g =
     (case run linux_move no_handlers (settle p [] None g []) (linux_init a 77 0 []) of
        None \<Rightarrow> None | Some mw \<Rightarrow> outcome_of (fst mw))"

definition default_outcome :: "signum \<Rightarrow> outcome" where
  "default_outcome s = (if default_ignored s \<or> default_stops s then Exited 42 else Killed s)"

lemma sigdfl_all_children_ok:
  "list_all (\<lambda>s. run_alone a (sigdfl_all_child s) start_memory = Some (default_outcome s))
    (remove1 SIGKILL [1..64])"
  by (cases a; simp only:; code_simp)

section \<open>\<^verbatim>\<open>syscall-sigign.cpp\<close>\<close>

definition child_main :: "(memory, int) prog" where
  "child_main = bind (sigsuspend sigemptyset) (\<lambda>_. Return 1)"

text \<open>The action the program fills in, but for its handler field.\<close>

definition sigign_sa :: "handler \<Rightarrow> sigact" where
  "sigign_sa h = \<lparr>sa_sigaction = h, sa_flags = 0, sa_mask = sigemptyset, sa_restorer = 0\<rparr>"

definition syscall_sigign_main :: "(memory, int) prog" where
  "syscall_sigign_main =
     seq (block [
       ASSERT_ret (sigprocmask SIG_BLOCK sigfillset) (\<lambda>r. r = 0),
       ASSERT_ret (sigaction SIGUSR1 (sigign_sa SIG_IGN)) (\<lambda>r. r = 0),
       ASSERT_ret (sigaction SIGURG (sigign_sa SIG_DFL)) (\<lambda>r. r = 0)])
     (bind fork (\<lambda>pid.
        if pid = 0 then child_main
        else seq (block [
          ASSERT_ret (tgkill pid pid SIGUSR1) (\<lambda>r. r = 0),
          ignore (usleep 10000),
          ASSERT_ret (tgkill pid pid SIGURG) (\<lambda>r. r = 0),
          ignore (usleep 100000),
          ASSERT_ret (tgkill pid pid SIGKILL) (\<lambda>r. r = 0),
          bind (waitpid pid 0) (\<lambda>(r, status). block [
            ASSERT (r = pid),
            ASSERT (WIFSIGNALED status),
            ASSERT (WTERMSIG status = SIGKILL)])])
        (Return 0)))"

text \<open>
  The parent's log: the child it has forked is reported killed by \<^verbatim>\<open>SIGKILL\<close> after two ignored
  signals were sent to it.
\<close>

definition only_kill_works :: "log \<Rightarrow> bool" where
  "only_kill_works l \<longleftrightarrow> (\<exists>m a b f k1 u1 k2 u2 k3 w p. p = result f \<and> p \<noteq> 0 \<and>
     rev l = [
       Ans (Rt_sigprocmask SIG_BLOCK (Some (sigfillset AND NOT internal_signals))) m,
       Ans (Rt_sigaction SIGUSR1 (Some (sigign_sa SIG_IGN))) a,
       Ans (Rt_sigaction SIGURG (Some (sigign_sa SIG_DFL))) b,
       Ans Fork f,
       Ans (Tgkill p p SIGUSR1) k1, Ans (Usleep 10000) u1,
       Ans (Tgkill p p SIGURG) k2, Ans (Usleep 100000) u2,
       Ans (Tgkill p p SIGKILL) k3,
       Ans (Waitpid p 0) w] \<and>
     (\<forall>r \<in> {m, a, b, k1, k2, k3}. ret r = 0) \<and> result w = p \<and> r_status w mod 128 = SIGKILL)"

lemma syscall_sigign_decided: "decides no_handlers syscall_sigign_main start_memory only_kill_works"
  using status_killed [of SIGKILL]
  by (intro plain_decides)
    (auto simp: wp_calls syscall_sigign_main_def child_main_def only_kill_works_def)

section \<open>Verdicts\<close>

text \<open>
  \<^verbatim>\<open>sigdfl-segv\<close> and \<^verbatim>\<open>sigdfl-usr1\<close> exit 0 exactly in a parent that is told that the signal has
  killed its child; \<^verbatim>\<open>sigdfl-urg\<close> exits 0 exactly in a child that survives the signal or in a parent
  that is told so; \<^verbatim>\<open>syscall-sigign\<close> exits 0 exactly in a parent whose child outlives \<^verbatim>\<open>SIGUSR1\<close> and
  \<^verbatim>\<open>SIGURG\<close> and is then killed by \<^verbatim>\<open>SIGKILL\<close>. A failed \<^verbatim>\<open>fork\<close> is never a success, except in
  \<^verbatim>\<open>syscall-sigign\<close>, which does not check it.
\<close>

lemma defaults_decided:
  "decides no_handlers sigdfl_segv_main start_memory (killed_child SIGSEGV) \<and>
   decides no_handlers sigdfl_usr1_main start_memory (killed_child SIGUSR1) \<and>
   decides no_handlers sigdfl_urg_main start_memory urg_ignored \<and>
   decides no_handlers syscall_sigign_main start_memory only_kill_works"
  by (intro conjI sigdfl_segv_decided sigdfl_usr1_decided sigdfl_urg_decided syscall_sigign_decided)

text \<open>
  The tests of default actions accept Linux. For each signal the child of \<^verbatim>\<open>sigdfl-all\<close>, run on
  the documented platform, ends as documented, and a parent that is told the corresponding statuses
  exits 0; so do the children and parents of \<^verbatim>\<open>sigdfl-segv\<close>, \<^verbatim>\<open>sigdfl-usr1\<close> and \<^verbatim>\<open>sigdfl-urg\<close>.
\<close>

lemma defaults_accept_linux:
  "list_all (\<lambda>s. run_alone a (sigdfl_all_child s) start_memory = Some (default_outcome s))
     (remove1 SIGKILL [1..64]) \<and>
   (\<exists>g l. trial no_handlers sigdfl_all_main start_memory (concat (map sigdfl_all_moves [1..64])) =
     Dead (Exited 0) g l) \<and>
   run_alone a (bind sigdfl_segv_main Exit) start_memory = Some (Killed SIGSEGV) \<and>
   exit_status (trial no_handlers sigdfl_segv_main start_memory (fork_moves (Dies_of SIGSEGV True))) = Some 0 \<and>
   run_alone a (bind sigdfl_usr1_main Exit) start_memory = Some (Killed SIGUSR1) \<and>
   exit_status (trial no_handlers sigdfl_usr1_main start_memory (fork_moves (Dies_of SIGUSR1 False))) = Some 0 \<and>
   run_alone a (bind sigdfl_urg_main Exit) start_memory = Some (Exited 0) \<and>
   exit_status (trial no_handlers sigdfl_urg_main start_memory (fork_moves (Exits 0))) = Some 0"
  by (intro conjI sigdfl_all_children_ok sigdfl_all_accepts; (cases a; simp only:)?; code_simp)

end
