(* ===== verification/Processes.thy ===== *)
theory Processes
  imports Defaults Interrupted
begin

text \<open>
  The tests of what a child inherits and of signals sent from one process to another:
  \<^verbatim>\<open>fork-inherit\<close>, \<^verbatim>\<open>execve-inherit\<close>, \<^verbatim>\<open>signal-table-fork\<close>, \<^verbatim>\<open>sigqueueinfo\<close>,
  \<^verbatim>\<open>rt-order\<close>, \<^verbatim>\<open>rt-order-only-one\<close>. As in the theory on default actions, a run is of the
  parent or of the child, as the answer to \<^verbatim>\<open>fork\<close> says.
\<close>

section \<open>Parents and children\<close>

text \<open>The status of a child that has exited with 0.\<close>

definition exited_0 :: "int \<Rightarrow> bool" where
  "exited_0 status \<longleftrightarrow> status mod 128 = 0 \<and> (status div 256) mod 256 = 0"

lemma status_exited_0: "WIFEXITED s \<and> WEXITSTATUS s = 0 \<longleftrightarrow> exited_0 s"
  by (simp add: status_exited exited_0_def)

lemma status_0:
  "WIFEXITED s \<Longrightarrow> WEXITSTATUS s = 0 \<longleftrightarrow> exited_0 s"
  "\<not> WIFEXITED s \<Longrightarrow> \<not> exited_0 s"
  using status_exited_0 [of s] by blast+

text \<open>
  Linux as a child sees it to which its parent sends the signals \<open>is\<close> as soon as it exists, before
  it releases any lock.
\<close>

definition child_move :: "siginfo list \<Rightarrow> linux platform" where
  "child_move is k q =
     (if q = Fork \<and> l_answer k = None then (Answer resp0, fold send_signal is k) else linux_move k q)"

definition child_run ::
  "siginfo list \<Rightarrow> linux \<Rightarrow> 'g handlers \<Rightarrow> ('g, int) prog \<Rightarrow> 'g \<Rightarrow> int option" where
  "child_run is k H main g =
     (case run (child_move is) H (boot main g) k of None \<Rightarrow> None | Some mw \<Rightarrow> exit_status (fst mw))"

lemma child_witness:
  assumes "child_run is k H main g = Some n"
    and "\<And>mvs g' l. trial H main g mvs = Dead (Exited n) g' l \<Longrightarrow> P l"
  shows "\<exists>mvs g' l. trial H main g mvs = Dead (Exited n) g' l \<and> P l"
proof -
  from assms(1) obtain d w where r: "run (child_move is) H (boot main g) k = Some (d, w)"
    and n: "exit_status d = Some n"
    by (auto simp: child_run_def split: option.splits)
  from run_is_replay [OF r] obtain mvs where "trial H main g mvs = d"
    unfolding trial_def by blast
  with exit_status_Some [OF n] assms(2) show ?thesis by metis
qed

text \<open>What a parent is told of a child that exits with 0.\<close>

definition told :: "move list" where
  "told = fork_moves (Exits 0)"

section \<open>\<^verbatim>\<open>fork-inherit.cpp\<close>\<close>

definition fork_inherit_set :: sigset where
  "fork_inherit_set = sigaddset (sigaddset (sigaddset (sigaddset (sigaddset sigemptyset
     SIGUSR1) SIGURG) SIGSEGV) SIGBUS) SIGILL"

text \<open>Both processes query their mask and check it in the same way.\<close>

definition check_old_mask :: "(memory, unit) prog" where
  "check_old_mask = bind (sigprocmask_query SIG_SETMASK) (\<lambda>(r, old_mask). block [
     ASSERT (r = 0),
     ASSERT (sigismember old_mask SIGUSR1),
     ASSERT (sigismember old_mask SIGURG),
     ASSERT (sigismember old_mask SIGSEGV),
     ASSERT (sigismember old_mask SIGBUS),
     ASSERT (sigismember old_mask SIGILL)])"

definition fork_inherit_main :: "(memory, int) prog" where
  "fork_inherit_main =
     seq (ASSERT_ret (sigprocmask SIG_BLOCK fork_inherit_set) (\<lambda>r. r = 0))
     (bind fork (\<lambda>pid.
        seq (ASSERT (pid \<ge> 0))
        (if pid = 0 then seq check_old_mask (Return 0)
         else seq (block [
           check_old_mask,
           bind (waitpid pid 0) (\<lambda>(w, status). block [
             ASSERT (w = pid),
             ASSERT (WIFEXITED status),
             ASSERT (WEXITSTATUS status = 0)])])
         (Return 0))))"

text \<open>
  The process, parent or child, finds the five signals blocked after the \<^verbatim>\<open>fork\<close>; the parent is
  told that the child has found the same.
\<close>

definition mask_inherited :: "log \<Rightarrow> bool" where
  "mask_inherited l \<longleftrightarrow> (\<exists>m f q es.
     rev l = [Ans (Rt_sigprocmask SIG_BLOCK (Some (fork_inherit_set AND NOT internal_signals))) m,
       Ans Fork f, Ans (Rt_sigprocmask SIG_SETMASK None) q] @ es \<and>
     ret m = 0 \<and> ret q = 0 \<and>
     (\<forall>s \<in> {SIGUSR1, SIGURG, SIGSEGV, SIGBUS, SIGILL}. sigismember (r_set q) s) \<and>
     (ret f = 0 \<and> es = [] \<or>
      (\<exists>w. 0 < ret f \<and> es = [Ans (Waitpid (ret f) 0) w] \<and> ret w = ret f \<and> exited_0 (r_status w))))"

lemma result_nonneg: "0 \<le> result r \<longleftrightarrow> 0 \<le> ret r"
  by (auto simp: result_def is_error_def)

lemma result_same: "0 \<le> n \<Longrightarrow> result r = n \<longleftrightarrow> ret r = n"
  by (auto simp: result_def is_error_def)

lemma result_id: "0 \<le> ret r \<Longrightarrow> result r = ret r"
  by (auto simp: result_def is_error_def)

lemma result_error: "result r = - 1 \<longleftrightarrow> is_error (ret r)"
  by (auto simp: result_def is_error_def)

lemma fork_inherit_decided: "decides no_handlers fork_inherit_main start_memory mask_inherited"
  by (intro plain_decides)
    (auto simp: wp_calls fork_inherit_main_def check_old_mask_def mask_inherited_def status_0
      result_nonneg result_same result_id)

lemma fork_inherit_linux:
  "linux_run (linux_init a pid uid heap) no_handlers fork_inherit_main start_memory = Some 0"
  by (cases a; simp only:; code_simp)

lemma fork_inherit_parent:
  "exit_status (trial no_handlers fork_inherit_main start_memory
     [Answer resp0, Answer (resp0\<lparr>ret := 77\<rparr>), Answer (resp0\<lparr>r_set := fork_inherit_set\<rparr>),
      Answer (resp0\<lparr>ret := 77, r_status := status_of (Exits 0)\<rparr>)]) = Some 0"
  by code_simp

section \<open>\<^verbatim>\<open>execve-inherit.cpp\<close>\<close>

record execve_inherit = memory +
  all_ok :: bool

definition execve_inherit_handler ::
  "nat \<Rightarrow> signum \<Rightarrow> siginfo \<Rightarrow> ucontext \<Rightarrow> (execve_inherit, ucontext) prog" where
  "execve_inherit_handler h sig info ctx =
     seq (modify (all_ok_update (\<lambda>_. True))) (Return ctx)"

definition execve_inherit_set :: sigset where
  "execve_inherit_set = sigaddset (sigaddset (sigaddset (sigaddset (sigaddset (sigaddset sigemptyset
     SIGUSR1) SIGURG) 40) SIGILL) SIGSEGV) SIGBUS"

text \<open>
  The environment is an argument: whether \<^verbatim>\<open>__EXECVE_INHERIT_TEST\<close> is set. A successful
  \<^verbatim>\<open>execve\<close> does not return; the program it starts is this one with the variable set.
\<close>

definition execve_inherit_main :: "bool \<Rightarrow> (execve_inherit, int) prog" where
  "execve_inherit_main env =
     (if env then
        bind (sigprocmask_query SIG_SETMASK) (\<lambda>(r, current_set). seq (block [
          ASSERT (r = 0),
          ASSERT (sigismember current_set SIGUSR1),
          ASSERT (sigismember current_set SIGURG),
          ASSERT (sigismember current_set SIGILL),
          ASSERT (sigismember current_set SIGSEGV),
          ASSERT (sigismember current_set SIGBUS),
          ASSERT (sigismember current_set 40),
          ASSERT (\<not> sigismember current_set SIGUSR2),
          ASSERT (\<not> sigismember current_set SIGFPE)])
        (Return 0))
      else
        seq (block [
          ASSERT_ret (sigprocmask SIG_BLOCK execve_inherit_set) (\<lambda>r. r = 0),
          ignore execve])
        (Return 1))"

definition execve_inherit_memory :: execve_inherit where
  "execve_inherit_memory = \<lparr>errno = 0, all_ok = False\<rparr>"

lemmas execve_inherit_defs = execve_inherit_handler_def execve_inherit_main_def execve_inherit_memory_def

text \<open>The second image has found the six signals blocked and the two others not.\<close>

definition mask_survived :: "bool \<Rightarrow> log \<Rightarrow> bool" where
  "mask_survived env l \<longleftrightarrow> env \<and> (\<exists>q. main_calls l = [(Rt_sigprocmask SIG_SETMASK None, q)] \<and> ret q = 0 \<and>
     (\<forall>s \<in> {SIGUSR1, SIGURG, SIGILL, SIGSEGV, SIGBUS, 40}. sigismember (r_set q) s) \<and>
     (\<forall>s \<in> {SIGUSR2, SIGFPE}. \<not> sigismember (r_set q) s))"

definition execve_inherit_exit :: "bool \<Rightarrow> int \<Rightarrow> execve_inherit \<Rightarrow> log \<Rightarrow> bool" where
  "execve_inherit_exit env n g l \<longleftrightarrow> (n = 0 \<longleftrightarrow> mask_survived env l)"

interpretation execve_inherit: env_invariant execve_inherit_handler "\<lambda>_ _. True" "execve_inherit_exit env"
  for env
  by unfold_locales (simp add: wp_calls execve_inherit_defs wp_request)

lemma execve_inherit_main_wp:
  "wp (\<lambda>_ _. True) layered (execve_inherit_exit env) (\<lambda>_ _ _. False)
     (execve_inherit_main env) (\<lambda>n. execve_inherit_exit env n) execve_inherit_memory []"
  by (auto simp: wp_calls execve_inherit_defs execve_inherit_exit_def mask_survived_def)

lemma execve_inherit_decided:
  "decides execve_inherit_handler (execve_inherit_main env) execve_inherit_memory (mask_survived env)"
  using execve_inherit.layers.verdict [OF execve_inherit_main_wp]
  by (auto simp: decides_def execve_inherit_exit_def)

text \<open>
  Both images on Linux, which keeps the mask across an \<^verbatim>\<open>execve\<close>. The platform returns from
  \<^verbatim>\<open>execve\<close>, so the first image's run ends behind it, in the state the call was made in.
\<close>

definition execve_inherit_images :: "arch \<Rightarrow> int option" where
  "execve_inherit_images a =
     (case run linux_move execve_inherit_handler (boot (execve_inherit_main False) execve_inherit_memory)
        (linux_init a 1 0 []) of
        None \<Rightarrow> None
      | Some mw \<Rightarrow>
          linux_run ((linux_init a 1 0 [])\<lparr>l_blocked := l_blocked (snd mw)\<rparr>) execve_inherit_handler
            (execve_inherit_main True) execve_inherit_memory)"

lemma execve_inherit_linux: "execve_inherit_images a = Some 0"
  by (cases a; simp only:; code_simp)

section \<open>\<^verbatim>\<open>signal-table-fork.cpp\<close>\<close>

record signal_table_fork = memory +
  child_tid :: int
  parent_tid :: int
  is_ok :: bool

definition signal_table_fork_handler ::
  "nat \<Rightarrow> signum \<Rightarrow> siginfo \<Rightarrow> ucontext \<Rightarrow> (signal_table_fork, ucontext) prog" where
  "signal_table_fork_handler h sig info ctx =
     seq (block [
       bind gettid (\<lambda>t. ASSERT_mem (\<lambda>g. child_tid g = t)),
       modify (is_ok_update (\<lambda>_. True))])
     (Return ctx)"

definition signal_table_fork_thread :: "(signal_table_fork, unit) prog" where
  "signal_table_fork_thread = block [
     bind gettid (\<lambda>t. modify (child_tid_update (\<lambda>_. t))),
     bind (sigaction_query SIGUSR1) (\<lambda>(r, old_sa). block [
       ASSERT (r = 0),
       ASSERT (sa_sigaction old_sa = Handler 0)]),
     ASSERT_ret (sigaction SIGUSR2 (handler_action SA_SIGINFO sigemptyset)) (\<lambda>r. r = 0),
     ignore (raise SIGUSR1)]"

definition signal_table_fork_main :: "(signal_table_fork, int) prog" where
  "signal_table_fork_main =
     seq (block [
       bind gettid (\<lambda>t. modify (parent_tid_update (\<lambda>_. t))),
       ASSERT_ret (sigaction SIGUSR1 (handler_action SA_SIGINFO sigemptyset)) (\<lambda>r. r = 0)])
     (bind fork (\<lambda>pid. seq (modify (child_tid_update (\<lambda>_. pid)))
        (bind get (\<lambda>g.
           if child_tid g = 0 then
             seq (block [signal_table_fork_thread, ASSERT_mem is_ok]) (Exit 0)
           else bind (waitpid (child_tid g) 0) (\<lambda>(w, status).
             if w = - 1 then Return 1
             else seq (ASSERT (WIFEXITED status \<and> WEXITSTATUS status = 0))
               (bind (sigaction_query SIGUSR2) (\<lambda>(r, old_sa). seq (block [
                  ASSERT (r = 0),
                  ASSERT (sa_sigaction old_sa = SIG_DFL)])
                (Return 0))))))))"

definition signal_table_fork_memory :: signal_table_fork where
  "signal_table_fork_memory = \<lparr>errno = 0, child_tid = 0, parent_tid = 0, is_ok = False\<rparr>"

lemmas signal_table_fork_defs = signal_table_fork_handler_def signal_table_fork_main_def
  signal_table_fork_thread_def signal_table_fork_memory_def

lemma handled_entered: "grows (Ans (Enter s i c) r # l) l' \<Longrightarrow> handled l' \<noteq> []"
  by (auto simp: grows_def)

definition signal_table_fork_inv :: "signal_table_fork \<Rightarrow> log \<Rightarrow> bool" where
  "signal_table_fork_inv g l \<longleftrightarrow> (is_ok g \<longrightarrow> handled l \<noteq> [])"

text \<open>
  The child finds the handler its parent has installed before the \<^verbatim>\<open>fork\<close>, and runs it; the parent
  does not find the one its child has installed.
\<close>

definition tables_separate :: "log \<Rightarrow> bool" where
  "tables_separate l \<longleftrightarrow> (\<exists>t a f es.
     main_calls l = [(Gettid, t),
       (Rt_sigaction SIGUSR1 (Some (handler_action SA_SIGINFO sigemptyset)), a), (Fork, f)] @ es \<and>
     ret a = 0 \<and>
     (ret f = 0 \<and> handled l \<noteq> [] \<and> (\<exists>t2 q b k. es = [(Gettid, t2), (Rt_sigaction SIGUSR1 None, q),
         (Rt_sigaction SIGUSR2 (Some (handler_action SA_SIGINFO sigemptyset)), b), (Raise SIGUSR1, k)] \<and>
        ret q = 0 \<and> sa_sigaction (r_act q) = Handler 0 \<and> ret b = 0) \<or>
      ret f \<noteq> 0 \<and> (\<exists>w q. es = [(Waitpid (result f) 0, w), (Rt_sigaction SIGUSR2 None, q)] \<and>
        result w \<noteq> - 1 \<and> exited_0 (r_status w) \<and> ret q = 0 \<and> sa_sigaction (r_act q) = SIG_DFL)))"

definition signal_table_fork_exit :: "int \<Rightarrow> signal_table_fork \<Rightarrow> log \<Rightarrow> bool" where
  "signal_table_fork_exit n g l \<longleftrightarrow> (n = 0 \<longrightarrow> tables_separate l)"

interpretation signal_table_fork: env_invariant signal_table_fork_handler signal_table_fork_inv
    signal_table_fork_exit
  by unfold_locales
    (auto simp: wp_calls signal_table_fork_defs signal_table_fork_inv_def signal_table_fork_exit_def
      dest: handled_entered)

lemma signal_table_fork_main_wp:
  "wp signal_table_fork_inv layered signal_table_fork_exit (\<lambda>_ _ _. False)
     signal_table_fork_main (\<lambda>n. signal_table_fork_exit n) signal_table_fork_memory []"
  by (auto simp: wp_calls signal_table_fork_defs signal_table_fork_inv_def signal_table_fork_exit_def
     tables_separate_def with_errno_def handler_action_def status_exited_0 split: if_splits)

lemma signal_table_fork_linux:
  "linux_run (linux_init a 77 uid heap) signal_table_fork_handler signal_table_fork_main
     signal_table_fork_memory = Some 0"
  by (cases a; simp only:; code_simp)

lemma signal_table_fork_parent:
  "exit_status (trial signal_table_fork_handler signal_table_fork_main signal_table_fork_memory
     ([Answer resp0, Answer resp0] @ told @ [Answer resp0])) = Some 0"
  by code_simp

section \<open>\<^verbatim>\<open>sigqueueinfo.cpp\<close>\<close>

record sigqueueinfo = memory +
  parent_pid :: int
  uid :: int

definition magic :: u64 where
  "magic = 0xabcdef0cafe1234"

abbreviation (input) queueinfo_sig :: signum where "queueinfo_sig \<equiv> SIGRTMIN + 10"

text \<open>\<^verbatim>\<open>sival_ptr\<close> is a pointer: the 32-bit program sends and compares the lower half.\<close>

definition sigqueueinfo_handler ::
  "arch \<Rightarrow> nat \<Rightarrow> signum \<Rightarrow> siginfo \<Rightarrow> ucontext \<Rightarrow> (sigqueueinfo, ucontext) prog" where
  "sigqueueinfo_handler a h sig info ctx =
     seq (block [
       ASSERT (sig = queueinfo_sig),
       ASSERT (si_code info = - 0xcafe),
       ASSERT_mem (\<lambda>g. si_pid info = parent_pid g),
       ASSERT_mem (\<lambda>g. si_uid info = uid g),
       ASSERT (to_ptr a (si_value info) = to_ptr a magic),
       ASSERT (greg a (REG_RAX (gregs ctx)) = - EINTR),
       check_syscall_bytes a ctx])
     (Return ctx)"

definition custom_info :: "arch \<Rightarrow> sigqueueinfo \<Rightarrow> siginfo" where
  "custom_info a g = \<lparr>si_signo = 0, si_code = - 0xcafe, si_pid = parent_pid g, si_uid = uid g,
     si_value = to_ptr a magic, si_addr = 0\<rparr>"

definition sigqueueinfo_main :: "arch \<Rightarrow> (sigqueueinfo, int) prog" where
  "sigqueueinfo_main a =
     seq (block [
       bind geteuid (\<lambda>n. modify (uid_update (\<lambda>_. n))),
       bind getpid (\<lambda>n. modify (parent_pid_update (\<lambda>_. n))),
       ignore (sigprocmask SIG_BLOCK sigfillset)])
     (bind fork (\<lambda>pid.
        if pid = 0 then
          seq (block [
            ignore (sigaction queueinfo_sig (handler_action SA_SIGINFO sigemptyset)),
            ASSERT_ret (sigsuspend (sigdelset sigfillset queueinfo_sig)) (\<lambda>r. r = - 1),
            ASSERT_mem (\<lambda>g. errno g = EINTR)])
          (Return 0)
        else
          seq (bind get (\<lambda>g. ignore (sysret (Rt_sigqueueinfo pid queueinfo_sig (custom_info a g)))))
          (bind (waitpid pid 0) (\<lambda>(w, status).
             if w = - 1 then Return 1
             else seq (ASSERT (WIFEXITED status \<and> WEXITSTATUS status = 0)) (Return 0)))))"

definition sigqueueinfo_memory :: sigqueueinfo where
  "sigqueueinfo_memory = \<lparr>errno = 0, parent_pid = 0, uid = 0\<rparr>"

lemmas sigqueueinfo_defs = sigqueueinfo_handler_def sigqueueinfo_main_def sigqueueinfo_memory_def

text \<open>What the process has last been told of itself: its pid and its effective user.\<close>

fun identity_after :: "int \<times> int \<Rightarrow> req \<times> resp \<Rightarrow> int \<times> int" where
  "identity_after (p, u) (Getpid, r) = (ret r, u)"
| "identity_after (p, u) (Geteuid, r) = (p, ret r)"
| "identity_after pu _ = pu"

definition identity :: "log \<Rightarrow> int \<times> int" where
  "identity l = foldl identity_after (0, 0) (main_calls l)"

lemma identity_Nil: "identity [] = (0, 0)"
  by (simp add: identity_def)

lemma identity_Cons:
  "identity (Ans (Enter s i c) r # l) = identity l"
  "identity (Ans (Load_byte x) r # l) = identity l"
  "identity (Ret c # l) = identity l"
  "identity (Out m # l) = identity l"
  by (simp_all add: identity_def)

text \<open>Every entry of the handler is by a signal as its parent has sent it, with nothing lost or changed.\<close>

fun as_sent :: "arch \<Rightarrow> log \<Rightarrow> event \<Rightarrow> bool" where
  "as_sent a l (Ans (Enter s i c) r) \<longleftrightarrow> s = queueinfo_sig \<and> si_code i = - 0xcafe \<and>
     (si_pid i, si_uid i) = identity l \<and> to_ptr a (si_value i) = to_ptr a magic"
| "as_sent a l _ \<longleftrightarrow> True"

definition sigqueueinfo_inv :: "arch \<Rightarrow> sigqueueinfo \<Rightarrow> log \<Rightarrow> bool" where
  "sigqueueinfo_inv a g l \<longleftrightarrow> 0 \<le> active l \<and> identity l = (parent_pid g, uid g) \<and> each_event (as_sent a) l \<and>
     each_return (in_sigsuspend a) l"

definition queueinfo_calls :: "arch \<Rightarrow> log \<Rightarrow> bool" where
  "queueinfo_calls a l \<longleftrightarrow> (\<exists>u p m f es.
     main_calls l = [(Geteuid, u), (Getpid, p),
       (Rt_sigprocmask SIG_BLOCK (Some (sigfillset AND NOT internal_signals)), m), (Fork, f)] @ es \<and>
     (ret f = 0 \<and> (\<exists>b s. es = [
         (Rt_sigaction queueinfo_sig (Some (handler_action SA_SIGINFO sigemptyset)), b),
         (Rt_sigsuspend (sigdelset sigfillset queueinfo_sig), s)] \<and> ret s = - EINTR) \<or>
      ret f \<noteq> 0 \<and> (\<exists>q w. es = [
         (Rt_sigqueueinfo (result f) queueinfo_sig \<lparr>si_signo = 0, si_code = - 0xcafe, si_pid = ret p,
            si_uid = ret u, si_value = to_ptr a magic, si_addr = 0\<rparr>, q),
         (Waitpid (result f) 0, w)] \<and> result w \<noteq> - 1 \<and> exited_0 (r_status w))))"

definition sigqueueinfo_exit :: "arch \<Rightarrow> int \<Rightarrow> sigqueueinfo \<Rightarrow> log \<Rightarrow> bool" where
  "sigqueueinfo_exit a n g l \<longleftrightarrow> (n = 0 \<longrightarrow> each_event (as_sent a) l \<and>
     each_return (in_sigsuspend a) l \<and> queueinfo_calls a l)"

interpretation sigqueueinfo: env_invariant "sigqueueinfo_handler a" "sigqueueinfo_inv a"
    "sigqueueinfo_exit a" for a
  by unfold_locales
    (auto simp: wp_calls sigqueueinfo_defs sigqueueinfo_inv_def sigqueueinfo_exit_def in_sigsuspend_def
       identity_Cons
       intro!: wp_check_syscall_bytes intro: after_syscall_grows)

lemma sigqueueinfo_main_wp:
  "wp (sigqueueinfo_inv a) layered (sigqueueinfo_exit a) (\<lambda>_ _ _. False)
     (sigqueueinfo_main a) (\<lambda>n. sigqueueinfo_exit a n) sigqueueinfo_memory []"
  by (auto simp: wp_calls sigqueueinfo_defs sigqueueinfo_inv_def sigqueueinfo_exit_def queueinfo_calls_def
     custom_info_def with_errno_def handler_action_def status_exited_0 identity_def result_error)

lemma sigqueueinfo_child:
  "child_run [(custom_info a \<lparr>errno = 0, parent_pid = pid, uid = u\<rparr>)\<lparr>si_signo := queueinfo_sig\<rparr>]
     (linux_init a pid u heap) (sigqueueinfo_handler a) (sigqueueinfo_main a) sigqueueinfo_memory = Some 0"
  by (cases a; simp only:; code_simp)

lemma sigqueueinfo_parent:
  "exit_status (trial (sigqueueinfo_handler a) (sigqueueinfo_main a) sigqueueinfo_memory
     [Answer resp0, Answer resp0, Answer resp0, Answer (resp0\<lparr>ret := 77\<rparr>), Answer resp0,
      Answer (resp0\<lparr>ret := 77, r_status := status_of (Exits 0)\<rparr>)]) = Some 0"
  by (cases a; simp only:; code_simp)

section \<open>Verdicts\<close>

text \<open>
  C22. If \<^verbatim>\<open>sigqueueinfo\<close> exits 0, then the handler was entered only for the signal its parent sends and
  with the code, the pid, the user and the pointer the parent has put into it, the contexts it returned
  with are those of a system call interrupted with \<^verbatim>\<open>EINTR\<close>, and either the child's \<^verbatim>\<open>sigsuspend\<close> was
  interrupted or the parent sent that information and was told that its child exited with 0.
\<close>

theorem sigqueueinfo_verdict:
  assumes "trial (sigqueueinfo_handler a) (sigqueueinfo_main a) sigqueueinfo_memory mvs = Dead (Exited 0) g l"
  shows "each_event (as_sent a) l \<and> each_return (in_sigsuspend a) l \<and> queueinfo_calls a l"
  using sigqueueinfo.layers.verdict [OF sigqueueinfo_main_wp assms] by (simp add: sigqueueinfo_exit_def)

theorem sigqueueinfo_verdict_witness:
  "\<exists>mvs g l. trial (sigqueueinfo_handler X64) (sigqueueinfo_main X64) sigqueueinfo_memory mvs
      = Dead (Exited 0) g l \<and>
    (each_event (as_sent X64) l \<and> each_return (in_sigsuspend X64) l \<and> queueinfo_calls X64 l)"
  by (rule child_witness [OF sigqueueinfo_child [of X64 77 5 "[]"] sigqueueinfo_verdict])

text \<open>
  C26. If \<^verbatim>\<open>signal-table-fork\<close> exits 0, then the child has found the handler its parent had installed
  and has run it, or the parent has been told that its child exited with 0 and has not found the handler
  its child has installed for another signal.
\<close>

theorem signal_table_fork_verdict:
  assumes "trial signal_table_fork_handler signal_table_fork_main signal_table_fork_memory mvs
    = Dead (Exited 0) g l"
  shows "tables_separate l"
  using signal_table_fork.layers.verdict [OF signal_table_fork_main_wp assms]
  by (simp add: signal_table_fork_exit_def)

theorem signal_table_fork_verdict_witness:
  "\<exists>mvs g l. trial signal_table_fork_handler signal_table_fork_main signal_table_fork_memory mvs
      = Dead (Exited 0) g l \<and> tables_separate l"
  by (rule linux_witness [OF signal_table_fork_linux [of X64 0 "[]"] signal_table_fork_verdict])

text \<open>
  The tests of inheritance and of signals between processes accept Linux: children on the documented
  platform exit 0, and so do parents that are told so.
\<close>

lemma processes_accept_linux:
  "linux_run (linux_init a pid u heap) no_handlers fork_inherit_main start_memory = Some 0 \<and>
   execve_inherit_images a = Some 0 \<and>
   linux_run (linux_init a 77 u heap) signal_table_fork_handler signal_table_fork_main
     signal_table_fork_memory = Some 0 \<and>
   exit_status (trial signal_table_fork_handler signal_table_fork_main signal_table_fork_memory
     ([Answer resp0, Answer resp0] @ told @ [Answer resp0])) = Some 0 \<and>
   child_run [(custom_info a \<lparr>errno = 0, parent_pid = pid, uid = u\<rparr>)\<lparr>si_signo := queueinfo_sig\<rparr>]
     (linux_init a pid u heap) (sigqueueinfo_handler a) (sigqueueinfo_main a) sigqueueinfo_memory = Some 0"
  by (intro conjI fork_inherit_linux execve_inherit_linux signal_table_fork_linux signal_table_fork_parent
    sigqueueinfo_child)

end
