(* ===== verification/Ordering.thy ===== *)
theory Ordering
  imports Processes
begin

text \<open>
  The tests of the order in which pending realtime signals are delivered to a child,
  \<^verbatim>\<open>rt-order\<close> and \<^verbatim>\<open>rt-order-only-one\<close>. The child waits for its parent in a loop on shared
  memory that may not end. The loop is given fuel; it is shown to go on for exactly as long as the
  lock is held, if it has the fuel for it.
\<close>

section \<open>\<^verbatim>\<open>rt-order.cpp\<close>\<close>

text \<open>
  The child waits for the lock in a loop that may not end, so the loop has fuel.
\<close>

primrec spin_lock :: "nat \<Rightarrow> u64 \<Rightarrow> ('g, unit) prog" where
  "spin_lock 0 lock = Out_of_fuel"
| "spin_lock (Suc fuel) lock =
     bind (atomic_exchange lock 1) (\<lambda>v. if v \<noteq> 0 then spin_lock fuel lock else skip)"

record rt_order = memory +
  now_servicing :: int
  serviced :: int

definition rt_order_handler ::
  "nat \<Rightarrow> signum \<Rightarrow> siginfo \<Rightarrow> ucontext \<Rightarrow> (rt_order, ucontext) prog" where
  "rt_order_handler h sig info ctx =
     seq (block [
       ASSERT_mem (\<lambda>g. now_servicing g = sig),
       incr now_servicing (\<lambda>n. now_servicing_update (\<lambda>_. n)),
       incr serviced (\<lambda>n. serviced_update (\<lambda>_. n))])
     (Return ctx)"

definition rt_order_install :: "signum \<Rightarrow> (rt_order, unit) prog" where
  "rt_order_install i = ASSERT_ret (sigaction i (handler_action SA_SIGINFO sigfillset)) (\<lambda>r. r = 0)"

definition rt_order_child :: "nat \<Rightarrow> u64 \<Rightarrow> (rt_order, unit) prog" where
  "rt_order_child fuel lock = block [
     spin_lock fuel lock,
     ignore (sigprocmask SIG_UNBLOCK sigfillset),
     ASSERT_mem (\<lambda>g. serviced g = 6),
     ASSERT_mem (\<lambda>g. now_servicing g = 40)]"

text \<open>The parent's statements \<^verbatim>\<open>ASSERT(kill(pid, s) == 0)\<close> are given by the list of their signals.\<close>

definition rt_order_kill :: "int \<Rightarrow> signum \<Rightarrow> (rt_order, unit) prog" where
  "rt_order_kill pid s = ASSERT_ret (kill pid s) (\<lambda>r. r = 0)"

definition rt_order_parent :: "signum list \<Rightarrow> int \<Rightarrow> u64 \<Rightarrow> (rt_order, unit) prog" where
  "rt_order_parent ss pid lock = block [
     for_each ss (rt_order_kill pid),
     atomic_store lock 0,
     bind (waitpid pid 0) (\<lambda>(w, status).
       if w = - 1 then Exit 1
       else ASSERT (WIFEXITED status \<and> WEXITSTATUS status = 0))]"

text \<open>\<^verbatim>\<open>main\<close> has no \<^verbatim>\<open>return\<close>: its end is the return of 0.\<close>

definition rt_order_main :: "nat \<Rightarrow> (rt_order, int) prog" where
  "rt_order_main fuel =
     bind (mmap 4096) (\<lambda>lock. seq (block [
       store_int lock 1,
       for_each [34, 35, 36, 37, 38, 39] rt_order_install,
       ignore (sigprocmask SIG_BLOCK sigfillset),
       bind fork (\<lambda>pid. if pid = 0 then rt_order_child fuel lock 
         else rt_order_parent [36, 34, 35, 37, 39, 38] pid lock)])
     (Return 0))"

definition rt_order_memory :: rt_order where
  "rt_order_memory = \<lparr>errno = 0, now_servicing = 34, serviced = 0\<rparr>"

lemmas rt_order_defs = rt_order_handler_def rt_order_main_def rt_order_child_def rt_order_parent_def
  rt_order_memory_def

lemma rt_order_with_errno [simp]:
  "now_servicing (with_errno r g) = now_servicing g" "serviced (with_errno r g) = serviced g"
  by (simp_all add: with_errno_def)

text \<open>The signals the parent has sent, with their targets and the results.\<close>

fun kill_of :: "req \<times> resp \<Rightarrow> (int \<times> signum \<times> int) list" where
  "kill_of (Kill_pid p s, r) = [(p, s, ret r)]"
| "kill_of _ = []"

definition kills :: "log \<Rightarrow> (int \<times> signum \<times> int) list" where
  "kills l = concat (map kill_of (main_calls l))"

text \<open>
  Every entry is of the lowest signal that has not been entered yet, from 34 on; the globals count.
\<close>

definition rt_order_inv :: "rt_order \<Rightarrow> log \<Rightarrow> bool" where
  "rt_order_inv g l \<longleftrightarrow> serviced g = int (length (handled l)) \<and> now_servicing g = 34 + serviced g \<and>
     handled_signals l = map (\<lambda>i. 34 + int i) [0..<length (handled l)]"

text \<open>What a parent is told: all signals are sent, its child has exited with 0.\<close>

definition sent_all :: "int list \<Rightarrow> int \<Rightarrow> log \<Rightarrow> bool" where
  "sent_all ss p l \<longleftrightarrow> p \<noteq> 0 \<and> kills l = map (\<lambda>s. (p, s, 0)) ss \<and>
     (\<exists>w. (Waitpid p 0, w) \<in> set (main_calls l) \<and> result w \<noteq> - 1 \<and> exited_0 (r_status w))"

text \<open>What holds on exit 0: something of the child, or that the parent has sent the signals \<open>ss\<close>.\<close>

definition rt_order_exit :: "(log \<Rightarrow> bool) \<Rightarrow> signum list \<Rightarrow> int \<Rightarrow> rt_order \<Rightarrow> log \<Rightarrow> bool" where
  "rt_order_exit C ss n g l \<longleftrightarrow> (n = 0 \<longrightarrow> (\<exists>f. (Fork, f) \<in> set (main_calls l) \<and>
     (if ret f = 0 then C l else sent_all ss (result f) l)))"

definition served_in_order :: "log \<Rightarrow> bool" where
  "served_in_order l \<longleftrightarrow> handled_signals l = [34, 35, 36, 37, 38, 39]"

lemmas rt_order_spec = rt_order_inv_def rt_order_exit_def

interpretation rt_order: env_invariant rt_order_handler rt_order_inv "rt_order_exit C ss" for C ss
  by unfold_locales
    (auto simp: wp_calls rt_order_defs rt_order_spec)

text \<open>The parts of \<^verbatim>\<open>main\<close>, each with what it adds to the program's own calls.\<close>

lemma spin_lock_wp:
  assumes "\<And>g l r. I g l \<Longrightarrow> I g (Ans (Atomic_exchange lock 1) r # l)" and "I g l"
    and "active l = 0" and "P (main_calls l)"
    and "\<And>cs r. P cs \<Longrightarrow> P (cs @ [(Atomic_exchange lock 1, r)])"
    and "\<And>g l. I g l \<Longrightarrow> active l = 0 \<Longrightarrow> P (main_calls l) \<Longrightarrow> Q () g l"
  shows "wp I layered X S (spin_lock fuel lock) Q g l"
  using assms(2-4)
proof (induction fuel arbitrary: g l)
  case (Suc fuel)
  then show ?case by (auto simp: wp_calls assms(1,5) intro!: assms(6))
qed simp

lemma rt_order_setup_wp:
  assumes "rt_order_inv g l" and "active l = 0" and "kills l = []"
    and "\<And>g l. rt_order_inv g l \<Longrightarrow> active l = 0 \<Longrightarrow> kills l = [] \<Longrightarrow> Q () g l"
  shows "wp rt_order_inv layered (rt_order_exit C ss) S
    (for_each is rt_order_install) Q g l"
proof (rule wp_for_each [where P = "\<lambda>_ g l. rt_order_inv g l \<and> active l = 0 \<and> kills l = []"])
  fix i g l
  assume "rt_order_inv g l \<and> active l = 0 \<and> kills l = []"
  then show "wp rt_order_inv layered (rt_order_exit C ss) S (rt_order_install (is ! i))
      (\<lambda>_ g l. rt_order_inv g l \<and> active l = 0 \<and> kills l = []) g l"
    by (auto simp: wp_calls rt_order_install_def rt_order_spec kills_def)
qed (use assms in auto)

lemma rt_order_served:
  assumes "rt_order_inv g l" and "serviced g = 6"
  shows "handled_signals l = [34, 35, 36, 37, 38, 39]"
proof -
  from assms have "length (handled l) = 6" by (simp add: rt_order_inv_def)
  with assms show ?thesis by (simp add: rt_order_inv_def upt_rec)
qed

lemma rt_order_child_wp:
  assumes "rt_order_inv g l" and "active l = 0" and "(Fork, f) \<in> set (main_calls l)" and "ret f = 0"
    and "\<And>g l. rt_order_exit served_in_order ss 0 g l \<Longrightarrow> Q () g l"
  shows "wp rt_order_inv layered (rt_order_exit served_in_order ss) S (rt_order_child fuel lock) Q g l"
proof -
  have fin: "Q () (with_errno r g) (Ans (Rt_sigprocmask h m) r # l)"
    if "rt_order_inv g l" and "serviced g = 6" and "(Fork, f) \<in> set (main_calls l)" for g l h m r
    using that assms(4) rt_order_served [OF that(1,2)] by (intro assms(5)) (auto simp: rt_order_exit_def served_in_order_def)
  have "wp rt_order_inv layered (rt_order_exit served_in_order ss) S (spin_lock fuel lock)
    (\<lambda>_ g l. wp rt_order_inv layered (rt_order_exit served_in_order ss) S (block [
       ignore (sigprocmask SIG_UNBLOCK sigfillset),
       ASSERT_mem (\<lambda>g. serviced g = 6),
       ASSERT_mem (\<lambda>g. now_servicing g = 40)]) Q g l) g l"
  proof (rule spin_lock_wp [where P = "\<lambda>cs. (Fork, f) \<in> set cs"])
    fix g l
    assume "rt_order_inv g l" and "active l = 0" and "(Fork, f) \<in> set (main_calls l)"
    then show "wp rt_order_inv layered (rt_order_exit served_in_order ss) S (block [
       ignore (sigprocmask SIG_UNBLOCK sigfillset),
       ASSERT_mem (\<lambda>g. serviced g = 6),
       ASSERT_mem (\<lambda>g. now_servicing g = 40)]) Q g l"
      by (auto simp: wp_calls rt_order_exit_def intro!: fin)
  qed (use assms in \<open>auto simp: rt_order_inv_def\<close>)
  then show ?thesis by (simp add: rt_order_child_def statement_defs wp_bind_fun)
qed

lemma rt_order_kill_wp:
  assumes "rt_order_inv g l" and "active l = 0"
    and "\<And>g' l'. rt_order_inv g' l' \<Longrightarrow> active l' = 0 \<Longrightarrow> set (main_calls l) \<subseteq> set (main_calls l') \<Longrightarrow>
      kills l' = kills l @ map (\<lambda>s. (pid, s, 0)) sent \<Longrightarrow> Q () g' l'"
  shows "wp rt_order_inv layered (rt_order_exit C ss) S (for_each sent (rt_order_kill pid)) Q g l"
proof (rule wp_for_each [where P = "\<lambda>i g' l'. rt_order_inv g' l' \<and> active l' = 0 \<and>
    set (main_calls l) \<subseteq> set (main_calls l') \<and> kills l' = kills l @ map (\<lambda>s. (pid, s, 0)) (take i sent)"])
  fix i g' l'
  assume "i < length sent" and "rt_order_inv g' l' \<and> active l' = 0 \<and>
    set (main_calls l) \<subseteq> set (main_calls l') \<and> kills l' = kills l @ map (\<lambda>s. (pid, s, 0)) (take i sent)"
  then show "wp rt_order_inv layered (rt_order_exit C ss) S (rt_order_kill pid (sent ! i))
      (\<lambda>_ g' l'. rt_order_inv g' l' \<and> active l' = 0 \<and> set (main_calls l) \<subseteq> set (main_calls l') \<and>
        kills l' = kills l @ map (\<lambda>s. (pid, s, 0)) (take (Suc i) sent)) g' l'"
    by (auto simp: wp_calls rt_order_kill_def rt_order_spec kills_def take_Suc_conv_app_nth)
qed (use assms in auto)

lemma rt_order_parent_wp:
  assumes "rt_order_inv g l" and "active l = 0" and "(Fork, f) \<in> set (main_calls l)" and "ret f \<noteq> 0"
    and "kills l = []" and "\<And>g l. rt_order_exit C ss 0 g l \<Longrightarrow> Q () g l"
  shows "wp rt_order_inv layered (rt_order_exit C ss) S (rt_order_parent ss (result f) lock) Q g l"
proof -
  have fin: "Q () g' (Ans (Waitpid (result f) 0) w # l')"
    if "kills l' = map (\<lambda>s. (result f, s, 0)) ss" and "(Fork, f) \<in> set (main_calls l')" and "active l' = 0"
      and "result w \<noteq> - 1" and "exited_0 (r_status w)" for g' l' w
    using that assms(4) by (intro assms(6)) (auto simp: rt_order_exit_def sent_all_def kills_def)
  have "wp rt_order_inv layered (rt_order_exit C ss) S (block [
     atomic_store lock 0,
     bind (waitpid (result f) 0) (\<lambda>(w, status).
       if w = - 1 then Exit 1
       else ASSERT (WIFEXITED status \<and> WEXITSTATUS status = 0))]) Q g' l'"
    if "rt_order_inv g' l'" and "active l' = 0" and "set (main_calls l) \<subseteq> set (main_calls l')"
      and "kills l' = map (\<lambda>s. (result f, s, 0)) ss" for g' l'
  proof -
    have "kills l2 = map (\<lambda>s. (result f, s, 0)) ss" if "main_calls l2 = main_calls l' @ [(Atomic_store lock 0, r)]"
      for l2 r using that \<open>kills l' = _\<close> by (simp add: kills_def)
    moreover have "(Fork, f) \<in> set (main_calls l')" using that(3) assms(3) by blast
    ultimately show ?thesis
      using that(1,2)
      by (auto simp: wp_calls wp_bind_fun rt_order_exit_def status_exited_0 rt_order_inv_def intro!: fin)
  qed
  then have "wp rt_order_inv layered (rt_order_exit C ss) S (for_each ss (rt_order_kill (result f)))
    (\<lambda>_ g l. wp rt_order_inv layered (rt_order_exit C ss) S (block [
     atomic_store lock 0,
     bind (waitpid (result f) 0) (\<lambda>(w, status).
       if w = - 1 then Exit 1
       else ASSERT (WIFEXITED status \<and> WEXITSTATUS status = 0))]) Q g l) g l"
    using assms(1,2,5) by (intro rt_order_kill_wp) simp_all
  then show ?thesis by (simp add: rt_order_parent_def statement_defs wp_bind_fun)
qed

lemma rt_order_main_wp:
  "wp rt_order_inv layered (rt_order_exit served_in_order [36, 34, 35, 37, 39, 38]) (\<lambda>_ _ _. False)
     (rt_order_main fuel) (\<lambda>n. rt_order_exit served_in_order [36, 34, 35, 37, 39, 38] n) rt_order_memory []"
  unfolding rt_order_main_def
  by (auto simp: wp_calls wp_bind_fun rt_order_inv_def rt_order_memory_def kills_def
    intro!: rt_order_setup_wp rt_order_child_wp rt_order_parent_wp)

text \<open>The signals in the order the parent sends them, and the child that receives them on Linux.\<close>

definition sent_signals :: "int \<Rightarrow> signum list \<Rightarrow> siginfo list" where
  "sent_signals pid ss = map (\<lambda>s. \<lparr>si_signo = s, si_code = SI_USER, si_pid = pid, si_uid = 0,
     si_value = 0, si_addr = 0\<rparr>) ss"

lemma rt_order_child_linux:
  "child_run (sent_signals 1 [36, 34, 35, 37, 39, 38]) (linux_init a pid u [0x10000]) rt_order_handler
     (rt_order_main 1) rt_order_memory = Some 0"
  by (cases a; simp only:; code_simp)

definition rt_order_told :: "move list" where
  "rt_order_told = replicate 9 (Answer resp0) @ Answer (resp0\<lparr>ret := 77\<rparr>) # replicate 7 (Answer resp0) @
     [Answer (resp0\<lparr>ret := 77, r_status := status_of (Exits 0)\<rparr>)]"

lemma rt_order_parent_told:
  "exit_status (trial rt_order_handler (rt_order_main 1) rt_order_memory rt_order_told) = Some 0"
  by code_simp

section \<open>\<^verbatim>\<open>rt-order-only-one.cpp\<close>\<close>

definition rt_order_one_handler ::
  "nat \<Rightarrow> signum \<Rightarrow> siginfo \<Rightarrow> ucontext \<Rightarrow> (rt_order, ucontext) prog" where
  "rt_order_one_handler h sig info ctx =
     seq (block [
       ASSERT_mem (\<lambda>g. now_servicing g = sig),
       incr now_servicing (\<lambda>n. now_servicing_update (\<lambda>_. n)),
       incr serviced (\<lambda>n. serviced_update (\<lambda>_. n))])
     (Return ctx)"

definition rt_order_one_child :: "nat \<Rightarrow> u64 \<Rightarrow> (rt_order, unit) prog" where
  "rt_order_one_child fuel lock = block [
     spin_lock fuel lock,
     ASSERT_ret (sigsuspend sigemptyset) (\<lambda>r. r = - 1),
     ASSERT_mem (\<lambda>g. errno g = EINTR),
     ASSERT_mem (\<lambda>g. serviced g = 1),
     ASSERT_mem (\<lambda>g. now_servicing g = 35)]"

definition rt_order_one_main :: "nat \<Rightarrow> (rt_order, int) prog" where
  "rt_order_one_main fuel =
     bind (mmap 4096) (\<lambda>lock. seq (block [
       store_int lock 1,
       for_each [34, 35, 36, 37, 38, 39] rt_order_install,
       ignore (sigprocmask SIG_BLOCK sigfillset),
       bind fork (\<lambda>pid. if pid = 0 then rt_order_one_child fuel lock
         else rt_order_parent [36, 35, 34, 37, 39, 38] pid lock)])
     (Return 0))"

lemma rt_order_one_handler_same: "rt_order_one_handler = rt_order_handler"
  by (intro ext) (simp add: rt_order_one_handler_def rt_order_handler_def)

text \<open>
  The child's \<^verbatim>\<open>sigsuspend\<close> is interrupted by the lowest pending signal and by no other, although
  five more are pending.
\<close>

definition served_one :: "log \<Rightarrow> bool" where
  "served_one l \<longleftrightarrow> handled_signals l = [34] \<and>
     (\<exists>r. (Rt_sigsuspend sigemptyset, r) \<in> set (main_calls l) \<and> ret r = - EINTR)"

lemma rt_order_one_child_wp:
  assumes "rt_order_inv g l" and "active l = 0" and "(Fork, f) \<in> set (main_calls l)" and "ret f = 0"
    and "\<And>g l. rt_order_exit served_one ss 0 g l \<Longrightarrow> Q () g l"
  shows "wp rt_order_inv layered (rt_order_exit served_one ss) S (rt_order_one_child fuel lock) Q g l"
proof -
  have fin: "Q () (with_errno r g) (Ans (Rt_sigsuspend sigemptyset) r # l)"
    if "rt_order_inv g l" and "serviced g = 1" and "(Fork, f) \<in> set (main_calls l)"
      and "errno (with_errno r g) = EINTR" and "result r = - 1" and "active l = 0" for g l r
  proof -
    from that(1,2) have "length (handled l) = 1" by (simp add: rt_order_inv_def)
    with that(1) have "handled_signals l = [34]" by (simp add: rt_order_inv_def)
    moreover have "ret r = - EINTR" using that(4,5) by (simp add: result_error with_errno_def)
    ultimately show ?thesis
      using that assms(4) by (intro assms(5)) (auto simp: rt_order_exit_def served_one_def)
  qed
  have "wp rt_order_inv layered (rt_order_exit served_one ss) S (spin_lock fuel lock)
    (\<lambda>_ g l. wp rt_order_inv layered (rt_order_exit served_one ss) S (block [
       ASSERT_ret (sigsuspend sigemptyset) (\<lambda>r. r = - 1),
       ASSERT_mem (\<lambda>g. errno g = EINTR),
       ASSERT_mem (\<lambda>g. serviced g = 1),
       ASSERT_mem (\<lambda>g. now_servicing g = 35)]) Q g l) g l"
  proof (rule spin_lock_wp [where P = "\<lambda>cs. (Fork, f) \<in> set cs"])
    fix g l
    assume "rt_order_inv g l" and "active l = 0" and "(Fork, f) \<in> set (main_calls l)"
    then show "wp rt_order_inv layered (rt_order_exit served_one ss) S (block [
       ASSERT_ret (sigsuspend sigemptyset) (\<lambda>r. r = - 1),
       ASSERT_mem (\<lambda>g. errno g = EINTR),
       ASSERT_mem (\<lambda>g. serviced g = 1),
       ASSERT_mem (\<lambda>g. now_servicing g = 35)]) Q g l"
      by (auto simp: wp_calls rt_order_exit_def intro!: fin)
  qed (use assms in \<open>auto simp: rt_order_inv_def\<close>)
  then show ?thesis by (simp add: rt_order_one_child_def statement_defs wp_bind_fun)
qed

lemma rt_order_one_main_wp:
  "wp rt_order_inv layered (rt_order_exit served_one [36, 35, 34, 37, 39, 38]) (\<lambda>_ _ _. False)
     (rt_order_one_main fuel) (\<lambda>n. rt_order_exit served_one [36, 35, 34, 37, 39, 38] n) rt_order_memory []"
  unfolding rt_order_one_main_def
  by (auto simp: wp_calls wp_bind_fun rt_order_inv_def rt_order_memory_def kills_def
    intro!: rt_order_setup_wp rt_order_one_child_wp rt_order_parent_wp)

lemma rt_order_one_child_linux:
  "child_run (sent_signals 1 [36, 35, 34, 37, 39, 38]) (linux_init a pid u [0x10000]) rt_order_one_handler
     (rt_order_one_main 1) rt_order_memory = Some 0"
  by (cases a; simp only:; code_simp)

lemma rt_order_one_parent_told:
  "exit_status (trial rt_order_one_handler (rt_order_one_main 1) rt_order_memory rt_order_told) = Some 0"
  by code_simp

section \<open>Waiting for the lock\<close>

text \<open>What happens to a waiting child: an exchange of the lock is answered, or a handler is entered.\<close>

datatype turn = Exchanged int | Entered signum

fun turn_of :: "event \<Rightarrow> turn list" where
  "turn_of (Ans (Atomic_exchange a n) r) = [Exchanged (ret r)]"
| "turn_of (Ans (Enter s i c) r) = [Entered s]"
| "turn_of _ = []"

definition turns :: "log \<Rightarrow> turn list" where
  "turns l = concat (map turn_of (rev l))"

lemma turns_simps [simp]:
  "turns [] = []"
  "turns (e # l) = turns l @ turn_of e"
  "turns (d @ l) = turns l @ turns d"
  by (simp_all add: turns_def)




















abbreviation (input) "rt_order_sent \<equiv> sent_signals 1 [36, 34, 35, 37, 39, 38]"
abbreviation (input) "rt_order_one_sent \<equiv> sent_signals 1 [36, 35, 34, 37, 39, 38]"








section \<open>A failed \<^verbatim>\<open>fork\<close>\<close>

text \<open>
  The program has been told that its \<^verbatim>\<open>fork\<close> failed. From then on it sends the signals \<open>ss\<close>, in this
  order, to process -1: all of them if it exits 0, and without a handler's failed assertion it stops
  only behind the last one or behind one that is refused.
\<close>

definition fork_failed :: "log \<Rightarrow> bool" where
  "fork_failed l \<longleftrightarrow> (\<exists>f. (Fork, f) \<in> set (main_calls l) \<and> result f = - 1)"

definition sent_to_all :: "signum list \<Rightarrow> log \<Rightarrow> bool" where
  "sent_to_all ss l \<longleftrightarrow>
     map (\<lambda>(p, s, r). (p, s)) (kills l) = map (\<lambda>s. (- 1, s)) (take (length (kills l)) ss)"

definition signals_all :: "signum list \<Rightarrow> int \<Rightarrow> log \<Rightarrow> bool" where
  "signals_all ss n l \<longleftrightarrow> sent_to_all ss l \<and>
     (n = 0 \<longrightarrow> kills l = map (\<lambda>s. (- 1, s, 0)) ss) \<and>
     (handled l = [] \<longrightarrow> kills l \<noteq> [] \<and> (length (kills l) = length ss \<or> snd (snd (last (kills l))) \<noteq> 0))"

definition spread_inv :: "signum list \<Rightarrow> rt_order \<Rightarrow> log \<Rightarrow> bool" where
  "spread_inv ss g l \<longleftrightarrow> (fork_failed l \<longrightarrow> sent_to_all ss l)"

definition spread_exit :: "signum list \<Rightarrow> int \<Rightarrow> rt_order \<Rightarrow> log \<Rightarrow> bool" where
  "spread_exit ss n g l \<longleftrightarrow> (fork_failed l \<longrightarrow> signals_all ss n l)"

lemma fork_failed_same: "main_calls l' = main_calls l \<Longrightarrow> fork_failed l' = fork_failed l"
  by (simp add: fork_failed_def)

lemma spread_inv_same: "main_calls l' = main_calls l \<Longrightarrow> spread_inv ss g' l' = spread_inv ss g l"
  by (simp add: spread_inv_def fork_failed_def sent_to_all_def kills_def)

lemmas spread_defs = spread_inv_def spread_exit_def fork_failed_def signals_all_def sent_to_all_def kills_def

interpretation spread: env_invariant rt_order_handler "spread_inv ss" "spread_exit ss" for ss
  by unfold_locales
    (auto simp: wp_calls rt_order_handler_def spread_defs)

text \<open>Before the \<^verbatim>\<open>fork\<close>, and after it when the first \<open>i\<close> signals have been sent.\<close>

definition unforked :: "log \<Rightarrow> bool" where
  "unforked l \<longleftrightarrow> active l = 0 \<and> kills l = [] \<and> (\<forall>f. (Fork, f) \<notin> set (main_calls l))"

definition spreading :: "signum list \<Rightarrow> nat \<Rightarrow> log \<Rightarrow> bool" where
  "spreading ss i l \<longleftrightarrow> active l = 0 \<and> (fork_failed l \<longrightarrow> kills l = map (\<lambda>s. (- 1, s, 0)) (take i ss))"

lemma unforked_spread: "unforked l \<Longrightarrow> spread_inv ss g l" "unforked l \<Longrightarrow> spread_exit ss n g l"
  by (auto simp: unforked_def spread_inv_def spread_exit_def fork_failed_def)

lemma not_failed_spread: "\<not> fork_failed l \<Longrightarrow> spread_inv ss g l" "\<not> fork_failed l \<Longrightarrow> spread_exit ss n g l"
  by (auto simp: spread_inv_def spread_exit_def)

lemma spreading_inv: "spreading ss i l \<Longrightarrow> i \<le> length ss \<Longrightarrow> spread_inv ss g l"
  by (auto simp: spreading_def spread_inv_def sent_to_all_def o_def)

lemma unforked_Cons:
  "unforked l \<Longrightarrow> own_call e = [] \<or> own_call e = [(q, r)] \<and> q \<noteq> Fork \<and> kill_of (q, r) = [] \<Longrightarrow>
    entered e = [] \<Longrightarrow> returned e = [] \<Longrightarrow> unforked (e # l)"
  by (auto simp: unforked_def kills_def)

lemma unforked_same: "unforked l \<Longrightarrow> active l' = active l \<Longrightarrow> main_calls l' = main_calls l \<Longrightarrow> unforked l'"
  by (simp add: unforked_def kills_def)

lemma spread_setup_wp:
  assumes "unforked l" and "\<And>g l. unforked l \<Longrightarrow> Q () g l"
  shows "wp (spread_inv ss) layered (spread_exit ss) S (for_each is rt_order_install) Q g l"
proof (rule wp_for_each [where P = "\<lambda>_ g l. unforked l"])
  fix i and g :: rt_order and l
  assume "unforked l"
  then show "wp (spread_inv ss) layered (spread_exit ss) S (rt_order_install (is ! i)) (\<lambda>_ g l. unforked l) g l"
    by (auto simp: wp_calls rt_order_install_def unforked_spread unforked_def kills_def spread_exit_def fork_failed_def)
qed (use assms in auto)

lemma spread_lock_wp:
  assumes "active l = 0" and "\<not> fork_failed l"
    and "\<And>g l. active l = 0 \<Longrightarrow> \<not> fork_failed l \<Longrightarrow> Q () g l"
  shows "wp (spread_inv ss) layered X S (spin_lock fuel lock) Q g l"
proof (rule spin_lock_wp [where P = "\<lambda>cs. \<not> (\<exists>f. (Fork, f) \<in> set cs \<and> result f = - 1)"])
  show "spread_inv ss g (Ans (Atomic_exchange lock 1) r # l)" if "spread_inv ss g l" for g :: rt_order and l r
    using that by (auto simp: spread_defs)
qed (use assms in \<open>auto simp: not_failed_spread fork_failed_def\<close>)

lemma spread_child_wp:
  assumes "active l = 0" and "\<not> fork_failed l"
  shows "wp (spread_inv ss) layered (spread_exit ss) S (rt_order_child fuel lock) (\<lambda>_. spread_exit ss 0) g l"
    and "wp (spread_inv ss) layered (spread_exit ss) S (rt_order_one_child fuel lock) (\<lambda>_. spread_exit ss 0) g l"
  by (simp_all add: rt_order_child_def rt_order_one_child_def block_def seq_def wp_bind_fun
      spread_lock_wp [OF assms] del: layered_def)
    (auto simp: wp_calls not_failed_spread fork_failed_def spread_exit_def intro!: spread_lock_wp [OF assms])

lemma spreading_same: "active l' = active l \<Longrightarrow> main_calls l' = main_calls l \<Longrightarrow> spreading ss i l' = spreading ss i l"
  by (simp add: spreading_def fork_failed_def kills_def)

lemma spread_kill:
  assumes "spreading ss i l" and "i < length ss" and "fork_failed l \<Longrightarrow> pid = - 1"
  shows "ret r = 0 \<Longrightarrow> spreading ss (Suc i) (Ans (Kill_pid pid (ss ! i)) r # l)"
    and "ret r \<noteq> 0 \<Longrightarrow> spread_exit ss 1 g (Out Condition_failed # Ans (Kill_pid pid (ss ! i)) r # l)"
  using assms
  by (auto simp: spreading_def fork_failed_def kills_def take_Suc_conv_app_nth spread_exit_def signals_all_def
      sent_to_all_def o_def)

lemma spread_done:
  assumes "spreading ss (length ss) l" and "ss \<noteq> []" and "main_calls l' = main_calls l @ cs"
    and "concat (map kill_of cs) = []" and "list_all (\<lambda>c. fst c \<noteq> Fork) cs"
  shows "spread_inv ss g l'" and "spread_exit ss n g l'"
proof -
  have "kills l' = kills l" using assms(3,4) by (simp add: kills_def)
  moreover have "fork_failed l' = fork_failed l"
    using assms(3,5) by (auto simp: fork_failed_def list_all_iff)
  ultimately show "spread_inv ss g l'" and "spread_exit ss n g l'"
    using assms(1,2) by (auto simp: spreading_def spread_inv_def spread_exit_def signals_all_def sent_to_all_def o_def)
qed

lemma spread_parent_wp:
  assumes "spreading ss 0 l" and "fork_failed l \<Longrightarrow> pid = - 1" and "ss \<noteq> []"
  shows "wp (spread_inv ss) layered (spread_exit ss) S (rt_order_parent ss pid lock) (\<lambda>_. spread_exit ss 0) g l"
proof -
  let ?P = "\<lambda>i (g :: rt_order) l. spreading ss i l \<and> (fork_failed l \<longrightarrow> pid = - 1)"
  have wait: "wp (spread_inv ss) layered (spread_exit ss) S (block [
     atomic_store lock 0,
     bind (waitpid pid 0) (\<lambda>(w, status).
       if w = - 1 then Exit 1
       else ASSERT (WIFEXITED status \<and> WEXITSTATUS status = 0))]) (\<lambda>_. spread_exit ss 0) g l"
    if "?P (length ss) g l" for g l
    using that spread_done [of ss l _ _, OF _ assms(3)]
    by (auto simp: wp_calls wp_bind_fun spreading_def)
  have "wp (spread_inv ss) layered (spread_exit ss) S (for_each ss (rt_order_kill pid))
    (\<lambda>_. wp (spread_inv ss) layered (spread_exit ss) S (block [
     atomic_store lock 0,
     bind (waitpid pid 0) (\<lambda>(w, status).
       if w = - 1 then Exit 1
       else ASSERT (WIFEXITED status \<and> WEXITSTATUS status = 0))]) (\<lambda>_. spread_exit ss 0)) g l"
  proof (rule wp_for_each [where P = ?P])
    fix i and g :: rt_order and l
    assume i: "i < length ss" and P: "?P i g l"
    have "?P (Suc i) g' (Ans (Kill_pid pid (ss ! i)) r # l')"
      if "active l' = 0" "main_calls l' = main_calls l" "ret r = 0" for g' l' r
      using spread_kill(1) [of ss i l' pid r] spreading_same [of l' l ss i] fork_failed_same [of l' l] P i that
      by (auto simp: spreading_def fork_failed_def)
    moreover have "spread_exit ss 1 g' (Out Condition_failed # Ans (Kill_pid pid (ss ! i)) r # l')"
      if "active l' = 0" "main_calls l' = main_calls l" "ret r \<noteq> 0" for g' l' r
      using spread_kill(2) [of ss i l' pid r g'] spreading_same [of l' l ss i] fork_failed_same [of l' l] P i that
      by (auto simp: spreading_def)
    ultimately show "wp (spread_inv ss) layered (spread_exit ss) S (rt_order_kill pid (ss ! i)) (\<lambda>_. ?P (Suc i)) g l"
      using P i spreading_inv [of ss i l]
      by (simp add: wp_calls rt_order_kill_def) (auto simp: spreading_def)
  qed (use assms wait in auto)
  then show ?thesis by (simp add: rt_order_parent_def statement_defs wp_bind_fun)
qed

lemma result_zero: "ret r = 0 \<Longrightarrow> result r = 0"
  by simp

lemma spread_main_wp:
  "wp (spread_inv [36, 34, 35, 37, 39, 38]) layered (spread_exit [36, 34, 35, 37, 39, 38]) (\<lambda>_ _ _. False)
     (rt_order_main fuel) (\<lambda>n. spread_exit [36, 34, 35, 37, 39, 38] n) rt_order_memory []"
  unfolding rt_order_main_def
  by (auto simp: wp_calls wp_bind_fun unforked_def kills_def spread_inv_def spread_exit_def fork_failed_def
      spreading_def result_zero
    intro!: spread_setup_wp spread_child_wp spread_parent_wp)

lemma spread_one_main_wp:
  "wp (spread_inv [36, 35, 34, 37, 39, 38]) layered (spread_exit [36, 35, 34, 37, 39, 38]) (\<lambda>_ _ _. False)
     (rt_order_one_main fuel) (\<lambda>n. spread_exit [36, 35, 34, 37, 39, 38] n) rt_order_memory []"
  unfolding rt_order_one_main_def
  by (auto simp: wp_calls wp_bind_fun unforked_def kills_def spread_inv_def spread_exit_def fork_failed_def
      spreading_def result_zero
    intro!: spread_setup_wp spread_child_wp spread_parent_wp)

section \<open>Verdicts\<close>

text \<open>What a test guarantees of every run in which it exits 0.\<close>

definition guarantees :: "'m memory_scheme handlers \<Rightarrow> ('m memory_scheme, int) prog \<Rightarrow> 'm memory_scheme \<Rightarrow>
    (log \<Rightarrow> bool) \<Rightarrow> bool" where
  "guarantees H p g0 P \<longleftrightarrow> (\<forall>mvs g l. trial H p g0 mvs = Dead (Exited 0) g l \<longrightarrow> P l)"

definition delivered_in_order :: "log \<Rightarrow> bool" where
  "delivered_in_order l \<longleftrightarrow> (\<exists>f. (Fork, f) \<in> set (main_calls l) \<and>
     (if ret f = 0 then handled_signals l = [34, 35, 36, 37, 38, 39]
      else sent_all [36, 34, 35, 37, 39, 38] (result f) l))"

definition delivered_lowest :: "log \<Rightarrow> bool" where
  "delivered_lowest l \<longleftrightarrow> (\<exists>f. (Fork, f) \<in> set (main_calls l) \<and>
     (if ret f = 0 then handled_signals l = [34] \<and>
        (\<exists>r. (Rt_sigsuspend sigemptyset, r) \<in> set (main_calls l) \<and> ret r = - EINTR)
      else sent_all [36, 35, 34, 37, 39, 38] (result f) l))"

text \<open>
  C21. If \<^verbatim>\<open>rt-order\<close> exits 0, then the child, to whom six pending realtime signals are delivered at
  once, has entered its handler for 34, 35, 36, 37, 38 and 39 in this order, or the parent has sent all
  six in another order and has been told that its child exited with 0. If \<^verbatim>\<open>rt-order-only-one\<close> exits 0,
  then the child's \<^verbatim>\<open>sigsuspend\<close> has been interrupted and only the lowest of its six pending signals has
  been delivered, or the parent has sent all six and has been told that its child exited with 0. This
  holds of every run, whatever fuel the waiting loops are given.
\<close>

theorem rt_order_tests_guarantee:
  "guarantees rt_order_handler (rt_order_main fuel) rt_order_memory delivered_in_order \<and>
   guarantees rt_order_one_handler (rt_order_one_main fuel) rt_order_memory delivered_lowest"
  unfolding guarantees_def rt_order_one_handler_same
  using rt_order.layers.verdict [OF rt_order_main_wp] rt_order.layers.verdict [OF rt_order_one_main_wp]
  by (simp only: rt_order_exit_def served_in_order_def served_one_def delivered_in_order_def
      delivered_lowest_def simp_thms) blast


text \<open>What holds of every run that exits after a failed \<^verbatim>\<open>fork\<close>.\<close>

definition spreads :: "'m memory_scheme handlers \<Rightarrow> ('m memory_scheme, int) prog \<Rightarrow> 'm memory_scheme \<Rightarrow>
    signum list \<Rightarrow> bool" where
  "spreads H p g0 ss \<longleftrightarrow>
     (\<forall>mvs n g l. trial H p g0 mvs = Dead (Exited n) g l \<longrightarrow> fork_failed l \<longrightarrow> signals_all ss n l)"

lemma fork_failed_list_ex: "fork_failed l \<longleftrightarrow> list_ex (\<lambda>(q, r). q = Fork \<and> result r = - 1) (main_calls l)"
  by (auto simp: fork_failed_def list_ex_iff)

text \<open>A platform that refuses the \<^verbatim>\<open>fork\<close> and accepts every signal.\<close>

definition fork_refused :: "move list" where
  "fork_refused = replicate 9 (Answer resp0) @ Answer (resp0\<lparr>ret := - EAGAIN\<rparr>) #
     replicate 7 (Answer resp0) @ [Answer (resp0\<lparr>ret := - 10\<rparr>)]"

lemma fork_refused_run:
  "exit_status (trial rt_order_handler (rt_order_main fuel) rt_order_memory fork_refused) = Some 1"
  "list_ex (\<lambda>(q, r). q = Fork \<and> result r = - 1)
     (main_calls (log_of (trial rt_order_handler (rt_order_main fuel) rt_order_memory fork_refused)))"
  "kills (log_of (trial rt_order_handler (rt_order_main fuel) rt_order_memory fork_refused)) =
     map (\<lambda>s. (- 1, s, 0)) [36, 34, 35, 37, 39, 38]"
  by code_simp+

text \<open>
  C24. Neither test checks that its \<^verbatim>\<open>fork\<close> has succeeded. In every run in which it has failed, on whatever
  platform, the program goes on as the parent of process -1, that is, of every process it may signal:
  its signals go to -1 in the order in which a parent sends them, none left out, and all six have been
  sent if it exits 0; unless a handler is entered, it sends at least one and stops early only behind a
  signal that is refused. There are such runs, and in one of them all six signals are sent.
\<close>

theorem rt_order_fork_failure:
  "spreads rt_order_handler (rt_order_main fuel) rt_order_memory [36, 34, 35, 37, 39, 38] \<and>
   spreads rt_order_one_handler (rt_order_one_main fuel) rt_order_memory [36, 35, 34, 37, 39, 38] \<and>
   (\<exists>mvs g l. trial rt_order_handler (rt_order_main fuel) rt_order_memory mvs = Dead (Exited 1) g l \<and>
     fork_failed l \<and> kills l = map (\<lambda>s. (- 1, s, 0)) [36, 34, 35, 37, 39, 38])"
  using spread.layers.verdict [OF spread_main_wp] spread.layers.verdict [OF spread_one_main_wp]
    exit_status_Some [OF fork_refused_run(1)] fork_refused_run(2,3)
  unfolding spreads_def rt_order_one_handler_same spread_exit_def fork_failed_list_ex by blast

text \<open>Both tests accept Linux, as a child and as a parent.\<close>

lemma ordering_accept_linux:
  "child_run (sent_signals 1 [36, 34, 35, 37, 39, 38]) (linux_init a pid u [0x10000]) rt_order_handler
     (rt_order_main 1) rt_order_memory = Some 0 \<and>
   exit_status (trial rt_order_handler (rt_order_main 1) rt_order_memory rt_order_told) = Some 0 \<and>
   child_run (sent_signals 1 [36, 35, 34, 37, 39, 38]) (linux_init a pid u [0x10000]) rt_order_one_handler
     (rt_order_one_main 1) rt_order_memory = Some 0 \<and>
   exit_status (trial rt_order_one_handler (rt_order_one_main 1) rt_order_memory rt_order_told) = Some 0"
  by (intro conjI rt_order_child_linux rt_order_parent_told rt_order_one_child_linux rt_order_one_parent_told)

end
