(* ===== verification/Fpu.thy ===== *)
theory Fpu
  imports Linux
begin

text \<open>
  The tests of the floating point and vector state in a handler's context: \<^verbatim>\<open>xstate-bv-sse\<close>,
  \<^verbatim>\<open>xstate-bv-x87\<close>, and of the 32-bit target \<^verbatim>\<open>fpstate-x87-32\<close> and \<^verbatim>\<open>fpstate-legacy-32\<close>.
  A handler reads the saved state through the pointer \<^verbatim>\<open>fpregs\<close>; where that is null, the read is
  undefined.
\<close>

section \<open>Saved states\<close>

definition with_fpregs :: "ucontext \<Rightarrow> (fpstate \<Rightarrow> ('g, ucontext) prog) \<Rightarrow> ('g, ucontext) prog" where
  "with_fpregs ctx f = (case fpregs ctx of None \<Rightarrow> Undefined | Some fp \<Rightarrow> f fp)"

text \<open>The array of \<open>n\<close> words an instruction has stored.\<close>

definition word_array :: "nat \<Rightarrow> u32 list \<Rightarrow> u32 list" where
  "word_array n ws = take n (ws @ replicate n 0)"

lemma word_array_all: "word_array n ws = replicate n x \<longleftrightarrow> list_all (\<lambda>i. word_array n ws ! i = x) [0..<n]"
proof -
  have "length (word_array n ws) = n" by (simp add: word_array_def)
  then show ?thesis by (auto simp: list_all_iff list_eq_iff_nth_eq)
qed

text \<open>A property of the saved state every handler is entered with.\<close>

definition saved_state :: "(fpstate \<Rightarrow> bool) \<Rightarrow> log \<Rightarrow> event \<Rightarrow> bool" where
  "saved_state P = on_entry (\<lambda>l c. \<exists>fp. fpregs c = Some fp \<and> P fp)"

lemma saved_state_Enter [simp]:
  "saved_state P l (Ans (Enter s i c) r) \<longleftrightarrow> (\<exists>fp. fpregs c = Some fp \<and> P fp)"
  by (simp add: saved_state_def)

lemma saved_state_other [simp]:
  "entered e = [] \<Longrightarrow> saved_state P l e"
  unfolding saved_state_def by (cases e rule: entered.cases) simp_all

lemma wp_with_fpregs [simp]:
  "wp I R X S (with_fpregs ctx f) Q g l \<longleftrightarrow> (\<forall>fp. fpregs ctx = Some fp \<longrightarrow> wp I R X S (f fp) Q g l)"
  by (simp add: with_fpregs_def split: option.splits)

text \<open>The calls all four programs begin with or make around their signal.\<close>

definition installed :: "u64 \<Rightarrow> resp \<Rightarrow> (req \<times> resp)" where
  "installed flags r = (Rt_sigaction SIGUSR1 (Some (handler_action flags sigemptyset)), r)"

section \<open>\<^verbatim>\<open>xstate-bv-sse.cpp\<close>\<close>

record xstate_bv_sse = memory +
  sse_handler_ran :: bool

definition xstate_bv_sse_handler ::
  "nat \<Rightarrow> signum \<Rightarrow> siginfo \<Rightarrow> ucontext \<Rightarrow> (xstate_bv_sse, ucontext) prog" where
  "xstate_bv_sse_handler h sig info ctx =
     seq (modify (sse_handler_ran_update (\<lambda>_. True)))
     (with_fpregs ctx (\<lambda>fp.
        seq (ASSERT (fp_xstate_bv fp AND 2 \<noteq> 0))
        (Return (ctx\<lparr>fpregs := Some (fp\<lparr>fp_xstate_bv := fp_xstate_bv fp AND NOT 2\<rparr>)\<rparr>))))"

definition xstate_bv_sse_before :: "u32 list" where
  "xstate_bv_sse_before = [0xdead0000, 0xdead0001, 0xdead0002, 0xdead0003]"

definition xstate_bv_sse_main :: "(xstate_bv_sse, int) prog" where
  "xstate_bv_sse_main =
     seq (block [
       ASSERT_ret (sigaction SIGUSR1 (handler_action SA_SIGINFO sigemptyset)) (\<lambda>r. r = 0),
       fp_insn (Load_xmm 0 xstate_bv_sse_before),
       ignore (raise SIGUSR1),
       bind (fp_words (Store_xmm 0)) (\<lambda>ws. let after = word_array 4 ws in block [
         ASSERT_mem sse_handler_ran,
         for_each [0..<4] (\<lambda>i. ASSERT (after ! i = 0))])])
     (Return 0)"

definition xstate_bv_sse_memory :: xstate_bv_sse where
  "xstate_bv_sse_memory = \<lparr>errno = 0, sse_handler_ran = False\<rparr>"

lemmas xstate_bv_sse_defs = xstate_bv_sse_handler_def xstate_bv_sse_main_def xstate_bv_sse_memory_def

definition sse_saved :: "log \<Rightarrow> bool" where
  "sse_saved l \<longleftrightarrow> each_event (saved_state (\<lambda>fp. fp_xstate_bv fp AND 2 \<noteq> 0)) l"

text \<open>
  The handlers find the vector registers in use, and clearing that bit in the context resets the
  register the program has loaded.
\<close>

definition sse_reset :: "log \<Rightarrow> bool" where
  "sse_reset l \<longleftrightarrow> sse_saved l \<and> handled l \<noteq> [] \<and> (\<exists>a b c d.
     main_calls l = [installed SA_SIGINFO a, (Fp (Load_xmm 0 xstate_bv_sse_before), b), (Raise SIGUSR1, c),
       (Fp (Store_xmm 0), d)] \<and> ret a = 0 \<and> word_array 4 (r_words d) = replicate 4 0)"

definition xstate_bv_sse_inv :: "xstate_bv_sse \<Rightarrow> log \<Rightarrow> bool" where
  "xstate_bv_sse_inv g l \<longleftrightarrow> sse_saved l \<and> sse_handler_ran g = (handled l \<noteq> [])"

definition xstate_bv_sse_exit :: "int \<Rightarrow> xstate_bv_sse \<Rightarrow> log \<Rightarrow> bool" where
  "xstate_bv_sse_exit n g l \<longleftrightarrow> (n = 0 \<longleftrightarrow> sse_reset l)"

lemmas xstate_bv_sse_spec = xstate_bv_sse_inv_def xstate_bv_sse_exit_def sse_reset_def sse_saved_def

interpretation xstate_bv_sse: env_invariant xstate_bv_sse_handler xstate_bv_sse_inv xstate_bv_sse_exit
  by unfold_locales (auto simp: wp_calls xstate_bv_sse_defs xstate_bv_sse_spec)

lemma xstate_bv_sse_main_wp:
  "wp xstate_bv_sse_inv layered xstate_bv_sse_exit (\<lambda>_ _ _. False)
     xstate_bv_sse_main (\<lambda>n. xstate_bv_sse_exit n) xstate_bv_sse_memory []"
  by (auto simp: wp_calls xstate_bv_sse_defs xstate_bv_sse_spec with_errno_def installed_def Let_def
     wp_assert_all [unfolded ASSERT_def] word_array_all wp_bind_fun)

lemma xstate_bv_sse_decided:
  "decides xstate_bv_sse_handler xstate_bv_sse_main xstate_bv_sse_memory sse_reset"
  by (rule decidesI) (use xstate_bv_sse.layers.verdict [OF xstate_bv_sse_main_wp] in \<open>simp add: xstate_bv_sse_exit_def\<close>)

lemma xstate_bv_sse_linux:
  "linux_run (linux_init a pid u heap) xstate_bv_sse_handler xstate_bv_sse_main xstate_bv_sse_memory = Some 0"
  by (cases a; simp only:; code_simp)

section \<open>\<^verbatim>\<open>xstate-bv-x87.cpp\<close>\<close>

record xstate_bv_x87 = memory +
  x87_handler_ran :: bool

definition xstate_bv_x87_handler ::
  "nat \<Rightarrow> signum \<Rightarrow> siginfo \<Rightarrow> ucontext \<Rightarrow> (xstate_bv_x87, ucontext) prog" where
  "xstate_bv_x87_handler h sig info ctx =
     seq (modify (x87_handler_ran_update (\<lambda>_. True)))
     (with_fpregs ctx (\<lambda>fp.
        seq (ASSERT (fp_xstate_bv fp AND 1 \<noteq> 0))
        (Return (ctx\<lparr>fpregs := Some (fp\<lparr>fp_xstate_bv := fp_xstate_bv fp AND NOT 1\<rparr>)\<rparr>))))"

definition xstate_bv_x87_main :: "(xstate_bv_x87, int) prog" where
  "xstate_bv_x87_main =
     seq (block [
       ASSERT_ret (sigaction SIGUSR1 (handler_action SA_SIGINFO sigemptyset)) (\<lambda>r. r = 0),
       fp_insn Fninit,
       fp_insn (Fldcw 0x027f),
       fp_insn Fld1,
       ignore (raise SIGUSR1),
       bind (fp_words Fnstenv) (\<lambda>ws. let env = word_array 7 ws in block [
         ASSERT_mem x87_handler_ran,
         ASSERT (env ! 0 AND 0xffff = 0x037f),
         ASSERT (env ! 1 AND 0xffff = 0),
         ASSERT (env ! 2 AND 0xffff = 0xffff)])])
     (Return 0)"

definition xstate_bv_x87_memory :: xstate_bv_x87 where
  "xstate_bv_x87_memory = \<lparr>errno = 0, x87_handler_ran = False\<rparr>"

lemmas xstate_bv_x87_defs = xstate_bv_x87_handler_def xstate_bv_x87_main_def xstate_bv_x87_memory_def

definition x87_saved :: "log \<Rightarrow> bool" where
  "x87_saved l \<longleftrightarrow> each_event (saved_state (\<lambda>fp. fp_xstate_bv fp AND 1 \<noteq> 0)) l"

text \<open>
  The handlers find the floating point unit in use, and clearing that bit in the context resets its
  control, status and tag words.
\<close>

definition x87_reset :: "log \<Rightarrow> bool" where
  "x87_reset l \<longleftrightarrow> x87_saved l \<and> handled l \<noteq> [] \<and> (\<exists>a b c d e f.
     main_calls l = [installed SA_SIGINFO a, (Fp Fninit, b), (Fp (Fldcw 0x027f), c), (Fp Fld1, d),
       (Raise SIGUSR1, e), (Fp Fnstenv, f)] \<and> ret a = 0 \<and>
     (let env = word_array 7 (r_words f) in
        env ! 0 AND 0xffff = 0x037f \<and> env ! 1 AND 0xffff = 0 \<and> env ! 2 AND 0xffff = 0xffff))"

definition xstate_bv_x87_inv :: "xstate_bv_x87 \<Rightarrow> log \<Rightarrow> bool" where
  "xstate_bv_x87_inv g l \<longleftrightarrow> x87_saved l \<and> x87_handler_ran g = (handled l \<noteq> [])"

definition xstate_bv_x87_exit :: "int \<Rightarrow> xstate_bv_x87 \<Rightarrow> log \<Rightarrow> bool" where
  "xstate_bv_x87_exit n g l \<longleftrightarrow> (n = 0 \<longleftrightarrow> x87_reset l)"

lemmas xstate_bv_x87_spec = xstate_bv_x87_inv_def xstate_bv_x87_exit_def x87_reset_def x87_saved_def

interpretation xstate_bv_x87: env_invariant xstate_bv_x87_handler xstate_bv_x87_inv xstate_bv_x87_exit
  by unfold_locales (auto simp: wp_calls xstate_bv_x87_defs xstate_bv_x87_spec)

lemma xstate_bv_x87_main_wp:
  "wp xstate_bv_x87_inv layered xstate_bv_x87_exit (\<lambda>_ _ _. False)
     xstate_bv_x87_main (\<lambda>n. xstate_bv_x87_exit n) xstate_bv_x87_memory []"
  by (auto simp: wp_calls xstate_bv_x87_defs xstate_bv_x87_spec with_errno_def installed_def Let_def)

lemma xstate_bv_x87_decided:
  "decides xstate_bv_x87_handler xstate_bv_x87_main xstate_bv_x87_memory x87_reset"
  by (rule decidesI) (use xstate_bv_x87.layers.verdict [OF xstate_bv_x87_main_wp] in \<open>simp add: xstate_bv_x87_exit_def\<close>)

lemma xstate_bv_x87_linux:
  "linux_run (linux_init a pid u heap) xstate_bv_x87_handler xstate_bv_x87_main xstate_bv_x87_memory = Some 0"
  by (cases a; simp only:; code_simp)

section \<open>\<^verbatim>\<open>fpstate-x87-32.cpp\<close>\<close>

definition set_cw :: "u32 \<Rightarrow> ('g, unit) prog" where
  "set_cw v = fp_insn (Fldcw v)"

text \<open>The instruction stores 16 bits into a word that is 0 before.\<close>

definition get_cw :: "('g, u32) prog" where
  "get_cw = bind (fp_words Fnstcw) (\<lambda>ws. Return (word_array 1 ws ! 0 AND 0xffff))"

definition load_st0 :: "u8 list \<Rightarrow> ('g, unit) prog" where
  "load_st0 p = block [fp_insn Fninit, fp_insn (Fld p)]"

definition store_st0 :: "('g, u8 list) prog" where
  "store_st0 = fp_bytes Fstp"

definition st0_in :: "u8 list" where
  "st0_in = [0, 0, 0, 0, 0, 0, 0, 0xC0, 0xFF, 0x3F]"

definition st0_new :: "u8 list" where
  "st0_new = [0, 0, 0, 0, 0, 0, 0, 0xA0, 0x00, 0x40]"

record fpstate_x87_32 = memory +
  st0_out :: "u8 list"
  fpstate_handler_ran :: bool

definition fpstate_x87_32_handler ::
  "nat \<Rightarrow> signum \<Rightarrow> siginfo \<Rightarrow> ucontext \<Rightarrow> (fpstate_x87_32, ucontext) prog" where
  "fpstate_x87_32_handler h sig info ctx =
     seq (modify (fpstate_handler_ran_update (\<lambda>_. True)))
     (with_fpregs ctx (\<lambda>fp. seq (block [
        ASSERT (drop_bit 16 (fp_cw fp) = 0xffff),
        ASSERT (drop_bit 16 (fp_sw fp) = 0xffff),
        ASSERT (drop_bit 16 (fp_tag fp) = 0xffff),
        ASSERT (fp_cw fp AND 0xffff = 0x037f),
        ASSERT (fp_st0 fp = st0_in)])
      (Return (ctx\<lparr>fpregs := Some (fp\<lparr>fp_cw := 0xffff027f, fp_st0 := st0_new\<rparr>)\<rparr>))))"

text \<open>The 64-bit build is an empty program.\<close>

definition fpstate_x87_32_main :: "arch \<Rightarrow> (fpstate_x87_32, int) prog" where
  "fpstate_x87_32_main a = (case a of
      X64 \<Rightarrow> Return 0
    | X86 \<Rightarrow>
        seq (block [
          ASSERT_ret (sigaction SIGUSR1 (handler_action SA_SIGINFO sigemptyset)) (\<lambda>r. r = 0),
          set_cw 0x037f,
          load_st0 st0_in,
          ignore (raise SIGUSR1),
          ASSERT_mem fpstate_handler_ran,
          ASSERT_ret get_cw (\<lambda>w. w = 0x027f),
          bind store_st0 (\<lambda>bs. modify (st0_out_update (\<lambda>_. bs))),
          ASSERT_mem (\<lambda>g. st0_out g = st0_new)])
        (Return 0))"

definition fpstate_x87_32_memory :: fpstate_x87_32 where
  "fpstate_x87_32_memory = \<lparr>errno = 0, st0_out = replicate 10 0, fpstate_handler_ran = False\<rparr>"

lemmas fpstate_x87_32_defs = fpstate_x87_32_handler_def fpstate_x87_32_main_def fpstate_x87_32_memory_def
  set_cw_def get_cw_def load_st0_def store_st0_def

text \<open>The saved state as the 32-bit frame has it: the upper halves of the words are set.\<close>

definition padded_x87 :: "fpstate \<Rightarrow> bool" where
  "padded_x87 fp \<longleftrightarrow> drop_bit 16 (fp_cw fp) = 0xffff \<and> drop_bit 16 (fp_sw fp) = 0xffff \<and>
     drop_bit 16 (fp_tag fp) = 0xffff \<and> fp_cw fp AND 0xffff = 0x037f \<and> fp_st0 fp = st0_in"

text \<open>The control word and the register that the handler has put into its context are the program's.\<close>

definition x87_replaced :: "log \<Rightarrow> bool" where
  "x87_replaced l \<longleftrightarrow> each_event (saved_state padded_x87) l \<and> handled l \<noteq> [] \<and> (\<exists>a b c d e f h.
     main_calls l = [installed SA_SIGINFO a, (Fp (Fldcw 0x037f), b), (Fp Fninit, c), (Fp (Fld st0_in), d),
       (Raise SIGUSR1, e), (Fp Fnstcw, f), (Fp Fstp, h)] \<and> ret a = 0 \<and>
     word_array 1 (r_words f) ! 0 AND 0xffff = 0x027f \<and> r_bytes h = st0_new)"

definition fpstate_x87_32_inv :: "fpstate_x87_32 \<Rightarrow> log \<Rightarrow> bool" where
  "fpstate_x87_32_inv g l \<longleftrightarrow> each_event (saved_state padded_x87) l \<and>
     fpstate_handler_ran g = (handled l \<noteq> [])"

definition fpstate_x87_32_exit :: "int \<Rightarrow> fpstate_x87_32 \<Rightarrow> log \<Rightarrow> bool" where
  "fpstate_x87_32_exit n g l \<longleftrightarrow> (n = 0 \<longleftrightarrow> x87_replaced l)"

lemmas fpstate_x87_32_spec = fpstate_x87_32_inv_def fpstate_x87_32_exit_def x87_replaced_def

interpretation fpstate_x87_32: env_invariant fpstate_x87_32_handler fpstate_x87_32_inv fpstate_x87_32_exit
  by unfold_locales (auto simp: wp_calls fpstate_x87_32_defs fpstate_x87_32_spec padded_x87_def)

lemma fpstate_x87_32_main_wp:
  "wp fpstate_x87_32_inv layered fpstate_x87_32_exit (\<lambda>_ _ _. False)
     (fpstate_x87_32_main X86) (\<lambda>n. fpstate_x87_32_exit n) fpstate_x87_32_memory []"
  by (auto simp: wp_calls fpstate_x87_32_defs fpstate_x87_32_spec with_errno_def installed_def
     dest: handled_after)

lemma fpstate_x87_32_decided:
  "decides fpstate_x87_32_handler (fpstate_x87_32_main X86) fpstate_x87_32_memory x87_replaced"
  by (rule decidesI) (use fpstate_x87_32.layers.verdict [OF fpstate_x87_32_main_wp] in \<open>simp add: fpstate_x87_32_exit_def\<close>)

lemma fpstate_x87_32_linux:
  "linux_run (linux_init a pid u heap) fpstate_x87_32_handler (fpstate_x87_32_main a)
     fpstate_x87_32_memory = Some 0"
  by (cases a; simp only:; code_simp)

section \<open>\<^verbatim>\<open>fpstate-legacy-32.cpp\<close>\<close>

text \<open>
  The handler is installed without \<^verbatim>\<open>SA_SIGINFO\<close> and takes its frame's \<^verbatim>\<open>sigcontext\<close> as an argument
  by value. Its fields are those of the context here: \<^verbatim>\<open>fpstate\<close> is the pointer \<open>fpregs\<close>.
\<close>

record fpstate_legacy_32 = memory +
  before :: "u32 list list"
  after :: "u32 list list"
  legacy_handler_ran :: bool

definition store_xmms :: "('g, u32 list list) prog" where
  "store_xmms = bind (fp_words (Store_xmm 0)) (\<lambda>x. bind (fp_words (Store_xmm 1)) (\<lambda>y.
     Return [word_array 4 x, word_array 4 y]))"

definition load_xmms :: "u32 list list \<Rightarrow> ('g, unit) prog" where
  "load_xmms xs = block [fp_insn (Load_xmm 0 (xs ! 0)), fp_insn (Load_xmm 1 (xs ! 1))]"

text \<open>The values the nested loops assign, counted from a base.\<close>

definition pattern :: "u32 \<Rightarrow> nat \<Rightarrow> nat \<Rightarrow> u32" where
  "pattern base i j = base + of_nat (i * 4 + j)"

definition patterns :: "u32 \<Rightarrow> u32 list list" where
  "patterns base = map (\<lambda>i. map (pattern base i) [0..<4]) [0..<2]"

definition saved_xmm :: "fpstate \<Rightarrow> nat \<Rightarrow> u32 list" where
  "saved_xmm fp i = word_array 4 (if i = 0 then fp_xmm0 fp else fp_xmm1 fp)"

definition fpstate_legacy_32_handler ::
  "nat \<Rightarrow> signum \<Rightarrow> siginfo \<Rightarrow> ucontext \<Rightarrow> (fpstate_legacy_32, ucontext) prog" where
  "fpstate_legacy_32_handler h sig info sc =
     seq (block [
       modify (legacy_handler_ran_update (\<lambda>_. True)),
       ASSERT (sig = SIGUSR1),
       ASSERT (fpregs sc \<noteq> None),
       ASSERT ((ucast (REG_OLDMASK (gregs sc)) :: u32) = push_bit (nat (SIGURG - 1)) 1),
       ASSERT ((ucast (REG_CS (gregs sc)) :: u16) = 0x23)])
     (with_fpregs sc (\<lambda>fp. seq (block [
        bind get (\<lambda>g. for_each [0..<2] (\<lambda>i. for_each [0..<4] (\<lambda>j.
          ASSERT (saved_xmm fp i ! j = before g ! i ! j)))),
        ASSERT (fp_magic fp = 0)])
      (Return (sc\<lparr>fpregs := Some (fp\<lparr>fp_xmm0 := patterns 0xf00d0000 ! 0,
         fp_xmm1 := patterns 0xf00d0000 ! 1\<rparr>)\<rparr>))))"

definition fpstate_legacy_32_main :: "arch \<Rightarrow> (fpstate_legacy_32, int) prog" where
  "fpstate_legacy_32_main a = (case a of
      X64 \<Rightarrow> Return 0
    | X86 \<Rightarrow>
        seq (block [
          modify (before_update (\<lambda>_. patterns 0xdead0000)),
          ASSERT_ret (sigprocmask SIG_BLOCK (sigaddset sigemptyset SIGURG)) (\<lambda>r. r = 0),
          ASSERT_ret (sigaction SIGUSR1 (handler_action 0 sigemptyset)) (\<lambda>r. r = 0),
          bind get (\<lambda>g. load_xmms (before g)),
          ignore (raise SIGUSR1),
          bind store_xmms (\<lambda>xs. modify (after_update (\<lambda>_. xs))),
          ASSERT_mem legacy_handler_ran,
          bind get (\<lambda>g. for_each [0..<2] (\<lambda>i. for_each [0..<4] (\<lambda>j.
            ASSERT (after g ! i ! j = pattern 0xf00d0000 i j))))])
        (Return 0))"

definition fpstate_legacy_32_memory :: fpstate_legacy_32 where
  "fpstate_legacy_32_memory = \<lparr>errno = 0, before = replicate 2 (replicate 4 0),
     after = replicate 2 (replicate 4 0), legacy_handler_ran = False\<rparr>"

lemmas fpstate_legacy_32_defs = fpstate_legacy_32_handler_def fpstate_legacy_32_main_def
  fpstate_legacy_32_memory_def store_xmms_def load_xmms_def

text \<open>The frame of the old kind: the signal blocked, the code segment, and the loaded registers.\<close>

fun legacy_entry :: "log \<Rightarrow> event \<Rightarrow> bool" where
  "legacy_entry l (Ans (Enter s i c) r) \<longleftrightarrow> s = SIGUSR1 \<and>
     (ucast (REG_OLDMASK (gregs c)) :: u32) = ucast (sigbit SIGURG) \<and>
     (ucast (REG_CS (gregs c)) :: u16) = 0x23 \<and>
     (\<exists>fp. fpregs c = Some fp \<and> map (saved_xmm fp) [0..<2] = patterns 0xdead0000 \<and> fp_magic fp = 0)"
| "legacy_entry l _ \<longleftrightarrow> True"

definition legacy_replaced :: "log \<Rightarrow> bool" where
  "legacy_replaced l \<longleftrightarrow> each_event legacy_entry l \<and> handled l \<noteq> [] \<and> (\<exists>m a b c d e f.
     main_calls l = [(Rt_sigprocmask SIG_BLOCK (Some (sigaddset sigemptyset SIGURG AND NOT internal_signals)), m),
       installed 0 a, (Fp (Load_xmm 0 (patterns 0xdead0000 ! 0)), b),
       (Fp (Load_xmm 1 (patterns 0xdead0000 ! 1)), c), (Raise SIGUSR1, d),
       (Fp (Store_xmm 0), e), (Fp (Store_xmm 1), f)] \<and> ret m = 0 \<and> ret a = 0 \<and>
     [word_array 4 (r_words e), word_array 4 (r_words f)] = patterns 0xf00d0000)"

definition fpstate_legacy_32_inv :: "fpstate_legacy_32 \<Rightarrow> log \<Rightarrow> bool" where
  "fpstate_legacy_32_inv g l \<longleftrightarrow> each_event legacy_entry l \<and> legacy_handler_ran g = (handled l \<noteq> []) \<and>
     before g = patterns 0xdead0000"

definition fpstate_legacy_32_exit :: "int \<Rightarrow> fpstate_legacy_32 \<Rightarrow> log \<Rightarrow> bool" where
  "fpstate_legacy_32_exit n g l \<longleftrightarrow> (n = 0 \<longleftrightarrow> legacy_replaced l)"

lemmas fpstate_legacy_32_spec = fpstate_legacy_32_inv_def fpstate_legacy_32_exit_def legacy_replaced_def

text \<open>The nested loops of assertions compare two rows of four words.\<close>

lemma wp_assert_rows:
  "wp I R X S (for_each is (\<lambda>i. for_each js (\<lambda>j. ASSERT (p i j)))) Q g l \<longleftrightarrow>
     (if list_all (\<lambda>i. list_all (p i) js) is then Q () g l else X 1 g (Out Condition_failed # l))"
proof (induction "is")
  case (Cons i "is")
  have step: "for_each (i # is) (\<lambda>i. for_each js (\<lambda>j. ASSERT (p i j))) =
      bind (for_each js (\<lambda>j. ASSERT (p i j))) (\<lambda>_. for_each is (\<lambda>i. for_each js (\<lambda>j. ASSERT (p i j))))"
    by (simp add: for_each_def block_def seq_def)
  show ?case unfolding step by (simp add: wp_assert_all Cons.IH)
qed (simp add: for_each_def block_def)

definition rows_match :: "(nat \<Rightarrow> nat \<Rightarrow> u32) \<Rightarrow> (nat \<Rightarrow> nat \<Rightarrow> u32) \<Rightarrow> bool" where
  "rows_match f h \<longleftrightarrow> list_all (\<lambda>i. list_all (\<lambda>j. f i j = h i j) [0..<4]) [0..<2]"

lemma patterns_nth: "i < 2 \<Longrightarrow> j < 4 \<Longrightarrow> patterns b ! i ! j = pattern b i j"
  by (simp add: patterns_def)

lemma rows_equal:
  assumes "\<And>i. i < 2 \<Longrightarrow> length (f i) = 4"
  shows "map f [0..<2] = patterns b \<longleftrightarrow> rows_match (\<lambda>i j. f i ! j) (pattern b)"
  using assms
  by (auto simp: rows_match_def patterns_def list_all_iff list_eq_iff_nth_eq)

lemma saved_rows: "map (saved_xmm fp) [0..<2] = patterns b \<longleftrightarrow>
    rows_match (\<lambda>i j. saved_xmm fp i ! j) (\<lambda>i j. patterns b ! i ! j)"
proof -
  have "rows_match f (pattern b) \<longleftrightarrow> rows_match f (\<lambda>i j. patterns b ! i ! j)" for f
    by (simp add: rows_match_def patterns_nth list_all_iff)
  then show ?thesis by (simp add: rows_equal saved_xmm_def word_array_def)
qed

lemma stored_rows: "[word_array 4 x, word_array 4 y] = patterns b \<longleftrightarrow>
    rows_match (\<lambda>i j. [word_array 4 x, word_array 4 y] ! i ! j) (pattern b)"
proof -
  have "[word_array 4 x, word_array 4 y] = map (\<lambda>i. [word_array 4 x, word_array 4 y] ! i) [0..<2]"
    by (simp add: upt_rec)
  moreover have "length ([word_array 4 x, word_array 4 y] ! i) = 4" if "i < 2" for i
    using that by (auto simp: word_array_def less_2_cases_iff)
  ultimately show ?thesis using rows_equal by metis
qed

lemmas wp_rows = wp_assert_rows [unfolded ASSERT_def] rows_match_def

interpretation fpstate_legacy_32: env_invariant fpstate_legacy_32_handler fpstate_legacy_32_inv
    fpstate_legacy_32_exit
  by unfold_locales
    (auto simp: wp_calls fpstate_legacy_32_defs fpstate_legacy_32_spec wp_rows saved_rows sigbit_def)

lemma fpstate_legacy_32_main_wp:
  "wp fpstate_legacy_32_inv layered fpstate_legacy_32_exit (\<lambda>_ _ _. False)
     (fpstate_legacy_32_main X86) (\<lambda>n. fpstate_legacy_32_exit n) fpstate_legacy_32_memory []"
  by (auto simp: wp_calls wp_bind_fun fpstate_legacy_32_defs fpstate_legacy_32_spec with_errno_def installed_def
     wp_rows stored_rows)

lemma fpstate_legacy_32_decided:
  "decides fpstate_legacy_32_handler (fpstate_legacy_32_main X86) fpstate_legacy_32_memory legacy_replaced"
  by (rule decidesI) (use fpstate_legacy_32.layers.verdict [OF fpstate_legacy_32_main_wp] in \<open>simp add: fpstate_legacy_32_exit_def\<close>)

lemma fpstate_legacy_32_linux:
  "linux_run (linux_init a pid u heap) fpstate_legacy_32_handler (fpstate_legacy_32_main a)
     fpstate_legacy_32_memory = Some 0"
  by (cases a; simp only:; code_simp)

section \<open>Verdicts\<close>

text \<open>
  The tests of the saved floating point and vector state exit 0 exactly when their handlers find in
  every context the state the program has loaded (for the old format with the upper halves of the three
  words set) and the program finds in its registers what the handlers have put into the context: new
  values, or the initial values of a component whose bit they have cleared.
\<close>

lemma fp_state_decided:
  "decides xstate_bv_sse_handler xstate_bv_sse_main xstate_bv_sse_memory sse_reset \<and>
   decides xstate_bv_x87_handler xstate_bv_x87_main xstate_bv_x87_memory x87_reset \<and>
   decides fpstate_x87_32_handler (fpstate_x87_32_main X86) fpstate_x87_32_memory x87_replaced \<and>
   decides fpstate_legacy_32_handler (fpstate_legacy_32_main X86) fpstate_legacy_32_memory legacy_replaced"
  by (intro conjI xstate_bv_sse_decided xstate_bv_x87_decided fpstate_x87_32_decided fpstate_legacy_32_decided)

text \<open>All four accept Linux.\<close>

lemma fpu_accept_linux:
  "linux_run (linux_init a pid u heap) xstate_bv_sse_handler xstate_bv_sse_main xstate_bv_sse_memory = Some 0 \<and>
   linux_run (linux_init a pid u heap) xstate_bv_x87_handler xstate_bv_x87_main xstate_bv_x87_memory = Some 0 \<and>
   linux_run (linux_init a pid u heap) fpstate_x87_32_handler (fpstate_x87_32_main a)
     fpstate_x87_32_memory = Some 0 \<and>
   linux_run (linux_init a pid u heap) fpstate_legacy_32_handler (fpstate_legacy_32_main a)
     fpstate_legacy_32_memory = Some 0"
  by (intro conjI xstate_bv_sse_linux xstate_bv_x87_linux fpstate_x87_32_linux fpstate_legacy_32_linux)

end
