(* ===== verification/Frames.thy ===== *)
theory Frames
  imports Fpu Layout Masks
begin

text \<open>
  The floating point tests' handlers on the bytes of a signal frame. The theory \<^verbatim>\<open>Fpu\<close> gives a handler
  the saved state as a record; the programs read and write memory through a pointer to a struct. Here
  the handlers' reads and writes are at the offsets that the structs' declarations give, and they
  implement what \<^verbatim>\<open>Fpu\<close> says of them. The same is shown of the action that \<^verbatim>\<open>rt-sigaction-oldact\<close>
  writes and reads as bytes, and of the \<^verbatim>\<open>sigcontext_32\<close> of \<^verbatim>\<open>fpstate-legacy-32\<close>, against the kernel's
  own view of both.
\<close>

section \<open>The saved state of the 32-bit target\<close>

text \<open>Element \<open>j\<close> of the vector register \<open>i\<close>.\<close>

definition xmm_element :: "nat \<Rightarrow> nat \<Rightarrow> nat" where
  "xmm_element i j = offset_of legacy_fpstate_32 ''_xmm'' + i * size_of xmmreg + j * size_of U32"

definition xmm_row :: "nat \<Rightarrow> image \<Rightarrow> u32 list" where
  "xmm_row i img = map (\<lambda>j. get_word (xmm_element i j) 4 img) [0..<4]"

text \<open>The state that the other theories see, read out of memory.\<close>

definition state_of :: "image \<Rightarrow> fpstate" where
  "state_of img = \<lparr>fp_cw = get_field fpstate_32 ''cw'' img, fp_sw = get_field fpstate_32 ''sw'' img,
     fp_tag = get_field fpstate_32 ''tag'' img,
     fp_st0 = get_bytes (offset_of fpstate_32 ''_st'') 10 img,
     fp_magic = get_field legacy_fpstate_32 ''magic'' img,
     fp_xmm0 = xmm_row 0 img, fp_xmm1 = xmm_row 1 img,
     fp_xstate_bv = get_word (XSTATE_BV_OFFSET X86) 8 img\<rparr>"

text \<open>The handlers of \<^verbatim>\<open>xstate-bv-sse\<close> and \<^verbatim>\<open>xstate-bv-x87\<close> clear a bit of the word.\<close>

definition clear_xstate :: "arch \<Rightarrow> u64 \<Rightarrow> image \<Rightarrow> image" where
  "clear_xstate a flag img =
     put_word (XSTATE_BV_OFFSET a) 8 (get_word (XSTATE_BV_OFFSET a) 8 img AND NOT flag) img"

text \<open>The handler of \<^verbatim>\<open>fpstate-x87-32\<close>: its five checks, then its two writes.\<close>

definition x87_frame :: "image \<Rightarrow> image option" where
  "x87_frame img =
     (if drop_bit 16 (get_field fpstate_32 ''cw'' img :: u32) = 0xffff \<and>
         drop_bit 16 (get_field fpstate_32 ''sw'' img :: u32) = 0xffff \<and>
         drop_bit 16 (get_field fpstate_32 ''tag'' img :: u32) = 0xffff \<and>
         (get_field fpstate_32 ''cw'' img :: u32) AND 0xffff = 0x037f \<and>
         get_bytes (offset_of fpstate_32 ''_st'') 10 img = st0_in
      then Some (put_bytes (offset_of fpstate_32 ''_st'') st0_new
        (put_field fpstate_32 ''cw'' (0xffff027f :: u32) img))
      else None)"

text \<open>
  The loops of \<^verbatim>\<open>fpstate-legacy-32\<close> check an element and overwrite it before they look at the next one.
\<close>

definition elements :: "(nat \<times> nat) list" where
  "elements = List.product [0..<2] [0..<4]"

fun legacy_elements :: "u32 list list \<Rightarrow> (nat \<times> nat) list \<Rightarrow> image \<Rightarrow> image option" where
  "legacy_elements bs [] img = Some img"
| "legacy_elements bs ((i, j) # ps) img =
     (if get_word (xmm_element i j) 4 img = bs ! i ! j
      then legacy_elements bs ps (put_word (xmm_element i j) 4 (pattern 0xf00d0000 i j) img)
      else None)"

definition legacy_frame :: "u32 list list \<Rightarrow> image \<Rightarrow> image option" where
  "legacy_frame bs img = (case legacy_elements bs elements img of
      None \<Rightarrow> None
    | Some img' \<Rightarrow> if (get_field legacy_fpstate_32 ''magic'' img' :: u16) = 0 then Some img' else None)"

section \<open>The offsets\<close>

lemma fpstate_offsets [simp]:
  "field_at fpstate_32 ''cw'' = Some (0, 4)" "field_at fpstate_32 ''sw'' = Some (4, 4)"
  "field_at fpstate_32 ''tag'' = Some (8, 4)" "field_at fpstate_32 ''_st'' = Some (28, 80)"
  "field_at legacy_fpstate_32 ''magic'' = Some (110, 2)" "field_at legacy_fpstate_32 ''_xmm'' = Some (272, 128)"
  by code_simp+

lemma xmm_sizes: "size_of xmmreg = 16" "size_of U32 = 4"
  by code_simp+

lemma xmm_element_eq: "xmm_element i j = 272 + i * 16 + j * 4"
  by (simp add: xmm_element_def offset_of_def xmm_sizes)

lemmas image_simps = image_laws offset_of_def get_field_def put_field_def xmm_element_eq xmm_row_def
  XSTATE_BV_OFFSET_def upt_rec

section \<open>Refinement\<close>

lemma state_of_clear: "state_of (clear_xstate X86 b img) =
    (state_of img)\<lparr>fp_xstate_bv := fp_xstate_bv (state_of img) AND NOT b\<rparr>"
  by (simp add: state_of_def clear_xstate_def image_simps)

lemma x87_frame_state:
  "map_option state_of (x87_frame img) = (if padded_x87 (state_of img)
     then Some ((state_of img)\<lparr>fp_cw := 0xffff027f, fp_st0 := st0_new\<rparr>) else None)"
  by (simp add: state_of_def x87_frame_def padded_x87_def image_simps st0_new_def)

lemma elements_eq: "elements = [(0, 0), (0, 1), (0, 2), (0, 3), (1, 0), (1, 1), (1, 2), (1, 3)]"
  by (simp add: elements_def upt_rec)

definition elements_match :: "fpstate \<Rightarrow> u32 list list \<Rightarrow> bool" where
  "elements_match fp bs \<longleftrightarrow> list_all (\<lambda>(i, j). saved_xmm fp i ! j = bs ! i ! j) elements"

lemma legacy_frame_state:
  "map_option state_of (legacy_frame bs img) =
     (if elements_match (state_of img) bs \<and> fp_magic (state_of img) = 0
      then Some ((state_of img)\<lparr>fp_xmm0 := patterns 0xf00d0000 ! 0, fp_xmm1 := patterns 0xf00d0000 ! 1\<rparr>)
      else None)"
  by (simp add: elements_match_def elements_eq legacy_frame_def state_of_def image_simps
      saved_xmm_def word_array_def patterns_def numeral_2_eq_2 numeral_3_eq_3)

text \<open>A handler's end: a failed assertion, or the return into a context with the new state.\<close>

definition with_state :: "ucontext \<Rightarrow> image \<Rightarrow> ucontext" where
  "with_state ctx img = ctx\<lparr>fpregs := Some (state_of img)\<rparr>"

definition leave :: "ucontext \<Rightarrow> image option \<Rightarrow> ('g, ucontext) prog" where
  "leave ctx r = (case r of
      None \<Rightarrow> seq (ASSERT False) (Return ctx)
    | Some img \<Rightarrow> Return (with_state ctx img))"

lemma leave_alt: "leave ctx r = (case map_option state_of r of
      None \<Rightarrow> Print Condition_failed (Exit 1)
    | Some fp \<Rightarrow> Return (ctx\<lparr>fpregs := Some fp\<rparr>))"
  by (cases r) (simp_all add: leave_def with_state_def ASSERT_def seq_def)

lemma x87_handler_frame:
  "fpstate_x87_32_handler h sig info (with_state ctx img) =
     seq (modify (fpstate_handler_ran_update (\<lambda>_. True))) (leave ctx (x87_frame img))"
  by (simp add: leave_alt x87_frame_state fpstate_x87_32_handler_def with_state_def with_fpregs_def
      padded_x87_def statement_defs ASSERT_def)

text \<open>A loop of assertions is one assertion.\<close>

lemma for_each_ASSERT: "for_each is (\<lambda>i. ASSERT (p i)) = ASSERT (list_all p is)"
  by (induction "is") (simp_all add: for_each_def block_def seq_def ASSERT_def)

lemma bind_ASSERT: "bind (ASSERT b) k = (if b then k () else Print Condition_failed (Exit 1))"
  by (simp add: ASSERT_def)

lemma case_if_Some: "(case if c then Some x else None of None \<Rightarrow> a | Some y \<Rightarrow> f y) = (if c then f x else a)"
  by simp

lemma elements_match_rows: "elements_match fp bs \<longleftrightarrow>
    list_all (\<lambda>i. list_all (\<lambda>j. saved_xmm fp i ! j = bs ! i ! j) [0..<4]) [0..<2]"
  by (auto simp: elements_match_def elements_def list_all_iff)

lemma legacy_handler_frame:
  "fpstate_legacy_32_handler h sig info (with_state ctx img) =
     seq (block [
       modify (legacy_handler_ran_update (\<lambda>_. True)),
       ASSERT (sig = SIGUSR1),
       ASSERT ((ucast (REG_OLDMASK (gregs ctx)) :: u32) = push_bit (nat (SIGURG - 1)) 1),
       ASSERT ((ucast (REG_CS (gregs ctx)) :: u16) = 0x23)])
     (bind get (\<lambda>g. leave ctx (legacy_frame (before g) img)))"
  by (simp add: leave_alt legacy_frame_state fpstate_legacy_32_handler_def with_state_def with_fpregs_def
      elements_match_rows for_each_ASSERT bind_ASSERT statement_defs case_if_Some if_distrib [of "\<lambda>p. bind p _"] cong: if_cong)

lemma sse_handler_frame:
  "xstate_bv_sse_handler h sig info (with_state ctx img) =
     seq (modify (sse_handler_ran_update (\<lambda>_. True)))
     (leave ctx (if get_word (XSTATE_BV_OFFSET X86) 8 img AND (2 :: u64) \<noteq> 0
        then Some (clear_xstate X86 2 img) else None))"
  by (simp add: leave_alt state_of_clear xstate_bv_sse_handler_def with_state_def with_fpregs_def
      bind_ASSERT statement_defs) (simp add: state_of_def)

lemma x87_bit_handler_frame:
  "xstate_bv_x87_handler h sig info (with_state ctx img) =
     seq (modify (x87_handler_ran_update (\<lambda>_. True)))
     (leave ctx (if get_word (XSTATE_BV_OFFSET X86) 8 img AND (1 :: u64) \<noteq> 0
        then Some (clear_xstate X86 1 img) else None))"
  by (simp add: leave_alt state_of_clear xstate_bv_x87_handler_def with_state_def with_fpregs_def
      bind_ASSERT statement_defs) (simp add: state_of_def)

text \<open>
  C28. The handlers of the four floating point tests work on the bytes of their frame as their models
  work on the saved state. At a context whose \<^verbatim>\<open>fpregs\<close> points to any memory of the 32-bit target, each
  is the same program as its checks, reads and writes at the offsets of \<^verbatim>\<open>fpstate_32\<close> and at
  \<^verbatim>\<open>XSTATE_BV_OFFSET\<close>, with a failed check exiting 1: the clearing of a bit, the new control word and
  register, and the loops that check an element of the vector registers and overwrite it before they
  look at the next one.
\<close>

theorem frame_handlers_refine:
  "xstate_bv_sse_handler h sig info (with_state ctx img) =
     seq (modify (sse_handler_ran_update (\<lambda>_. True)))
     (leave ctx (if get_word (XSTATE_BV_OFFSET X86) 8 img AND (2 :: u64) \<noteq> 0
        then Some (clear_xstate X86 2 img) else None)) \<and>
   xstate_bv_x87_handler h sig info (with_state ctx img) =
     seq (modify (x87_handler_ran_update (\<lambda>_. True)))
     (leave ctx (if get_word (XSTATE_BV_OFFSET X86) 8 img AND (1 :: u64) \<noteq> 0
        then Some (clear_xstate X86 1 img) else None)) \<and>
   fpstate_x87_32_handler h sig info (with_state ctx img) =
     seq (modify (fpstate_handler_ran_update (\<lambda>_. True))) (leave ctx (x87_frame img)) \<and>
   fpstate_legacy_32_handler h sig info (with_state ctx img) =
     seq (block [
       modify (legacy_handler_ran_update (\<lambda>_. True)),
       ASSERT (sig = SIGUSR1),
       ASSERT ((ucast (REG_OLDMASK (gregs ctx)) :: u32) = push_bit (nat (SIGURG - 1)) 1),
       ASSERT ((ucast (REG_CS (gregs ctx)) :: u16) = 0x23)])
     (bind get (\<lambda>g. leave ctx (legacy_frame (before g) img)))"
  by (intro conjI sse_handler_frame x87_bit_handler_frame x87_handler_frame legacy_handler_frame)

section \<open>The action of \<^verbatim>\<open>rt-sigaction-oldact\<close> in memory\<close>

text \<open>
  What the kernel reads and writes: the handler, the flags and the restorer, three words of the target's
  size, and a mask of 64 bits. \<open>h\<close> is the address of \<^verbatim>\<open>dummy_handler\<close>; any other address is
  another handler.
\<close>

definition word_size :: "arch \<Rightarrow> nat" where
  "word_size a = nat (pointer_size a)"

definition handler_at :: "u64 \<Rightarrow> u64 \<Rightarrow> handler" where
  "handler_at h w =
     (if w = h then Handler 0 else if w = 0 then SIG_DFL else if w = 1 then SIG_IGN
      else Handler (Suc (unat w)))"

definition kernel_action :: "arch \<Rightarrow> u64 \<Rightarrow> image \<Rightarrow> sigact" where
  "kernel_action a h img = (let n = word_size a in
     \<lparr>sa_sigaction = handler_at (to_ptr a h) (get_word 0 n img), sa_flags = get_word n n img,
      sa_mask = get_word (3 * n) 8 img, sa_restorer = get_word (2 * n) n img\<rparr>)"

text \<open>What \<^verbatim>\<open>main\<close> writes to \<^verbatim>\<open>act\<close>, whatever is there before.\<close>

definition oldact_act :: "arch \<Rightarrow> u64 \<Rightarrow> u64 \<Rightarrow> image \<Rightarrow> image" where
  "oldact_act a h restorer img = (let t = kernel_sigaction a in
     put_word (offset_of t ''mask'') (word_size a) (push_bit (nat (SIGURG - 1)) 1 :: u64)
     (put_field t ''restorer'' restorer
     (put_field t ''flags'' (SA_RESTORER OR SA_NODEFER :: u64)
     (put_field t ''handler'' h
     (put_bytes 0 (replicate (size_of t) 0) img)))))"

text \<open>The checks behind the second call: on the action it reports, and on the bytes of \<^verbatim>\<open>old\<close>.\<close>

definition oldact_checks :: "arch \<Rightarrow> u64 \<Rightarrow> int \<Rightarrow> sigact \<Rightarrow> ('g, unit) prog" where
  "oldact_checks a restorer r old = block [
     ASSERT (r = 0),
     ASSERT (sa_sigaction old = Handler 0),
     ASSERT (sa_flags old = SA_RESTORER OR SA_NODEFER),
     ASSERT (to_ptr a (sa_mask old) = push_bit (nat (SIGURG - 1)) 1),
     ASSERT (sa_restorer old = restorer)]"

definition oldact_frame :: "arch \<Rightarrow> u64 \<Rightarrow> u64 \<Rightarrow> int \<Rightarrow> image \<Rightarrow> ('g, unit) prog" where
  "oldact_frame a h restorer r img = (let t = kernel_sigaction a in block [
     ASSERT (r = 0),
     ASSERT (get_field t ''handler'' img = to_ptr a h),
     ASSERT (get_field t ''flags'' img = (SA_RESTORER OR SA_NODEFER :: u64)),
     ASSERT (get_word (offset_of t ''mask'') (word_size a) img = (push_bit (nat (SIGURG - 1)) 1 :: u64)),
     ASSERT (get_field t ''restorer'' img = to_ptr a restorer)])"

lemma action_offsets [simp]:
  "field_at (kernel_sigaction X64) ''handler'' = Some (0, 8)" "field_at (kernel_sigaction X86) ''handler'' = Some (0, 4)"
  "field_at (kernel_sigaction X64) ''flags'' = Some (8, 8)" "field_at (kernel_sigaction X86) ''flags'' = Some (4, 4)"
  "field_at (kernel_sigaction X64) ''restorer'' = Some (16, 8)" "field_at (kernel_sigaction X86) ''restorer'' = Some (8, 4)"
  "field_at (kernel_sigaction X64) ''mask'' = Some (24, 8)" "field_at (kernel_sigaction X86) ''mask'' = Some (12, 8)"
  "size_of (kernel_sigaction X64) = 32" "size_of (kernel_sigaction X86) = 20"
  by code_simp+

lemma word_sizes [simp]: "word_size X64 = 8" "word_size X86 = 4"
  by (simp_all add: word_size_def pointer_size_def)

lemma get_put_low: "get_word off n (put_word off n (w :: u64) img) = (take_bit (8 * n) w :: u64)"
  by (simp add: get_word_def put_word_def get_put_same word_of_bytes_of)

text \<open>The mask's upper half on the 32-bit target, which only the \<^verbatim>\<open>memset\<close> has written.\<close>

lemma get_bytes_split: "get_bytes off (m + n) img = get_bytes off m img @ get_bytes (off + m) n img"
  using upt_add_eq_append [of off "off + m" n] by (simp add: get_bytes_def add.assoc)

lemma zero_bytes: "off + n \<le> m \<Longrightarrow> get_bytes off n (put_bytes 0 (replicate m 0) img) = replicate n 0"
  by (auto simp: get_bytes_def put_bytes_def intro: nth_equalityI)

lemma word_of_zeros: "word_of (bs @ replicate n 0) = word_of bs"
proof (induction bs)
  case Nil
  then show ?case by (induction n) simp_all
qed simp

lemma mask_bytes:
  "get_word 12 8 (put_word 12 4 (0x400000 :: u64) (put_word 8 4 (w1 :: u64) (put_word 4 4 (w2 :: u64)
     (put_word 0 4 (w3 :: u64) (put_bytes 0 (replicate 20 0) img))))) = (0x400000 :: u64)"
  by (simp add: get_word_def get_bytes_split [of 12 4 4, simplified] get_bytes_put_word zero_bytes
      put_word_def [of 12] get_put_same get_put_other word_of_zeros word_of_bytes_of)

lemma oldact_act_action:
  "kernel_action a h (oldact_act a h restorer img) = rt_sigaction_oldact_act (to_ptr a restorer)"
  by (cases a)
    (simp_all add: kernel_action_def oldact_act_def rt_sigaction_oldact_act_def handler_at_def to_ptr_def
      put_field_def offset_of_def get_word_other get_put_low mask_bytes take_bit_word_eq_self Let_def)

lemma oldact_frame_checks:
  "oldact_checks a (to_ptr a restorer) r (kernel_action a h img) = oldact_frame a h restorer r img"
  by (cases a)
    (simp_all add: oldact_checks_def oldact_frame_def kernel_action_def handler_at_def to_ptr_def
      get_field_def offset_of_def take_bit_get_word [of 4 8, simplified] take_bit_word_eq_self Let_def)

text \<open>
  The context that \<^verbatim>\<open>fpstate-legacy-32\<close> sees as a \<^verbatim>\<open>sigcontext_32\<close>: the kernel's array of saved
  registers, words of 32 bits in the order of \<^verbatim>\<open>REG_GS\<close> to \<^verbatim>\<open>REG_SS\<close>, then the pointer to the state,
  the mask and the faulting address. \<open>img\<close> is the memory the pointer points to.
\<close>

definition saved_reg :: "nat \<Rightarrow> image \<Rightarrow> u64" where
  "saved_reg i sc = get_word (4 * i) 4 sc"

definition frame_gregs :: "image \<Rightarrow> gregset" where
  "frame_gregs sc =
     \<lparr>REG_RAX = saved_reg 11 sc, REG_RIP = saved_reg 14 sc, REG_RSP = saved_reg 7 sc,
      REG_EFL = saved_reg 16 sc, REG_ERR = saved_reg 13 sc, REG_TRAPNO = saved_reg 12 sc,
      REG_OLDMASK = saved_reg 20 sc, REG_CR2 = saved_reg 21 sc, REG_CSGSFS = 0,
      REG_CS = saved_reg 15 sc, REG_SS = saved_reg 18 sc, REG_DS = saved_reg 3 sc,
      REG_ES = saved_reg 2 sc, REG_FS = saved_reg 1 sc, REG_GS = saved_reg 0 sc\<rparr>"

definition with_sigcontext :: "ucontext \<Rightarrow> image \<Rightarrow> image \<Rightarrow> ucontext" where
  "with_sigcontext ctx sc img = ctx\<lparr>gregs := frame_gregs sc,
     fpregs := (if saved_reg 19 sc = 0 then None else Some (state_of img))\<rparr>"

definition legacy_context :: "image \<Rightarrow> signum \<Rightarrow> (fpstate_legacy_32, unit) prog" where
  "legacy_context sc sig = block [
     modify (legacy_handler_ran_update (\<lambda>_. True)),
     ASSERT (sig = SIGUSR1),
     ASSERT (get_field sigcontext_32 ''fpstate'' sc \<noteq> (0 :: u32)),
     ASSERT (get_field sigcontext_32 ''oldmask'' sc = (push_bit (nat (SIGURG - 1)) 1 :: u32)),
     ASSERT (get_field sigcontext_32 ''cs'' sc = (0x23 :: u16))]"

lemma sigcontext_offsets [simp]:
  "field_at sigcontext_32 ''fpstate'' = Some (76, 4)" "field_at sigcontext_32 ''oldmask'' = Some (80, 4)"
  "field_at sigcontext_32 ''cs'' = Some (60, 2)"
  by code_simp+

lemma saved_reg_low: "ucast (saved_reg i sc) = (get_word (4 * i) 4 sc :: u32)"
  "ucast (saved_reg i sc) = (get_word (4 * i) 2 sc :: u16)"
  by (simp_all add: saved_reg_def ucast_get_word)

lemma saved_reg_0: "saved_reg i sc = 0 \<longleftrightarrow> (get_word (4 * i) 4 sc :: u32) = 0"
proof -
  have "saved_reg i sc = ucast (get_word (4 * i) 4 sc :: u32)"
    by (rule bit_word_eqI) (auto simp: saved_reg_def bit_unsigned_iff get_word_def bit_word_of get_bytes_def)
  then show ?thesis by (auto simp: saved_reg_low(1) [symmetric])
qed

lemma legacy_sigcontext:
  "fpstate_legacy_32_handler h sig info (with_sigcontext ctx sc img) =
     seq (legacy_context sc sig) (bind get (\<lambda>g. leave (with_sigcontext ctx sc img) (legacy_frame (before g) img)))"
proof (cases "saved_reg 19 sc = 0")
  case True
  then have "(get_word 76 4 sc :: u32) = 0" using saved_reg_0 [of 19 sc] by simp
  with True show ?thesis
    by (simp add: fpstate_legacy_32_handler_def legacy_context_def with_sigcontext_def get_field_def
        statement_defs bind_ASSERT)
next
  case False
  then have "with_sigcontext ctx sc img = with_state (with_sigcontext ctx sc img) img"
    by (simp add: with_sigcontext_def with_state_def)
  moreover have "(get_word 76 4 sc :: u32) \<noteq> 0" using False saved_reg_0 [of 19 sc] by simp
  moreover have "gregs (with_sigcontext ctx sc img) = frame_gregs sc" by (simp add: with_sigcontext_def)
  ultimately show ?thesis
    using legacy_handler_frame [of h sig info "with_sigcontext ctx sc img" img]
      saved_reg_low(1) [of 20 sc] saved_reg_low(2) [of 15 sc]
    by (simp add: legacy_context_def get_field_def frame_gregs_def statement_defs bind_ASSERT)
qed

lemma oldact_main_frame:
  "rt_sigaction_oldact_main a (to_ptr a restorer) =
     seq (ASSERT_ret (sysret (Rt_sigaction SIGPWR (Some (kernel_action a h (oldact_act a h restorer stack)))))
       (\<lambda>r. r = 0))
     (bind (sysget (Rt_sigaction SIGPWR None) r_act) (\<lambda>(r, old).
        seq (oldact_checks a (to_ptr a restorer) r old) (Return 0)))"
  by (simp add: rt_sigaction_oldact_main_def oldact_act_action oldact_checks_def)

text \<open>
  C29. Two programs declare the kernel's structs themselves, and on their bytes they work as their models
  do on values. \<^verbatim>\<open>rt-sigaction-oldact\<close> installs the action its model names: that is what the kernel reads
  out of \<^verbatim>\<open>act\<close>, whatever the stack has held before, the upper half of the mask on the 32-bit target
  included, which no assignment reaches. Its checks on the bytes of \<^verbatim>\<open>old\<close> are, whatever the kernel has
  stored there, the checks of the model on the action stored. The handler of \<^verbatim>\<open>fpstate-legacy-32\<close>,
  on any \<^verbatim>\<open>sigcontext_32\<close> and any memory behind its pointer, is the same program as its four checks at the
  offsets of the declared struct, a null pointer included, followed by the loops on the pointer's memory.
\<close>

theorem kernel_structs_refine:
  "rt_sigaction_oldact_main a (to_ptr a restorer) =
     seq (ASSERT_ret (sysret (Rt_sigaction SIGPWR (Some (kernel_action a h (oldact_act a h restorer stack)))))
       (\<lambda>r. r = 0))
     (bind (sysget (Rt_sigaction SIGPWR None) r_act) (\<lambda>(r, old).
        seq (oldact_checks a (to_ptr a restorer) r old) (Return 0))) \<and>
   oldact_checks a (to_ptr a restorer) r (kernel_action a h img) = oldact_frame a h restorer r img \<and>
   fpstate_legacy_32_handler k sig info (with_sigcontext ctx sc img) =
     seq (legacy_context sc sig)
     (bind get (\<lambda>g. leave (with_sigcontext ctx sc img) (legacy_frame (before g) img)))"
  by (intro conjI oldact_main_frame oldact_frame_checks legacy_sigcontext)

end
