(* ===== verification/Stepping.thy ===== *)
theory Stepping
  imports Interrupted
begin

text \<open>
  The tests of single-stepping with the trap flag: \<^verbatim>\<open>trap-flag\<close>, \<^verbatim>\<open>trap-flag-popf-clear\<close>,
  \<^verbatim>\<open>trap-flag-popf-repeat\<close>. Their assembly functions are sequences of single instructions, each a
  request at its address; the addresses of the functions and of their callers are parameters.
\<close>

section \<open>The trap flag\<close>

text \<open>\<^verbatim>\<open>pushf; pop rax; shr eax, 8; and eax, 1\<close>\<close>

definition get_tf :: "('g, bool) prog" where
  "get_tf = bind read_flags (\<lambda>w. Return (drop_bit 8 w AND 1 \<noteq> 0))"

lemma tf_bit: "drop_bit 8 w AND 1 \<noteq> 0 \<longleftrightarrow> bit w 8" for w :: u64
  by (simp add: and_one_eq bit_iff_odd_drop_bit odd_iff_mod_2_eq_one)

lemma and_tf: "w AND 0x100 \<noteq> 0 \<longleftrightarrow> bit w 8" for w :: u64
  using and_exp_eq_0_iff_not_bit [of w 8] by simp

text \<open>\<^verbatim>\<open>.rept n; nop; .endr\<close>\<close>

definition nops :: "u64 \<Rightarrow> nat \<Rightarrow> ('g, unit) prog" where
  "nops pc n = for_each [0..<n] (\<lambda>i. exec_insn Nop (pc + of_nat i))"

text \<open>
  What the three tests share: an assertion about the program between the instructions it executes
  outside its handlers, which every instruction keeps.
\<close>

locale stepper = env_contract H I R X
  for H :: "'g handlers" and I :: "'g pred" and R :: "'g \<Rightarrow> log \<Rightarrow> 'g pred" and X :: "int \<Rightarrow> 'g pred" +
  fixes at :: "'g pred"
  assumes at_inv: "at g l \<Longrightarrow> I g l"
    and at_insn: "at g l \<Longrightarrow> R g l g' l' \<Longrightarrow> I g' l' \<Longrightarrow> at g' (Ans (Exec_insn i pc) r # l')"
begin

lemma wp_insn:
  assumes "at g l" and "\<And>g l. at g l \<Longrightarrow> Q () g l"
  shows "wp I R X S (exec_insn i pc) Q g l"
  using at_inv [OF assms(1)] at_insn [OF assms(1)] by (auto simp: exec_insn_def intro!: assms(2))

lemma wp_insn_get:
  assumes "at g l" and "\<And>w g l. at g l \<Longrightarrow> Q w g l"
  shows "wp I R X S (exec_insn_get i pc) Q g l"
  using at_inv [OF assms(1)] at_insn [OF assms(1)] by (auto simp: exec_insn_get_def intro!: assms(2))

lemma wp_nops:
  assumes "at g l" and "\<And>g l. at g l \<Longrightarrow> Q () g l"
  shows "wp I R X S (nops pc n) Q g l"
  unfolding nops_def by (rule wp_for_each [where P = "\<lambda>_. at"]) (use assms in \<open>auto intro!: wp_insn\<close>)

lemmas steps = wp_insn wp_insn_get wp_nops

end

section \<open>\<^verbatim>\<open>trap-flag.cpp\<close>\<close>

record trap_flag = memory +
  trap_count :: int
  rip_ok :: bool
  label_rip :: u64

text \<open>The instruction pointer, read again where the code reads \<^verbatim>\<open>rip\<close>; the mask \<^verbatim>\<open>~0x100\<close>.\<close>

definition clear_tf :: "ucontext \<Rightarrow> ucontext" where
  "clear_tf ctx = ctx\<lparr>gregs := (gregs ctx)\<lparr>REG_EFL := REG_EFL (gregs ctx) AND NOT 0x100\<rparr>\<rparr>"

text \<open>The bytes the handler checks; on the first trap they include the \<^verbatim>\<open>popf\<close>.\<close>

definition check_code_bytes :: "arch \<Rightarrow> u64 \<Rightarrow> (trap_flag, unit) prog" where
  "check_code_bytes a rip = block [
     ASSERT_ret (load_byte (to_ptr a (rip - 1))) (\<lambda>b. b = 0x90),
     bind get (\<lambda>g. if_then (trap_count g = 1) (block [
       ASSERT_ret (load_byte (to_ptr a (rip - 2))) (\<lambda>b. b = 0x9d),
       ASSERT_ret (load_byte (to_ptr a (rip - 1))) (\<lambda>b. b = 0x90),
       ASSERT_ret (load_byte (to_ptr a rip)) (\<lambda>b. b = 0x90)]))]"

definition trap_flag_handler ::
  "arch \<Rightarrow> nat \<Rightarrow> signum \<Rightarrow> siginfo \<Rightarrow> ucontext \<Rightarrow> (trap_flag, ucontext) prog" where
  "trap_flag_handler a h sig info ctx =
     (let rip = widen a (REG_RIP (gregs ctx)) in
      seq (block [
        incr trap_count (\<lambda>n. trap_count_update (\<lambda>_. n)),
        ASSERT (si_code info = TRAP_TRACE),
        ASSERT (si_addr info = to_ptr a rip),
        ASSERT (REG_EFL (gregs ctx) AND 0x100 \<noteq> 0),
        ASSERT (greg a (REG_ERR (gregs ctx)) = 0),
        ASSERT (greg a (REG_TRAPNO (gregs ctx)) = 1),
        ASSERT_ret get_tf (\<lambda>b. b = False),
        check_code_bytes a rip,
        bind get (\<lambda>g. if_then (rip \<noteq> widen a (label_rip g) + word_of_int (trap_count g) - 1)
          (modify (rip_ok_update (\<lambda>_. False))))])
      (bind get (\<lambda>g. Return (if trap_count g \<ge> 10 then clear_tf ctx else ctx))))"

text \<open>
  \<^verbatim>\<open>run\<close>, with its label \<^verbatim>\<open>1\<close> at \<open>here\<close> and its caller at \<open>back\<close>. The instructions before
  \<^verbatim>\<open>pushf\<close>, which store the label's address, are no requests.
\<close>

definition trap_flag_run :: "u64 \<Rightarrow> u64 \<Rightarrow> (trap_flag, unit) prog" where
  "trap_flag_run here back = block [
     modify (label_rip_update (\<lambda>_. here)),
     bind (exec_insn_get Pushf (here - 10)) (\<lambda>w. block [
       exec_insn (Other_insn 7) (here - 9),
       exec_insn (Popf (w OR 0x100)) (here - 2)]),
     exec_insn Nop (here - 1),
     nops here 9,
     exec_insn (Branch back) (here + 9)]"

definition trap_flag_main :: "u64 \<Rightarrow> u64 \<Rightarrow> (trap_flag, int) prog" where
  "trap_flag_main here back =
     seq (block [
       ASSERT_ret (sigaction SIGTRAP (handler_action SA_SIGINFO sigemptyset)) (\<lambda>r. r = 0),
       trap_flag_run here back,
       ASSERT_mem rip_ok,
       ASSERT_mem (\<lambda>g. trap_count g = 10)])
     (Return 0)"

definition trap_flag_memory :: trap_flag where
  "trap_flag_memory = \<lparr>errno = 0, trap_count = 0, rip_ok = True, label_rip = 0\<rparr>"

lemmas trap_flag_defs = trap_flag_handler_def trap_flag_main_def trap_flag_memory_def

text \<open>
  What every event of a run shows, whatever the verdict: a handler is entered for a single-step trap at
  the address it is given; it finds the trap flag clear.
\<close>

fun trap_event :: "arch \<Rightarrow> log \<Rightarrow> event \<Rightarrow> bool" where
  "trap_event a l (Ans (Enter s i c) r) \<longleftrightarrow> si_code i = TRAP_TRACE \<and>
     si_addr i = to_ptr a (widen a (REG_RIP (gregs c))) \<and> bit (REG_EFL (gregs c)) 8 \<and>
     greg a (REG_ERR (gregs c)) = 0 \<and> greg a (REG_TRAPNO (gregs c)) = 1"
| "trap_event a l (Ans Read_flags r) \<longleftrightarrow> \<not> bit (r_word r) 8"
| "trap_event a l _ \<longleftrightarrow> True"

text \<open>
  A handler returns to one of the instructions from the label on that earlier entries have reached,
  behind a \<^verbatim>\<open>nop\<close> the program has read.
\<close>

definition label_at :: "u64 \<Rightarrow> log \<Rightarrow> u64" where
  "label_at here l = (if main_calls l = [] then 0 else here)"

fun trap_return :: "arch \<Rightarrow> u64 \<Rightarrow> log \<Rightarrow> event \<Rightarrow> bool" where
  "trap_return a here l (Ret c) \<longleftrightarrow> (let rip = widen a (REG_RIP (gregs c)) in
     read_byte l (to_ptr a (rip - 1)) 0x90 \<and>
     (\<exists>k. 1 \<le> k \<and> k \<le> length (handled l) \<and> rip = widen a (label_at here l) + of_nat k - 1))"
| "trap_return a here l _ \<longleftrightarrow> True"

definition trap_flag_inv :: "arch \<Rightarrow> u64 \<Rightarrow> trap_flag \<Rightarrow> log \<Rightarrow> bool" where
  "trap_flag_inv a here g l \<longleftrightarrow> 0 \<le> active l \<and> trap_count g = int (length (handled l)) \<and>
     label_rip g = label_at here l \<and> each_event (trap_event a) l \<and>
     (rip_ok g \<longrightarrow> each_event (trap_return a here) l)"

text \<open>While a request waits, handlers run to their ends, and \<open>rip_ok\<close> is never set again.\<close>

definition trap_flag_rely :: "trap_flag \<Rightarrow> log \<Rightarrow> trap_flag \<Rightarrow> log \<Rightarrow> bool" where
  "trap_flag_rely g l g' l' \<longleftrightarrow> layered g l g' l' \<and> (rip_ok g' \<longrightarrow> rip_ok g)"

definition trap_flag_exit :: "arch \<Rightarrow> u64 \<Rightarrow> int \<Rightarrow> trap_flag \<Rightarrow> log \<Rightarrow> bool" where
  "trap_flag_exit a here n g l \<longleftrightarrow> (n = 0 \<longrightarrow> length (handled l) = 10 \<and> active l = 0 \<and>
     each_event (trap_event a) l \<and> each_event (trap_return a here) l)"

lemmas trap_flag_spec = trap_flag_inv_def trap_flag_exit_def

lemma clear_tf_rip [simp]: "REG_RIP (gregs (clear_tf c)) = REG_RIP (gregs c)"
  by (simp add: clear_tf_def)

text \<open>Later in the same handler.\<close>

definition later :: "trap_flag \<Rightarrow> log \<Rightarrow> trap_flag \<Rightarrow> log \<Rightarrow> bool" where
  "later g l g' l' \<longleftrightarrow> grows l l' \<and> active l' = active l \<and> main_calls l' = main_calls l \<and>
     (rip_ok g' \<longrightarrow> rip_ok g)"

lemma later_refl: "later g l g l"
  by (simp add: later_def)

lemma later_trans: "later g l g1 l1 \<Longrightarrow> later g1 l1 g2 l2 \<Longrightarrow> later g l g2 l2"
  by (auto simp: later_def intro: grows_trans)

lemma later_read_byte: "read_byte l x v \<Longrightarrow> later g l g' l' \<Longrightarrow> read_byte l' x v"
  by (auto simp: later_def intro: read_byte_grows)

lemma later_active: "later g l g' l' \<Longrightarrow> 0 < active l \<Longrightarrow> 0 < active l'"
  by (simp add: later_def)

text \<open>The events of a handler keep the invariant.\<close>

lemma trap_flag_inv_enter:
  assumes "trap_flag_inv a here g l" and "trap_event a l (Ans (Enter s i c) r)"
  shows "trap_flag_inv a here (g\<lparr>trap_count := trap_count g + 1\<rparr>) (Ans (Enter s i c) r # l)"
  using assms by (simp add: trap_flag_inv_def label_at_def)

lemma trap_flag_inv_read:
  assumes "trap_flag_inv a here g l" and "0 < active l" and "q = Read_flags \<or> q = Load_byte x"
    and "trap_event a l (Ans q r)"
  shows "trap_flag_inv a here g (Ans q r # l)"
  using assms by (auto simp: trap_flag_inv_def label_at_def)

lemma trap_flag_inv_bad: "trap_flag_inv a here g l \<Longrightarrow> trap_flag_inv a here (g\<lparr>rip_ok := False\<rparr>) l"
  by (simp add: trap_flag_inv_def)

lemma trap_flag_inv_return:
  assumes "trap_flag_inv a here g l" and "0 < active l" and "rip_ok g \<Longrightarrow> trap_return a here l (Ret c)"
  shows "trap_flag_inv a here g (Ret c # l)"
  using assms by (simp add: trap_flag_inv_def label_at_def del: trap_return.simps)

lemma later_read:
  assumes "trap_flag_rely g l g' l'" and "grows l l'" and "0 < active l" and "q = Read_flags \<or> q = Load_byte x"
  shows "later g l g' (Ans q r # l')"
  using assms by (auto simp: later_def trap_flag_rely_def intro: grows_Cons)

lemma wp_trap_load:
  assumes "trap_flag_inv a here g l" and "0 < active l"
    and "\<And>g' l'. trap_flag_inv a here g' l' \<Longrightarrow> later g l g' l' \<Longrightarrow> 0 < active l' \<Longrightarrow>
      read_byte l' x v \<Longrightarrow> Q () g' l'"
  shows "wp (trap_flag_inv a here) trap_flag_rely (trap_flag_exit a here) S
    (ASSERT_ret (load_byte x) (\<lambda>b. b = v)) Q g l"
  using assms(1,2)
  by (auto simp: ASSERT_ret_def load_byte_def ASSERT_def trap_flag_exit_def trap_flag_rely_def
    intro!: assms(3) trap_flag_inv_read later_read simp del: main_calls.simps(2))

lemma wp_trap_tf:
  assumes "trap_flag_inv a here g l" and "0 < active l"
    and "\<And>g' l'. trap_flag_inv a here g' l' \<Longrightarrow> later g l g' l' \<Longrightarrow> 0 < active l' \<Longrightarrow> Q () g' l'"
  shows "wp (trap_flag_inv a here) trap_flag_rely (trap_flag_exit a here) S
    (ASSERT_ret get_tf Not) Q g l"
  using assms(1,2)
  by (auto simp: ASSERT_ret_def get_tf_def read_flags_def ASSERT_def trap_flag_exit_def trap_flag_rely_def tf_bit
    intro!: assms(3) trap_flag_inv_read later_read simp del: main_calls.simps(2))

lemma wp_check_code_bytes:
  assumes "trap_flag_inv a here g l" and "0 < active l"
    and "\<And>g' l'. trap_flag_inv a here g' l' \<Longrightarrow> later g l g' l' \<Longrightarrow> 0 < active l' \<Longrightarrow>
      read_byte l' (to_ptr a (rip - 1)) 0x90 \<Longrightarrow> Q () g' l'"
  shows "wp (trap_flag_inv a here) trap_flag_rely (trap_flag_exit a here) S (check_code_bytes a rip) Q g l"
  using assms(1,2)
  by (auto simp: check_code_bytes_def block_def seq_def get_def if_then_def skip_def wp_bind_fun
    intro!: wp_trap_load assms(3))
    (meson later_trans later_read_byte)+

text \<open>The last statements of the handler, up to its return.\<close>

lemma trap_flag_finish:
  assumes "trap_flag_inv a here g l" and "0 < active l" and "1 \<le> length (handled l)"
    and "read_byte l (to_ptr a (widen a (REG_RIP (gregs c)) - 1)) 0x90"
    and "rip_ok g \<Longrightarrow> widen a (REG_RIP (gregs c)) = widen a (label_rip g) + word_of_int (trap_count g) - 1"
    and "later g l g' l'" and "trap_flag_inv a here g' l'" and "REG_RIP (gregs c') = REG_RIP (gregs c)"
  shows "trap_flag_inv a here g' (Ret c' # l')"
proof (rule trap_flag_inv_return)
  show "0 < active l'" using assms(6,2) by (rule later_active)
  assume "rip_ok g'"
  then have "rip_ok g" using assms(6) by (simp add: later_def)
  moreover have "length (handled l) \<le> length (handled l')"
    using assms(6) by (auto simp: later_def grows_def)
  moreover have "label_rip g = label_at here l'"
    using assms(1,6) by (simp add: trap_flag_inv_def label_at_def later_def)
  moreover have "trap_count g = int (length (handled l))"
    using assms(1) by (simp add: trap_flag_inv_def)
  moreover have "read_byte l' (to_ptr a (widen a (REG_RIP (gregs c)) - 1)) 0x90"
    using assms(4,6) by (rule later_read_byte)
  ultimately show "trap_return a here l' (Ret c')"
    using assms(3,5,8) by (auto simp: Let_def)
qed (use assms in simp_all)

text \<open>What the return of a handler must establish, for a request that waited at \<open>g\<close>, \<open>l\<close>.\<close>

definition trap_flag_back ::
  "arch \<Rightarrow> u64 \<Rightarrow> trap_flag \<Rightarrow> log \<Rightarrow> ucontext \<Rightarrow> trap_flag \<Rightarrow> log \<Rightarrow> bool" where
  "trap_flag_back a here g l c g' l' \<longleftrightarrow>
     trap_flag_inv a here g' (Ret c # l') \<and> trap_flag_rely g l g' (Ret c # l')"

lemma trap_flag_leave:
  assumes "trap_flag_rely g l g' l'"
    and "later (g'\<lparr>trap_count := n\<rparr>) (Ans (Enter s i c) r # l') ga la" and "later ga la gb lb"
    and "trap_flag_rely gr lb gc lc" and "trap_flag_inv a here g' l'"
    and "trap_flag_inv a here gr lb" and "0 < active lb"
    and "read_byte lb (to_ptr a (widen a (REG_RIP (gregs c)) - 1)) 0x90"
    and "rip_ok gr \<Longrightarrow> rip_ok gb \<and>
      widen a (REG_RIP (gregs c)) = widen a (label_rip gr) + word_of_int (trap_count gr) - 1"
    and "grows lb lc" and "trap_flag_inv a here gc lc" and "REG_RIP (gregs c') = REG_RIP (gregs c)"
  shows "trap_flag_back a here g l c' gc lc"
proof -
  note path = later_trans [OF assms(2,3)]
  have "0 \<le> active l'" using assms(5) by (simp add: trap_flag_inv_def)
  have last: "later gr lb gc lc"
    using assms(4,7,10) by (auto simp: later_def trap_flag_rely_def)
  have "handled lb \<noteq> []" using path by (auto simp: later_def grows_def)
  then have "1 \<le> length (handled lb)" by (cases "handled lb") simp_all
  then have "trap_flag_inv a here gc (Ret c' # lc)"
    using assms(6-9,11,12) last by (intro trap_flag_finish [where g = gr and l = lb and c = c]) auto
  moreover have "trap_flag_rely g l gc (Ret c' # lc)"
    using assms(1,9) path last \<open>0 \<le> active l'\<close> by (auto simp: trap_flag_rely_def later_def)
  ultimately show ?thesis by (simp add: trap_flag_back_def)
qed

interpretation trap_flag: env_contract "trap_flag_handler a" "trap_flag_inv a here" trap_flag_rely
    "trap_flag_exit a here" for a here
proof unfold_locales
  fix g :: trap_flag and l :: log and h s i and c :: ucontext
  assume inv: "trap_flag_inv a here g l"
  have active: "0 \<le> active l'" if "trap_flag_inv a here g' l'" for g' l'
    using that by (simp add: trap_flag_inv_def)
  have "wp (trap_flag_inv a here) trap_flag_rely (trap_flag_exit a here) (trap_flag_back a here g l)
       (handler_prog (trap_flag_handler a) h s i c) (\<lambda>_ _ _. True) g l"
    by (simp add: handler_prog_def trap_flag_handler_def block_def seq_def get_def modify_def if_then_def
        skip_def incr_def ASSERT_def wp_bind_fun Let_def inv del: main_calls.simps(2) layered_def,
      auto intro!: wp_trap_tf wp_check_code_bytes trap_flag_inv_enter trap_flag_inv_bad active
        simp: and_tf trap_flag_exit_def skip_def simp del: main_calls.simps(2) layered_def)
      (erule (3) trap_flag_leave; simp add: trap_flag_inv_bad)+
  then show "wp (trap_flag_inv a here) trap_flag_rely (trap_flag_exit a here)
      (\<lambda>c' g' l'. trap_flag_inv a here g' (Ret c' # l') \<and> trap_flag_rely g l g' (Ret c' # l'))
      (handler_prog (trap_flag_handler a) h s i c) (\<lambda>_ _ _. True) g l"
    by (simp add: trap_flag_back_def [abs_def])
qed (auto simp: trap_flag_rely_def)

text \<open>At the instructions of \<^verbatim>\<open>run\<close> the label is known and no handler runs.\<close>

definition trap_flag_running :: "arch \<Rightarrow> u64 \<Rightarrow> trap_flag \<Rightarrow> log \<Rightarrow> bool" where
  "trap_flag_running a here g l \<longleftrightarrow> trap_flag_inv a here g l \<and> active l = 0 \<and> main_calls l \<noteq> []"

interpretation trap_steps: stepper "trap_flag_handler a" "trap_flag_inv a here" trap_flag_rely
    "trap_flag_exit a here" "trap_flag_running a here" for a here
  by unfold_locales
    (auto simp: trap_flag_running_def trap_flag_inv_def trap_flag_rely_def label_at_def)

lemma trap_flag_main_wp:
  "wp (trap_flag_inv a here) trap_flag_rely (trap_flag_exit a here) (\<lambda>_ _ _. False)
     (trap_flag_main here back) (\<lambda>n. trap_flag_exit a here n) trap_flag_memory []"
proof -
  have run: "wp (trap_flag_inv a here) trap_flag_rely (trap_flag_exit a here) (\<lambda>_ _ _. False)
     (trap_flag_run here back) Q g l"
    if "trap_flag_running a here (g\<lparr>label_rip := here\<rparr>) l"
      and "\<And>g l. trap_flag_running a here g l \<Longrightarrow> Q () g l" for Q g l
    using that(1)
    by (auto simp: trap_flag_run_def block_def seq_def modify_def wp_bind_fun
      intro!: trap_steps.steps that(2))
  have start: "trap_flag_running a here (with_errno r g\<lparr>label_rip := here\<rparr>) (Ans q r # l)"
    if "trap_flag_inv a here g l" and "active l = 0" and "q = Rt_sigaction s act" for g l q r s act
    using that by (auto simp: trap_flag_running_def trap_flag_inv_def label_at_def with_errno_def)
  show ?thesis
    by (auto simp: trap_flag_main_def statement_defs wp_bind_fun sigaction_def wp_sysret ASSERT_def
        trap_flag_exit_def intro!: run start)
      (auto simp: trap_flag_memory_def trap_flag_rely_def trap_flag_running_def trap_flag_inv_def label_at_def)
qed

text \<open>
  C31. If \<^verbatim>\<open>trap-flag\<close> exits 0, then its handler was entered ten times, each time for a single-step trap
  with the trap flag in the saved flags, the right trap number and error and the address of the saved
  instruction pointer; the handlers found the flag clear; and each returned to one of the instructions from
  the label on that the entries so far account for, behind a \<^verbatim>\<open>nop\<close> which the program has read.
\<close>

theorem trap_flag_verdict:
  assumes "trial (trap_flag_handler a) (trap_flag_main here back) trap_flag_memory mvs = Dead (Exited 0) g l"
  shows "length (handled l) = 10 \<and> active l = 0 \<and> each_event (trap_event a) l \<and>
    each_event (trap_return a here) l"
  using trap_flag.verdict [OF trap_flag_main_wp assms] by (simp add: trap_flag_exit_def)

text \<open>The program's text around the label: a \<^verbatim>\<open>popf\<close> and ten \<^verbatim>\<open>nop\<close>s.\<close>

definition trap_flag_text :: "u64 \<Rightarrow> (u64 \<times> u8) list" where
  "trap_flag_text here = (here - 2, 0x9d) # map (\<lambda>i. (here - 1 + of_nat i, 0x90)) [0..<10]"

lemma trap_flag_linux:
  "linux_run ((linux_init a pid u heap)\<lparr>l_bytes := trap_flag_text 0x400010\<rparr>) (trap_flag_handler a)
     (trap_flag_main 0x400010 0x401000) trap_flag_memory = Some 0"
  by (cases a; simp only:; code_simp)

theorem trap_flag_verdict_witness:
  "\<exists>mvs g l. trial (trap_flag_handler X64) (trap_flag_main 0x400010 0x401000) trap_flag_memory mvs
      = Dead (Exited 0) g l \<and>
    (length (handled l) = 10 \<and> active l = 0 \<and> each_event (trap_event X64) l \<and>
     each_event (trap_return X64 0x400010) l)"
  by (rule linux_witness [OF trap_flag_linux [of X64 1 0 "[]"] trap_flag_verdict])

end
