(* ===== verification/Popf.thy ===== *)
theory Popf
  imports Stepping
begin

text \<open>
  The tests of single-stepping into and out of a \<^verbatim>\<open>popf\<close> that clears the trap flag:
  \<^verbatim>\<open>trap-flag-popf-clear\<close>, \<^verbatim>\<open>trap-flag-popf-repeat\<close>.
\<close>

section \<open>\<^verbatim>\<open>trap-flag-popf-clear.cpp\<close>\<close>

text \<open>How often the flags have been read: once by every handler that has come so far, and by \<^verbatim>\<open>main\<close>.\<close>

fun flag_read :: "event \<Rightarrow> int" where
  "flag_read (Ans Read_flags r) = 1"
| "flag_read _ = 0"

definition flag_reads :: "log \<Rightarrow> int" where
  "flag_reads l = sum_list (map flag_read l)"

lemma flag_reads_simps [simp]:
  "flag_reads [] = 0"
  "flag_reads (e # l) = flag_read e + flag_reads l"
  by (simp_all add: flag_reads_def)

fun step_event :: "arch \<Rightarrow> log \<Rightarrow> event \<Rightarrow> bool" where
  "step_event a l (Ans (Enter s i c) r) \<longleftrightarrow> s = SIGTRAP \<and> si_code i = TRAP_TRACE \<and>
     si_addr i = to_ptr a (widen a (REG_RIP (gregs c)))"
| "step_event a l (Ans Read_flags r) \<longleftrightarrow> \<not> bit (r_word r) 8"
| "step_event a l _ \<longleftrightarrow> True"

record popf_clear = memory +
  pc_count :: int
  rips :: "u64 list"
  pc_expected_rip :: u64
  last_efl :: u64

definition popf_clear_handler ::
  "arch \<Rightarrow> nat \<Rightarrow> signum \<Rightarrow> siginfo \<Rightarrow> ucontext \<Rightarrow> (popf_clear, ucontext) prog" where
  "popf_clear_handler a h sig info ctx =
     (let rip = widen a (REG_RIP (gregs ctx)) in
      seq (block [
        ASSERT (sig = SIGTRAP),
        ASSERT (si_code info = TRAP_TRACE),
        ASSERT (si_addr info = to_ptr a rip),
        ASSERT_ret get_tf (\<lambda>b. b = False),
        bind get (\<lambda>g. if_then (pc_count g < 16)
          (modify (rips_update (\<lambda>rs. rs[nat (pc_count g) := rip])))),
        modify (last_efl_update (\<lambda>_. widen a (REG_EFL (gregs ctx)))),
        incr pc_count (\<lambda>n. pc_count_update (\<lambda>_. n))])
      (bind get (\<lambda>g. Return (if pc_count g \<ge> 16 then clear_tf ctx else ctx))))"

definition popf_clear_run :: "u64 \<Rightarrow> u64 \<Rightarrow> (popf_clear, unit) prog" where
  "popf_clear_run here back = block [
     modify (pc_expected_rip_update (\<lambda>_. here)),
     bind (exec_insn_get Pushf (here - 10)) (\<lambda>w. block [
       exec_insn (Other_insn 7) (here - 9),
       exec_insn (Popf (w OR 0x100)) (here - 2)]),
     exec_insn Nop (here - 1),
     nops here 4,
     bind (exec_insn_get Pushf (here + 4)) (\<lambda>w. block [
       exec_insn (Other_insn 7) (here + 5),
       exec_insn (Popf (w AND NOT 0x100)) (here + 12)]),
     exec_insn Nop (here + 13),
     exec_insn Nop (here + 14),
     exec_insn (Branch back) (here + 15)]"

definition popf_clear_main :: "arch \<Rightarrow> u64 \<Rightarrow> u64 \<Rightarrow> (popf_clear, int) prog" where
  "popf_clear_main a here back =
     seq (block [
       ASSERT_ret (sigaction SIGTRAP (handler_action SA_SIGINFO sigemptyset)) (\<lambda>r. r = 0),
       popf_clear_run here back,
       ASSERT_ret get_tf (\<lambda>b. b = False),
       ASSERT_mem (\<lambda>g. pc_count g = 8),
       bind get (\<lambda>g. let base = widen a (pc_expected_rip g) in block [
         for_each [0..<5] (\<lambda>i. ASSERT (rips g ! i = base + of_nat i)),
         ASSERT (rips g ! 5 = base + 5),
         ASSERT (rips g ! 6 = base + 12),
         ASSERT (rips g ! 7 = base + 13),
         ASSERT (last_efl g AND 0x100 = 0)])])
     (Return 0)"

definition popf_clear_memory :: popf_clear where
  "popf_clear_memory = \<lparr>errno = 0, pc_count = 0, rips = replicate 16 0, pc_expected_rip = 0,
     last_efl = 0\<rparr>"

text \<open>Some handler was entered with a context of the property \<open>P\<close>.\<close>

definition some_entry :: "(ucontext \<Rightarrow> bool) \<Rightarrow> log \<Rightarrow> bool" where
  "some_entry P l \<longleftrightarrow> (\<exists>d \<in> set (handled l). P (snd (snd d)))"

lemma some_entry_Cons: "some_entry P l \<Longrightarrow> some_entry P (e # l)"
  by (auto simp: some_entry_def)

lemma some_entry_mono: "some_entry P l \<Longrightarrow> (\<And>c. P c \<Longrightarrow> P' c) \<Longrightarrow> some_entry P' l"
  by (auto simp: some_entry_def)

lemma some_entry_grows: "some_entry P l \<Longrightarrow> grows l l' \<Longrightarrow> some_entry P l'"
  by (auto simp: some_entry_def dest: handled_grows)

lemma some_entry_Enter: "P c \<Longrightarrow> some_entry P (Ans (Enter s i c) r # l)"
  by (auto simp: some_entry_def)

text \<open>Every recorded instruction pointer, and the flags recorded last, are of a context.\<close>

definition recorded :: "arch \<Rightarrow> popf_clear \<Rightarrow> log \<Rightarrow> bool" where
  "recorded a g l \<longleftrightarrow> length (rips g) = 16 \<and> 0 \<le> pc_count g \<and>
     (\<forall>k < nat (min 16 (pc_count g)). some_entry (\<lambda>c. widen a (REG_RIP (gregs c)) = rips g ! k) l) \<and>
     (pc_count g = 0 \<or> some_entry (\<lambda>c. widen a (REG_EFL (gregs c)) = last_efl g) l)"

definition popf_clear_inv :: "arch \<Rightarrow> popf_clear \<Rightarrow> log \<Rightarrow> bool" where
  "popf_clear_inv a g l \<longleftrightarrow> recorded a g l \<and> each_event (step_event a) l"

definition popf_clear_rely :: "popf_clear \<Rightarrow> log \<Rightarrow> popf_clear \<Rightarrow> log \<Rightarrow> bool" where
  "popf_clear_rely g l g' l' \<longleftrightarrow> pc_count g' + flag_reads l = pc_count g + flag_reads l' \<and>
     pc_expected_rip g' = pc_expected_rip g \<and> balanced g l g' l'"

text \<open>The addresses of the label's four \<^verbatim>\<open>nop\<close>s and of what follows \<^verbatim>\<open>pushf\<close>, \<^verbatim>\<open>and\<close> and \<^verbatim>\<open>popf\<close>.\<close>

definition popf_clear_stops :: "u64 list" where
  "popf_clear_stops = [0, 1, 2, 3, 4, 5, 12, 13]"

definition popf_clear_exit :: "arch \<Rightarrow> u64 \<Rightarrow> int \<Rightarrow> popf_clear \<Rightarrow> log \<Rightarrow> bool" where
  "popf_clear_exit a here n g l \<longleftrightarrow> (n = 0 \<longrightarrow> each_event (step_event a) l \<and> flag_reads l = 9 \<and>
     list_all (\<lambda>d. some_entry (\<lambda>c. widen a (REG_RIP (gregs c)) = widen a here + d) l) popf_clear_stops \<and>
     some_entry (\<lambda>c. widen a (REG_EFL (gregs c)) AND 0x100 = 0) l)"

lemma recorded_Cons: "recorded a g l \<Longrightarrow> recorded a g (e # l)"
  by (auto simp: recorded_def intro: some_entry_Cons)

lemma recorded_next:
  assumes "recorded a g l" and "some_entry (\<lambda>c. c = ctx) l"
  shows "recorded a (g\<lparr>rips := if pc_count g < 16
      then (rips g)[nat (pc_count g) := widen a (REG_RIP (gregs ctx))] else rips g,
    last_efl := widen a (REG_EFL (gregs ctx)), pc_count := pc_count g + 1\<rparr>) l"
proof -
  have entry: "some_entry P l" if "P ctx" for P
    using assms(2) that by (auto simp: some_entry_def)
  show ?thesis
    using assms(1) by (auto simp: recorded_def nth_list_update intro!: entry)
qed

interpretation popf_clear: env_contract "popf_clear_handler a" "popf_clear_inv a" popf_clear_rely
    "popf_clear_exit a here" for a here
proof unfold_locales
  fix g :: popf_clear and l :: log and h s i and c :: ucontext
  assume inv: "popf_clear_inv a g l"
  have below: "popf_clear_inv a (rips_update (\<lambda>rs. rs[nat (pc_count g) := widen a (REG_RIP (gregs c))]) g
      \<lparr>last_efl := widen a (REG_EFL (gregs c)), pc_count := pc_count g + 1\<rparr>) l"
    if "popf_clear_inv a g l" and "some_entry (\<lambda>x. x = c) l" and "pc_count g < 16" for g l
    using recorded_next [of a g l c] that by (simp add: popf_clear_inv_def recorded_def)
  have beyond: "popf_clear_inv a (g\<lparr>last_efl := widen a (REG_EFL (gregs c)), pc_count := pc_count g + 1\<rparr>) l"
    if "popf_clear_inv a g l" and "some_entry (\<lambda>x. x = c) l" and "\<not> pc_count g < 16" for g l
    using recorded_next [of a g l c] that by (simp add: popf_clear_inv_def)
  have entered: "some_entry (\<lambda>x. x = c) l'" if "grows (Ans (Enter s i c) r # l) l'" for r l l'
    using that by (auto intro: some_entry_grows some_entry_Enter)
  have keep: "popf_clear_inv a g (e # l)" if "popf_clear_inv a g l" and "step_event a l e" for e g l
    using that by (simp add: popf_clear_inv_def recorded_Cons)
  show "wp (popf_clear_inv a) popf_clear_rely (popf_clear_exit a here)
       (\<lambda>c' g' l'. popf_clear_inv a g' (Ret c' # l') \<and> popf_clear_rely g l g' (Ret c' # l'))
       (handler_prog (popf_clear_handler a) h s i c) (\<lambda>_ _ _. True) g l"
    by (simp add: inv handler_prog_def popf_clear_handler_def block_def seq_def get_def modify_def if_then_def skip_def
      incr_def ASSERT_def ASSERT_ret_def get_tf_def read_flags_def tf_bit wp_bind_fun Let_def popf_clear_exit_def)
      (auto intro!: keep below beyond intro: entered simp: popf_clear_rely_def)
qed (auto simp: popf_clear_rely_def)

text \<open>A stretch of \<^verbatim>\<open>main\<close> whose instructions read no flags: what it keeps.\<close>

definition popf_clear_running :: "arch \<Rightarrow> u64 \<Rightarrow> int \<Rightarrow> popf_clear \<Rightarrow> log \<Rightarrow> bool" where
  "popf_clear_running a here k g l \<longleftrightarrow> popf_clear_inv a g l \<and> pc_expected_rip g = here \<and>
     flag_reads l = pc_count g + k"

lemma popf_clear_running_ans:
  assumes "popf_clear_running a here k g l" and "popf_clear_rely g l g' l'" and "popf_clear_inv a g' l'"
    and "step_event a l' (Ans q r)" and "flag_read (Ans q r) = d"
  shows "popf_clear_running a here (k + d) g' (Ans q r # l')"
  using assms
  by (auto simp: popf_clear_running_def popf_clear_inv_def popf_clear_rely_def recorded_Cons)

interpretation popf_clear_steps: stepper "popf_clear_handler a" "popf_clear_inv a" popf_clear_rely
    "popf_clear_exit a here" "popf_clear_running a here k" for a here k
proof unfold_locales
  show "popf_clear_running a here k g' (Ans (Exec_insn i pc) r # l')"
    if "popf_clear_running a here k g l" and "popf_clear_rely g l g' l'" and "popf_clear_inv a g' l'"
    for g l g' l' i pc r
    using popf_clear_running_ans [OF that, where q = "Exec_insn i pc" and d = 0] by simp
qed (simp add: popf_clear_running_def)

lemma wp_popf_tf:
  assumes "popf_clear_running a here k g l" and "\<And>g l. popf_clear_running a here (k + 1) g l \<Longrightarrow> Q () g l"
  shows "wp (popf_clear_inv a) popf_clear_rely (popf_clear_exit a here) S (ASSERT_ret get_tf Not) Q g l"
  using assms(1) popf_clear_running_ans [OF assms(1), where q = Read_flags and d = 1]
  by (auto simp: ASSERT_ret_def get_tf_def read_flags_def ASSERT_def tf_bit popf_clear_exit_def
    popf_clear_running_def [of a here k g l] intro!: assms(2))

lemma wp_popf_run:
  assumes "popf_clear_running a here k (g\<lparr>pc_expected_rip := here\<rparr>) l"
    and "\<And>g l. popf_clear_running a here k g l \<Longrightarrow> Q () g l"
  shows "wp (popf_clear_inv a) popf_clear_rely (popf_clear_exit a here) S (popf_clear_run here back) Q g l"
  using assms(1)
  by (auto simp: popf_clear_run_def block_def seq_def modify_def wp_bind_fun
    intro!: popf_clear_steps.steps assms(2))

lemma popf_clear_passes:
  assumes "popf_clear_running a here 1 g l" and "pc_count g = 8"
    and "list_all (\<lambda>i. rips g ! i = widen a (pc_expected_rip g) + of_nat i) [0..<5]"
    and "rips g ! 5 = widen a (pc_expected_rip g) + 5" and "rips g ! 6 = widen a (pc_expected_rip g) + 12"
    and "rips g ! 7 = widen a (pc_expected_rip g) + 13" and "last_efl g AND 0x100 = 0"
  shows "popf_clear_exit a here 0 g l"
proof -
  have rec: "recorded a g l" "each_event (step_event a) l" "pc_expected_rip g = here" "flag_reads l = 9"
    using assms(1,2) by (simp_all add: popf_clear_running_def popf_clear_inv_def)
  have rips: "some_entry (\<lambda>c. widen a (REG_RIP (gregs c)) = rips g ! k) l" if "k < 8" for k
    using rec(1) assms(2) that by (simp add: recorded_def)
  have "some_entry (\<lambda>c. widen a (REG_EFL (gregs c)) = last_efl g) l"
    using rec(1) assms(2) by (simp add: recorded_def)
  then have "some_entry (\<lambda>c. widen a (REG_EFL (gregs c)) AND 0x100 = 0) l"
    by (rule some_entry_mono) (use assms(7) in simp)
  then show ?thesis
    using rec(2-4) assms(3-6) rips [of 0] rips [of "Suc 0"] rips [of "Suc (Suc 0)"] rips [of "Suc (Suc (Suc 0))"]
      rips [of "Suc (Suc (Suc (Suc 0)))"] rips [of 5]
      rips [of 6] rips [of 7]
    by (simp add: popf_clear_exit_def popf_clear_stops_def upt_rec)
qed

lemma popf_clear_main_wp:
  "wp (popf_clear_inv a) popf_clear_rely (popf_clear_exit a here) (\<lambda>_ _ _. False)
     (popf_clear_main a here back) (\<lambda>n. popf_clear_exit a here n) popf_clear_memory []"
proof -
  have start: "popf_clear_running a here 0 (with_errno r g\<lparr>pc_expected_rip := here\<rparr>)
      (Ans (Rt_sigaction s act) r # l)"
    if "popf_clear_inv a g l" and "pc_count g = flag_reads l" for g l s act r
    using that by (auto simp: popf_clear_running_def popf_clear_inv_def recorded_def with_errno_def
      some_entry_Cons)
  show ?thesis
    by (auto simp: popf_clear_main_def block_def seq_def get_def ASSERT_mem_def wp_bind_fun sigaction_def wp_sysret
        ASSERT_ret_def [where p = "sysret q" for q] ASSERT_def popf_clear_exit_def [of _ _ 1] Let_def
        wp_assert_all [unfolded ASSERT_def]
        intro!: wp_popf_run [where k = 0] start wp_popf_tf popf_clear_passes)
      (auto simp: popf_clear_inv_def popf_clear_rely_def recorded_def popf_clear_memory_def)
qed

text \<open>
  C32. If \<^verbatim>\<open>trap-flag-popf-clear\<close> exits 0, then every handler was entered for a single-step trap at the
  address of the saved instruction pointer; every read of the flags, eight by handlers and one by \<^verbatim>\<open>main\<close>,
  found the trap flag clear; and the traps include one behind each of the eight instructions that are
  stepped, the clearing \<^verbatim>\<open>popf\<close> among them, and one that saved the flags with the trap flag clear.
\<close>

theorem popf_clear_verdict:
  assumes "trial (popf_clear_handler a) (popf_clear_main a here back) popf_clear_memory mvs
    = Dead (Exited 0) g l"
  shows "each_event (step_event a) l \<and> flag_reads l = 9 \<and>
     list_all (\<lambda>d. some_entry (\<lambda>c. widen a (REG_RIP (gregs c)) = widen a here + d) l) popf_clear_stops \<and>
     some_entry (\<lambda>c. widen a (REG_EFL (gregs c)) AND 0x100 = 0) l"
  using popf_clear.verdict [OF popf_clear_main_wp assms] by (simp add: popf_clear_exit_def)

lemma popf_clear_linux:
  "linux_run (linux_init a pid u heap) (popf_clear_handler a) (popf_clear_main a 0x400010 0x401000)
     popf_clear_memory = Some 0"
  by (cases a; simp only:; code_simp)

theorem popf_clear_verdict_witness:
  "\<exists>mvs g l. trial (popf_clear_handler X64) (popf_clear_main X64 0x400010 0x401000) popf_clear_memory mvs
      = Dead (Exited 0) g l \<and>
    (each_event (step_event X64) l \<and> flag_reads l = 9 \<and>
     list_all (\<lambda>d. some_entry (\<lambda>c. widen X64 (REG_RIP (gregs c)) = widen X64 0x400010 + d) l)
       popf_clear_stops \<and>
     some_entry (\<lambda>c. widen X64 (REG_EFL (gregs c)) AND 0x100 = 0) l)"
  by (rule linux_witness [OF popf_clear_linux [of X64 1 0 "[]"] popf_clear_verdict])

section \<open>\<^verbatim>\<open>trap-flag-popf-repeat.cpp\<close>\<close>

record popf_repeat = memory +
  pr_count :: int

definition popf_repeat_handler ::
  "arch \<Rightarrow> nat \<Rightarrow> signum \<Rightarrow> siginfo \<Rightarrow> ucontext \<Rightarrow> (popf_repeat, ucontext) prog" where
  "popf_repeat_handler a h sig info ctx =
     (let rip = widen a (REG_RIP (gregs ctx)) in
      seq (block [
        ASSERT (sig = SIGTRAP),
        ASSERT (si_code info = TRAP_TRACE),
        ASSERT (si_addr info = to_ptr a rip),
        ASSERT_ret get_tf (\<lambda>b. b = False),
        incr pr_count (\<lambda>n. pr_count_update (\<lambda>_. n))])
      (Return ctx))"

text \<open>\<^verbatim>\<open>body\<close>, at \<open>code\<close>, and \<^verbatim>\<open>run\<close>, which calls it.\<close>

definition popf_repeat_body :: "u64 \<Rightarrow> u64 \<Rightarrow> (popf_repeat, unit) prog" where
  "popf_repeat_body code back = block [nops code 4, exec_insn (Branch back) (code + 4)]"

definition popf_repeat_run :: "u64 \<Rightarrow> u64 \<Rightarrow> u64 \<Rightarrow> (popf_repeat, unit) prog" where
  "popf_repeat_run code body back = block [
     bind (exec_insn_get Pushf code) (\<lambda>w. block [
       exec_insn (Other_insn 7) (code + 1),
       exec_insn (Popf (w OR 0x100)) (code + 8)]),
     exec_insn Nop (code + 9),
     exec_insn (Branch body) (code + 10),
     popf_repeat_body body (code + 15),
     bind (exec_insn_get Pushf (code + 15)) (\<lambda>w. block [
       exec_insn (Other_insn 7) (code + 16),
       exec_insn (Popf (w AND NOT 0x100)) (code + 23)]),
     exec_insn Nop (code + 24),
     exec_insn Nop (code + 25),
     exec_insn (Branch back) (code + 26)]"

definition popf_repeat_round :: "u64 \<Rightarrow> u64 \<Rightarrow> u64 \<Rightarrow> nat \<Rightarrow> (popf_repeat, unit) prog" where
  "popf_repeat_round code body back i = block [
     modify (pr_count_update (\<lambda>_. 0)),
     popf_repeat_run code body back,
     ASSERT_ret get_tf (\<lambda>b. b = False),
     ASSERT_mem (\<lambda>g. pr_count g = 10),
     for_each [0..<1000] (\<lambda>j. popf_repeat_body body back),
     ASSERT_mem (\<lambda>g. pr_count g = 10)]"

definition popf_repeat_main :: "u64 \<Rightarrow> u64 \<Rightarrow> u64 \<Rightarrow> (popf_repeat, int) prog" where
  "popf_repeat_main code body back =
     seq (block [
       ASSERT_ret (sigaction SIGTRAP (handler_action SA_SIGINFO sigemptyset)) (\<lambda>r. r = 0),
       for_each [0..<8] (popf_repeat_round code body back)])
     (Return 0)"

definition popf_repeat_memory :: popf_repeat where
  "popf_repeat_memory = \<lparr>errno = 0, pr_count = 0\<rparr>"

text \<open>
  Time is told by the calls that \<^verbatim>\<open>main\<close> has made: a handler is entered at \<open>n\<close> if it is entered while \<open>n\<close>
  calls have been answered and the next one is outstanding. \<open>entries_at S l\<close> is the number of entries at
  the times in \<open>S\<close>.
\<close>

primrec entries_at :: "nat set \<Rightarrow> log \<Rightarrow> nat" where
  "entries_at S [] = 0"
| "entries_at S (e # l) = entries_at S l + (if length (main_calls l) \<in> S then length (entered e) else 0)"

text \<open>
  The first call installs the handler. A round is 16 instructions of \<^verbatim>\<open>run\<close> with the \<^verbatim>\<open>body\<close> it calls, the
  read of the flags by \<^verbatim>\<open>main\<close>, and a thousand calls of \<^verbatim>\<open>body\<close> with 5 instructions each.
\<close>

definition round_start :: "nat \<Rightarrow> nat" where
  "round_start i = 1 + 5017 * i"

definition during_run :: "nat \<Rightarrow> nat set" where
  "during_run i = {round_start i ..< round_start i + 17}"

definition during_bodies :: "nat \<Rightarrow> nat set" where
  "during_bodies i = {round_start i + 17 ..< round_start (Suc i)}"

text \<open>The read of the flags is the last call of the first part.\<close>

definition traced :: "nat \<Rightarrow> log \<Rightarrow> bool" where
  "traced i l \<longleftrightarrow> fst (main_calls l ! (round_start i + 16)) = Read_flags \<and> entries_at (during_run i) l = 10"

definition traced_round :: "nat \<Rightarrow> log \<Rightarrow> bool" where
  "traced_round i l \<longleftrightarrow> traced i l \<and> entries_at (during_bodies i) l = 0"

lemma entries_at_later: "length (main_calls l) < n \<Longrightarrow> entries_at {n..} l = 0"
  by (induction l) (auto split: if_splits)

lemma entries_at_Un: "S \<inter> T = {} \<Longrightarrow> entries_at (S \<union> T) l = entries_at S l + entries_at T l"
  by (induction l) auto

lemma entries_split:
  "entries_at {round_start i..} l =
     entries_at (during_run i) l + entries_at (during_bodies i) l + entries_at {round_start (Suc i)..} l"
  "entries_at {round_start i..} l = entries_at (during_run i) l + entries_at {round_start i + 17..} l"
proof -
  have "{round_start i + 17..} = during_bodies i \<union> {round_start (Suc i)..}"
    and "{round_start i..} = during_run i \<union> {round_start i + 17..}"
    by (auto simp: during_run_def during_bodies_def round_start_def)
  moreover have "during_bodies i \<inter> {round_start (Suc i)..} = {}" and "during_run i \<inter> {round_start i + 17..} = {}"
    by (auto simp: during_run_def during_bodies_def)
  ultimately show
    "entries_at {round_start i..} l =
       entries_at (during_run i) l + entries_at (during_bodies i) l + entries_at {round_start (Suc i)..} l"
    "entries_at {round_start i..} l = entries_at (during_run i) l + entries_at {round_start i + 17..} l"
    by (simp_all add: entries_at_Un)
qed

definition popf_repeat_inv :: "arch \<Rightarrow> popf_repeat \<Rightarrow> log \<Rightarrow> bool" where
  "popf_repeat_inv a g l \<longleftrightarrow> each_event (step_event a) l \<and> 0 \<le> active l"

text \<open>While a call is outstanding, the handlers that come and go are counted in the memory.\<close>

definition popf_repeat_rely :: "popf_repeat \<Rightarrow> log \<Rightarrow> popf_repeat \<Rightarrow> log \<Rightarrow> bool" where
  "popf_repeat_rely g l g' l' \<longleftrightarrow> active l' = active l \<and> main_calls l' = main_calls l \<and>
     (\<forall>S. int (entries_at S l') = int (entries_at S l) +
        (if length (main_calls l) \<in> S then pr_count g' - pr_count g else 0))"

definition popf_repeat_exit :: "arch \<Rightarrow> int \<Rightarrow> popf_repeat \<Rightarrow> log \<Rightarrow> bool" where
  "popf_repeat_exit a n g l \<longleftrightarrow> (n = 0 \<longrightarrow> each_event (step_event a) l \<and>
     length (main_calls l) = round_start 8 \<and> list_all (\<lambda>i. traced_round i l) [0..<8])"

lemmas popf_repeat_spec = popf_repeat_inv_def popf_repeat_rely_def popf_repeat_exit_def

interpretation popf_repeat: env_contract "popf_repeat_handler a" "popf_repeat_inv a" popf_repeat_rely
    "popf_repeat_exit a" for a
  by unfold_locales
    (auto simp: wp_calls popf_repeat_handler_def popf_repeat_spec get_tf_def tf_bit Let_def)

text \<open>
  Where \<^verbatim>\<open>main\<close> is in its round \<open>i\<close>, \<open>k\<close> calls after the round's start: the rounds before are as
  they should be, the entries since the start are counted, and nothing has happened since the last call.
\<close>

definition popf_at :: "arch \<Rightarrow> nat \<Rightarrow> nat \<Rightarrow> popf_repeat \<Rightarrow> log \<Rightarrow> bool" where
  "popf_at a i k g l \<longleftrightarrow> popf_repeat_inv a g l \<and> active l = 0 \<and>
     length (main_calls l) = round_start i + k \<and> entries_at {round_start i + k..} l = 0 \<and>
     int (entries_at {round_start i..} l) = pr_count g \<and> list_all (\<lambda>j. traced_round j l) [0..<i]"

text \<open>The same in the second part of the round.\<close>

definition popf_after :: "arch \<Rightarrow> nat \<Rightarrow> nat \<Rightarrow> popf_repeat \<Rightarrow> log \<Rightarrow> bool" where
  "popf_after a i k g l \<longleftrightarrow> popf_at a i (17 + k) g l \<and> traced i l"

lemma rely_past:
  assumes "popf_repeat_rely g l g' l'" and "\<And>n. n \<in> S \<Longrightarrow> n < length (main_calls l)"
  shows "entries_at S l' = entries_at S l"
proof -
  have "length (main_calls l) \<notin> S" using assms(2) [of "length (main_calls l)"] by auto
  then have "int (entries_at S l') = int (entries_at S l)"
    using assms(1) by (simp add: popf_repeat_rely_def)
  then show ?thesis by simp
qed

lemma traced_ans:
  assumes "traced i l" and "popf_repeat_rely g l g' l'" and "round_start i + 17 \<le> length (main_calls l)"
    and "active l = 0" and "own_call e = [(q, r)]"
  shows "traced i (e # l')"
proof -
  have same: "main_calls l' = main_calls l" "active l' = 0"
    using assms(2,4) by (simp_all add: popf_repeat_rely_def)
  have "entries_at (during_run i) l' = entries_at (during_run i) l"
    by (rule rely_past [OF assms(2)]) (use assms(3) in \<open>simp add: during_run_def\<close>)
  moreover have "length (main_calls l) \<notin> during_run i" using assms(3) by (simp add: during_run_def)
  ultimately show ?thesis using assms(1,3,5) same by (simp add: traced_def nth_append)
qed

lemma traced_round_ans:
  assumes "traced_round i l" and "popf_repeat_rely g l g' l'" and "round_start (Suc i) \<le> length (main_calls l)"
    and "active l = 0" and "own_call e = [(q, r)]"
  shows "traced_round i (e # l')"
proof -
  have "entries_at (during_bodies i) l' = entries_at (during_bodies i) l"
    by (rule rely_past [OF assms(2)]) (use assms(3) in \<open>simp add: during_bodies_def\<close>)
  moreover have "length (main_calls l') \<notin> during_bodies i"
    using assms(2,3) by (simp add: during_bodies_def popf_repeat_rely_def)
  moreover have "round_start i + 17 \<le> length (main_calls l)" using assms(3) by (simp add: round_start_def)
  ultimately show ?thesis
    using assms traced_ans [OF _ assms(2)] by (simp add: traced_round_def)
qed

lemma popf_at_ans:
  assumes "popf_at a i k g l" and "popf_repeat_rely g l g' l'" and "popf_repeat_inv a g' l'"
    and "step_event a l' (Ans q r)" and "own_call (Ans q r) = [(q, r)]"
  shows "popf_at a i (Suc k) g' (Ans q r # l')"
proof -
  have none: "entered (Ans q r) = []" using assms(5) by (cases q) simp_all
  have same: "main_calls l' = main_calls l" "active l' = 0"
    using assms(1,2) by (simp_all add: popf_repeat_rely_def popf_at_def)
  have "int (entries_at {round_start i..} l') = pr_count g'"
    using assms(1,2) by (simp add: popf_repeat_rely_def popf_at_def)
  moreover have "entries_at {round_start i + Suc k..} l' = 0"
    using assms(1) same by (intro entries_at_later) (simp add: popf_at_def)
  moreover have "traced_round j (Ans q r # l')" if "j < i" for j
  proof (rule traced_round_ans [OF _ assms(2) _ _ assms(5)])
    have "Suc j \<le> i" using that by simp
    then show "round_start (Suc j) \<le> length (main_calls l)"
      using assms(1) by (simp add: popf_at_def round_start_def)
  qed (use assms(1) that in \<open>simp_all add: popf_at_def list_all_iff\<close>)
  ultimately show ?thesis
    using assms(1,3-5) same none by (simp add: popf_at_def popf_repeat_inv_def list_all_iff)
qed

lemma popf_after_ans:
  assumes "popf_after a i k g l" and "popf_repeat_rely g l g' l'" and "popf_repeat_inv a g' l'"
    and "step_event a l' (Ans q r)" and "own_call (Ans q r) = [(q, r)]"
  shows "popf_after a i (Suc k) g' (Ans q r # l')"
proof -
  have "traced i (Ans q r # l')"
    by (rule traced_ans [OF _ assms(2) _ _ assms(5)]) (use assms(1) in \<open>simp_all add: popf_after_def popf_at_def\<close>)
  then show ?thesis
    using popf_at_ans [OF _ assms(2-5), of i "17 + k"] assms(1) by (simp add: popf_after_def)
qed

text \<open>The instructions of \<^verbatim>\<open>main\<close> count up the calls, in either part.\<close>

definition counts_up :: "arch \<Rightarrow> (nat \<Rightarrow> popf_repeat \<Rightarrow> log \<Rightarrow> bool) \<Rightarrow> bool" where
  "counts_up a P \<longleftrightarrow> (\<forall>k g l. P k g l \<longrightarrow> popf_repeat_inv a g l \<and>
     (\<forall>g' l' i pc r. popf_repeat_rely g l g' l' \<longrightarrow> popf_repeat_inv a g' l' \<longrightarrow>
        P (Suc k) g' (Ans (Exec_insn i pc) r # l')))"

lemma popf_counts_up: "counts_up a (popf_at a i)" "counts_up a (popf_after a i)"
  by (auto simp: counts_up_def intro: popf_at_ans popf_after_ans)
    (auto simp: popf_at_def popf_after_def)

lemma wp_count_insn:
  assumes "counts_up a P" and "P k g l" and "\<And>g l. P (Suc k) g l \<Longrightarrow> Q () g l"
  shows "wp (popf_repeat_inv a) popf_repeat_rely (popf_repeat_exit a) S (exec_insn i pc) Q g l"
  using assms by (auto simp: exec_insn_def counts_up_def)

lemma wp_count_get:
  assumes "counts_up a P" and "P k g l" and "\<And>w g l. P (Suc k) g l \<Longrightarrow> Q w g l"
  shows "wp (popf_repeat_inv a) popf_repeat_rely (popf_repeat_exit a) S (exec_insn_get i pc) Q g l"
  using assms by (auto simp: exec_insn_get_def counts_up_def)

lemma wp_count_nops:
  assumes "counts_up a P" and "P k g l" and "\<And>g l. P (k + n) g l \<Longrightarrow> Q () g l"
  shows "wp (popf_repeat_inv a) popf_repeat_rely (popf_repeat_exit a) S (nops pc n) Q g l"
  unfolding nops_def
  by (rule wp_for_each [where P = "\<lambda>j. P (k + j)"]) (use assms in \<open>auto intro: wp_count_insn\<close>)

lemma wp_count_body:
  assumes "counts_up a P" and "P k g l" and "\<And>g l. P (k + 5) g l \<Longrightarrow> Q () g l"
  shows "wp (popf_repeat_inv a) popf_repeat_rely (popf_repeat_exit a) S (popf_repeat_body code back) Q g l"
  unfolding popf_repeat_body_def block_def seq_def
  by (simp, rule wp_count_nops [OF assms(1,2)], rule wp_count_insn [OF assms(1)], assumption)
    (rule assms(3), simp add: eval_nat_numeral)

lemma wp_count_bodies:
  assumes "popf_after a i 0 g l" and "\<And>g l. popf_after a i (5 * n) g l \<Longrightarrow> Q () g l"
  shows "wp (popf_repeat_inv a) popf_repeat_rely (popf_repeat_exit a) S
    (for_each [0..<n] (\<lambda>j. popf_repeat_body code back)) Q g l"
  by (rule wp_for_each [where P = "\<lambda>j. popf_after a i (5 * j)"])
    (use assms in \<open>auto intro!: wp_count_body [OF popf_counts_up(2)] simp: add.commute\<close>)

lemma wp_count_run:
  assumes "popf_at a i 0 g l" and "\<And>g l. popf_at a i 16 g l \<Longrightarrow> Q () g l"
  shows "wp (popf_repeat_inv a) popf_repeat_rely (popf_repeat_exit a) S
    (popf_repeat_run code body back) Q g l"
proof -
  note steps = wp_count_insn [OF popf_counts_up(1) [of a i]] wp_count_get [OF popf_counts_up(1) [of a i]]
    wp_count_body [OF popf_counts_up(1) [of a i]]
  show ?thesis
    unfolding popf_repeat_run_def block_def seq_def
    by (simp add: wp_bind_fun, rule steps, rule assms(1))
      ((rule steps, assumption)+, rule assms(2), simp add: eval_nat_numeral)
qed

text \<open>The assertions that end the two parts of a round.\<close>

lemma wp_count_tf:
  assumes "popf_at a i 16 g l"
    and "\<And>g l. popf_at a i 17 g l \<Longrightarrow> fst (main_calls l ! (round_start i + 16)) = Read_flags \<Longrightarrow> Q () g l"
  shows "wp (popf_repeat_inv a) popf_repeat_rely (popf_repeat_exit a) S (ASSERT_ret get_tf Not) Q g l"
proof -
  have next_call: "Q () g' (Ans Read_flags r # l')"
    if "popf_repeat_rely g l g' l'" and "popf_repeat_inv a g' l'" and "\<not> bit (r_word r) 8" for g' l' r
  proof (rule assms(2))
    show "popf_at a i 17 g' (Ans Read_flags r # l')"
      using popf_at_ans [OF assms(1) that(1,2), of Read_flags r] that(3) by (simp add: eval_nat_numeral)
    show "fst (main_calls (Ans Read_flags r # l') ! (round_start i + 16)) = Read_flags"
      using assms(1) that(1) by (simp add: popf_at_def popf_repeat_rely_def nth_append)
  qed
  show ?thesis
    using assms(1) next_call
    by (auto simp: ASSERT_ret_def get_tf_def read_flags_def ASSERT_def tf_bit popf_repeat_exit_def popf_at_def)
qed

lemma after_run:
  assumes "popf_at a i 17 g l" and "fst (main_calls l ! (round_start i + 16)) = Read_flags" and "pr_count g = 10"
  shows "popf_after a i 0 g l"
  using assms entries_split(2) [of i l] by (simp add: popf_after_def traced_def popf_at_def)

lemma after_round:
  assumes "popf_after a i 5000 g l" and "pr_count g = 10"
  shows "popf_at a (Suc i) 0 (g\<lparr>pr_count := 0\<rparr>) l" and "traced_round i l"
proof -
  have at: "popf_at a i 5017 g l" and run: "traced i l"
    using assms(1) by (simp_all add: popf_after_def)
  have start: "round_start i + 5017 = round_start (Suc i)" by (simp add: round_start_def)
  have none: "entries_at {round_start (Suc i)..} l = 0" using at unfolding popf_at_def start by simp
  show round: "traced_round i l"
    using at run none assms(2) entries_split(1) [of i l]
    by (simp add: popf_at_def traced_def traced_round_def)
  show "popf_at a (Suc i) 0 (g\<lparr>pr_count := 0\<rparr>) l"
    using at round none unfolding popf_at_def start by (simp add: popf_repeat_inv_def)
qed

text \<open>A round, from its start, whatever \<open>count\<close> is there, to the start of the next one.\<close>

definition round_from :: "arch \<Rightarrow> nat \<Rightarrow> popf_repeat \<Rightarrow> log \<Rightarrow> bool" where
  "round_from a i g l \<longleftrightarrow> popf_at a i 0 (g\<lparr>pr_count := 0\<rparr>) l"

lemma wp_count_round:
  assumes "round_from a i g l"
  shows "wp (popf_repeat_inv a) popf_repeat_rely (popf_repeat_exit a) S
    (popf_repeat_round code body back j) (\<lambda>_. round_from a (Suc i)) g l"
  using assms unfolding round_from_def popf_repeat_round_def block_def seq_def
  by (simp add: modify_def ASSERT_mem_def ASSERT_def wp_bind_fun popf_repeat_exit_def)
    (auto intro!: wp_count_run [of a i] wp_count_tf [of a i, unfolded One_nat_def]
       wp_count_bodies [of a i] after_run after_round(1) simp: popf_repeat_exit_def)

lemma popf_repeat_main_wp:
  "wp (popf_repeat_inv a) popf_repeat_rely (popf_repeat_exit a) (\<lambda>_ _ _. False)
     (popf_repeat_main code body back) (\<lambda>n. popf_repeat_exit a n) popf_repeat_memory []"
proof -
  have rounds: "wp (popf_repeat_inv a) popf_repeat_rely (popf_repeat_exit a) (\<lambda>_ _ _. False)
      (for_each [0..<8] (popf_repeat_round code body back)) Q g l"
    if "round_from a 0 g l" and "\<And>g l. round_from a 8 g l \<Longrightarrow> Q () g l" for Q g l
    by (rule wp_for_each [where P = "round_from a"]) (use that in \<open>auto intro: wp_count_round\<close>)
  show ?thesis
    by (auto simp: popf_repeat_main_def block_def seq_def sigaction_def wp_sysret wp_bind_fun
        ASSERT_ret_def [where p = "sysret q" for q] ASSERT_def popf_repeat_exit_def [of _ 1]
        intro!: rounds)
      (auto simp: round_from_def popf_at_def popf_repeat_spec popf_repeat_memory_def round_start_def
        entries_at_later)
qed

text \<open>
  C33. If \<^verbatim>\<open>trap-flag-popf-repeat\<close> exits 0, then every handler was entered for a single-step trap at
  the address of the saved instruction pointer, and every read of the flags found the trap flag clear. In
  each of the eight rounds exactly ten handlers were entered from the round's first call to the read of the
  flags by \<^verbatim>\<open>main\<close>, and none during the thousand calls of \<^verbatim>\<open>body\<close> that end the round.
\<close>

theorem popf_repeat_verdict:
  assumes "trial (popf_repeat_handler a) (popf_repeat_main code body back) popf_repeat_memory mvs
    = Dead (Exited 0) g l"
  shows "each_event (step_event a) l \<and> length (main_calls l) = round_start 8 \<and>
    list_all (\<lambda>i. traced_round i l) [0..<8]"
  using popf_repeat.verdict [OF popf_repeat_main_wp assms] by (simp only: popf_repeat_exit_def simp_thms)

section \<open>A run of the repeated stepping\<close>

text \<open>
  The loops make the run too long to evaluate; it is followed instruction by instruction. Between its
  instructions the platform differs from its start in the flags \<open>f\<close>, the address \<open>x\<close> and the trap number
  \<open>t\<close> of the last trap, and the handler that is installed.
\<close>

definition stepping :: "arch \<Rightarrow> int \<Rightarrow> int \<Rightarrow> u64 list \<Rightarrow> u64 \<Rightarrow> u64 \<Rightarrow> u64 \<Rightarrow> linux" where
  "stepping a pid u heap f x t = (let k = linux_init a pid u heap in
     k\<lparr>l_actions := (l_actions k)(SIGTRAP := handler_action SA_SIGINFO sigemptyset),
       l_flags := f, l_rip := x, l_trapno := t\<rparr>)"

definition passes :: "arch \<Rightarrow> (popf_repeat, unit) prog \<Rightarrow> int \<Rightarrow> log \<Rightarrow> linux \<Rightarrow> bool" where
  "passes a p n l k \<longleftrightarrow>
     (case run linux_move (popf_repeat_handler a) (settle p [] None \<lparr>errno = 0, pr_count = n\<rparr> l) k of
        None \<Rightarrow> False | Some mw \<Rightarrow> exit_status (fst mw) = Some 0)"

fun insn_effect :: "insn \<Rightarrow> u64 \<Rightarrow> u64 \<Rightarrow> (resp \<times> u64 \<times> u64) option" where
  "insn_effect Nop a f = Some (resp0, a + 1, f)"
| "insn_effect Pushf a f = Some (resp0\<lparr>r_word := f\<rparr>, a + 1, f)"
| "insn_effect (Popf w) a f = Some (resp0, a + 1, w)"
| "insn_effect (Branch b) a f = Some (resp0, b, f)"
| "insn_effect (Other_insn n) a f = Some (resp0, a + of_nat n, f)"
| "insn_effect _ a f = None"

lemma do_insn_effect:
  assumes "insn_effect i b f = Some (r, x', f')"
  shows "do_insn i b (stepping a pid u heap f x t)
    = trace_trap r x' (stepping a pid u heap f x t) (stepping a pid u heap f' x t)"
  using assms
  by (cases i) (auto simp: do_insn_def stepping_def Let_def linux_init_def)

lemma effect_ret: "insn_effect i b f = Some (r, x', f') \<Longrightarrow> r\<lparr>ret := 0\<rparr> = r \<and> ret r = 0"
  by (cases "(i, b, f)" rule: insn_effect.cases) (auto simp: resp0_def)

lemma effect_move:
  assumes "insn_effect i b f = Some (r, x', f')"
  shows "linux_move (stepping a pid u heap f x t) (Exec_insn i b)
    = trace_trap r x' (stepping a pid u heap f x t) (stepping a pid u heap f' x t)"
  using do_insn_effect [OF assms] by (simp add: linux_move_def) (simp add: stepping_def Let_def linux_init_def)

lemma quiet_move:
  "\<not> bit f 8 \<Longrightarrow> trace_trap r x' (stepping a pid u heap f x t) (stepping a pid u heap f' x t)
    = (Answer r, stepping a pid u heap f' x t)"
  by (simp add: stepping_def trace_trap_def leave_def dequeue_def linux_init_def Let_def)

lemma passes_quiet:
  assumes "insn_effect i b f = Some (r, x', f')" and "\<not> bit f 8"
    and "\<And>l. passes a (c r) n l (stepping a pid u heap f' x t)"
  shows "passes a (Call (Exec_insn i b) c) n l (stepping a pid u heap f x t)"
  using assms(2,3)
  by (simp add: passes_def run_Live effect_move [OF assms(1)] quiet_move)

text \<open>The platform while the handler of a trap runs.\<close>

definition in_handler :: "arch \<Rightarrow> int \<Rightarrow> int \<Rightarrow> u64 list \<Rightarrow> u64 \<Rightarrow> u64 \<Rightarrow> resp \<Rightarrow> linux" where
  "in_handler a pid u heap f x r = (stepping a pid u heap (f AND NOT 0x500) x 1)
     \<lparr>l_blocked := sigbit SIGTRAP, l_frames := [Some r],
      l_sp := frame_sp a (case a of X64 \<Rightarrow> 0x7fffef80 | X86 \<Rightarrow> 0x7ffff000)\<rparr>"

definition trap_ctx :: "arch \<Rightarrow> int \<Rightarrow> int \<Rightarrow> u64 list \<Rightarrow> u64 \<Rightarrow> u64 \<Rightarrow> resp \<Rightarrow> ucontext" where
  "trap_ctx a pid u heap f x r = make_ctx (stepping a pid u heap f x 1) r"

lemmas stepping_unfold = stepping_def in_handler_def trap_ctx_def handler_action_def Let_def
  linux_unfold sigset_unfold

lemma trap_move:
  "bit f 8 \<Longrightarrow> trace_trap r x' (stepping a pid u heap f x t) (stepping a pid u heap f' x t)
    = (Deliver 0 SIGTRAP (fault_info SIGTRAP TRAP_TRACE x') (trap_ctx a pid u heap f' x' r),
       in_handler a pid u heap f' x' r)"
  by (cases a) (simp_all add: trace_trap_def stepping_unfold)

lemma handler_moves:
  "linux_move (in_handler a pid u heap f x r) (Enter s i c) = (Answer resp0, in_handler a pid u heap f x r)"
  "linux_move (in_handler a pid u heap f x r) Read_flags
    = (Answer (resp0\<lparr>r_word := f AND NOT 0x500\<rparr>), in_handler a pid u heap f x r)"
  by (cases a; simp add: linux_move_def stepping_unfold)+

lemma return_move:
  "linux_move (in_handler a pid u heap f x r) (Sigreturn (trap_ctx a pid u heap f x r))
    = (Resume, (stepping a pid u heap f x 1)\<lparr>l_answer := Some (r\<lparr>ret := sint (word_of_int (ret r) :: u64)\<rparr>)\<rparr>)"
  by (cases a) (simp_all add: linux_move_def stepping_unfold init_fp_def restored_fp_def saved_fp_def)

lemma back_move:
  "linux_move ((stepping a pid u heap f x t)\<lparr>l_answer := Some r\<rparr>) q = (Answer r, stepping a pid u heap f x t)"
  by (simp add: linux_move_def stepping_unfold)

lemma trap_rip [simp]: "REG_RIP (gregs (trap_ctx a pid u heap f x r)) = x"
  by (simp add: trap_ctx_def make_ctx_def saved_gregs_def stepping_def Let_def)

lemma tf_cleared: "\<not> bit (f AND NOT 0x500) 8" for f :: u64
  using and_exp_eq_0_iff_not_bit [of "f AND NOT 0x500" 8] by (simp add: and.assoc)

lemma passes_traced:
  assumes "insn_effect i b f = Some (r, x', f')" and "bit f 8" and "0 \<le> n" and "n < 100"
    and "to_ptr a (widen a x') = x'"
    and "\<And>l. passes a (c r) (n + 1) l (stepping a pid u heap f' x' 1)"
  shows "passes a (Call (Exec_insn i b) c) n l (stepping a pid u heap f x t)"
  using assms(2-6) effect_ret [OF assms(1)] tf_cleared [of f']
  by (simp add: passes_def run_Live effect_move [OF assms(1)] trap_move)
    (simp add: handler_prog_def popf_repeat_handler_def statement_defs handler_moves run_Live
      read_flags_def get_tf_def tf_bit fault_info_def in_c_int_def return_move back_move Let_def ASSERT_def)

lemma passes_bodies:
  assumes "\<not> bit f 8" and "\<And>l. passes a (c ()) n l (stepping a pid u heap f x t)"
  shows "passes a (bind (for_each is (\<lambda>_. popf_repeat_body code back)) c) n l (stepping a pid u heap f x t)"
proof (induction "is" arbitrary: l)
  case Nil
  then show ?case using assms(2) by (simp add: for_each_def block_def)
next
  case (Cons i "is")
  then show ?case
    using assms(1)
    by (simp add: for_each_def block_def seq_def bind_assoc popf_repeat_body_def nops_def upt_rec
       exec_insn_def call_def ignore_def skip_def passes_quiet)
qed

text \<open>Statements that no signal comes into.\<close>

lemma passes_put: "passes a (Get (\<lambda>g. Put (g\<lparr>pr_count := m\<rparr>) (c g))) n l k
    \<longleftrightarrow> passes a (c \<lparr>errno = 0, pr_count = n\<rparr>) m l k"
  by (simp add: passes_def)

lemma passes_get: "passes a (Get c) n l k \<longleftrightarrow> passes a (c \<lparr>errno = 0, pr_count = n\<rparr>) n l k"
  by (simp add: passes_def)

lemma passes_read_flags:
  "passes a (Call Read_flags c) n l (stepping a pid u heap f x t)
    \<longleftrightarrow> passes a (c (resp0\<lparr>r_word := f\<rparr>)) n (Ans Read_flags (resp0\<lparr>r_word := f\<rparr>) # l) (stepping a pid u heap f x t)"
proof -
  have "linux_move (stepping a pid u heap f x t) Read_flags
    = (Answer (resp0\<lparr>r_word := f\<rparr>), stepping a pid u heap f x t)"
    by (simp add: linux_move_def stepping_unfold)
  then show ?thesis by (simp add: passes_def run_Live)
qed

lemma low_code:
  fixes x :: u64
  assumes "x < 0x80000000"
  shows "to_ptr a (widen a x) = x"
proof -
  have "to_ptr a (widen a x) = to_ptr a x"
    by (cases a) (simp_all add: to_ptr_def widen_def greg_def, transfer, simp add: take_bit_signed_take_bit)
  moreover have "take_bit 32 x = x"
    using assms order.strict_trans [OF assms, of "0x100000000"] by (simp add: take_bit_eq_mod mod_word_less)
  ultimately show ?thesis by (simp add: to_ptr_def split: arch.splits)
qed

lemma passes_run:
  assumes "\<And>l x t. passes a (c ()) 10 l (stepping a pid u heap 0x202 x t)"
  shows "passes a (bind (popf_repeat_run 0x400010 0x400000 0x401000) c) 0 l (stepping a pid u heap 0x202 x t)"
  using assms
  by (simp add: popf_repeat_run_def popf_repeat_body_def nops_def upt_rec for_each_def block_def seq_def bind_assoc
       exec_insn_def exec_insn_get_def call_def ignore_def skip_def passes_quiet passes_traced low_code
)


lemma passes_round:
  assumes "\<And>l x t. passes a (c ()) 10 l (stepping a pid u heap 0x202 x t)"
  shows "passes a (bind (popf_repeat_round 0x400010 0x400000 0x401000 i) c) n l (stepping a pid u heap 0x202 x t)"
  by (simp add: popf_repeat_round_def block_def seq_def bind_assoc modify_def passes_put passes_get ASSERT_mem_def ASSERT_def
      ASSERT_ret_def get_tf_def read_flags_def passes_read_flags)
    (intro passes_run, simp add: passes_read_flags passes_get passes_bodies assms)

lemma passes_rounds:
  assumes "\<And>n l x t. passes a (c ()) n l (stepping a pid u heap 0x202 x t)"
  shows "passes a (bind (for_each is (popf_repeat_round 0x400010 0x400000 0x401000)) c) n l
    (stepping a pid u heap 0x202 x t)"
proof (induction "is" arbitrary: n l x t)
  case Nil
  then show ?case using assms by (simp add: for_each_def block_def)
next
  case (Cons i "is")
  then show ?case by (simp add: for_each_def block_def seq_def bind_assoc passes_round)
qed

lemma passes_main:
  "passes a (bind (popf_repeat_main 0x400010 0x400000 0x401000) Exit) 0 [] (linux_init a pid u heap)"
proof -
  have "linux_move (linux_init a pid u heap) (Rt_sigaction SIGTRAP (Some (handler_action SA_SIGINFO sigemptyset)))
     = (Answer resp0, stepping a pid u heap 0x202 0x401002 0)"
    by (simp add: linux_move_def stepping_unfold)
  then have "passes a (Call (Rt_sigaction SIGTRAP (Some (handler_action SA_SIGINFO sigemptyset))) c) n l
      (linux_init a pid u heap) \<longleftrightarrow> passes a (c resp0) n (Ans (Rt_sigaction SIGTRAP
        (Some (handler_action SA_SIGINFO sigemptyset))) resp0 # l) (stepping a pid u heap 0x202 0x401002 0)" for c n l
    by (simp add: passes_def run_Live)
  moreover have "ret resp0 = 0" by (simp add: resp0_def)
  ultimately show ?thesis
    by (simp add: popf_repeat_main_def block_def seq_def bind_assoc sigaction_def sysret_def sys_def
        libc_defs ASSERT_ret_def ASSERT_def statement_defs passes_get)
      (rule passes_rounds, simp add: passes_def)
qed

lemma popf_repeat_linux:
  "linux_run (linux_init a pid u heap) (popf_repeat_handler a) (popf_repeat_main 0x400010 0x400000 0x401000)
     popf_repeat_memory = Some 0"
  using passes_main [of a pid u heap]
  by (auto simp: passes_def linux_run_def boot_def popf_repeat_memory_def split: option.splits)

theorem popf_repeat_verdict_witness:
  "\<exists>mvs g l. trial (popf_repeat_handler X64) (popf_repeat_main 0x400010 0x400000 0x401000) popf_repeat_memory mvs
      = Dead (Exited 0) g l \<and>
    (each_event (step_event X64) l \<and> length (main_calls l) = round_start 8 \<and>
     list_all (\<lambda>i. traced_round i l) [0..<8])"
  by (rule linux_witness [OF popf_repeat_linux [of X64 1 0 "[]"] popf_repeat_verdict])

text \<open>The three tests of the trap flag accept Linux.\<close>

lemma stepping_accept_linux:
  "linux_run ((linux_init a pid u heap)\<lparr>l_bytes := trap_flag_text 0x400010\<rparr>) (trap_flag_handler a)
     (trap_flag_main 0x400010 0x401000) trap_flag_memory = Some 0 \<and>
   linux_run (linux_init a pid u heap) (popf_clear_handler a) (popf_clear_main a 0x400010 0x401000)
     popf_clear_memory = Some 0 \<and>
   linux_run (linux_init a pid u heap) (popf_repeat_handler a) (popf_repeat_main 0x400010 0x400000 0x401000)
     popf_repeat_memory = Some 0"
  by (intro conjI trap_flag_linux popf_clear_linux popf_repeat_linux)

end
