(* ===== verification/Jumps.thy ===== *)
theory Jumps
  imports Linux
begin

text \<open>
  The test of jumps out of signal handlers, \<^verbatim>\<open>longjmp-no-overflow\<close>. Its handler never returns:
  the stack of interrupted requests shrinks by jumps only. The theory follows the machine itself,
  as the contracts of the other tests do not know about jumps.
\<close>

section \<open>\<^verbatim>\<open>longjmp-no-overflow.cpp\<close>\<close>

record longjmp_test = memory +
  jump_count :: u64

definition longjmp_handler ::
  "nat \<Rightarrow> signum \<Rightarrow> siginfo \<Rightarrow> ucontext \<Rightarrow> (longjmp_test, ucontext) prog" where
  "longjmp_handler h sig info ctx =
     seq (ignore (sigprocmask SIG_SETMASK (uc_sigmask ctx))) (longjmp 42)"

definition max_jumps :: u64 where
  "max_jumps = 128 * 1024"

text \<open>What follows the \<^verbatim>\<open>setjmp\<close>, whose result is not used.\<close>

definition longjmp_again :: "int \<Rightarrow> (longjmp_test, int) prog" where
  "longjmp_again val =
     bind get (\<lambda>g. let old = jump_count g in
       seq (block [
         modify (jump_count_update (\<lambda>n. n + 1)),
         if_then (old < max_jumps) (ignore (raise SIGUSR1)),
         ASSERT_mem (\<lambda>g. jump_count g = max_jumps + 1)])
       (Return 0))"

definition longjmp_main :: "(longjmp_test, int) prog" where
  "longjmp_main =
     seq (ASSERT_ret (sigaction SIGUSR1 (handler_action SA_SIGINFO sigemptyset)) (\<lambda>r. r = 0))
     (Setjmp longjmp_again)"

definition longjmp_memory :: longjmp_test where
  "longjmp_memory = \<lparr>errno = 0, jump_count = 0\<rparr>"

section \<open>Jumps in the log\<close>

fun is_jump :: "event \<Rightarrow> bool" where
  "is_jump (Jmp n) = True"
| "is_jump _ = False"

definition jumps :: "log \<Rightarrow> nat" where
  "jumps l = length (filter is_jump l)"

lemma jumps_simps [simp]:
  "jumps [] = 0"
  "jumps (e # l) = (if is_jump e then Suc (jumps l) else jumps l)"
  by (simp_all add: jumps_def)

section \<open>Programs that only end by a jump\<close>

text \<open>
  A program that keeps the count, makes ordinary requests, and goes on until it asks for a jump.
\<close>

primrec escapes :: "(longjmp_test, 'a) prog \<Rightarrow> u64 \<Rightarrow> bool" where
  "escapes (Return v) = (\<lambda>n. False)"
| "escapes (Exit e) = (\<lambda>n. False)"
| "escapes Undefined = (\<lambda>n. True)"
| "escapes Out_of_fuel = (\<lambda>n. True)"
| "escapes (Get k) = (\<lambda>n. \<forall>g. jump_count g = n \<longrightarrow> escapes (k g) n)"
| "escapes (Put g p) = (\<lambda>n. jump_count g = n \<and> escapes p n)"
| "escapes (Print s p) = (\<lambda>n. escapes p n)"
| "escapes (Setjmp k) = (\<lambda>n. False)"
| "escapes (Call q k) = (\<lambda>n. q = Longjmp 42 \<or> \<not> is_return q \<and> (\<forall>r. escapes (k r) n))"

definition frame_escapes :: "u64 \<Rightarrow> longjmp_test frame \<Rightarrow> bool" where
  "frame_escapes n f \<longleftrightarrow> escapes (Call (fst f) (snd f)) n"

lemma escapes_bind: "escapes p n \<Longrightarrow> escapes (bind p f) n"
  by (induction p) auto

lemma escapes_seq: "(\<forall>n. escapes q n) \<Longrightarrow> escapes (seq (ignore (sysret (Rt_sigprocmask h m))) q) n"
  by (simp add: seq_def ignore_def sysret_def sys_def skip_def)

lemma handler_escapes: "escapes (handler_prog longjmp_handler h s i c) n"
  by (simp add: handler_prog_def longjmp_handler_def sigprocmask_def)
    (intro escapes_bind escapes_seq; simp add: longjmp_def)

text \<open>Such a program waits again, with the count and the number of jumps as they were, or does not exit.\<close>

fun waits :: "longjmp_test frame list \<Rightarrow> longjmp_test jmpbuf option \<Rightarrow> u64 \<Rightarrow> nat \<Rightarrow> longjmp_test machine \<Rightarrow> bool" where
  "waits fs jb n j (Live f fs' jb' g l) \<longleftrightarrow>
     fs' = fs \<and> jb' = jb \<and> frame_escapes n f \<and> jump_count g = n \<and> jumps l = j"
| "waits fs jb n j (Dead r g l) \<longleftrightarrow> (\<forall>e. r \<noteq> Exited e)"

lemma settle_escapes:
  "escapes p (jump_count g) \<Longrightarrow> waits fs jb (jump_count g) (jumps l) (settle p fs jb g l)"
proof (induction p arbitrary: g l)
  case (Put g' p)
  from Put.IH [of g' l] Put.prems show ?case by simp
next
  case (Print s p)
  from Print.IH [of g "Out s # l"] Print.prems show ?case by simp
qed (auto simp: frame_escapes_def)

section \<open>The invariant\<close>

text \<open>
  Handlers are stacked on a request of \<^verbatim>\<open>main\<close>: on \<^verbatim>\<open>sigaction\<close> before the first \<^verbatim>\<open>setjmp\<close>, on
  \<^verbatim>\<open>raise\<close> after it. The bottom of the stack goes on with the continuation of \<^verbatim>\<open>main\<close>.
\<close>

definition after_setjmp :: "int \<Rightarrow> (longjmp_test, unit) prog" where
  "after_setjmp val = bind (longjmp_again val) Exit"

definition after_count :: "(longjmp_test, unit) prog" where
  "after_count = bind (seq (block [ignore (raise SIGUSR1),
     ASSERT_mem (\<lambda>g. jump_count g = max_jumps + 1)]) (Return 0)) Exit"

lemma settle_after_setjmp:
  "settle (after_setjmp val) fs jb g l =
     (if jump_count g < max_jumps
      then settle after_count fs jb
        (g\<lparr>jump_count := jump_count g + 1\<rparr>) l
      else if jump_count g = max_jumps then Dead (Exited 0) (g\<lparr>jump_count := jump_count g + 1\<rparr>) l
      else Dead (Exited 1) (g\<lparr>jump_count := jump_count g + 1\<rparr>) (Out Condition_failed # l))"
  by (cases g) (auto simp: after_setjmp_def after_count_def longjmp_again_def statement_defs ASSERT_def Let_def)

definition raise_frame :: "longjmp_test frame \<Rightarrow> bool" where
  "raise_frame f \<longleftrightarrow> fst f = Raise SIGUSR1 \<and> (\<forall>r fs jb g l. jump_count g \<le> max_jumps \<longrightarrow>
     (\<exists>g'. settle (snd f r) fs jb g l = Dead (Exited 1) g' (Out Condition_failed # l)))"

lemma settle_raise:
  "\<exists>f. raise_frame f \<and> (\<forall>fs jb g l. settle after_count fs jb g l = Live f fs jb g l)"
  by (auto simp: after_count_def raise_frame_def max_jumps_def statement_defs raise_def sysret_def sys_def ASSERT_def)

definition install_frame :: "longjmp_test frame \<Rightarrow> bool" where
  "install_frame f \<longleftrightarrow> \<not> is_return (fst f) \<and> (\<forall>r fs jb g l.
     (\<exists>g'. settle (snd f r) fs jb g l = Dead (Exited 1) g' (Out Condition_failed # l)) \<or>
     settle (snd f r) fs jb g l = settle (after_setjmp 0) fs (Some (after_setjmp, fs)) g l)"

lemma boot_install:
  "\<exists>f. install_frame f \<and> boot longjmp_main g = Live f [] None g []"
  by (auto simp: install_frame_def boot_def longjmp_main_def after_setjmp_def [abs_def] statement_defs
    sigaction_def sysret_def sys_def ASSERT_def)

definition stacked :: "(longjmp_test frame \<Rightarrow> bool) \<Rightarrow> u64 \<Rightarrow> longjmp_test frame list \<Rightarrow> bool" where
  "stacked b n fs \<longleftrightarrow> (\<exists>hs x. fs = hs @ [x] \<and> list_all (frame_escapes n) hs \<and> b x)"

lemma stacked_Nil [simp]: "\<not> stacked b n []"
  by (simp add: stacked_def)

lemma stacked_single [simp]: "stacked b n [f] \<longleftrightarrow> b f"
  by (auto simp: stacked_def append_eq_Cons_conv Cons_eq_append_conv)

lemma stacked_Cons: "stacked b n (f # fs) \<longleftrightarrow> fs = [] \<and> b f \<or> frame_escapes n f \<and> stacked b n fs"
  by (fastforce simp: stacked_def Cons_eq_append_conv)

text \<open>The count is that of the \<^verbatim>\<open>setjmp\<close> returns: one more than there have been jumps.\<close>

fun longjmp_inv :: "longjmp_test machine \<Rightarrow> bool" where
  "longjmp_inv (Live f fs None g l) \<longleftrightarrow>
     jump_count g = 0 \<and> jumps l = 0 \<and> stacked install_frame 0 (f # fs)"
| "longjmp_inv (Live f fs (Some (k, fs0)) g l) \<longleftrightarrow>
     k = after_setjmp \<and> fs0 = [] \<and> jumps l < 131072 \<and> jump_count g = of_nat (jumps l) + 1 \<and>
     stacked raise_frame (jump_count g) (f # fs)"
| "longjmp_inv (Dead r g l) \<longleftrightarrow> (\<forall>n. r = Exited n \<longrightarrow> (n = 0 \<longleftrightarrow> jumps l = 131072))"

lemma max_jumps: "max_jumps = 131072"
  by (simp add: max_jumps_def)

lemma less_max:
  assumes "n \<le> 131072"
  shows "(of_nat n :: u64) < max_jumps \<longleftrightarrow> n < 131072" and "(of_nat n :: u64) = max_jumps \<longleftrightarrow> n = 131072"
    and "n < 131072 \<Longrightarrow> (of_nat n :: u64) + 1 \<le> max_jumps"
proof -
  have n: "unat (of_nat n :: u64) = n" "unat (1 + of_nat n :: u64) = Suc n"
    using assms unat_of_nat [of n, where 'a = 64] unat_of_nat [of "Suc n", where 'a = 64] by simp_all
  show "(of_nat n :: u64) < max_jumps \<longleftrightarrow> n < 131072"
    using n by (simp add: max_jumps word_less_nat_alt)
  show "(of_nat n :: u64) = max_jumps \<longleftrightarrow> n = 131072"
    using n by (simp add: max_jumps word_unat_eq_iff)
  show "(of_nat n :: u64) + 1 \<le> max_jumps" if "n < 131072"
    by (rule inc_le) (use n that in \<open>simp add: max_jumps word_less_nat_alt\<close>)
qed

lemma restart_inv:
  assumes "jumps l \<le> 131072" and "jump_count g = of_nat (jumps l)"
  shows "longjmp_inv (settle (after_setjmp val) [] (Some (after_setjmp, [])) g l)"
proof -
  obtain f where f: "raise_frame f"
    "settle after_count fs jb g l = Live f fs jb g l" for fs jb g l
    using settle_raise by blast
  show ?thesis
    using assms f(1) by (simp add: settle_after_setjmp f(2) max_jumps less_max [unfolded max_jumps])
qed

text \<open>A handler that waits again, stacked on a request.\<close>

lemma waits_inv:
  assumes "longjmp_inv (Live f fs jb g l)" and "fs' = f # fs \<or> fs' = fs \<and> fs \<noteq> []"
    and "waits fs' jb (jump_count g) (jumps l) m"
  shows "longjmp_inv m"
proof (cases m)
  case (Live f' fs2 jb2 g' l')
  then have eqs: "fs2 = fs'" "jb2 = jb" "frame_escapes (jump_count g) f'" "jump_count g' = jump_count g" "jumps l' = jumps l"
    using assms(3) by auto
  have "stacked b n fs'" if "stacked b n (f # fs)" for b n
    using that assms(2) by (auto simp: stacked_Cons)
  then show ?thesis
    using assms(1) eqs Live by (cases jb) (auto simp: stacked_Cons)
next
  case (Dead r g' l')
  then show ?thesis using assms(3) by simp
qed

lemma no_sigreturn: "\<forall>c. q \<noteq> Sigreturn c \<Longrightarrow> step H (Live (q, k) fs jb g l) Resume = Live (q, k) fs jb g l"
  by (cases q) auto

lemma no_longjmp: "\<forall>n. q \<noteq> Longjmp n \<Longrightarrow> step H (Live (q, k) fs jb g l) Jump = Live (q, k) fs jb g l"
  by (cases q) auto

lemma step_inv:
  assumes "longjmp_inv m"
  shows "longjmp_inv (step longjmp_handler m mv)"
proof (cases m)
  case (Dead r g l)
  with assms show ?thesis by simp
next
  case (Live f fs jb g l)
  obtain q k where f: "f = (q, k)" by fastforce
  have inv: "longjmp_inv (Live (q, k) fs jb g l)" using assms Live f by simp
  then consider (install) "fs = []" "jb = None" "install_frame (q, k)"
    | (raise) "fs = []" "raise_frame (q, k)" "jb = Some (after_setjmp, [])"
    | (handler) "fs \<noteq> []" "frame_escapes (jump_count g) (q, k)"
    by (cases jb; cases fs) (auto simp: stacked_Cons)
  note cases = this
  show ?thesis
  proof (cases mv)
    case (Answer r)
    show ?thesis using cases
    proof cases
      case install
      have "longjmp_inv (settle (after_setjmp 0) [] (Some (after_setjmp, [])) g (Ans q r # l))"
        using inv install by (intro restart_inv) simp_all
      moreover from install(3) have "(\<exists>g'. settle (k r) [] None g (Ans q r # l)
          = Dead (Exited 1) g' (Out Condition_failed # Ans q r # l)) \<or>
        settle (k r) [] None g (Ans q r # l)
          = settle (after_setjmp 0) [] (Some (after_setjmp, [])) g (Ans q r # l)"
        by (simp add: install_frame_def)
      ultimately have "longjmp_inv (settle (k r) [] None g (Ans q r # l))"
        using inv install by auto
      then show ?thesis using install Live f Answer by (simp add: install_frame_def)
    next
      case raise
      have "jump_count g \<le> max_jumps" using inv raise less_max(3) [of "jumps l"] by simp
      with raise obtain g' where "settle (k r) [] jb g (Ans q r # l) = Dead (Exited 1) g' (Out Condition_failed # Ans q r # l)"
        unfolding raise_frame_def by fastforce
      then show ?thesis using raise inv Live f Answer by (simp add: raise_frame_def)
    next
      case handler
      show ?thesis
      proof (cases "is_return q")
        case False
        then have "escapes (k r) (jump_count g)" using handler by (auto simp: frame_escapes_def)
        then have "longjmp_inv (settle (k r) fs jb g (Ans q r # l))"
          using settle_escapes [of "k r" g fs jb "Ans q r # l"] handler(1)
          by (intro waits_inv [OF inv]) simp_all
        then show ?thesis using False Live f Answer by simp
      qed (use inv Live f Answer in simp)
    qed
  next
    case (Deliver h s i c)
    have "longjmp_inv (settle (handler_prog longjmp_handler h s i c) ((q, k) # fs) jb g l)"
      by (rule waits_inv [OF inv _ settle_escapes [OF handler_escapes]]) simp
    then show ?thesis using Live f Deliver by simp
  next
    case Resume
    have "\<forall>c. q \<noteq> Sigreturn c"
      using cases by cases (auto simp: install_frame_def raise_frame_def frame_escapes_def)
    then have "step longjmp_handler m mv = Live (q, k) fs jb g l"
      unfolding Live f Resume by (rule no_sigreturn)
    with inv show ?thesis by (simp only:)
  next
    case Jump
    show ?thesis
    proof (cases "\<exists>n. q = Longjmp n")
      case True
      then have q: "fs \<noteq> []" "q = Longjmp 42"
        using cases by (cases; force simp: install_frame_def raise_frame_def frame_escapes_def)+
      show ?thesis
      proof (cases jb)
        case None
        with inv Live f Jump q show ?thesis by simp
      next
        case (Some kj)
        then have kj: "kj = (after_setjmp, [])" using inv by (cases kj) simp
        have "longjmp_inv (settle (after_setjmp 42) [] jb g (Jmp 42 # l))"
          unfolding Some kj using inv Some kj by (intro restart_inv) simp_all
        then show ?thesis using Live f Jump q Some kj by simp
      qed
    next
      case False
      then have "step longjmp_handler m mv = Live (q, k) fs jb g l"
        unfolding Live f Jump by (intro no_longjmp) blast
      with inv show ?thesis by (simp only:)
    qed
  qed (use Live f inv in simp_all)
qed

lemma replay_inv: "longjmp_inv m \<Longrightarrow> longjmp_inv (replay longjmp_handler m mvs)"
  by (induction mvs arbitrary: m) (simp_all add: step_inv)

lemma trial_inv: "longjmp_inv (trial longjmp_handler longjmp_main longjmp_memory mvs)"
proof -
  obtain f where "install_frame f" "boot longjmp_main longjmp_memory = Live f [] None longjmp_memory []"
    using boot_install by blast
  then have "longjmp_inv (boot longjmp_main longjmp_memory)"
    by (simp add: longjmp_memory_def)
  then show ?thesis by (simp add: trial_def replay_inv)
qed

definition all_jumped :: "log \<Rightarrow> bool" where
  "all_jumped l \<longleftrightarrow> jumps l = 131072"

text \<open>
  C4. \<^verbatim>\<open>longjmp-no-overflow\<close> exits 0 exactly on the runs in which its handler has jumped back to
  \<^verbatim>\<open>main\<close> 131072 times.
\<close>

theorem longjmp_decided: "decides longjmp_handler longjmp_main longjmp_memory all_jumped"
proof (rule decidesI)
  fix mvs n g l
  assume "trial longjmp_handler longjmp_main longjmp_memory mvs = Dead (Exited n) g l"
  then show "n = 0 \<longleftrightarrow> all_jumped l" using trial_inv [of mvs] by (simp add: all_jumped_def)
qed

text \<open>
  C15. Every jump unwinds all handlers: when a jump does not end \<^verbatim>\<open>longjmp-no-overflow\<close>, its \<^verbatim>\<open>main\<close> waits
  at the next \<^verbatim>\<open>raise\<close> with no interrupted request on the stack, however deep the handlers were nested,
  and \<open>count\<close> is one more than there have been jumps.
\<close>

theorem longjmp_unwinds:
  assumes "trial longjmp_handler longjmp_main longjmp_memory mvs = Live f0 fs0 jb0 g0 l0"
    and "step longjmp_handler (trial longjmp_handler longjmp_main longjmp_memory mvs) Jump
      = Live f fs jb g (Jmp n # l0)"
  shows "fs = [] \<and> fst f = Raise SIGUSR1 \<and> jump_count g = of_nat (jumps l0) + 2"
proof -
  have inv: "longjmp_inv (Live f0 fs0 jb0 g0 l0)" using trial_inv [of mvs] assms(1) by simp
  obtain r where r: "raise_frame r" "settle after_count fs jb g l = Live r fs jb g l" for fs jb g l
    using settle_raise by blast
  obtain q k where f0: "f0 = (q, k)" by fastforce
  show ?thesis
    using assms(2) inv r(1) unfolding assms(1) f0
    by (auto simp: settle_after_setjmp r(2) raise_frame_def split: req.splits option.splits if_splits)
qed

text \<open>A nested handler that jumps: its first two requests answered, over a handler that waits at its own first.\<close>

definition nested_moves :: "siginfo \<Rightarrow> ucontext \<Rightarrow> move list" where
  "nested_moves i c = [Answer resp0, Deliver 0 SIGUSR1 i c, Deliver 0 SIGUSR1 i c, Answer resp0, Answer resp0]"

lemma nested_jump:
  "\<exists>f0 fs0 jb0 g0 l0 f fs jb g.
     trial longjmp_handler longjmp_main longjmp_memory (nested_moves i c) = Live f0 fs0 jb0 g0 l0 \<and>
     length fs0 = 2 \<and>
     step longjmp_handler (trial longjmp_handler longjmp_main longjmp_memory (nested_moves i c)) Jump
       = Live f fs jb g (Jmp 42 # l0)"
  by (simp add: nested_moves_def trial_def boot_def longjmp_main_def longjmp_again_def longjmp_memory_def
    longjmp_handler_def handler_prog_def statement_defs call_defs ASSERT_def sys_def resp0_def max_jumps_def)

section \<open>The run on Linux\<close>

text \<open>
  The run is too long to evaluate; every jump leads the platform back to the state in which the
  handler is installed and \<^verbatim>\<open>main\<close> runs.
\<close>

definition handling :: "arch \<Rightarrow> int \<Rightarrow> int \<Rightarrow> u64 list \<Rightarrow> linux" where
  "handling a pid u heap = (let k = linux_init a pid u heap in
     k\<lparr>l_actions := (l_actions k)(SIGUSR1 := handler_action SA_SIGINFO sigemptyset)\<rparr>)"

definition interrupted :: "arch \<Rightarrow> int \<Rightarrow> int \<Rightarrow> u64 list \<Rightarrow> sigset \<Rightarrow> linux" where
  "interrupted a pid u heap m = (handling a pid u heap)\<lparr>l_blocked := m,
     l_sp := frame_sp a (case a of X64 \<Rightarrow> main_sp - 128 | X86 \<Rightarrow> main_sp), l_frames := [Some resp0]\<rparr>"

definition raise_info :: "int \<Rightarrow> int \<Rightarrow> siginfo" where
  "raise_info pid u = \<lparr>si_signo = SIGUSR1, si_code = SI_TKILL, si_pid = pid, si_uid = u, si_value = 0, si_addr = 0\<rparr>"

definition raise_ctx :: "arch \<Rightarrow> int \<Rightarrow> int \<Rightarrow> u64 list \<Rightarrow> ucontext" where
  "raise_ctx a pid u heap = make_ctx (handling a pid u heap) resp0"

lemmas handling_unfold = handling_def interrupted_def raise_info_def raise_ctx_def handler_action_def Let_def
  linux_move_def linux_unfold sigset_unfold saved_fp_def

lemma install_move:
  "linux_move (linux_init a pid u heap) (Rt_sigaction SIGUSR1 (Some (handler_action SA_SIGINFO sigemptyset)))
    = (Answer resp0, handling a pid u heap)"
  by (simp add: handling_unfold)

lemma raise_move:
  "linux_move (handling a pid u heap) (Raise SIGUSR1)
    = (Deliver 0 SIGUSR1 (raise_info pid u) (raise_ctx a pid u heap), interrupted a pid u heap (sigbit SIGUSR1))"
  by (cases a) (simp_all add: handling_unfold)

lemma jump_handler_moves:
  "linux_move (interrupted a pid u heap m) (Enter s i c) = (Answer resp0, interrupted a pid u heap m)"
  "linux_move (interrupted a pid u heap m) (Rt_sigprocmask SIG_SETMASK (Some 0))
    = (Answer (resp0\<lparr>r_set := m\<rparr>), interrupted a pid u heap 0)"
  "linux_move (interrupted a pid u heap 0) (Longjmp n) = (Jump, handling a pid u heap)"
  by (cases a; simp add: handling_unfold)+

lemma raise_mask: "uc_sigmask (raise_ctx a pid u heap) = 0"
  by (simp add: handling_unfold)

theorem longjmp_unwinds_witness:
  "\<exists>f0 fs0 jb0 g0 l0 f fs jb g.
     trial longjmp_handler longjmp_main longjmp_memory (nested_moves (raise_info 1 0) (raise_ctx X64 1 0 [])) = Live f0 fs0 jb0 g0 l0 \<and>
     length fs0 = 2 \<and>
     step longjmp_handler (trial longjmp_handler longjmp_main longjmp_memory (nested_moves (raise_info 1 0) (raise_ctx X64 1 0 []))) Jump
       = Live f fs jb g (Jmp 42 # l0) \<and>
     fs = [] \<and> fst f = Raise SIGUSR1 \<and> jump_count g = of_nat (jumps l0) + 2"
  using nested_jump [of "raise_info 1 0" "raise_ctx X64 1 0 []"] longjmp_unwinds [of "nested_moves (raise_info 1 0) (raise_ctx X64 1 0 [])"]
  by blast

definition ends_well :: "longjmp_test machine \<Rightarrow> linux \<Rightarrow> bool" where
  "ends_well m k \<longleftrightarrow>
     (case run linux_move longjmp_handler m k of None \<Rightarrow> False | Some mw \<Rightarrow> exit_status (fst mw) = Some 0)"

lemma round_trip:
  assumes "\<And>l. ends_well (settle (after_setjmp 42) [] (Some (after_setjmp, [])) g l) (handling a pid u heap)"
    and "f = (Raise SIGUSR1, c)"
  shows "ends_well (Live f [] (Some (after_setjmp, [])) g l) (handling a pid u heap)"
  using assms
  by (simp add: ends_well_def run_Live raise_move handler_prog_def longjmp_handler_def sigprocmask_def
    sysret_def sys_def statement_defs longjmp_def jump_handler_moves raise_mask resp0_def [THEN arg_cong [where f = ret]] )

lemma again:
  assumes "n \<le> 131072" and "jump_count g = of_nat (131072 - n)"
  shows "ends_well (settle (after_setjmp val) [] (Some (after_setjmp, [])) g l) (handling a pid u heap)"
  using assms
proof (induction n arbitrary: g l val)
  case 0
  then show ?case by (simp add: settle_after_setjmp max_jumps ends_well_def)
next
  case (Suc n)
  obtain r where r: "raise_frame r" "settle after_count fs jb g l = Live r fs jb g l" for fs jb g l
    using settle_raise by blast
  obtain c where c: "r = (Raise SIGUSR1, c)" using r(1) by (cases r) (simp add: raise_frame_def)
  have "(of_nat (131072 - Suc n) :: u64) + 1 = of_nat (131072 - n)"
    using Suc.prems(1) by (metis Suc_diff_Suc Suc_le_lessD add.commute of_nat_Suc)
  then have "ends_well (Live r [] (Some (after_setjmp, [])) (g\<lparr>jump_count := jump_count g + 1\<rparr>) l) (handling a pid u heap)"
    using Suc.prems by (intro round_trip [OF Suc.IH c]) simp_all
  moreover have "jump_count g < max_jumps"
    unfolding Suc.prems(2) by (subst less_max) simp_all
  ultimately show ?case by (simp add: settle_after_setjmp r(2))
qed

lemma longjmp_linux:
  "linux_run (linux_init a pid u heap) longjmp_handler longjmp_main longjmp_memory = Some 0"
proof -
  have "ret resp0 = 0" by (simp add: resp0_def)
  then have "linux_run (linux_init a pid u heap) longjmp_handler longjmp_main longjmp_memory = Some 0
      \<longleftrightarrow> ends_well (settle (after_setjmp 0) [] (Some (after_setjmp, [])) longjmp_memory
        [Ans (Rt_sigaction SIGUSR1 (Some (handler_action SA_SIGINFO sigemptyset))) resp0]) (handling a pid u heap)"
    by (simp add: ends_well_def linux_run_def boot_def longjmp_main_def sigaction_def sysret_def sys_def
      statement_defs ASSERT_def run_Live install_move after_setjmp_def [abs_def] split: option.splits)
  then show ?thesis using again [of 131072 longjmp_memory] by (simp add: longjmp_memory_def)
qed

end
