(* ===== verification/Threads.thy ===== *)
theory Threads
  imports Interrupted
begin

text \<open>
  Processes with several threads. A thread is a machine without memory and log of its own: it waits at
  a request, over the requests that handlers have interrupted on it. The memory is shared, and the log
  is the interleaving of the threads' logs. One step answers or interrupts the request of one thread and
  runs this thread up to its next request; what a program does between two requests is not interrupted.
  The tests access a shared variable at most once between two requests, so this makes no difference to
  what they can observe. The program logic extends that of single machines: the invariant of memory and
  log is kept by the threads of the process, and a thread relies on its own log only for what it knows
  of itself.
\<close>

section \<open>Processes\<close>

type_synonym tid = nat

text \<open>The events of the threads, newest first, and the end of a thread.\<close>

datatype tevent = At tid event | End tid

type_synonym tlog = "tevent list"

datatype 'g thread =
    is_unborn: Unborn
  | Waiting "'g frame" "'g frame list" "'g jmpbuf option"
  | is_ended: Ended

datatype 'g process =
    Running "'g thread list" 'g tlog
  | Halted outcome 'g tlog

text \<open>
  A program is given by its handlers, its start routines and \<^verbatim>\<open>main\<close>. Thread 0 runs \<^verbatim>\<open>main\<close>, thread
  \<open>n + 1\<close> the start routine number \<open>n\<close>: no test starts a routine twice. \<open>ids\<close> are the kernel's thread
  numbers.
\<close>

type_synonym 'g routines = "('g, unit) prog list"

definition thread_frame :: "('g, unit) prog \<Rightarrow> 'g frame" where
  "thread_frame p = (Thread_start, \<lambda>_. p)"

text \<open>The machine of a thread that has run up to its next request, put back into the process.\<close>

fun put_back :: "tid \<Rightarrow> 'g thread list \<Rightarrow> tlog \<Rightarrow> 'g machine \<Rightarrow> 'g process" where
  "put_back t ts L (Live f fs jb g l) = Running (ts[t := Waiting f fs jb]) g (map (At t) l @ L)"
| "put_back t ts L (Dead r g l) =
     (if r = Fell_off then Running (ts[t := Ended]) g (End t # map (At t) l @ L)
      else Halted r g (map (At t) l @ L))"

text \<open>
  What the platform cannot answer: a thread's number is its own; a thread starts once, and is joined
  only when it has ended.
\<close>

fun admits :: "(tid \<Rightarrow> int) \<Rightarrow> 'g thread list \<Rightarrow> tid \<Rightarrow> req \<Rightarrow> resp \<Rightarrow> bool" where
  "admits ids ts t Gettid r \<longleftrightarrow> ret r = ids t"
| "admits ids ts t (Pthread_create n) r \<longleftrightarrow> ret r = 0 \<longrightarrow> Suc n < length ts \<and> is_unborn (ts ! Suc n)"
| "admits ids ts t (Pthread_join n) r \<longleftrightarrow> ret r = 0 \<longrightarrow> Suc n < length ts \<and> is_ended (ts ! Suc n)"
| "admits ids ts t q r \<longleftrightarrow> True"

fun move_admitted :: "(tid \<Rightarrow> int) \<Rightarrow> 'g thread list \<Rightarrow> tid \<Rightarrow> req \<Rightarrow> move \<Rightarrow> bool" where
  "move_admitted ids ts t q (Answer r) = admits ids ts t q r"
| "move_admitted ids ts t q mv = True"

fun started :: "'g routines \<Rightarrow> req \<Rightarrow> move \<Rightarrow> 'g thread list \<Rightarrow> 'g thread list" where
  "started thr (Pthread_create n) (Answer r) ts =
     (if ret r = 0 then ts[Suc n := Waiting (thread_frame (thr ! n)) [] None] else ts)"
| "started thr q mv ts = ts"

text \<open>A move of one thread; a move that cannot be made leaves the process as it is.\<close>

fun tstep :: "(tid \<Rightarrow> int) \<Rightarrow> 'g handlers \<Rightarrow> 'g routines \<Rightarrow> 'g process \<Rightarrow> tid \<times> move \<Rightarrow> 'g process" where
  "tstep ids H thr (Halted r g L) m = Halted r g L"
| "tstep ids H thr (Running ts g L) (t, mv) =
     (if t < length ts then
        (case ts ! t of
           Waiting (q, k) fs jb \<Rightarrow>
             if move_admitted ids ts t q mv
             then put_back t (started thr q mv ts) L (step H (Live (q, k) fs jb g []) mv)
             else Running ts g L
         | _ \<Rightarrow> Running ts g L)
      else Running ts g L)"

definition treplay ::
  "(tid \<Rightarrow> int) \<Rightarrow> 'g handlers \<Rightarrow> 'g routines \<Rightarrow> 'g process \<Rightarrow> (tid \<times> move) list \<Rightarrow> 'g process" where
  "treplay ids H thr p ms = foldl (tstep ids H thr) p ms"

definition tboot :: "'g routines \<Rightarrow> ('g, int) prog \<Rightarrow> 'g \<Rightarrow> 'g process" where
  "tboot thr main g = put_back 0 (replicate (Suc (length thr)) Unborn) [] (boot main g)"

definition ttrial :: "(tid \<Rightarrow> int) \<Rightarrow> 'g handlers \<Rightarrow> 'g routines \<Rightarrow> ('g, int) prog \<Rightarrow> 'g \<Rightarrow>
    (tid \<times> move) list \<Rightarrow> 'g process" where
  "ttrial ids H thr main g ms = treplay ids H thr (tboot thr main g) ms"

fun process_status :: "'g process \<Rightarrow> int option" where
  "process_status (Halted (Exited n) g L) = Some n"
| "process_status _ = None"

lemma treplay_Nil [simp]: "treplay ids H thr p [] = p"
  by (simp add: treplay_def)

lemma treplay_Cons [simp]: "treplay ids H thr p (m # ms) = treplay ids H thr (tstep ids H thr p m) ms"
  by (simp add: treplay_def)

lemma process_status_Some: "process_status p = Some n \<Longrightarrow> \<exists>g L. p = Halted (Exited n) g L"
  by (cases p rule: process_status.cases) simp_all

section \<open>The log of a thread\<close>

fun of_thread :: "tid \<Rightarrow> tevent \<Rightarrow> log" where
  "of_thread t (At u e) = (if u = t then [e] else [])"
| "of_thread t (End u) = []"

definition own :: "tid \<Rightarrow> tlog \<Rightarrow> log" where
  "own t L = concat (map (of_thread t) L)"

lemma own_Nil [simp]: "own t [] = []"
  by (simp add: own_def)

lemma own_Cons [simp]: "own t (e # L) = of_thread t e @ own t L"
  by (simp add: own_def)

lemma own_append [simp]: "own t (d @ L) = own t d @ own t L"
  by (simp add: own_def)

lemma own_at [simp]: "own t (map (At u) l) = (if u = t then l else [])"
  by (induction l) simp_all

definition tgrows :: "tlog \<Rightarrow> tlog \<Rightarrow> bool" where
  "tgrows L L' \<longleftrightarrow> (\<exists>d. L' = d @ L)"

lemma tgrows_refl [simp]: "tgrows L L"
  by (simp add: tgrows_def)

lemma tgrows_trans: "tgrows L L1 \<Longrightarrow> tgrows L1 L2 \<Longrightarrow> tgrows L L2"
  by (auto simp: tgrows_def)

lemma tgrows_append [simp]: "tgrows L (d @ L)"
  by (simp add: tgrows_def)

lemma tgrows_Cons: "tgrows L L' \<Longrightarrow> tgrows L (e # L')"
  by (auto simp: tgrows_def intro: exI [of _ "e # d" for d])

lemma tgrows_own: "tgrows L L' \<Longrightarrow> grows (own t L) (own t L')"
  by (auto simp: tgrows_def grows_def)

lemma tgrows_set: "e \<in> set L \<Longrightarrow> tgrows L L' \<Longrightarrow> e \<in> set L'"
  by (auto simp: tgrows_def)

lemma tgrows_ConsD: "tgrows (e # L) L' \<Longrightarrow> tgrows L L'"
  by (auto simp: tgrows_def)

lemma ended_grows: "End t \<in> set L \<Longrightarrow> tgrows (e # L) L' \<Longrightarrow> End t \<in> set L'"
  by (auto simp: tgrows_def)

text \<open>
  What a thread knows when its request is answered: the handlers that have interrupted it have
  returned, and it has made no other call outside all handlers.
\<close>

definition quiet :: "log \<Rightarrow> log \<Rightarrow> bool" where
  "quiet l l' \<longleftrightarrow> active l' = active l \<and> (0 \<le> active l \<longrightarrow> main_calls l' = main_calls l)"

lemma quiet_refl [simp]: "quiet l l"
  by (simp add: quiet_def)

lemma quiet_trans: "quiet l l1 \<Longrightarrow> quiet l1 l2 \<Longrightarrow> quiet l l2"
  by (simp add: quiet_def)

section \<open>Weakest preconditions of threads\<close>

type_synonym 'g tpred = "'g \<Rightarrow> tlog \<Rightarrow> bool"

text \<open>What an answer says about the process, read off the log.\<close>

fun truthful :: "(tid \<Rightarrow> int) \<Rightarrow> tid \<Rightarrow> req \<Rightarrow> resp \<Rightarrow> tlog \<Rightarrow> bool" where
  "truthful ids t Gettid r L \<longleftrightarrow> ret r = ids t"
| "truthful ids t (Pthread_create n) r L \<longleftrightarrow> ret r = 0 \<longrightarrow> own (Suc n) L = []"
| "truthful ids t (Pthread_join n) r L \<longleftrightarrow> ret r = 0 \<longrightarrow> End (Suc n) \<in> set L \<and> active (own (Suc n) L) = 0"
| "truthful ids t q r L \<longleftrightarrow> True"

primrec twp :: "(tid \<Rightarrow> int) \<Rightarrow> tid \<Rightarrow> 'g tpred \<Rightarrow> (int \<Rightarrow> 'g tpred) \<Rightarrow> (ucontext \<Rightarrow> 'g tpred) \<Rightarrow>
    ('g, 'a) prog \<Rightarrow> ('a \<Rightarrow> 'g tpred) \<Rightarrow> 'g tpred" where
  "twp ids t I X S (Return v) = (\<lambda>Q g L. Q v g L)"
| "twp ids t I X S (Exit n) = (\<lambda>Q g L. X n g L)"
| "twp ids t I X S Undefined = (\<lambda>Q g L. True)"
| "twp ids t I X S Out_of_fuel = (\<lambda>Q g L. True)"
| "twp ids t I X S (Get k) = (\<lambda>Q g L. twp ids t I X S (k g) Q g L)"
| "twp ids t I X S (Put g' p) = (\<lambda>Q g L. twp ids t I X S p Q g' L)"
| "twp ids t I X S (Print s p) = (\<lambda>Q g L. twp ids t I X S p Q g (At t (Out s) # L))"
| "twp ids t I X S (Setjmp k) = (\<lambda>Q g L. False)"
| "twp ids t I X S (Call q k) = (\<lambda>Q g L. I g L \<and>
     (\<forall>g' L'. tgrows L L' \<longrightarrow> I g' L' \<longrightarrow> quiet (own t L) (own t L') \<longrightarrow>
        (case return_ctx q of
           Some c \<Rightarrow> S c g' L'
         | None \<Rightarrow> \<not> is_return q \<and>
             (\<forall>r. truthful ids t q r L' \<longrightarrow> twp ids t I X S (k r) Q g' (At t (Ans q r) # L')))))"

lemma twp_bind [simp]:
  "twp ids t I X S (bind p f) Q g L = twp ids t I X S p (\<lambda>v. twp ids t I X S (f v) Q) g L"
proof (induction p arbitrary: g L)
  case (Call q k)
  have "twp ids t I X S (bind (k r) f) Q = twp ids t I X S (k r) (\<lambda>v. twp ids t I X S (f v) Q)" for r
    by (intro ext Call.IH) simp
  then show ?case by (simp split: option.splits)
qed simp_all

lemma twp_bind_fun: "twp ids t I X S (bind p f) Q = twp ids t I X S p (\<lambda>v. twp ids t I X S (f v) Q)"
  by (intro ext) simp

lemma twp_request:
  assumes "\<not> is_return q"
  shows "twp ids t I X S (Call q k) Q g L \<longleftrightarrow> I g L \<and>
    (\<forall>g' L' r. tgrows L L' \<longrightarrow> I g' L' \<longrightarrow> quiet (own t L) (own t L') \<longrightarrow> truthful ids t q r L' \<longrightarrow>
       twp ids t I X S (k r) Q g' (At t (Ans q r) # L'))"
  using assms by (cases q) auto

lemma twp_mono:
  assumes "twp ids t I X S p Q g L" and "\<And>v g L. Q v g L \<Longrightarrow> Q' v g L" and "\<And>c g L. S c g L \<Longrightarrow> S' c g L"
  shows "twp ids t I X S' p Q' g L"
  using assms(1)
proof (induction p arbitrary: g L)
  case (Call q k)
  from Call.IH have "twp ids t I X S (k r) Q g L \<Longrightarrow> twp ids t I X S' (k r) Q' g L" for r g L by blast
  with Call.prems show ?case by (auto split: option.splits intro: assms(3))
qed (auto simp: assms(2))

lemma twp_tgrows:
  assumes "twp ids t I X S p Q g L" and "tgrows L0 L"
  shows "twp ids t I X (\<lambda>c g' L'. S c g' L' \<and> tgrows L0 L') p Q g L"
  using assms
proof (induction p arbitrary: g L)
  case (Call q k)
  from Call.IH have "twp ids t I X S (k r) Q g L \<Longrightarrow> tgrows L0 L \<Longrightarrow>
      twp ids t I X (\<lambda>c g' L'. S c g' L' \<and> tgrows L0 L') (k r) Q g L" for r g L by blast
  with Call.prems show ?case
    by (fastforce split: option.splits intro: tgrows_trans tgrows_Cons)
qed (simp_all add: tgrows_Cons)

section \<open>Contracts of processes\<close>

text \<open>
  Every handler keeps the invariant on whatever thread it runs, and so does every start routine from the
  moment on at which its thread has no event yet; at its end, no handler is active on the thread, and the
  end of the thread is recorded.
\<close>

locale thread_contract =
  fixes ids :: "tid \<Rightarrow> int" and H :: "'g handlers" and thr :: "'g routines"
    and I :: "'g tpred" and X :: "int \<Rightarrow> 'g tpred"
  assumes handler_meets:
      "t \<le> length thr \<Longrightarrow> I g L \<Longrightarrow> twp ids t I X (\<lambda>c g' L'. I g' (At t (Ret c) # L') \<and>
         quiet (own t L) (Ret c # own t L')) (handler_prog H h s i c0) (\<lambda>_ _ _. False) g L"
    and routine_meets:
      "n < length thr \<Longrightarrow> I g L \<Longrightarrow> own (Suc n) L = [] \<Longrightarrow>
       twp ids (Suc n) I X (\<lambda>_ _ _. False) (Call Thread_start (\<lambda>_. thr ! n))
         (\<lambda>_ g' L'. I g' (End (Suc n) # L') \<and> active (own (Suc n) L') = 0) g L"
begin

abbreviation ends :: "tid \<Rightarrow> unit \<Rightarrow> 'g tpred" where
  "ends t \<equiv> (\<lambda>_ g L. I g (End t # L) \<and> active (own t L) = 0)"

fun stack_ok :: "tid \<Rightarrow> 'g frame list \<Rightarrow> (ucontext \<Rightarrow> 'g tpred) \<Rightarrow> bool" where
  "stack_ok t [] S = True"
| "stack_ok t (f # fs) S =
     (\<exists>S' g0 L0. twp ids t I X S' (Call (fst f) (snd f)) (ends t) g0 L0 \<and>
        (\<forall>c g L. S c g L \<longrightarrow> I g (At t (Ret c) # L) \<and> quiet (own t L0) (Ret c # own t L) \<and>
           tgrows L0 (At t (Ret c) # L)) \<and>
        stack_ok t fs S')"

fun thread_ok :: "tid \<Rightarrow> 'g thread \<Rightarrow> tlog \<Rightarrow> bool" where
  "thread_ok t Unborn L = (own t L = [] \<and> 0 < t)"
| "thread_ok t Ended L = (End t \<in> set L \<and> active (own t L) = 0)"
| "thread_ok t (Waiting f fs jb) L =
     (\<exists>S g0 L0. twp ids t I X S (Call (fst f) (snd f)) (ends t) g0 L0 \<and>
        tgrows L0 L \<and> quiet (own t L0) (own t L) \<and> stack_ok t fs S)"

fun process_ok :: "'g process \<Rightarrow> bool" where
  "process_ok (Halted r g L) = (case r of Exited n \<Rightarrow> X n g L | _ \<Rightarrow> True)"
| "process_ok (Running ts g L) \<longleftrightarrow> length ts = Suc (length thr) \<and> I g L \<and> (\<forall>t < length ts. thread_ok t (ts ! t) L)"

lemma thread_ok_grows:
  "thread_ok t x L \<Longrightarrow> tgrows L L' \<Longrightarrow> own t L' = own t L \<Longrightarrow> thread_ok t x L'"
  by (cases x) (auto intro: tgrows_set tgrows_trans simp del: twp.simps)

text \<open>The machine of one thread, with the log that its events are put on.\<close>

fun focus_ok :: "tid \<Rightarrow> tlog \<Rightarrow> 'g machine \<Rightarrow> bool" where
  "focus_ok t L (Live f fs jb g l) \<longleftrightarrow>
     I g (map (At t) l @ L) \<and> thread_ok t (Waiting f fs jb) (map (At t) l @ L)"
| "focus_ok t L (Dead r g l) \<longleftrightarrow> (case r of
      Exited n \<Rightarrow> X n g (map (At t) l @ L) | Fell_off \<Rightarrow> I g (End t # map (At t) l @ L) \<and> active (own t (map (At t) l @ L)) = 0 | _ \<Rightarrow> True)"

lemma settle_ok:
  assumes "twp ids t I X S p (ends t) g (map (At t) l @ L)" and "stack_ok t fs S"
  shows "focus_ok t L (settle p fs jb g l)"
  using assms
proof (induction p arbitrary: g l jb)
  case (Call q k)
  then have "I g (map (At t) l @ L)" by simp
  with Call.prems show ?case
    by (auto simp del: twp.simps intro!: exI [of _ S] exI [of _ g] exI [of _ "map (At t) l @ L"])
qed auto

lemma put_back_ok:
  assumes "focus_ok t L m" and "length ts = Suc (length thr)" and "t < length ts"
    and "\<And>u. u < length ts \<Longrightarrow> u \<noteq> t \<Longrightarrow> thread_ok u (ts ! u) L"
  shows "process_ok (put_back t ts L m)"
proof (cases m)
  case (Live f fs jb g l)
  have "thread_ok u (ts ! u) (map (At t) l @ L)" if "u < length ts" and "u \<noteq> t" for u
    using assms(4) [OF that] by (rule thread_ok_grows) (use that in simp_all)
  then show ?thesis
    using assms(1-3) Live by (auto simp: nth_list_update simp del: thread_ok.simps)
next
  case (Dead r g l)
  have "thread_ok u (ts ! u) (End t # map (At t) l @ L)" if "u < length ts" and "u \<noteq> t" for u
    using assms(4) [OF that] by (rule thread_ok_grows) (use that in \<open>simp_all add: tgrows_Cons\<close>)
  then show ?thesis
    using assms(1-3) Dead by (auto simp: nth_list_update split: outcome.splits)
qed

lemma thread_ok_started:
  assumes "\<And>u. u < length ts \<Longrightarrow> u \<noteq> t \<Longrightarrow> thread_ok u (ts ! u) L" and "I g L"
    and "length ts = Suc (length thr)" and "move_admitted ids ts t q mv" and "u < length ts" and "u \<noteq> t"
  shows "thread_ok u (started thr q mv ts ! u) L"
proof (cases "\<exists>n r. q = Pthread_create n \<and> mv = Answer r \<and> ret r = 0 \<and> u = Suc n")
  case True
  then obtain n r where n: "q = Pthread_create n" "mv = Answer r" "ret r = 0" "u = Suc n" by blast
  then have "n < length thr" and "ts ! u = Unborn" using assms(3-5) by (simp_all add: is_unborn_def)
  then have "own (Suc n) L = []" using assms(1) [OF assms(5,6)] n(4) by simp
  have "thread_ok u (Waiting (thread_frame (thr ! n)) [] None) L"
    using routine_meets [OF \<open>n < length thr\<close> assms(2) \<open>own (Suc n) L = []\<close>] n(4)
    by (auto simp: thread_frame_def simp del: twp.simps intro!: exI [of _ g] exI [of _ L])
  then show ?thesis using n assms(3,5) by simp
next
  case False
  then have "started thr q mv ts ! u = ts ! u"
    by (cases q; cases mv) (auto simp: nth_list_update_neq)
  then show ?thesis using assms(1) [OF assms(5,6)] by simp
qed

lemma length_started [simp]: "length (started thr q mv ts) = length ts"
  by (cases q; cases mv) simp_all

lemma truthful_admitted:
  assumes "\<And>u. u < length ts \<Longrightarrow> thread_ok u (ts ! u) L" and "admits ids ts t q r"
  shows "truthful ids t q r L"
proof -
  have "own (Suc n) L = []" if "Suc n < length ts" and "is_unborn (ts ! Suc n)" for n
    using assms(1) [OF that(1)] that(2) by (auto simp: is_unborn_def)
  moreover have "End (Suc n) \<in> set L \<and> active (own (Suc n) L) = 0"
    if "Suc n < length ts" and "is_ended (ts ! Suc n)" for n
    using assms(1) [OF that(1)] that(2) by (auto simp: is_ended_def)
  ultimately show ?thesis using assms(2) by (cases q) auto
qed

text \<open>The thread that moves.\<close>

lemma focus_step_ok:
  assumes "thread_ok t (Waiting (q, k) fs jb) L" and "I g L" and "t \<le> length thr"
    and "\<And>r. mv = Answer r \<Longrightarrow> truthful ids t q r L"
  shows "focus_ok t L (step H (Live (q, k) fs jb g []) mv)"
proof -
  from assms(1) obtain S g0 L0 where
    w: "twp ids t I X S (Call q k) (ends t) g0 L0" and
    grow: "tgrows L0 L" and rely: "quiet (own t L0) (own t L)" and stack: "stack_ok t fs S"
    by (auto simp del: twp.simps)
  have same: "focus_ok t L (Live (q, k) fs jb g [])"
    using w grow rely assms(2) stack by (auto simp del: twp.simps)
  show ?thesis
  proof (cases mv)
    case (Answer r)
    show ?thesis
    proof (cases "is_return q")
      case True
      with Answer same show ?thesis by (simp del: focus_ok.simps)
    next
      case False
      then have "twp ids t I X S (k r) (ends t) g (At t (Ans q r) # L)"
        using w grow rely assms(2) assms(4) [OF Answer] by (simp add: twp_request del: twp.simps)
      then show ?thesis
        using settle_ok [of t S "k r" g "[Ans q r]" L fs jb] Answer False stack by simp
    qed
  next
    case (Deliver h s i c)
    let ?S = "\<lambda>c' g' L'. (I g' (At t (Ret c') # L') \<and> quiet (own t L) (Ret c' # own t L')) \<and> tgrows L L'"
    have "stack_ok t ((q, k) # fs) ?S"
      using w stack quiet_trans [OF rely] tgrows_trans [OF grow] tgrows_Cons
      by (simp del: twp.simps) blast
    moreover have "twp ids t I X ?S (handler_prog H h s i c) (ends t) g L"
      by (rule twp_mono [OF twp_tgrows [OF handler_meets [OF assms(3,2)] tgrows_refl]]) simp_all
    ultimately have "focus_ok t L (settle (handler_prog H h s i c) ((q, k) # fs) jb g [])"
      by (intro settle_ok [where S = ?S]) simp_all
    with Deliver show ?thesis by simp
  next
    case Resume
    show ?thesis
    proof (cases "(\<exists>c. q = Sigreturn c) \<and> fs \<noteq> []")
      case True
      then obtain c f' fs' where q: "q = Sigreturn c" and fs: "fs = f' # fs'"
        by (cases fs) auto
      from w q grow rely assms(2) have "S c g L" by simp
      with stack fs obtain S' g1 L1 where
        "twp ids t I X S' (Call (fst f') (snd f')) (ends t) g1 L1"
        "I g (At t (Ret c) # L)" "quiet (own t L1) (Ret c # own t L)" "tgrows L1 (At t (Ret c) # L)" "stack_ok t fs' S'"
        by (auto simp del: twp.simps)
      then have "focus_ok t L (Live f' fs' jb g [Ret c])" by (auto simp del: twp.simps)
      with Resume q fs show ?thesis by (simp del: focus_ok.simps)
    next
      case False
      then have "step H (Live (q, k) fs jb g []) mv = Live (q, k) fs jb g []"
        using Resume by (cases q; cases fs) simp_all
      with same show ?thesis by (simp only:)
    qed
  next
    case Jump
    have "q \<noteq> Longjmp n" for n
      using w grow rely assms(2) by auto
    then have "step H (Live (q, k) fs jb g []) mv = Live (q, k) fs jb g []"
      using Jump by (cases q) auto
    with same show ?thesis by (simp only:)
  next
    case (Terminate s)
    then show ?thesis by simp
  next
    case Block
    with same show ?thesis by (simp del: focus_ok.simps)
  qed
qed

lemma tstep_ok:
  assumes "process_ok p"
  shows "process_ok (tstep ids H thr p (t, mv))"
proof (cases p)
  case (Running ts g L)
  have ok: "length ts = Suc (length thr)" "I g L" "thread_ok u (ts ! u) L" if "u < length ts" for u
    using assms Running that by simp_all
  show ?thesis
  proof (cases "t < length ts \<and> (\<exists>q k fs jb. ts ! t = Waiting (q, k) fs jb \<and> move_admitted ids ts t q mv)")
    case True
    then obtain q k fs jb where t: "t < length ts" "ts ! t = Waiting (q, k) fs jb" "move_admitted ids ts t q mv"
      by blast
    have "focus_ok t L (step H (Live (q, k) fs jb g []) mv)"
    proof (rule focus_step_ok)
      show "truthful ids t q r L" if "mv = Answer r" for r
        using t(3) that by (intro truthful_admitted [OF ok(3)]) simp_all
    qed (use ok [OF t(1)] t in simp_all)
    moreover have "thread_ok u (started thr q mv ts ! u) L" if "u < length ts" and "u \<noteq> t" for u
      using thread_ok_started [OF ok(3) _ _ t(3) that] ok(1,2) [OF t(1)] by blast
    ultimately have "process_ok (put_back t (started thr q mv ts) L (step H (Live (q, k) fs jb g []) mv))"
      using ok(1) [OF t(1)] t(1) by (intro put_back_ok) simp_all
    then show ?thesis using Running t by simp
  next
    case False
    then have "tstep ids H thr p (t, mv) = p"
      using Running by (auto split: thread.splits)
    with assms show ?thesis by simp
  qed
qed (use assms in simp)

lemma treplay_ok: "process_ok p \<Longrightarrow> process_ok (treplay ids H thr p ms)"
proof (induction ms arbitrary: p)
  case (Cons m ms)
  then show ?case using tstep_ok by (cases m) simp
qed simp

text \<open>Every exit of the process satisfies \<open>X\<close>, however its threads are interleaved and interrupted.\<close>

lemma verdict:
  assumes "twp ids 0 I X (\<lambda>_ _ _. False) main (\<lambda>n. X n) g0 []"
    and "ttrial ids H thr main g0 ms = Halted (Exited n) g L"
  shows "X n g L"
proof -
  let ?ts = "replicate (Suc (length thr)) Unborn :: 'g thread list"
  have "twp ids 0 I X (\<lambda>_ _ _. False) (bind main Exit) (ends 0) g0 (map (At 0) [] @ [])"
    using assms(1) by simp
  then have "focus_ok 0 [] (boot main g0)"
    unfolding boot_def by (rule settle_ok) simp
  then have "process_ok (put_back 0 ?ts [] (boot main g0))"
    by (rule put_back_ok) (simp_all del: replicate_Suc)
  then have "process_ok (ttrial ids H thr main g0 ms)"
    unfolding ttrial_def tboot_def by (rule treplay_ok)
  with assms(2) show ?thesis by simp
qed

end

section \<open>Rules for calls\<close>

text \<open>Documented of thread numbers: they are positive, and no two threads share one.\<close>

definition thread_numbers :: "(tid \<Rightarrow> int) \<Rightarrow> bool" where
  "thread_numbers ids \<longleftrightarrow> inj ids \<and> (\<forall>t. 0 < ids t)"

lemma thread_numbers_eq: "thread_numbers ids \<Longrightarrow> ids t = ids u \<longleftrightarrow> t = u"
  by (auto simp: thread_numbers_def inj_eq)

lemma thread_numbers_pos: "thread_numbers ids \<Longrightarrow> ids t \<noteq> 0 \<and> 0 \<noteq> ids t"
  by (auto simp: thread_numbers_def dest: spec [of _ t])

lemma entered_grows:
  "tgrows (At t (Ans (Enter s i c) r) # L) L' \<Longrightarrow> handled (own t L') \<noteq> []"
  by (auto simp: tgrows_def)

lemma twp_sysret:
  assumes "\<not> is_return q"
  shows "twp ids t I X S (sysret q) Q g L \<longleftrightarrow> I g L \<and>
    (\<forall>g' L' r. tgrows L L' \<longrightarrow> I g' L' \<longrightarrow> quiet (own t L) (own t L') \<longrightarrow> truthful ids t q r L' \<longrightarrow>
      Q (result r) (with_errno r g') (At t (Ans q r) # L'))"
  using assms by (auto simp: sysret_def sys_def twp_request result_def with_errno_def simp del: twp.simps(9) split: if_splits)

lemma twp_sysget:
  assumes "\<not> is_return q"
  shows "twp ids t I X S (sysget q out) Q g L \<longleftrightarrow> I g L \<and>
    (\<forall>g' L' r. tgrows L L' \<longrightarrow> I g' L' \<longrightarrow> quiet (own t L) (own t L') \<longrightarrow> truthful ids t q r L' \<longrightarrow>
      Q (result r, out r) (with_errno r g') (At t (Ans q r) # L'))"
  using assms by (auto simp: sysget_def sys_def twp_request result_def with_errno_def simp del: twp.simps(9) split: if_splits)

lemmas twp_calls = statement_defs libc_defs handler_action_def ASSERT_def handler_prog_def twp_sysret twp_sysget
  quiet_def

text \<open>
  \<^verbatim>\<open>std::thread\<close>: the constructor and \<^verbatim>\<open>join\<close> throw where the calls below them fail; nothing catches
  this, and the program aborts.
\<close>

definition terminate :: "('m memory_scheme, unit) prog" where
  "terminate = seq (ignore (raise SIGABRT)) Undefined"

definition std_thread :: "nat \<Rightarrow> ('m memory_scheme, unit) prog" where
  "std_thread n = bind (pthread_create n) (\<lambda>r. if_then (r \<noteq> 0) terminate)"

definition std_join :: "nat \<Rightarrow> ('m memory_scheme, unit) prog" where
  "std_join n = bind (pthread_join n) (\<lambda>r. if_then (r \<noteq> 0) terminate)"

lemmas std_defs = terminate_def std_thread_def std_join_def

text \<open>
  A threaded test decides a property of the platform's behaviour if it exits 0 exactly on the runs that
  have it.
\<close>

definition tdecides :: "(tid \<Rightarrow> int) \<Rightarrow> 'g handlers \<Rightarrow> 'g routines \<Rightarrow> ('g, int) prog \<Rightarrow> 'g \<Rightarrow>
    (tlog \<Rightarrow> bool) \<Rightarrow> bool" where
  "tdecides ids H thr main g0 P \<longleftrightarrow>
     (\<forall>ms n g L. ttrial ids H thr main g0 ms = Halted (Exited n) g L \<longrightarrow> (n = 0 \<longleftrightarrow> P L))"

lemma tdecidesI:
  "(\<And>ms n g L. ttrial ids H thr main g0 ms = Halted (Exited n) g L \<Longrightarrow> n = 0 \<longleftrightarrow> P L) \<Longrightarrow>
    tdecides ids H thr main g0 P"
  unfolding tdecides_def by blast

text \<open>A run to an exit, for the witnesses.\<close>

definition exits :: "(tid \<Rightarrow> int) \<Rightarrow> 'g handlers \<Rightarrow> 'g routines \<Rightarrow> ('g, int) prog \<Rightarrow> 'g \<Rightarrow>
    (tid \<times> move) list \<Rightarrow> int option" where
  "exits ids H thr main g ms = process_status (ttrial ids H thr main g ms)"

lemma exits_witness:
  assumes "exits ids H thr main g ms = Some n"
    and "\<And>g' L. ttrial ids H thr main g ms = Halted (Exited n) g' L \<Longrightarrow> P L"
  shows "\<exists>ms g' L. ttrial ids H thr main g ms = Halted (Exited n) g' L \<and> P L"
  using process_status_Some [OF assms(1) [unfolded exits_def]] assms(2) by blast

section \<open>Events inside handlers\<close>

text \<open>
  An entry of a handler, or an event of a thread that runs one. Such events are no calls of the thread's
  routine.
\<close>

definition inside :: "tid \<Rightarrow> tlog \<Rightarrow> event \<Rightarrow> bool" where
  "inside t L e \<longleftrightarrow> (\<exists>s i c r. e = Ans (Enter s i c) r) \<or> 0 < active (own t L)"

lemma inside_Enter [simp]: "inside t L (Ans (Enter s i c) r)"
  by (simp add: inside_def)

definition sound_log :: "tlog \<Rightarrow> bool" where
  "sound_log L \<longleftrightarrow> (\<forall>t. 0 \<le> active (own t L))"

lemma sound_log_Nil [simp]: "sound_log []"
  by (simp add: sound_log_def)

lemma sound_log_active: "sound_log L \<Longrightarrow> 0 \<le> active (own t L)"
  by (simp add: sound_log_def)

lemma sound_log_End [simp]: "sound_log (End t # L) \<longleftrightarrow> sound_log L"
  by (simp add: sound_log_def)

lemma sound_log_inside: "sound_log L \<Longrightarrow> inside t L e \<Longrightarrow> sound_log (At t e # L)"
proof -
  assume "sound_log L" and "inside t L e"
  moreover have "length (returned e) \<le> length (entered e) \<or> entered e = [] \<and> length (returned e) = 1"
    by (cases e) auto
  ultimately show "sound_log (At t e # L)"
    by (auto simp: sound_log_def inside_def)
qed

lemma sound_log_call [simp]:
  "entered (Ans q r) = [] \<Longrightarrow> sound_log (At t (Ans q r) # L) \<longleftrightarrow> sound_log L"
  "sound_log (At t (Out s) # L) \<longleftrightarrow> sound_log L"
  by (simp_all add: sound_log_def)

lemma own_calls_inside: "inside t L e \<Longrightarrow> main_calls (own u (At t e # L)) = main_calls (own u L)"
  by (auto simp: inside_def)

end
