(* ===== verification/Scheduler.thy ===== *)
theory Scheduler
  imports Threads
begin

text \<open>
  The documented behaviour of Linux for a process with several threads: a scheduler over the kernel's view
  of each thread (the platform of \<^verbatim>\<open>Linux\<close>), with the actions, a pipe and a semaphore shared between the
  threads (\<^verbatim>\<open>pthreads(7)\<close>, \<^verbatim>\<open>signal(7)\<close>, \<^verbatim>\<open>pipe(7)\<close>, \<^verbatim>\<open>sem_overview(7)\<close>). It is not code of the
  repository: the runs it makes show which behaviour the tests accept, and that four of them depend on the
  order in which the threads are scheduled.
\<close>

section \<open>State\<close>

record kernel =
  k_threads :: "linux list"
  k_asleep :: "tid list"
  k_pipe :: int
  k_size :: int
  k_sem :: int

text \<open>\<open>k_asleep\<close> are the threads that sleep in a system call, \<open>k_pipe\<close> the number of bytes in the pipe.\<close>

definition kernel_init :: "arch \<Rightarrow> kernel" where
  "kernel_init a = \<lparr>k_threads = [linux_init a 1000 0 []], k_asleep = [], k_pipe = 0, k_size = 65536, k_sem = 0\<rparr>"

definition kernel_ids :: "tid \<Rightarrow> int" where
  "kernel_ids t = 1000 + int t"

lemma kernel_ids_numbers: "thread_numbers kernel_ids"
  by (auto simp: thread_numbers_def kernel_ids_def inj_def)

text \<open>The system call numbers of the calls that may sleep.\<close>

definition SYS_read :: "arch \<Rightarrow> int" where
  "SYS_read a = (case a of X64 \<Rightarrow> 0 | X86 \<Rightarrow> 3)"

definition SYS_write :: "arch \<Rightarrow> int" where
  "SYS_write a = (case a of X64 \<Rightarrow> 1 | X86 \<Rightarrow> 4)"

definition SYS_futex :: "arch \<Rightarrow> int" where
  "SYS_futex a = (case a of X64 \<Rightarrow> 202 | X86 \<Rightarrow> 240)"

fun call_number :: "arch \<Rightarrow> req \<Rightarrow> int" where
  "call_number a (Read fd n) = SYS_read a"
| "call_number a (Write fd n) = SYS_write a"
| "call_number a q = SYS_futex a"

section \<open>Requests\<close>

text \<open>A thread's state is put back; the actions are those of the process.\<close>

definition put_thread :: "tid \<Rightarrow> linux \<Rightarrow> kernel \<Rightarrow> kernel" where
  "put_thread t k K = K\<lparr>k_threads := map (\<lambda>x. x\<lparr>l_actions := l_actions k\<rparr>) ((k_threads K)[t := k])\<rparr>"

text \<open>A signal to the process goes to the first thread that does not block it.\<close>

definition receiver :: "signum \<Rightarrow> linux list \<Rightarrow> tid" where
  "receiver s ks = (case filter (\<lambda>t. \<not> sigismember (l_blocked (ks ! t)) s) [0..<length ks] of
      [] \<Rightarrow> 0 | t # _ \<Rightarrow> t)"

definition send_to :: "tid \<Rightarrow> siginfo \<Rightarrow> kernel \<Rightarrow> kernel" where
  "send_to t i K = K\<lparr>k_threads := (k_threads K)[t := send_signal i (k_threads K ! t)]\<rparr>"

text \<open>What the call waits for has not happened yet; \<open>ended\<close> are the threads that have ended.\<close>

fun must_wait :: "kernel \<Rightarrow> (tid \<Rightarrow> bool) \<Rightarrow> req \<Rightarrow> bool" where
  "must_wait K ended (Read fd n) \<longleftrightarrow> k_pipe K = 0"
| "must_wait K ended (Write fd n) \<longleftrightarrow> k_size K < k_pipe K + n"
| "must_wait K ended Sem_wait \<longleftrightarrow> k_sem K = 0"
| "must_wait K ended (Pthread_join n) \<longleftrightarrow> \<not> ended (Suc n)"
| "must_wait K ended Pause \<longleftrightarrow> True"
| "must_wait K ended q \<longleftrightarrow> False"

fun carry_out :: "tid \<Rightarrow> req \<Rightarrow> kernel \<Rightarrow> resp \<times> kernel" where
  "carry_out t (Read fd n) K = (let m = min n (k_pipe K) in (resp0\<lparr>ret := m\<rparr>, K\<lparr>k_pipe := k_pipe K - m\<rparr>))"
| "carry_out t (Write fd n) K = (resp0\<lparr>ret := n\<rparr>, K\<lparr>k_pipe := k_pipe K + n\<rparr>)"
| "carry_out t (Set_pipe_size fd n) K = (resp0\<lparr>ret := n\<rparr>, K\<lparr>k_size := n\<rparr>)"
| "carry_out t Pipe K = (resp0\<lparr>r_fds := (3, 4)\<rparr>, K)"
| "carry_out t (Sem_init n) K = (resp0, K\<lparr>k_sem := n\<rparr>)"
| "carry_out t Sem_wait K = (resp0, K\<lparr>k_sem := k_sem K - 1\<rparr>)"
| "carry_out t Sem_post K = (resp0, K\<lparr>k_sem := k_sem K + 1\<rparr>)"
| "carry_out t (Pthread_create n) K =
     (resp0, K\<lparr>k_threads := k_threads K @ [(k_threads K ! t)\<lparr>l_pending := [], l_altstack := no_altstack\<rparr>]\<rparr>)"
| "carry_out t Gettid K = (resp0\<lparr>ret := kernel_ids t\<rparr>, K)"
| "carry_out t (Tgkill pid n s) K =
     (if 0 < n \<and> 1000 \<le> n \<and> nat (n - 1000) < length (k_threads K)
      then (resp0, send_to (nat (n - 1000)) (user_info (k_threads K ! t) s SI_TKILL) K)
      else (resp0\<lparr>ret := - EINVAL\<rparr>, K))"
| "carry_out t (Kill_pid pid s) K =
     (resp0, send_to (receiver s (k_threads K)) (user_info (k_threads K ! t) s SI_USER) K)"
| "carry_out t q K = (case do_call q (k_threads K ! t) of (r, k) \<Rightarrow> (r, put_thread t k K))"

section \<open>Moves\<close>

text \<open>
  A handler for a thread that runs in user mode: its next call is made when the handler has returned. A
  handler for a thread that sleeps in a call to be restarted: the context has the instruction pointer at
  the system call instruction and the call's number in its register.
\<close>

definition handle_before :: "nat \<Rightarrow> siginfo \<Rightarrow> linux \<Rightarrow> move \<times> linux" where
  "handle_before h i k = deliver h i None k"

definition handle_restart :: "nat \<Rightarrow> siginfo \<Rightarrow> int \<Rightarrow> linux \<Rightarrow> move \<times> linux" where
  "handle_restart h i nr k =
     (case deliver h i (Some (resp0\<lparr>ret := nr\<rparr>)) (k\<lparr>l_rip := l_rip k - 2\<rparr>) of
        (mv, k') \<Rightarrow> (mv, k'\<lparr>l_rip := l_rip k, l_frames := None # tl (l_frames k')\<rparr>))"

definition restarts :: "linux \<Rightarrow> signum \<Rightarrow> req \<Rightarrow> bool" where
  "restarts k s q \<longleftrightarrow>
     (case q of Pause \<Rightarrow> False | Pthread_join n \<Rightarrow> True | _ \<Rightarrow> has_flag (sa_flags (l_actions k s)) SA_RESTART)"

text \<open>A signal that can be delivered, before the call is made or while it sleeps.\<close>

definition signalled :: "tid \<Rightarrow> req \<Rightarrow> siginfo \<Rightarrow> linux \<Rightarrow> kernel \<Rightarrow> move \<times> kernel" where
  "signalled t q i k K =
     (let K' = K\<lparr>k_asleep := removeAll t (k_asleep K)\<rparr> in
      case sa_sigaction (l_actions k (si_signo i)) of
        Handler h \<Rightarrow>
          (case (if t \<notin> set (k_asleep K) then handle_before h i k
                 else if restarts k (si_signo i) q then handle_restart h i (call_number (l_arch k) q) k
                 else deliver h i (Some (resp0\<lparr>ret := - EINTR\<rparr>)) k) of
             (mv, k') \<Rightarrow> (mv, put_thread t k' K'))
      | SIG_IGN \<Rightarrow> (Block, put_thread t k K)
      | SIG_DFL \<Rightarrow>
          if default_ignored (si_signo i) \<or> default_stops (si_signo i) then (Block, put_thread t k K)
          else (Terminate (si_signo i), K))"

text \<open>One turn of a thread that waits at a request.\<close>

definition kernel_move :: "kernel \<Rightarrow> (tid \<Rightarrow> bool) \<Rightarrow> tid \<Rightarrow> req \<Rightarrow> move \<times> kernel" where
  "kernel_move K ended t q =
     (let k = k_threads K ! t in
      case l_answer k of
        Some r \<Rightarrow>
          if l_saved k \<noteq> None \<and> dequeue (l_blocked k) (l_pending k) = None then (Block, K)
          else (case leave r k of (mv, k') \<Rightarrow> (mv, put_thread t k' K))
      | None \<Rightarrow>
          (case q of
             Sigreturn c \<Rightarrow>
               (let k' = do_sigreturn c k in
                (Resume, put_thread t (if hd (l_frames k) = None then k'\<lparr>l_answer := None\<rparr> else k') K))
           | _ \<Rightarrow>
               (case dequeue (l_blocked k) (l_pending k) of
                  Some (i, rest) \<Rightarrow> signalled t q i (k\<lparr>l_pending := rest\<rparr>) K
                | None \<Rightarrow>
                    if must_wait K ended q then (Block, K\<lparr>k_asleep := List.insert t (k_asleep K)\<rparr>)
                    else (case carry_out t q K of
                            (r, K') \<Rightarrow>
                              (case leave r (k_threads K' ! t) of
                                 (mv, k') \<Rightarrow> (mv, put_thread t k' (K'\<lparr>k_asleep := removeAll t (k_asleep K')\<rparr>)))))))"

section \<open>Scheduled runs\<close>

text \<open>A schedule names the thread whose turn it is; a thread that does not wait at a request loses its turn.\<close>

definition has_ended :: "'g thread list \<Rightarrow> tid \<Rightarrow> bool" where
  "has_ended ts t \<longleftrightarrow> t < length ts \<and> is_ended (ts ! t)"

fun turn :: "'g handlers \<Rightarrow> 'g routines \<Rightarrow> 'g process \<times> kernel \<Rightarrow> tid \<Rightarrow> 'g process \<times> kernel" where
  "turn H thr (Halted r g L, K) t = (Halted r g L, K)"
| "turn H thr (Running ts g L, K) t =
     (if t < length ts then
        (case ts ! t of
           Waiting (q, c) fs jb \<Rightarrow>
             (case kernel_move K (has_ended ts) t q of
                (mv, K') \<Rightarrow> (tstep kernel_ids H thr (Running ts g L) (t, mv), K'))
         | _ \<Rightarrow> (Running ts g L, K))
      else (Running ts g L, K))"

definition scheduled :: "arch \<Rightarrow> 'g handlers \<Rightarrow> 'g routines \<Rightarrow> ('g, int) prog \<Rightarrow> 'g \<Rightarrow> tid list \<Rightarrow> 'g process" where
  "scheduled a H thr main g ts = fst (foldl (turn H thr) (tboot thr main g, kernel_init a) ts)"

definition scheduled_exit ::
  "arch \<Rightarrow> 'g handlers \<Rightarrow> 'g routines \<Rightarrow> ('g, int) prog \<Rightarrow> 'g \<Rightarrow> tid list \<Rightarrow> int option" where
  "scheduled_exit a H thr main g ts = process_status (scheduled a H thr main g ts)"

text \<open>A scheduled run is one of the runs the verdicts speak of.\<close>

lemma turn_replay: "\<exists>ms. fst (turn H thr (p, K) t) = treplay kernel_ids H thr p ms"
proof (cases p)
  case (Running ts g L)
  have none: "\<exists>ms. p = treplay kernel_ids H thr p ms"
    by (rule exI [of _ "[]"]) simp
  show ?thesis
  proof (cases "t < length ts \<and> (\<exists>q c fs jb. ts ! t = Waiting (q, c) fs jb)")
    case True
    then obtain q c fs jb where t: "t < length ts" "ts ! t = Waiting (q, c) fs jb" by blast
    obtain mv K' where "kernel_move K (has_ended ts) t q = (mv, K')" by fastforce
    with t Running have "fst (turn H thr (p, K) t) = treplay kernel_ids H thr p [(t, mv)]" by simp
    then show ?thesis by blast
  next
    case False
    then have "fst (turn H thr (p, K) t) = p"
      using Running by (auto split: thread.splits)
    with none show ?thesis by simp
  qed
next
  case (Halted r g L)
  then show ?thesis by (intro exI [of _ "[]"]) simp
qed

lemma treplay_append: "treplay ids H thr p (ms @ ms') = treplay ids H thr (treplay ids H thr p ms) ms'"
  by (simp add: treplay_def)

lemma turns_replay: "\<exists>ms. fst (foldl (turn H thr) (p, K) ts) = treplay kernel_ids H thr p ms"
proof (induction ts arbitrary: p K)
  case Nil
  show ?case by (rule exI [of _ "[]"]) simp
next
  case (Cons t ts)
  obtain p' K' where turn: "turn H thr (p, K) t = (p', K')" by fastforce
  obtain ms where "p' = treplay kernel_ids H thr p ms"
    using turn_replay [of H thr p K t] turn by auto
  moreover obtain ms' where "fst (foldl (turn H thr) (p', K') ts) = treplay kernel_ids H thr p' ms'"
    using Cons.IH by blast
  ultimately have "fst (foldl (turn H thr) (p, K) (t # ts)) = treplay kernel_ids H thr p (ms @ ms')"
    using turn by (simp add: treplay_append)
  then show ?case by blast
qed

lemma scheduled_trial: "\<exists>ms. scheduled a H thr main g ts = ttrial kernel_ids H thr main g ms"
  using turns_replay unfolding scheduled_def ttrial_def by blast

lemma scheduled_witness:
  assumes "scheduled_exit a H thr main g ts = Some n"
    and "\<And>ms g' L. ttrial kernel_ids H thr main g ms = Halted (Exited n) g' L \<Longrightarrow> P L"
  shows "\<exists>ms g' L. ttrial kernel_ids H thr main g ms = Halted (Exited n) g' L \<and> P L"
proof -
  obtain ms where "scheduled a H thr main g ts = ttrial kernel_ids H thr main g ms"
    using scheduled_trial [of a H thr main g ts] by blast
  moreover obtain g' L where "scheduled a H thr main g ts = Halted (Exited n) g' L"
    using process_status_Some [OF assms(1) [unfolded scheduled_exit_def]] by blast
  ultimately show ?thesis using assms(2) by metis
qed

text \<open>The threads take turns.\<close>

definition in_turns :: "nat \<Rightarrow> tid list" where
  "in_turns n = concat (replicate n [0, 1])"

section \<open>All schedules\<close>

text \<open>
  A turn that changes nothing: the thread has ended or not started, or sleeps and cannot be woken yet.
\<close>

fun idle :: "'g process \<times> kernel \<Rightarrow> tid \<Rightarrow> bool" where
  "idle (Halted r g L, K) t \<longleftrightarrow> True"
| "idle (Running ts g L, K) t \<longleftrightarrow>
     (if t < length ts then
        (case ts ! t of
           Waiting (q, c) fs jb \<Rightarrow>
             (let k = k_threads K ! t in
              dequeue (l_blocked k) (l_pending k) = None \<and>
              (case l_answer k of
                 Some r \<Rightarrow> l_saved k \<noteq> None
               | None \<Rightarrow> \<not> is_return q \<and> must_wait K (has_ended ts) q \<and> t \<in> set (k_asleep K)))
         | _ \<Rightarrow> True)
      else True)"

lemma tstep_Block:
  assumes "t < length ts" and "ts ! t = Waiting (q, c) fs jb"
  shows "tstep ids H thr (Running ts g L) (t, Block) = Running ts g L"
  using assms list_update_id [of ts t] by (cases q) simp_all

lemma idle_turn:
  assumes "idle s t"
  shows "turn H thr s t = s"
proof (cases s)
  case (Pair p K)
  show ?thesis
  proof (cases p)
    case (Running ts g L)
    show ?thesis
    proof (cases "t < length ts \<and> (\<exists>q c fs jb. ts ! t = Waiting (q, c) fs jb)")
      case True
      then obtain q c fs jb where t: "t < length ts" "ts ! t = Waiting (q, c) fs jb" by blast
      with assms Pair Running have "kernel_move K (has_ended ts) t q = (Block, K)"
        by (auto simp: kernel_move_def Let_def List.insert_def split: option.splits req.splits)
      with t Pair Running show ?thesis by (simp add: tstep_Block del: tstep.simps)
    next
      case False
      with Pair Running show ?thesis by (auto split: thread.splits)
    qed
  qed (use Pair in simp)
qed

text \<open>
  From a state that settles within \<open>n\<close> turns, every turn of a thread either changes nothing or leads to a
  state that settles within \<open>n - 1\<close>, some thread's turn does change something, and at the end the process has exited
  with 0.
\<close>

fun settles :: "'g handlers \<Rightarrow> 'g routines \<Rightarrow> nat \<Rightarrow> 'g process \<times> kernel \<Rightarrow> bool" where
  "settles H thr 0 s \<longleftrightarrow> process_status (fst s) = Some 0"
| "settles H thr (Suc n) s \<longleftrightarrow>
     process_status (fst s) = Some 0 \<or>
     list_ex (\<lambda>t. \<not> idle s t) [0..<Suc (length thr)] \<and>
     list_all (\<lambda>t. idle s t \<or> settles H thr n (turn H thr s t)) [0..<Suc (length thr)]"

lemma settles_exited: "process_status (fst s) = Some 0 \<Longrightarrow> settles H thr n s"
  by (cases n) simp_all

lemma settles_Suc: "settles H thr n s \<Longrightarrow> settles H thr (Suc n) s"
proof (induction n arbitrary: s)
  case 0
  then show ?case by simp
next
  case (Suc n)
  from Suc.prems Suc.IH show ?case
    unfolding settles.simps(2) [of H thr n s] settles.simps(2) [of H thr "Suc n" s] list_all_iff by blast
qed

lemma exited_turn: "process_status (fst s) = Some n \<Longrightarrow> turn H thr s t = s"
  using process_status_Some [of "fst s" n] by (cases s) auto

lemma exited_turns: "process_status (fst s) = Some n \<Longrightarrow> foldl (turn H thr) s ts = s"
  by (induction ts) (simp_all add: exited_turn)

lemma settles_turn:
  assumes "settles H thr n s" and "t \<le> length thr"
  shows "settles H thr n (turn H thr s t)"
proof (cases "process_status (fst s) = Some 0 \<or> idle s t")
  case True
  then have "turn H thr s t = s" using idle_turn exited_turn by blast
  with assms(1) show ?thesis by simp
next
  case False
  then obtain m where "n = Suc m" and "settles H thr m (turn H thr s t)"
    using assms by (cases n) (auto simp: list_all_iff simp del: upt_Suc)
  then show ?thesis by (simp only: settles_Suc)
qed

lemma settles_turns: "settles H thr n s \<Longrightarrow> set ts \<subseteq> {..length thr} \<Longrightarrow> settles H thr n (foldl (turn H thr) s ts)"
  by (induction ts arbitrary: s) (simp_all add: settles_turn)

lemma settles_halted: "settles H thr n (Halted r g L, K) \<Longrightarrow> r = Exited 0"
  by (cases n; cases r) (auto simp: list_ex_iff)

text \<open>In a round every thread has its turn, at least once.\<close>

definition is_round :: "'g routines \<Rightarrow> tid list \<Rightarrow> bool" where
  "is_round thr r \<longleftrightarrow> set r = {..length thr}"

lemma round_progress:
  assumes "settles H thr (Suc n) s" and "is_round thr r"
  shows "settles H thr n (foldl (turn H thr) s r)"
proof (cases "process_status (fst s) = Some 0")
  case True
  then show ?thesis by (simp add: exited_turns settles_exited)
next
  case False
  with assms have "\<exists>t \<in> set r. \<not> idle s t"
    by (auto simp: list_ex_iff is_round_def simp del: upt_Suc)
  then obtain r1 t r2 where r: "r = r1 @ t # r2" "\<not> idle s t" "\<forall>u \<in> set r1. idle s u"
    using split_list_first_prop [of r "\<lambda>t. \<not> idle s t"] by blast
  have "foldl (turn H thr) s r1 = s"
    using r(3) by (induction r1) (simp_all add: idle_turn)
  moreover have "t \<le> length thr" and "set r2 \<subseteq> {..length thr}"
    using assms(2) r(1) by (auto simp: is_round_def)
  moreover have "settles H thr n (turn H thr s t)"
    using assms(1) False r(2) \<open>t \<le> length thr\<close> by (auto simp: list_all_iff simp del: upt_Suc)
  ultimately show ?thesis
    using r(1) settles_turns by simp
qed

lemma rounds_exit:
  assumes "settles H thr n s" and "n \<le> length rs" and "\<forall>r \<in> set rs. is_round thr r"
  shows "process_status (fst (foldl (turn H thr) s (concat rs))) = Some 0"
  using assms
proof (induction rs arbitrary: n s)
  case Nil
  then show ?case by simp
next
  case (Cons r rs)
  show ?case
  proof (cases n)
    case 0
    with Cons.prems(1) show ?thesis by (simp add: exited_turns)
  next
    case (Suc m)
    with Cons.prems have "settles H thr m (foldl (turn H thr) s r)" by (intro round_progress) simp_all
    from Cons.IH [OF this] Cons.prems Suc show ?thesis by simp
  qed
qed

text \<open>
  A test that passes whatever the scheduler does: it exits 0 in every schedule of \<open>n\<close> rounds, and no schedule
  whatever makes it end in another way.
\<close>

definition always_passes ::
  "nat \<Rightarrow> arch \<Rightarrow> 'g handlers \<Rightarrow> 'g routines \<Rightarrow> ('g, int) prog \<Rightarrow> 'g \<Rightarrow> bool" where
  "always_passes n a H thr main g \<longleftrightarrow>
     (\<forall>rs. n \<le> length rs \<longrightarrow> (\<forall>r \<in> set rs. is_round thr r) \<longrightarrow>
        scheduled_exit a H thr main g (concat rs) = Some 0) \<and>
     (\<forall>ts r g' L. set ts \<subseteq> {..length thr} \<longrightarrow> scheduled a H thr main g ts = Halted r g' L \<longrightarrow> r = Exited 0)"

lemma always_passesI:
  assumes "settles H thr n (tboot thr main g, kernel_init a)"
  shows "always_passes n a H thr main g"
  unfolding always_passes_def
proof (intro conjI allI impI)
  fix rs
  assume "n \<le> length rs" and "\<forall>r \<in> set rs. is_round thr r"
  then show "scheduled_exit a H thr main g (concat rs) = Some 0"
    unfolding scheduled_exit_def scheduled_def by (rule rounds_exit [OF assms])
next
  fix ts r g' L
  assume ts: "set ts \<subseteq> {..length thr}" and halted: "scheduled a H thr main g ts = Halted r g' L"
  obtain K where "foldl (turn H thr) (tboot thr main g, kernel_init a) ts = (Halted r g' L, K)"
    using halted unfolding scheduled_def by (metis prod.collapse)
  with settles_turns [OF assms ts] show "r = Exited 0" by (simp add: settles_halted)
qed

end
