(* ===== verification/Sharing.thy ===== *)
theory Sharing
  imports Scheduler Processes
begin

text \<open>
  The tests of what the threads of a process share and inherit: \<^verbatim>\<open>thread-inherit\<close>,
  \<^verbatim>\<open>signal-table-thread\<close>.
\<close>

section \<open>\<^verbatim>\<open>thread-inherit.cpp\<close>\<close>

text \<open>The signals and the checks of both threads are those of \<^verbatim>\<open>fork-inherit\<close>.\<close>

definition thread_inherit_set :: sigset where
  "thread_inherit_set = fork_inherit_set"

definition thread_inherit_thread :: "(memory, unit) prog" where
  "thread_inherit_thread = check_old_mask"

definition thread_inherit_main :: "(memory, int) prog" where
  "thread_inherit_main =
     seq (block [
       ASSERT_ret (sigprocmask SIG_BLOCK thread_inherit_set) (\<lambda>r. r = 0),
       std_thread 0,
       std_join 0,
       check_old_mask])
     (Return 0)"

text \<open>A mask query that found the five signals.\<close>

fun five_blocked :: "req \<times> resp \<Rightarrow> bool" where
  "five_blocked (q, r) \<longleftrightarrow> q = Rt_sigprocmask SIG_SETMASK None \<and> ret r = 0 \<and>
     sigismember (r_set r) SIGUSR1 \<and> sigismember (r_set r) SIGURG \<and> sigismember (r_set r) SIGSEGV \<and>
     sigismember (r_set r) SIGBUS \<and> sigismember (r_set r) SIGILL"

definition thread_checked :: "log \<Rightarrow> bool" where
  "thread_checked l \<longleftrightarrow> (\<exists>s q. main_calls l = [(Thread_start, s), q] \<and> five_blocked q)"

definition mask_inherited_by_thread :: "tlog \<Rightarrow> bool" where
  "mask_inherited_by_thread L \<longleftrightarrow> thread_checked (own 1 L) \<and> (\<exists>m c j q.
     main_calls (own 0 L) =
       [(Rt_sigprocmask SIG_BLOCK (Some (thread_inherit_set AND NOT internal_signals)), m),
        (Pthread_create 0, c), (Pthread_join 0, j), q] \<and>
     ret m = 0 \<and> ret c = 0 \<and> ret j = 0 \<and> five_blocked q)"

definition thread_inherit_inv :: "memory \<Rightarrow> tlog \<Rightarrow> bool" where
  "thread_inherit_inv g L \<longleftrightarrow> sound_log L \<and> (End 1 \<in> set L \<longrightarrow> thread_checked (own 1 L))"

definition thread_inherit_exit :: "int \<Rightarrow> memory \<Rightarrow> tlog \<Rightarrow> bool" where
  "thread_inherit_exit n g L \<longleftrightarrow> (n = 0 \<longleftrightarrow> mask_inherited_by_thread L)"

interpretation thread_inherit: thread_contract ids no_handlers "[thread_inherit_thread]"
    thread_inherit_inv thread_inherit_exit for ids
  by unfold_locales
    (auto simp: twp_calls thread_inherit_thread_def check_old_mask_def no_handlers_def
      thread_inherit_inv_def thread_inherit_exit_def mask_inherited_by_thread_def thread_checked_def)

lemma thread_inherit_decided:
  "tdecides ids no_handlers [thread_inherit_thread] thread_inherit_main \<lparr>errno = 0\<rparr> mask_inherited_by_thread"
proof (rule tdecidesI)
  fix ms n g L
  assume run: "ttrial ids no_handlers [thread_inherit_thread] thread_inherit_main \<lparr>errno = 0\<rparr> ms = Halted (Exited n) g L"
  have "twp ids 0 thread_inherit_inv thread_inherit_exit (\<lambda>_ _ _. False) thread_inherit_main
     (\<lambda>n. thread_inherit_exit n) \<lparr>errno = 0\<rparr> []"
    by (auto simp: twp_calls thread_inherit_main_def std_defs check_old_mask_def
      thread_inherit_inv_def thread_inherit_exit_def mask_inherited_by_thread_def dest: ended_grows)
  from thread_inherit.verdict [OF this run] show "n = 0 \<longleftrightarrow> mask_inherited_by_thread L"
    by (simp add: thread_inherit_exit_def)
qed

text \<open>
  \<^verbatim>\<open>fork-inherit\<close> exits 0 exactly in a process, parent or child, that finds the five signals
  blocked after the \<^verbatim>\<open>fork\<close>, the parent also being told that its child exited with 0;
  \<^verbatim>\<open>execve-inherit\<close> exits 0 exactly in its second image and if that finds the mask of the first;
  \<^verbatim>\<open>thread-inherit\<close>, however its threads are interleaved, exactly when both of them find the five signals
  blocked.
\<close>

lemma inheritance_decided:
  "decides no_handlers fork_inherit_main start_memory mask_inherited \<and>
   decides execve_inherit_handler (execve_inherit_main env) execve_inherit_memory (mask_survived env) \<and>
   tdecides ids no_handlers [thread_inherit_thread] thread_inherit_main \<lparr>errno = 0\<rparr> mask_inherited_by_thread"
  by (intro conjI fork_inherit_decided execve_inherit_decided thread_inherit_decided)

section \<open>\<^verbatim>\<open>signal-table-thread.cpp\<close>\<close>

record signal_table_thread = memory +
  t_child_tid :: int
  t_parent_tid :: int
  t_is_ok :: bool
  t_is_ok2 :: bool

text \<open>\<^verbatim>\<open>signal_handler\<close> is number 0, \<^verbatim>\<open>signal_handler2\<close> number 1.\<close>

definition table_handler1 ::
  "signum \<Rightarrow> siginfo \<Rightarrow> ucontext \<Rightarrow> (signal_table_thread, ucontext) prog" where
  "table_handler1 sig info ctx =
     seq (block [
       bind gettid (\<lambda>t. ASSERT_mem (\<lambda>g. t_child_tid g = t)),
       modify (t_is_ok_update (\<lambda>_. True))])
     (Return ctx)"

definition table_handler2 ::
  "signum \<Rightarrow> siginfo \<Rightarrow> ucontext \<Rightarrow> (signal_table_thread, ucontext) prog" where
  "table_handler2 sig info ctx =
     seq (block [
       bind gettid (\<lambda>t. ASSERT_mem (\<lambda>g. t_parent_tid g = t)),
       modify (t_is_ok2_update (\<lambda>_. True))])
     (Return ctx)"

definition signal_table_thread_handler ::
  "nat \<Rightarrow> signum \<Rightarrow> siginfo \<Rightarrow> ucontext \<Rightarrow> (signal_table_thread, ucontext) prog" where
  "signal_table_thread_handler h =
     (if h = 0 then table_handler1 else if h = 1 then table_handler2 else (\<lambda>_ _ _. Undefined))"

definition table_action :: "nat \<Rightarrow> sigact" where
  "table_action h = \<lparr>sa_sigaction = Handler h, sa_flags = SA_SIGINFO, sa_mask = sigemptyset, sa_restorer = 0\<rparr>"

definition table_thread :: "(signal_table_thread, unit) prog" where
  "table_thread = block [
     bind gettid (\<lambda>t. modify (t_child_tid_update (\<lambda>_. t))),
     bind (sigaction_query SIGUSR1) (\<lambda>(r, old_sa). block [
       ASSERT (r = 0),
       ASSERT (sa_sigaction old_sa = Handler 0)]),
     ASSERT_ret (sigaction SIGUSR2 (table_action 1)) (\<lambda>r. r = 0),
     ignore (raise SIGUSR1)]"

definition signal_table_thread_main :: "(signal_table_thread, int) prog" where
  "signal_table_thread_main =
     seq (block [
       bind gettid (\<lambda>t. modify (t_parent_tid_update (\<lambda>_. t))),
       ASSERT_ret (sigaction SIGUSR1 (table_action 0)) (\<lambda>r. r = 0),
       ASSERT_ret (pthread_create 0) (\<lambda>r. r = 0),
       ASSERT_ret (pthread_sigmask SIG_BLOCK sigfillset) (\<lambda>r. r = 0),
       ASSERT_ret (pthread_join 0) (\<lambda>r. r = 0),
       bind (sigaction_query SIGUSR2) (\<lambda>(r, old_sa). block [
         ASSERT (r = 0),
         ASSERT (sa_sigaction old_sa = Handler 1)]),
       ASSERT_ret (pthread_sigmask SIG_UNBLOCK sigfillset) (\<lambda>r. r = 0),
       ignore (raise SIGUSR2),
       ASSERT_mem t_is_ok,
       ASSERT_mem t_is_ok2])
     (Return 0)"

definition signal_table_thread_memory :: signal_table_thread where
  "signal_table_thread_memory =
     \<lparr>errno = 0, t_child_tid = 0, t_parent_tid = 0, t_is_ok = False, t_is_ok2 = False\<rparr>"

lemmas signal_table_thread_defs = signal_table_thread_handler_def table_handler1_def table_handler2_def
  table_thread_def signal_table_thread_main_def signal_table_thread_memory_def

text \<open>A query of the action of a signal that found the handler of this number.\<close>

fun found_handler :: "signum \<Rightarrow> nat \<Rightarrow> req \<times> resp \<Rightarrow> bool" where
  "found_handler s h (q, r) \<longleftrightarrow> q = Rt_sigaction s None \<and> ret r = 0 \<and> sa_sigaction (r_act r) = Handler h"

definition child_shares :: "log \<Rightarrow> bool" where
  "child_shares l \<longleftrightarrow> (\<exists>s t q a k. main_calls l =
     [(Thread_start, s), (Gettid, t), q, (Rt_sigaction SIGUSR2 (Some (table_action 1)), a), (Raise SIGUSR1, k)] \<and>
     found_handler SIGUSR1 0 q \<and> ret a = 0)"

definition parent_shares :: "log \<Rightarrow> bool" where
  "parent_shares l \<longleftrightarrow> (\<exists>t a c b j q u k. main_calls l =
     [(Gettid, t), (Rt_sigaction SIGUSR1 (Some (table_action 0)), a), (Pthread_create 0, c),
      (Rt_sigprocmask SIG_BLOCK (Some (sigfillset AND NOT internal_signals)), b), (Pthread_join 0, j), q,
      (Rt_sigprocmask SIG_UNBLOCK (Some (sigfillset AND NOT internal_signals)), u), (Raise SIGUSR2, k)] \<and>
     ret a = 0 \<and> found_handler SIGUSR2 1 q)"

definition signal_table_thread_inv :: "(tid \<Rightarrow> int) \<Rightarrow> signal_table_thread \<Rightarrow> tlog \<Rightarrow> bool" where
  "signal_table_thread_inv ids g L \<longleftrightarrow> sound_log L \<and>
     t_child_tid g \<in> {0, ids 1} \<and> t_parent_tid g \<in> {0, ids 0} \<and>
     (t_is_ok g \<longrightarrow> handled (own 1 L) \<noteq> []) \<and> (t_is_ok2 g \<longrightarrow> handled (own 0 L) \<noteq> []) \<and>
     (End 1 \<in> set L \<longrightarrow> child_shares (own 1 L))"

definition signal_table_thread_exit :: "int \<Rightarrow> signal_table_thread \<Rightarrow> tlog \<Rightarrow> bool" where
  "signal_table_thread_exit n g L \<longleftrightarrow> (n = 0 \<longrightarrow> parent_shares (own 0 L) \<and> child_shares (own 1 L) \<and>
     handled (own 0 L) \<noteq> [] \<and> handled (own 1 L) \<noteq> [])"

lemmas signal_table_thread_spec = signal_table_thread_inv_def signal_table_thread_exit_def

lemma with_errno_table [simp]:
  "t_child_tid (with_errno r g) = t_child_tid g" "t_parent_tid (with_errno r g) = t_parent_tid g"
  "t_is_ok (with_errno r g) = t_is_ok g" "t_is_ok2 (with_errno r g) = t_is_ok2 g"
  by (simp_all add: with_errno_def)

lemma table_inside:
  "signal_table_thread_inv ids g L \<Longrightarrow> inside t L e \<Longrightarrow> signal_table_thread_inv ids g (At t e # L)"
  using own_calls_inside [of t L e 1]
  by (auto simp: signal_table_thread_inv_def child_shares_def sound_log_inside simp del: main_calls.simps own_Cons)
    (simp_all)

lemma table_active: "signal_table_thread_inv ids g L \<Longrightarrow> 0 \<le> active (own t L)"
  by (simp add: signal_table_thread_inv_def sound_log_active)

lemma table_call:
  assumes "signal_table_thread_inv ids g L" and "entered (Ans q r) = []"
    and "t = 0 \<or> t = 1 \<and> length (main_calls (own 1 L)) < 5"
  shows "signal_table_thread_inv ids g (At t (Ans q r) # L)"
  using assms by (auto simp: signal_table_thread_inv_def child_shares_def)

lemma table_set:
  assumes "signal_table_thread_inv ids g L"
  shows "n = ids 1 \<Longrightarrow> signal_table_thread_inv ids (g\<lparr>t_child_tid := n\<rparr>) L"
    and "n = ids 0 \<Longrightarrow> signal_table_thread_inv ids (g\<lparr>t_parent_tid := n\<rparr>) L"
    and "handled (own 1 L) \<noteq> [] \<Longrightarrow> signal_table_thread_inv ids (g\<lparr>t_is_ok := True\<rparr>) L"
    and "handled (own 0 L) \<noteq> [] \<Longrightarrow> signal_table_thread_inv ids (g\<lparr>t_is_ok2 := True\<rparr>) L"
    and "signal_table_thread_inv ids (with_errno r g) L"
  using assms by (simp_all add: signal_table_thread_inv_def)

lemma table_end:
  assumes "signal_table_thread_inv ids g L" and "child_shares (own 1 L)"
  shows "signal_table_thread_inv ids g (End 1 # L)"
  using assms by (simp add: signal_table_thread_inv_def)

lemma table_routine:
  assumes "signal_table_thread_inv ids g L" and "own 1 L = []"
  shows "twp ids 1 (signal_table_thread_inv ids) signal_table_thread_exit S (Call Thread_start (\<lambda>_. table_thread))
    (\<lambda>_ g' L'. signal_table_thread_inv ids g' (End 1 # L') \<and> active (own 1 L') = 0) g L"
  using assms
  by (auto simp: twp_calls table_thread_def signal_table_thread_exit_def child_shares_def
    intro!: table_call table_set table_end [unfolded One_nat_def])

lemma table_tids:
  assumes "signal_table_thread_inv ids g L" and "thread_numbers ids"
  shows "t_child_tid g = ids t \<Longrightarrow> t = 1" and "t_parent_tid g = ids t \<Longrightarrow> t = 0"
  using assms(1) thread_numbers_eq [OF assms(2)] thread_numbers_pos [OF assms(2), of t]
  by (auto simp: signal_table_thread_inv_def)

lemma table_handler:
  assumes "thread_numbers ids" and inv: "signal_table_thread_inv ids g L"
  shows "twp ids t (signal_table_thread_inv ids) signal_table_thread_exit
    (\<lambda>c' g' L'. signal_table_thread_inv ids g' (At t (Ret c') # L') \<and> quiet (own t L) (Ret c' # own t L'))
    (handler_prog signal_table_thread_handler h s i c) (\<lambda>_ _ _. False) g L"
  using inv table_active [OF inv, of t]
  by (auto simp: twp_calls signal_table_thread_handler_def table_handler1_def table_handler2_def
    signal_table_thread_exit_def inside_def
    intro!: table_inside table_set dest: table_active [where t = t])
    (metis assms(1) One_nat_def entered_grows table_tids)+

lemma signal_table_thread_contract:
  assumes "thread_numbers ids"
  shows "thread_contract ids signal_table_thread_handler [table_thread] (signal_table_thread_inv ids)
    signal_table_thread_exit"
  by unfold_locales (simp_all add: table_handler [OF assms] table_routine [unfolded One_nat_def] del: twp.simps)

text \<open>The contract for the numbers of threads on the model of Linux.\<close>

interpretation signal_table_thread: thread_contract kernel_ids signal_table_thread_handler "[table_thread]"
    "signal_table_thread_inv kernel_ids" signal_table_thread_exit
  by (rule signal_table_thread_contract) (rule kernel_ids_numbers)

lemma table_shares:
  "signal_table_thread_inv ids g L \<Longrightarrow> End 1 \<in> set L \<Longrightarrow> child_shares (own 1 L)"
  "signal_table_thread_inv ids g L \<Longrightarrow> t_is_ok g \<Longrightarrow> handled (own 1 L) \<noteq> []"
  "signal_table_thread_inv ids g L \<Longrightarrow> t_is_ok2 g \<Longrightarrow> handled (own 0 L) \<noteq> []"
  by (simp_all add: signal_table_thread_inv_def)

lemma signal_table_thread_main_twp:
  "twp ids 0 (signal_table_thread_inv ids) signal_table_thread_exit (\<lambda>_ _ _. False) signal_table_thread_main
     (\<lambda>n. signal_table_thread_exit n) signal_table_thread_memory []"
proof -
  have start: "signal_table_thread_inv ids signal_table_thread_memory []"
    by (simp add: signal_table_thread_inv_def signal_table_thread_memory_def)
  show ?thesis
    using start 
    by (auto simp: twp_calls signal_table_thread_main_def signal_table_thread_exit_def
      intro!: table_call table_set)
      (simp add: parent_shares_def, blast intro: table_shares [unfolded One_nat_def] dest: ended_grows,
        blast dest: table_shares, blast dest: table_shares [unfolded One_nat_def])
qed

text \<open>
  C8. If \<^verbatim>\<open>signal-table-thread\<close> exits 0, then the thread has found the handler that \<^verbatim>\<open>main\<close> installed before
  it existed, \<^verbatim>\<open>main\<close> has found the handler that the thread installed, and on each of the two a handler was
  entered.
\<close>

theorem signal_table_thread_verdict:
  assumes "thread_numbers ids"
    and "ttrial ids signal_table_thread_handler [table_thread] signal_table_thread_main
      signal_table_thread_memory ms = Halted (Exited 0) g L"
  shows "parent_shares (own 0 L) \<and> child_shares (own 1 L) \<and> handled (own 0 L) \<noteq> [] \<and> handled (own 1 L) \<noteq> []"
  using thread_contract.verdict [OF signal_table_thread_contract [OF assms(1)] signal_table_thread_main_twp assms(2)]
  by (simp add: signal_table_thread_exit_def)

section \<open>Runs on the model of Linux\<close>

lemma thread_inherit_settles:
  "settles no_handlers [thread_inherit_thread] 20
     (tboot [thread_inherit_thread] thread_inherit_main \<lparr>errno = 0\<rparr>, kernel_init a)"
  by (cases a; simp only:; code_simp)

lemma thread_inherit_live:
  "always_passes 20 a no_handlers [thread_inherit_thread] thread_inherit_main \<lparr>errno = 0\<rparr>"
  by (rule always_passesI) (rule thread_inherit_settles)

lemma signal_table_thread_linux:
  "scheduled_exit a signal_table_thread_handler [table_thread] signal_table_thread_main
     signal_table_thread_memory (in_turns 30) = Some 0"
  by (cases a; simp only:; code_simp)

theorem signal_table_thread_verdict_witness:
  "\<exists>ms g L. ttrial kernel_ids signal_table_thread_handler [table_thread] signal_table_thread_main
      signal_table_thread_memory ms = Halted (Exited 0) g L \<and>
    (parent_shares (own 0 L) \<and> child_shares (own 1 L) \<and> handled (own 0 L) \<noteq> [] \<and> handled (own 1 L) \<noteq> [])"
  by (rule scheduled_witness [OF signal_table_thread_linux [of X64]
      signal_table_thread_verdict [OF kernel_ids_numbers]])

end
