(* ===== verification/Interrupting.thy ===== *)
theory Interrupting
  imports Scheduler
begin

text \<open>
  The tests of what a handler sees of the system call it has interrupted, with a second thread that sends
  the signal: \<^verbatim>\<open>pause-pc-rax\<close>, \<^verbatim>\<open>sigsuspend-pc-rax\<close>.
\<close>

section \<open>What the two tests share\<close>

definition interrupted_handler :: "arch \<Rightarrow> nat \<Rightarrow> signum \<Rightarrow> siginfo \<Rightarrow> ucontext \<Rightarrow> ('g, ucontext) prog" where
  "interrupted_handler a h sig info ctx =
     seq (block [
       ASSERT (greg a (REG_RAX (gregs ctx)) = - EINTR),
       check_syscall_bytes a ctx])
     (Return ctx)"

text \<open>
  The invariant: the calls of \<^verbatim>\<open>main\<close> are not yet the whole of \<open>M\<close>; the thread ends with the calls \<open>D\<close>;
  every handler that has returned, on either thread, had interrupted a system call.
\<close>

definition interrupted_inv ::
  "arch \<Rightarrow> ((req \<times> resp) list \<Rightarrow> bool) \<Rightarrow> ((req \<times> resp) list \<Rightarrow> bool) \<Rightarrow> tlog \<Rightarrow> bool" where
  "interrupted_inv a M D L \<longleftrightarrow> sound_log L \<and> \<not> M (main_calls (own 0 L)) \<and>
     (End 1 \<in> set L \<longrightarrow> D (main_calls (own 1 L))) \<and> (\<forall>t. each_return (in_sigsuspend a) (own t L))"

definition all_interrupted :: "arch \<Rightarrow> tlog \<Rightarrow> bool" where
  "all_interrupted a L \<longleftrightarrow> (\<forall>t. each_return (in_sigsuspend a) (own t L))"

lemma all_interrupted_event:
  "all_interrupted a L \<Longrightarrow> (\<And>c. e = Ret c \<Longrightarrow> in_sigsuspend a (own t L) c) \<Longrightarrow> all_interrupted a (At t e # L)"
  by (auto simp: all_interrupted_def)

lemma interrupted_inv_alt:
  "interrupted_inv a M D L \<longleftrightarrow> sound_log L \<and> \<not> M (main_calls (own 0 L)) \<and>
     (End 1 \<in> set L \<longrightarrow> D (main_calls (own 1 L))) \<and> all_interrupted a L"
  by (simp add: interrupted_inv_def all_interrupted_def)

lemma interrupted_inside:
  assumes "interrupted_inv a M D L" and "inside t L e" and "\<And>c. e = Ret c \<Longrightarrow> in_sigsuspend a (own t L) c"
  shows "interrupted_inv a M D (At t e # L)"
  using assms own_calls_inside [OF assms(2), of 0] own_calls_inside [OF assms(2), of 1]
  by (auto simp: interrupted_inv_alt sound_log_inside all_interrupted_event simp del: main_calls.simps own_Cons)

lemma interrupted_call:
  assumes "interrupted_inv a M D L" and "entered (Ans q r) = []"
    and "t = 0 \<Longrightarrow> \<not> M (main_calls (own 0 (At 0 (Ans q r) # L)))" and "t = 1 \<Longrightarrow> \<not> D (main_calls (own 1 L))"
  shows "interrupted_inv a M D (At t (Ans q r) # L)"
proof -
  have "all_interrupted a (At t (Ans q r) # L)"
    using assms(1) by (intro all_interrupted_event) (simp_all add: interrupted_inv_alt)
  moreover have "End 1 \<notin> set L" if "t = 1"
    using assms(1,4) that by (auto simp: interrupted_inv_alt)
  ultimately show ?thesis
    using assms by (cases "t = 0"; cases "t = 1") (simp_all add: interrupted_inv_alt)
qed

lemma interrupted_out: "interrupted_inv a M D L \<Longrightarrow> interrupted_inv a M D (At t (Out s) # L)"
  using all_interrupted_event [of a L "Out s" t] by (simp add: interrupted_inv_alt)

lemma interrupted_end:
  assumes "interrupted_inv a M D L" and "D (main_calls (own 1 L))"
  shows "interrupted_inv a M D (End 1 # L)"
  using assms by (simp add: interrupted_inv_def)

lemma interrupted_ended:
  assumes "interrupted_inv a M D L" and "End 1 \<in> set L"
  shows "D (main_calls (own 1 L))" and "all_interrupted a (At 0 (Ans q r) # L)"
  using assms all_interrupted_event [of a L "Ans q r" 0] by (simp_all add: interrupted_inv_alt)

lemmas interrupted_steps = interrupted_call [unfolded One_nat_def] interrupted_end [unfolded One_nat_def]

lemma interrupted_active: "interrupted_inv a M D L \<Longrightarrow> 0 \<le> active (own t L)"
  by (simp add: interrupted_inv_def sound_log_active)

lemma after_syscall_read:
  assumes "tgrows (At t (Ans (Load_byte (to_ptr a (to_ptr a (REG_RIP (gregs c)) - 2))) r2) # L1) L2"
    and "tgrows (At t (Ans (Load_byte (to_ptr a (to_ptr a (REG_RIP (gregs c)) - 1))) r1) # L2) L3"
    and "loaded r2 = syscall_byte a 2" and "loaded r1 = syscall_byte a 1"
  shows "after_syscall a (own t L3) c"
  using assms by (auto simp: after_syscall_def read_byte_def tgrows_def)

lemma interrupted_handler_twp:
  assumes inv: "interrupted_inv a M D L" and fails: "\<And>g L. interrupted_inv a M D L \<Longrightarrow> X 1 g L"
  shows "twp ids t (\<lambda>_. interrupted_inv a M D) X
    (\<lambda>c' g' L'. interrupted_inv a M D (At t (Ret c') # L') \<and> quiet (own t L) (Ret c' # own t L'))
    (handler_prog (interrupted_handler a) h s i c) (\<lambda>_ _ _. False) g L"
  using inv interrupted_active [OF inv, of t]
  by (auto simp: twp_calls interrupted_handler_def check_syscall_bytes_def Let_def inside_def
      intro!: fails interrupted_inside dest: interrupted_active [where t = t])
    (simp add: in_sigsuspend_def, blast intro: after_syscall_read)+

text \<open>
  The contract both tests meet: the thread makes the calls \<open>D\<close>, \<^verbatim>\<open>main\<close> the calls \<open>M\<close>, or the test
  fails. So such a test exits 0 exactly on the runs with these calls, whose handlers all interrupted
  system calls.
\<close>

definition interrupted_exit :: "arch \<Rightarrow> ((req \<times> resp) list \<Rightarrow> bool) \<Rightarrow>
    ((req \<times> resp) list \<Rightarrow> bool) \<Rightarrow> int \<Rightarrow> 'g \<Rightarrow> tlog \<Rightarrow> bool" where
  "interrupted_exit a M D n g L \<longleftrightarrow>
     (n = 0 \<longleftrightarrow> M (main_calls (own 0 L)) \<and> D (main_calls (own 1 L)) \<and> all_interrupted a L)"

lemma interrupted_fails: "interrupted_inv a M D L \<Longrightarrow> interrupted_exit a M D 1 g L"
  by (simp add: interrupted_exit_def interrupted_inv_def)

locale interrupting =
  fixes a :: arch and M D :: "(req \<times> resp) list \<Rightarrow> bool" and thread :: "('g, unit) prog"
    and main :: "('g, int) prog" and g0 :: 'g
  assumes thread_meets: "interrupted_inv a M D L \<Longrightarrow> own 1 L = [] \<Longrightarrow>
      twp ids 1 (\<lambda>_. interrupted_inv a M D) (interrupted_exit a M D) (\<lambda>_ _ _. False)
        (Call Thread_start (\<lambda>_. thread)) (\<lambda>_ g' L'. interrupted_inv a M D (End 1 # L') \<and> active (own 1 L') = 0) g L"
    and main_meets: "twp ids 0 (\<lambda>_. interrupted_inv a M D) (interrupted_exit a M D) (\<lambda>_ _ _. False)
      main (\<lambda>n. interrupted_exit a M D n) g0 []"

sublocale interrupting \<subseteq> contract: thread_contract ids "interrupted_handler a" "[thread]"
    "\<lambda>_. interrupted_inv a M D" "interrupted_exit a M D" for ids
  by unfold_locales
    (simp_all add: interrupted_handler_twp interrupted_fails thread_meets [unfolded One_nat_def] del: twp.simps)

context interrupting begin

lemma decided: "tdecides ids (interrupted_handler a) [thread] main g0
    (\<lambda>L. M (main_calls (own 0 L)) \<and> D (main_calls (own 1 L)) \<and> all_interrupted a L)"
  using contract.verdict [OF main_meets] by (intro tdecidesI) (simp add: interrupted_exit_def)

end

section \<open>\<^verbatim>\<open>pause-pc-rax.cpp\<close>\<close>

text \<open>The variable that the thread's function has captured; the set that is not used is left out.\<close>

record pause_pc_rax = memory +
  pause_pid :: int

definition pause_pc_rax_handler ::
  "arch \<Rightarrow> nat \<Rightarrow> signum \<Rightarrow> siginfo \<Rightarrow> ucontext \<Rightarrow> (pause_pc_rax, ucontext) prog" where
  "pause_pc_rax_handler = interrupted_handler"

definition pause_pc_rax_thread :: "(pause_pc_rax, unit) prog" where
  "pause_pc_rax_thread = block [
     ignore (pthread_sigmask SIG_BLOCK sigfillset),
     ignore (usleep 500000),
     bind get (\<lambda>g. ignore (kill (pause_pid g) SIGUSR1))]"

definition pause_pc_rax_main :: "(pause_pc_rax, int) prog" where
  "pause_pc_rax_main =
     seq (block [
       bind getpid (\<lambda>pid. modify (pause_pid_update (\<lambda>_. pid))),
       ASSERT_ret (sigaction SIGUSR1 (handler_action SA_SIGINFO sigemptyset)) (\<lambda>r. r = 0),
       std_thread 0,
       bind pause (\<lambda>r. block [
         ASSERT (r = - 1),
         ASSERT_mem (\<lambda>g. errno g = EINTR)]),
       std_join 0])
     (Return 0)"

definition pause_pc_rax_memory :: pause_pc_rax where
  "pause_pc_rax_memory = \<lparr>errno = 0, pause_pid = 0\<rparr>"

definition pause_sent :: "(req \<times> resp) list \<Rightarrow> bool" where
  "pause_sent cs \<longleftrightarrow> (\<exists>s m u p k. cs = [(Thread_start, s),
     (Rt_sigprocmask SIG_BLOCK (Some (sigfillset AND NOT internal_signals)), m), (Usleep 500000, u),
     (Kill_pid p SIGUSR1, k)])"

definition pause_returned :: "(req \<times> resp) list \<Rightarrow> bool" where
  "pause_returned cs \<longleftrightarrow> (\<exists>p a c r j. cs = [(Getpid, p),
     (Rt_sigaction SIGUSR1 (Some (handler_action SA_SIGINFO sigemptyset)), a), (Pthread_create 0, c),
     (Pause, r), (Pthread_join 0, j)] \<and> ret a = 0 \<and> ret c = 0 \<and> ret r = - EINTR \<and> ret j = 0)"

lemmas interrupted_results = result_def with_errno_def is_error_def handler_action_def
  interrupted_ended [unfolded One_nat_def]

lemma pause_thread_twp:
  assumes "interrupted_inv a pause_returned pause_sent L" and "own 1 L = []"
  shows "twp ids 1 (\<lambda>_. interrupted_inv a pause_returned pause_sent) X S
     (Call Thread_start (\<lambda>_. pause_pc_rax_thread))
     (\<lambda>_ g' L'. interrupted_inv a pause_returned pause_sent (End 1 # L') \<and> active (own 1 L') = 0) g L"
  using assms
  by (auto simp: twp_calls pause_pc_rax_thread_def pause_sent_def intro!: interrupted_steps)

lemma pause_main_twp:
  "twp ids 0 (\<lambda>_. interrupted_inv a pause_returned pause_sent) (interrupted_exit a pause_returned pause_sent)
     (\<lambda>_ _ _. False) pause_pc_rax_main (\<lambda>n. interrupted_exit a pause_returned pause_sent n) pause_pc_rax_memory []"
proof -
  have "interrupted_inv a pause_returned pause_sent []"
    by (simp add: interrupted_inv_def pause_returned_def)
  then show ?thesis
    by (auto simp: twp_calls pause_pc_rax_main_def std_defs pause_returned_def intro!: interrupted_steps)
      (simp_all add: interrupted_exit_def pause_returned_def interrupted_results split: if_splits)
qed

interpretation pause_pc_rax: interrupting a pause_returned pause_sent pause_pc_rax_thread pause_pc_rax_main
    pause_pc_rax_memory for a
  by unfold_locales (simp_all only: pause_thread_twp pause_main_twp)

text \<open>
  \<^verbatim>\<open>pause-pc-rax\<close> exits 0 exactly on the runs in which \<^verbatim>\<open>pause\<close> was interrupted, the thread got to send its
  signal and ended, and every handler found \<^verbatim>\<open>-EINTR\<close> and the instruction of a system call in its context.
\<close>

definition pause_interrupted :: "arch \<Rightarrow> tlog \<Rightarrow> bool" where
  "pause_interrupted a L \<longleftrightarrow> pause_returned (main_calls (own 0 L)) \<and> pause_sent (main_calls (own 1 L)) \<and>
     all_interrupted a L"

lemma pause_pc_rax_decided:
  "tdecides ids (pause_pc_rax_handler a) [pause_pc_rax_thread] pause_pc_rax_main pause_pc_rax_memory
     (pause_interrupted a)"
  using pause_pc_rax.decided by (simp add: pause_pc_rax_handler_def pause_interrupted_def [abs_def])

section \<open>\<^verbatim>\<open>sigsuspend-pc-rax.cpp\<close>\<close>

record sigsuspend_pc_rax = memory +
  suspend_pid :: int

definition sigsuspend_pc_rax_handler ::
  "arch \<Rightarrow> nat \<Rightarrow> signum \<Rightarrow> siginfo \<Rightarrow> ucontext \<Rightarrow> (sigsuspend_pc_rax, ucontext) prog" where
  "sigsuspend_pc_rax_handler = interrupted_handler"

text \<open>The first 32 signals but 32 itself, which is the C library's, and the two that cannot be blocked.\<close>

definition all_32_blocked :: u32 where
  "all_32_blocked = - 1 AND NOT (push_bit 31 1) AND NOT (push_bit (nat (SIGKILL - 1)) 1) AND
     NOT (push_bit (nat (SIGSTOP - 1)) 1)"

definition sigsuspend_pc_rax_thread :: "(sigsuspend_pc_rax, unit) prog" where
  "sigsuspend_pc_rax_thread =
     bind (pthread_sigmask_query SIG_BLOCK) (\<lambda>(_, my_mask). block [
       ASSERT ((ucast my_mask :: u32) = all_32_blocked),
       bind get (\<lambda>g. ignore (kill (suspend_pid g) SIGUSR1))])"

definition sigsuspend_pc_rax_main :: "(sigsuspend_pc_rax, int) prog" where
  "sigsuspend_pc_rax_main =
     seq (block [
       bind getpid (\<lambda>pid. modify (suspend_pid_update (\<lambda>_. pid))),
       ASSERT_ret (sigaction SIGUSR1 (handler_action SA_SIGINFO sigemptyset)) (\<lambda>r. r = 0),
       ignore (pthread_sigmask SIG_BLOCK sigfillset),
       std_thread 0,
       bind (sigsuspend (sigdelset sigfillset SIGUSR1)) (\<lambda>r. block [
         ASSERT (r = - 1),
         ASSERT_mem (\<lambda>g. errno g = EINTR)]),
       std_join 0])
     (Return 0)"

definition sigsuspend_pc_rax_memory :: sigsuspend_pc_rax where
  "sigsuspend_pc_rax_memory = \<lparr>errno = 0, suspend_pid = 0\<rparr>"

definition suspend_sent :: "(req \<times> resp) list \<Rightarrow> bool" where
  "suspend_sent cs \<longleftrightarrow> (\<exists>s m p k. cs = [(Thread_start, s), (Rt_sigprocmask SIG_BLOCK None, m),
     (Kill_pid p SIGUSR1, k)] \<and> ucast (r_set m) = all_32_blocked)"

definition suspend_returned :: "(req \<times> resp) list \<Rightarrow> bool" where
  "suspend_returned cs \<longleftrightarrow> (\<exists>p a m c r j. cs = [(Getpid, p),
     (Rt_sigaction SIGUSR1 (Some (handler_action SA_SIGINFO sigemptyset)), a),
     (Rt_sigprocmask SIG_BLOCK (Some (sigfillset AND NOT internal_signals)), m), (Pthread_create 0, c),
     (Rt_sigsuspend (sigdelset sigfillset SIGUSR1), r), (Pthread_join 0, j)] \<and>
     ret a = 0 \<and> ret c = 0 \<and> ret r = - EINTR \<and> ret j = 0)"

lemma suspend_thread_twp:
  assumes "interrupted_inv a suspend_returned suspend_sent L" and "own 1 L = []"
  shows "twp ids 1 (\<lambda>_. interrupted_inv a suspend_returned suspend_sent)
     (interrupted_exit a suspend_returned suspend_sent) S
     (Call Thread_start (\<lambda>_. sigsuspend_pc_rax_thread))
     (\<lambda>_ g' L'. interrupted_inv a suspend_returned suspend_sent (End 1 # L') \<and> active (own 1 L') = 0) g L"
  using assms
  by (auto simp: twp_calls sigsuspend_pc_rax_thread_def suspend_sent_def intro!: interrupted_steps interrupted_out interrupted_fails)

lemma suspend_main_twp:
  "twp ids 0 (\<lambda>_. interrupted_inv a suspend_returned suspend_sent)
     (interrupted_exit a suspend_returned suspend_sent) (\<lambda>_ _ _. False) sigsuspend_pc_rax_main
     (\<lambda>n. interrupted_exit a suspend_returned suspend_sent n) sigsuspend_pc_rax_memory []"
proof -
  have "interrupted_inv a suspend_returned suspend_sent []"
    by (simp add: interrupted_inv_def suspend_returned_def)
  then show ?thesis
    by (auto simp: twp_calls sigsuspend_pc_rax_main_def std_defs suspend_returned_def intro!: interrupted_steps)
      (simp_all add: interrupted_exit_def suspend_returned_def interrupted_results split: if_splits)
qed

interpretation sigsuspend_pc_rax: interrupting a suspend_returned suspend_sent sigsuspend_pc_rax_thread
    sigsuspend_pc_rax_main sigsuspend_pc_rax_memory for a
  by unfold_locales (simp_all only: suspend_thread_twp suspend_main_twp)

definition suspend_interrupted :: "arch \<Rightarrow> tlog \<Rightarrow> bool" where
  "suspend_interrupted a L \<longleftrightarrow> suspend_returned (main_calls (own 0 L)) \<and>
     suspend_sent (main_calls (own 1 L)) \<and> all_interrupted a L"

lemma sigsuspend_pc_rax_decided:
  "tdecides ids (sigsuspend_pc_rax_handler a) [sigsuspend_pc_rax_thread] sigsuspend_pc_rax_main
     sigsuspend_pc_rax_memory (suspend_interrupted a)"
  using sigsuspend_pc_rax.decided by (simp add: sigsuspend_pc_rax_handler_def suspend_interrupted_def [abs_def])

text \<open>
  C6. However the two threads are interleaved and interrupted, \<^verbatim>\<open>pause-pc-rax\<close> exits 0 exactly on the runs in
  which \<^verbatim>\<open>pause\<close> fails with \<^verbatim>\<open>EINTR\<close>, the thread has made its calls and ended, and every handler has
  returned from a context with \<^verbatim>\<open>-EINTR\<close> in its register and, before its instruction pointer, the system call
  instruction the program has read there; \<^verbatim>\<open>sigsuspend-pc-rax\<close> does so for \<^verbatim>\<open>sigsuspend\<close>, and only if the
  thread has found its first 31 signals blocked but \<^verbatim>\<open>SIGKILL\<close> and \<^verbatim>\<open>SIGSTOP\<close>.
\<close>

theorem interrupted_calls_decided:
  "tdecides ids (pause_pc_rax_handler a) [pause_pc_rax_thread] pause_pc_rax_main pause_pc_rax_memory
     (pause_interrupted a) \<and>
   tdecides ids (sigsuspend_pc_rax_handler a) [sigsuspend_pc_rax_thread] sigsuspend_pc_rax_main
     sigsuspend_pc_rax_memory (suspend_interrupted a)"
  by (intro conjI pause_pc_rax_decided sigsuspend_pc_rax_decided)

section \<open>Runs on the model of Linux\<close>

text \<open>
  If the threads take turns, \<^verbatim>\<open>pause-pc-rax\<close> exits 0. If \<^verbatim>\<open>main\<close> comes to \<^verbatim>\<open>pause\<close> only after the
  thread has slept and sent the signal, it fails. \<^verbatim>\<open>sigsuspend-pc-rax\<close> exits 0 in every schedule, as the
  signal is blocked until \<^verbatim>\<open>sigsuspend\<close>.
\<close>

definition main_late :: "tid list" where
  "main_late = replicate 3 0 @ replicate 8 1 @ in_turns 30"

lemma pause_pc_rax_linux:
  "scheduled_exit a (pause_pc_rax_handler a) [pause_pc_rax_thread] pause_pc_rax_main pause_pc_rax_memory
     (in_turns 30) = Some 0"
  by (cases a; simp only:; code_simp)

lemma pause_pc_rax_late:
  "scheduled_exit a (pause_pc_rax_handler a) [pause_pc_rax_thread] pause_pc_rax_main pause_pc_rax_memory
     main_late = Some 1"
  by (cases a; simp only:; code_simp)

lemma pause_pc_rax_races:
  "scheduled_exit a (pause_pc_rax_handler a) [pause_pc_rax_thread] pause_pc_rax_main pause_pc_rax_memory
     (in_turns 30) = Some 0 \<and>
   scheduled_exit a (pause_pc_rax_handler a) [pause_pc_rax_thread] pause_pc_rax_main pause_pc_rax_memory
     main_late = Some 1"
  by (intro conjI pause_pc_rax_linux pause_pc_rax_late)

lemma sigsuspend_pc_rax_settles:
  "settles (sigsuspend_pc_rax_handler a) [sigsuspend_pc_rax_thread] 40
     (tboot [sigsuspend_pc_rax_thread] sigsuspend_pc_rax_main sigsuspend_pc_rax_memory, kernel_init a)"
  by (cases a; simp only:; code_simp)

lemma sigsuspend_pc_rax_live:
  "always_passes 40 a (sigsuspend_pc_rax_handler a) [sigsuspend_pc_rax_thread] sigsuspend_pc_rax_main
     sigsuspend_pc_rax_memory"
  by (rule always_passesI) (rule sigsuspend_pc_rax_settles)

end
