(* ===== verification/Restarting.thy ===== *)
theory Restarting
  imports Scheduler
begin

text \<open>
  The tests of system calls that are restarted after a handler has interrupted them:
  \<^verbatim>\<open>restartable-read\<close>, \<^verbatim>\<open>restartable-write\<close>, \<^verbatim>\<open>restartable-sem_wait\<close>.
\<close>

section \<open>What the three tests share\<close>

text \<open>Their variables and their handler, which differs in the number of the system call.\<close>

record restartable = memory +
  child_tid :: int
  signal_got :: bool

definition check_restart_bytes :: "arch \<Rightarrow> ucontext \<Rightarrow> ('g, unit) prog" where
  "check_restart_bytes a ctx = (let rip = to_ptr a (REG_RIP (gregs ctx)) in
     block [
       ASSERT_ret (load_byte rip) (\<lambda>b. b = syscall_byte a 2),
       ASSERT_ret (load_byte (to_ptr a (rip + 1))) (\<lambda>b. b = syscall_byte a 1)])"

definition restart_handler ::
  "arch \<Rightarrow> int \<Rightarrow> nat \<Rightarrow> signum \<Rightarrow> siginfo \<Rightarrow> ucontext \<Rightarrow> ('m restartable_scheme, ucontext) prog" where
  "restart_handler a nr h sig info ctx =
     seq (block [
       bind gettid (\<lambda>t. ASSERT_mem (\<lambda>g. t = child_tid g)),
       check_restart_bytes a ctx,
       ASSERT (greg a (REG_RAX (gregs ctx)) = nr),
       modify (signal_got_update (\<lambda>_. True))])
     (Return ctx)"

definition restart_action :: sigact where
  "restart_action = handler_action (SA_SIGINFO OR SA_RESTART) sigemptyset"

text \<open>
  The context of a handler that has interrupted a call to be restarted: its instruction pointer is at the
  system call instruction, which the program has read there, and its register still holds the number.
\<close>

definition at_syscall :: "arch \<Rightarrow> int \<Rightarrow> log \<Rightarrow> ucontext \<Rightarrow> bool" where
  "at_syscall a nr l c \<longleftrightarrow> (let rip = to_ptr a (REG_RIP (gregs c)) in
     read_byte l rip (syscall_byte a 2) \<and> read_byte l (to_ptr a (rip + 1)) (syscall_byte a 1) \<and>
     greg a (REG_RAX (gregs c)) = nr)"

lemma at_syscall_Cons: "at_syscall a nr l c \<Longrightarrow> at_syscall a nr (e # l) c"
  by (auto simp: at_syscall_def Let_def)

lemma each_return_at_syscall:
  assumes "each_return (at_syscall a nr) l" and "\<And>c. e = Ret c \<Longrightarrow> at_syscall a nr l c"
  shows "each_return (at_syscall a nr) (e # l)"
  using assms at_syscall_Cons by (cases e) (auto simp: each_return_def)

text \<open>The handlers ran on the first thread only, and each of them in such a context; the thread had one.\<close>

definition restarted :: "arch \<Rightarrow> int \<Rightarrow> tlog \<Rightarrow> bool" where
  "restarted a nr L \<longleftrightarrow> returns (own 1 L) \<noteq> [] \<and> (\<forall>t. t \<noteq> 1 \<longrightarrow> returns (own t L) = []) \<and>
     (\<forall>c \<in> set (returns (own 1 L)). at_syscall a nr (own 1 L) c)"

text \<open>
  The invariant: the calls of \<^verbatim>\<open>main\<close> are not yet the whole of \<open>M\<close>; the thread ends with the calls \<open>D\<close>;
  only the thread's number is stored; a handler is entered on the thread before the variable is set, and
  has set it when it has read the second byte of a system call instruction; handlers return on the thread
  only, from the right contexts.
\<close>

type_synonym calls = "(req \<times> resp) list"

definition restart_inv :: "(tid \<Rightarrow> int) \<Rightarrow> arch \<Rightarrow> int \<Rightarrow> (calls \<Rightarrow> bool) \<Rightarrow> (calls \<Rightarrow> bool) \<Rightarrow>
    'm restartable_scheme \<Rightarrow> tlog \<Rightarrow> bool" where
  "restart_inv ids a nr M D g L \<longleftrightarrow> sound_log L \<and> \<not> M (main_calls (own 0 L)) \<and>
     (End 1 \<in> set L \<longrightarrow> D (main_calls (own 1 L))) \<and> child_tid g \<in> {0, ids 1} \<and>
     (signal_got g \<longrightarrow> handled (own 1 L) \<noteq> []) \<and>
     (\<forall>t x. read_byte (own t L) x (syscall_byte a 1) \<longrightarrow> signal_got g) \<and>
     (\<forall>t. returns (own t L) \<noteq> [] \<longrightarrow> t = 1) \<and> each_return (at_syscall a nr) (own 1 L)"

definition restart_exit :: "arch \<Rightarrow> int \<Rightarrow> (calls \<Rightarrow> bool) \<Rightarrow> (calls \<Rightarrow> bool) \<Rightarrow> int \<Rightarrow>
    'm restartable_scheme \<Rightarrow> tlog \<Rightarrow> bool" where
  "restart_exit a nr M D n g L \<longleftrightarrow>
     (n = 0 \<longleftrightarrow> M (main_calls (own 0 L)) \<and> D (main_calls (own 1 L)) \<and> restarted a nr L)"

section \<open>The invariant under the events of a run\<close>

lemma with_errno_restartable [simp]:
  "child_tid (with_errno r g) = child_tid g" "signal_got (with_errno r g) = signal_got g"
  by (simp_all add: with_errno_def)

lemma restart_active: "restart_inv ids a nr M D g L \<Longrightarrow> 0 \<le> active (own t L)"
  by (simp add: restart_inv_def sound_log_active)

lemma syscall_bytes_differ: "syscall_byte a 2 \<noteq> syscall_byte a 1"
  by (cases a) (simp_all add: syscall_byte_def)

lemma restart_inside:
  assumes inv: "restart_inv ids a nr M D g L" and inside: "inside t L e"
    and ret: "\<And>c. e = Ret c \<Longrightarrow> t = 1 \<and> at_syscall a nr (own 1 L) c"
    and load: "\<And>x r. e = Ans (Load_byte x) r \<Longrightarrow> loaded r \<noteq> syscall_byte a 1"
  shows "restart_inv ids a nr M D g (At t e # L)"
proof -
  have "each_return (at_syscall a nr) (own 1 (At t e # L))"
    using inv ret by (auto simp: restart_inv_def intro!: each_return_at_syscall)
  moreover have "u = 1" if "returns (own u (At t e # L)) \<noteq> []" for u
    using that inv ret by (cases e) (auto simp: restart_inv_def split: if_splits)
  moreover have "signal_got g" if "read_byte (own u (At t e # L)) x (syscall_byte a 1)" for u x
    using that inv load by (cases "u = t") (auto simp: restart_inv_def)
  ultimately show ?thesis
    using inv own_calls_inside [OF inside, of 0] own_calls_inside [OF inside, of 1]
    unfolding restart_inv_def by (auto simp: sound_log_inside [OF _ inside] simp del: main_calls.simps own_Cons)
      (simp_all)
qed

text \<open>The handler has passed its checks.\<close>

lemma restart_passed:
  assumes inv: "restart_inv ids a nr M D g L" and inside: "0 < active (own t L)" and "handled (own 1 L) \<noteq> []"
  shows "restart_inv ids a nr M D (g\<lparr>signal_got := True\<rparr>) (At t (Ans (Load_byte x) r) # L)"
proof -
  have "inside t L (Ans (Load_byte x) r)"
    using inside by (simp add: inside_def)
  note same = own_calls_inside [OF this, of 0] own_calls_inside [OF this, of 1]
  have "each_return (at_syscall a nr) (own 1 (At t (Ans (Load_byte x) r) # L))"
    using inv by (auto simp: restart_inv_def intro!: each_return_at_syscall)
  moreover have "u = 1" if "returns (own u (At t (Ans (Load_byte x) r) # L)) \<noteq> []" for u
    using that inv by (auto simp: restart_inv_def split: if_splits)
  ultimately show ?thesis
    using inv same assms(3)
    unfolding restart_inv_def by (auto simp del: main_calls.simps own_Cons) (simp_all)
qed

lemma restart_call:
  assumes inv: "restart_inv ids a nr M D g L" and "entered (Ans q r) = []" and "\<And>x. q \<noteq> Load_byte x"
    and "t = 0 \<Longrightarrow> \<not> M (main_calls (own 0 (At 0 (Ans q r) # L)))" and "t = 1 \<Longrightarrow> \<not> D (main_calls (own 1 L))"
  shows "restart_inv ids a nr M D g (At t (Ans q r) # L)"
proof -
  have "End 1 \<notin> set L" if "t = 1"
    using assms(1,5) that by (auto simp: restart_inv_def)
  moreover have "read_byte (own u (At t (Ans q r) # L)) x b \<longleftrightarrow> read_byte (own u L) x b" for u x b
    using assms(3) by simp
  ultimately show ?thesis
    using assms by (cases "t = 0"; cases "t = 1") (auto simp: restart_inv_def intro!: each_return_at_syscall)
qed

lemma restart_out:
  assumes "restart_inv ids a nr M D g L"
  shows "restart_inv ids a nr M D g (At t (Out s) # L)"
  using assms by (cases "t = 1") (auto simp: restart_inv_def intro!: each_return_at_syscall)

lemma restart_set:
  assumes "restart_inv ids a nr M D g L"
  shows "n = ids 1 \<Longrightarrow> restart_inv ids a nr M D (g\<lparr>child_tid := n\<rparr>) L"
    and "handled (own 1 L) \<noteq> [] \<Longrightarrow> restart_inv ids a nr M D (g\<lparr>signal_got := True\<rparr>) L"
    and "restart_inv ids a nr M D (with_errno r g) L"
  using assms by (simp_all add: restart_inv_def)

lemma restart_end:
  assumes "restart_inv ids a nr M D g L" and "D (main_calls (own 1 L))"
  shows "restart_inv ids a nr M D g (End 1 # L)"
  using assms by (simp add: restart_inv_def)

lemmas restart_steps = restart_call [unfolded One_nat_def] restart_end [unfolded One_nat_def]
  restart_set [unfolded One_nat_def] restart_out

lemma restart_fails: "restart_inv ids a nr M D g L \<Longrightarrow> restart_exit a nr M D 1 g L"
  by (simp add: restart_inv_def restart_exit_def)

lemma restart_check_fails:
  assumes "restart_inv ids a nr M D g L" and "0 < active (own t L)"
  shows "restart_exit a nr M D 1 g' (At t (Out s) # At t (Ans q r) # L)"
proof -
  have "inside t L (Ans q r)"
    using assms(2) by (simp add: inside_def)
  moreover have "main_calls (own 0 (At t (Out s) # L')) = main_calls (own 0 L')" for L'
    by simp
  ultimately show ?thesis
    using assms(1) own_calls_inside [of t L "Ans q r" 0] by (simp only: restart_inv_def restart_exit_def) simp
qed

lemma restart_tid:
  assumes "restart_inv ids a nr M D g L" and "thread_numbers ids" and "ids t = child_tid g"
  shows "t = 1"
  using assms(1) assms(3) [symmetric] thread_numbers_eq [OF assms(2)] thread_numbers_pos [OF assms(2), of t]
  by (auto simp: restart_inv_def)

text \<open>What is known when the thread has been joined.\<close>

lemma restart_joined:
  assumes inv: "restart_inv ids a nr M D g L" and "End 1 \<in> set L" and "active (own 1 L) = 0"
    and "entered (Ans q r) = []" and "M (main_calls (own 0 (At 0 (Ans q r) # L)))"
  shows "restart_exit a nr M D n g' (At 0 (Ans q r) # L) \<longleftrightarrow> (n = 0 \<longleftrightarrow> signal_got g)"
proof -
  have "returns (own 1 L) \<noteq> [] \<longleftrightarrow> signal_got g"
  proof
    assume "returns (own 1 L) \<noteq> []"
    then obtain c where "c \<in> set (returns (own 1 L))" by (cases "returns (own 1 L)") auto
    then have "at_syscall a nr (own 1 L) c"
      using inv by (simp add: restart_inv_def each_return_def)
    then show "signal_got g"
      using inv unfolding restart_inv_def at_syscall_def Let_def by blast
  next
    assume "signal_got g"
    then have "handled (own 1 L) \<noteq> []"
      using inv by (simp add: restart_inv_def)
    with assms(3) show "returns (own 1 L) \<noteq> []" by (auto simp: active_def)
  qed
  moreover have "returns (own t L) = []" if "t \<noteq> 1" for t
    using inv that by (auto simp: restart_inv_def)
  moreover have "each_return (at_syscall a nr) (own 1 L)"
    using inv by (simp add: restart_inv_def)
  ultimately have "restarted a nr L \<longleftrightarrow> signal_got g"
    unfolding restarted_def each_return_def by blast
  moreover have "restarted a nr (At 0 (Ans q r) # L) \<longleftrightarrow> restarted a nr L"
  proof -
    have "returns (own t (At 0 (Ans q r) # L)) = returns (own t L)" for t
      by (cases "t = 0") simp_all
    then show ?thesis by (simp add: restarted_def)
  qed
  moreover have "D (main_calls (own 1 (At 0 (Ans q r) # L)))"
    using inv assms(2) by (simp add: restart_inv_def)
  ultimately show ?thesis
    using assms(5) unfolding restart_exit_def by blast
qed

lemma restart_exit_0:
  assumes "restart_inv ids a nr M D g L" and "End 1 \<in> set L" and "active (own 1 L) = 0"
    and "entered (Ans q r) = []" and "M (main_calls (own 0 (At 0 (Ans q r) # L)))" and "signal_got g"
  shows "restart_exit a nr M D 0 g' (At 0 (Ans q r) # L)"
  by (simp only: restart_joined [OF assms(1-5)] assms(6) simp_thms)

lemma restart_exit_1:
  assumes "restart_inv ids a nr M D g L" and "entered (Ans q r) = []"
    and "M (main_calls (own 0 (At 0 (Ans q r) # L))) \<Longrightarrow> End 1 \<in> set L \<and> active (own 1 L) = 0 \<and> \<not> signal_got g"
  shows "restart_exit a nr M D 1 g' (At 0 (Out s) # At 0 (Ans q r) # L)"
proof -
  have "restart_exit a nr M D 1 g' (At 0 (Out s) # L') \<longleftrightarrow> restart_exit a nr M D 1 g' L'" for L'
  proof -
    have "returns (own t (At 0 (Out s) # L')) = returns (own t L')" for t
      by (cases "t = 0") simp_all
    then have "restarted a nr (At 0 (Out s) # L') \<longleftrightarrow> restarted a nr L'"
      by (simp add: restarted_def)
    then show ?thesis by (simp add: restart_exit_def)
  qed
  moreover have "restart_exit a nr M D 1 g' (At 0 (Ans q r) # L)"
    using restart_joined [OF assms(1) _ _ assms(2)] assms(3)
    by (cases "M (main_calls (own 0 (At 0 (Ans q r) # L)))") (simp_all only: restart_exit_def, auto)
  ultimately show ?thesis by blast
qed

lemmas restart_exits = restart_exit_0 [unfolded One_nat_def] restart_exit_1 [unfolded One_nat_def]

section \<open>The contract of the three tests\<close>

lemma at_syscall_read:
  assumes "tgrows (At t (Ans (Load_byte (to_ptr a (REG_RIP (gregs c)))) r2) # L1) L2"
    and "tgrows (At t (Ans (Load_byte (to_ptr a (to_ptr a (REG_RIP (gregs c)) + 1))) r1) # L2) L3"
    and "loaded r2 = syscall_byte a 2" and "loaded r1 = syscall_byte a 1" and "greg a (REG_RAX (gregs c)) = nr"
  shows "at_syscall a nr (own t L3) c"
  using assms by (auto simp: at_syscall_def Let_def read_byte_def tgrows_def)

lemma handled_tgrows:
  "handled (own t L) \<noteq> [] \<Longrightarrow> tgrows (At t e # L) L' \<Longrightarrow> handled (own t L') \<noteq> []"
  by (auto simp: tgrows_def)

lemma restart_handler_twp:
  assumes numbers: "thread_numbers ids" and inv: "restart_inv ids a nr M D g L"
  shows "twp ids t (restart_inv ids a nr M D) (restart_exit a nr M D)
    (\<lambda>c' g' L'. restart_inv ids a nr M D g' (At t (Ret c') # L') \<and> quiet (own t L) (Ret c' # own t L'))
    (handler_prog (restart_handler a nr) h s i c) (\<lambda>_ _ _. False) g L"
  using inv restart_active [OF inv, of t]
  by (auto simp: twp_calls restart_handler_def check_restart_bytes_def Let_def inside_def
      syscall_bytes_differ syscall_bytes_differ [symmetric]
      intro!: restart_check_fails restart_inside restart_passed dest: restart_active [where t = t])
    (metis numbers restart_tid [unfolded One_nat_def] entered_grows handled_tgrows at_syscall_read)+

text \<open>
  The thread makes the calls \<open>D\<close>, \<^verbatim>\<open>main\<close> the calls \<open>M\<close> and then checks the variable, or the test fails.
  So it exits 0 exactly on the runs with these calls and with a handler that found a call to be restarted.
\<close>

locale restarting =
  fixes a :: arch and nr :: int and M D :: "calls \<Rightarrow> bool"
    and thread :: "('m restartable_scheme, unit) prog" and main :: "('m restartable_scheme, int) prog"
    and g0 :: "'m restartable_scheme"
  assumes thread_meets: "restart_inv ids a nr M D g L \<Longrightarrow> own 1 L = [] \<Longrightarrow>
      twp ids 1 (restart_inv ids a nr M D) (restart_exit a nr M D) (\<lambda>_ _ _. False)
        (Call Thread_start (\<lambda>_. thread))
        (\<lambda>_ g' L'. restart_inv ids a nr M D g' (End 1 # L') \<and> active (own 1 L') = 0) g L"
    and main_meets: "twp ids 0 (restart_inv ids a nr M D) (restart_exit a nr M D) (\<lambda>_ _ _. False)
      main (\<lambda>n. restart_exit a nr M D n) g0 []"
begin

lemma contract:
  assumes "thread_numbers ids"
  shows "thread_contract ids (restart_handler a nr) [thread] (restart_inv ids a nr M D) (restart_exit a nr M D)"
  by unfold_locales
    (simp_all add: restart_handler_twp [OF assms] thread_meets [unfolded One_nat_def] del: twp.simps)

lemma decided:
  assumes "thread_numbers ids"
  shows "tdecides ids (restart_handler a nr) [thread] main g0
    (\<lambda>L. M (main_calls (own 0 L)) \<and> D (main_calls (own 1 L)) \<and> restarted a nr L)"
  using thread_contract.verdict [OF contract [OF assms] main_meets]
  by (intro tdecidesI) (simp add: restart_exit_def)

end

section \<open>\<^verbatim>\<open>restartable-read.cpp\<close>\<close>

record restartable_pipe = restartable +
  read_end :: int
  write_end :: int

definition open_pipe :: "(restartable_pipe, unit) prog" where
  "open_pipe = bind pipe (\<lambda>(r, fds). block [
     ASSERT (r = 0),
     modify (\<lambda>g. g\<lparr>read_end := fst fds, write_end := snd fds\<rparr>)])"

definition restartable_read_handler ::
  "arch \<Rightarrow> nat \<Rightarrow> signum \<Rightarrow> siginfo \<Rightarrow> ucontext \<Rightarrow> (restartable_pipe, ucontext) prog" where
  "restartable_read_handler a = restart_handler a (SYS_read a)"

definition restartable_read_thread :: "(restartable_pipe, unit) prog" where
  "restartable_read_thread = block [
     bind gettid (\<lambda>t. modify (child_tid_update (\<lambda>_. t))),
     bind get (\<lambda>g. ASSERT_ret (read_fd (read_end g) 16) (\<lambda>n. n = 16))]"

text \<open>The signal is sent to the thread that has stored its number, or to none.\<close>

definition signal_child :: "('m restartable_scheme, unit) prog" where
  "signal_child = bind getpid (\<lambda>pid. bind get (\<lambda>g. ignore (tgkill pid (child_tid g) SIGUSR1)))"

definition restartable_read_main :: "(restartable_pipe, int) prog" where
  "restartable_read_main =
     seq (block [
       open_pipe,
       ASSERT_ret (sigaction SIGUSR1 restart_action) (\<lambda>r. r = 0),
       ASSERT_ret (pthread_create 0) (\<lambda>r. r = 0),
       ignore (usleep 200000),
       signal_child,
       ignore (usleep 100000),
       bind get (\<lambda>g. ASSERT_ret (write_fd (write_end g) 16) (\<lambda>n. n = 16)),
       ASSERT_ret (pthread_join 0) (\<lambda>r. r = 0),
       ASSERT_mem signal_got])
     (Return 0)"

definition restartable_pipe_memory :: restartable_pipe where
  "restartable_pipe_memory = \<lparr>errno = 0, child_tid = 0, signal_got = False, read_end = 0, write_end = 0\<rparr>"

definition read_whole :: "calls \<Rightarrow> bool" where
  "read_whole cs \<longleftrightarrow> (\<exists>s t fd n. cs = [(Thread_start, s), (Gettid, t), (Read fd 16, n)] \<and> ret n = 16)"

definition read_directed :: "calls \<Rightarrow> bool" where
  "read_directed cs \<longleftrightarrow> (\<exists>p a c u i pid tid k v fd w j. cs = [(Pipe, p), (Rt_sigaction SIGUSR1 (Some restart_action), a),
     (Pthread_create 0, c), (Usleep 200000, u), (Getpid, i), (Tgkill pid tid SIGUSR1, k), (Usleep 100000, v),
     (Write fd 16, w), (Pthread_join 0, j)] \<and>
     ret p = 0 \<and> ret a = 0 \<and> ret c = 0 \<and> ret w = 16 \<and> ret j = 0)"

lemma restart_pipe_set:
  "restart_inv ids a nr M D g L \<Longrightarrow> restart_inv ids a nr M D (g\<lparr>read_end := x, write_end := y\<rparr>) L"
  by (simp add: restart_inv_def)

lemma result_16: "result r = 16 \<longleftrightarrow> ret r = 16"
  by (auto simp: result_def is_error_def)

lemma restartable_read_thread_twp:
  assumes "restart_inv ids a nr M read_whole g L" and "own 1 L = []"
  shows "twp ids 1 (restart_inv ids a nr M read_whole) (restart_exit a nr M read_whole) S
     (Call Thread_start (\<lambda>_. restartable_read_thread))
     (\<lambda>_ g' L'. restart_inv ids a nr M read_whole g' (End 1 # L') \<and> active (own 1 L') = 0) g L"
  using assms
  by (auto simp: twp_calls restartable_read_thread_def read_whole_def result_16
    intro!: restart_steps restart_fails)

lemma restartable_read_main_twp:
  "twp ids 0 (restart_inv ids a nr read_directed D) (restart_exit a nr read_directed D) (\<lambda>_ _ _. False)
     restartable_read_main (\<lambda>n. restart_exit a nr read_directed D n) restartable_pipe_memory []"
proof -
  have "restart_inv ids a nr read_directed D restartable_pipe_memory []"
    by (simp add: restart_inv_def restartable_pipe_memory_def read_directed_def read_byte_def)
  then show ?thesis
    by (auto simp: twp_calls restartable_read_main_def open_pipe_def signal_child_def restart_action_def
      read_directed_def result_16 intro!: restart_steps restart_pipe_set restart_exits)
qed

interpretation restartable_read: restarting a "SYS_read a" read_directed read_whole restartable_read_thread
    restartable_read_main restartable_pipe_memory for a
  by unfold_locales (simp_all only: restartable_read_thread_twp restartable_read_main_twp)

definition read_restarted :: "arch \<Rightarrow> tlog \<Rightarrow> bool" where
  "read_restarted a L \<longleftrightarrow> read_directed (main_calls (own 0 L)) \<and> read_whole (main_calls (own 1 L)) \<and>
     restarted a (SYS_read a) L"

lemma restartable_read_decided:
  assumes "thread_numbers ids"
  shows "tdecides ids (restartable_read_handler a) [restartable_read_thread] restartable_read_main
    restartable_pipe_memory (read_restarted a)"
  using restartable_read.decided [OF assms]
  by (simp add: restartable_read_handler_def read_restarted_def [abs_def])

section \<open>\<^verbatim>\<open>restartable-write.cpp\<close>\<close>

definition restartable_write_handler ::
  "arch \<Rightarrow> nat \<Rightarrow> signum \<Rightarrow> siginfo \<Rightarrow> ucontext \<Rightarrow> (restartable_pipe, ucontext) prog" where
  "restartable_write_handler a = restart_handler a (SYS_write a)"

definition restartable_write_thread :: "(restartable_pipe, unit) prog" where
  "restartable_write_thread = block [
     bind gettid (\<lambda>t. modify (child_tid_update (\<lambda>_. t))),
     bind get (\<lambda>g. ASSERT_ret (write_fd (write_end g) 16) (\<lambda>n. n = 16))]"

definition fill_pipe :: "(restartable_pipe, unit) prog" where
  "fill_pipe = block [
     bind get (\<lambda>g. ASSERT_ret (fcntl_setpipe_sz (write_end g) 4096) (\<lambda>n. n = 4096)),
     bind get (\<lambda>g. ASSERT_ret (write_fd (write_end g) 4096) (\<lambda>n. n = 4096))]"

definition restartable_write_main :: "(restartable_pipe, int) prog" where
  "restartable_write_main =
     seq (block [
       open_pipe,
       fill_pipe,
       ASSERT_ret (sigaction SIGUSR1 restart_action) (\<lambda>r. r = 0),
       ASSERT_ret (pthread_create 0) (\<lambda>r. r = 0),
       ignore (usleep 200000),
       signal_child,
       ignore (usleep 100000),
       bind get (\<lambda>g. ASSERT_ret (read_fd (read_end g) 4096) (\<lambda>n. n = 4096)),
       ASSERT_ret (pthread_join 0) (\<lambda>r. r = 0),
       ASSERT_mem signal_got])
     (Return 0)"

definition write_whole :: "calls \<Rightarrow> bool" where
  "write_whole cs \<longleftrightarrow> (\<exists>s t fd n. cs = [(Thread_start, s), (Gettid, t), (Write fd 16, n)] \<and> ret n = 16)"

definition write_directed :: "calls \<Rightarrow> bool" where
  "write_directed cs \<longleftrightarrow> (\<exists>p e s f x a c u i pid tid k v fd w j. cs = [(Pipe, p), (Set_pipe_size e 4096, s),
     (Write f 4096, x), (Rt_sigaction SIGUSR1 (Some restart_action), a), (Pthread_create 0, c),
     (Usleep 200000, u), (Getpid, i), (Tgkill pid tid SIGUSR1, k), (Usleep 100000, v),
     (Read fd 4096, w), (Pthread_join 0, j)] \<and> ret p = 0 \<and> ret s = 4096 \<and> ret x = 4096 \<and>
     ret a = 0 \<and> ret c = 0 \<and> ret w = 4096 \<and> ret j = 0)"

lemma result_4096: "result r = 4096 \<longleftrightarrow> ret r = 4096"
  by (auto simp: result_def is_error_def)

lemma restartable_write_thread_twp:
  assumes "restart_inv ids a nr M write_whole g L" and "own 1 L = []"
  shows "twp ids 1 (restart_inv ids a nr M write_whole) (restart_exit a nr M write_whole) S
     (Call Thread_start (\<lambda>_. restartable_write_thread))
     (\<lambda>_ g' L'. restart_inv ids a nr M write_whole g' (End 1 # L') \<and> active (own 1 L') = 0) g L"
  using assms
  by (auto simp: twp_calls restartable_write_thread_def write_whole_def result_16
    intro!: restart_steps restart_fails)

lemma restartable_write_main_twp:
  "twp ids 0 (restart_inv ids a nr write_directed D) (restart_exit a nr write_directed D) (\<lambda>_ _ _. False)
     restartable_write_main (\<lambda>n. restart_exit a nr write_directed D n) restartable_pipe_memory []"
proof -
  have "restart_inv ids a nr write_directed D restartable_pipe_memory []"
    by (simp add: restart_inv_def restartable_pipe_memory_def write_directed_def read_byte_def)
  then show ?thesis
    by (auto simp: twp_calls restartable_write_main_def open_pipe_def fill_pipe_def signal_child_def
      restart_action_def write_directed_def result_4096 intro!: restart_steps restart_pipe_set restart_exits)
qed

interpretation restartable_write: restarting a "SYS_write a" write_directed write_whole restartable_write_thread
    restartable_write_main restartable_pipe_memory for a
  by unfold_locales (simp_all only: restartable_write_thread_twp restartable_write_main_twp)

definition write_restarted :: "arch \<Rightarrow> tlog \<Rightarrow> bool" where
  "write_restarted a L \<longleftrightarrow> write_directed (main_calls (own 0 L)) \<and> write_whole (main_calls (own 1 L)) \<and>
     restarted a (SYS_write a) L"

lemma restartable_write_decided:
  assumes "thread_numbers ids"
  shows "tdecides ids (restartable_write_handler a) [restartable_write_thread] restartable_write_main
    restartable_pipe_memory (write_restarted a)"
  using restartable_write.decided [OF assms]
  by (simp add: restartable_write_handler_def write_restarted_def [abs_def])

section \<open>\<^verbatim>\<open>restartable-sem_wait.cpp\<close>\<close>

definition restartable_sem_wait_handler ::
  "arch \<Rightarrow> nat \<Rightarrow> signum \<Rightarrow> siginfo \<Rightarrow> ucontext \<Rightarrow> (restartable, ucontext) prog" where
  "restartable_sem_wait_handler a = restart_handler a (SYS_futex a)"

definition restartable_sem_wait_thread :: "(restartable, unit) prog" where
  "restartable_sem_wait_thread = block [
     bind gettid (\<lambda>t. modify (child_tid_update (\<lambda>_. t))),
     ASSERT_ret sem_wait (\<lambda>r. r = 0),
     ASSERT_mem signal_got,
     ASSERT_ret sem_post (\<lambda>r. r = 0)]"

definition restartable_sem_wait_main :: "(restartable, int) prog" where
  "restartable_sem_wait_main =
     seq (block [
       ignore (sem_init 1),
       ASSERT_ret (sigaction SIGUSR1 restart_action) (\<lambda>r. r = 0),
       ASSERT_ret sem_wait (\<lambda>r. r = 0),
       ASSERT_ret (pthread_create 0) (\<lambda>r. r = 0),
       ignore (usleep 200000),
       signal_child,
       ignore (usleep 100000),
       ASSERT_ret sem_post (\<lambda>r. r = 0),
       ASSERT_ret (pthread_join 0) (\<lambda>r. r = 0),
       ASSERT_mem signal_got])
     (Return 0)"

definition restartable_memory :: restartable where
  "restartable_memory = \<lparr>errno = 0, child_tid = 0, signal_got = False\<rparr>"

definition sem_wait_whole :: "calls \<Rightarrow> bool" where
  "sem_wait_whole cs \<longleftrightarrow> (\<exists>s t w p. cs = [(Thread_start, s), (Gettid, t), (Sem_wait, w), (Sem_post, p)] \<and>
     ret w = 0 \<and> ret p = 0)"

definition sem_wait_directed :: "calls \<Rightarrow> bool" where
  "sem_wait_directed cs \<longleftrightarrow> (\<exists>s a w c u i pid tid k v p j. cs = [(Sem_init 1, s),
     (Rt_sigaction SIGUSR1 (Some restart_action), a), (Sem_wait, w), (Pthread_create 0, c), (Usleep 200000, u),
     (Getpid, i), (Tgkill pid tid SIGUSR1, k), (Usleep 100000, v), (Sem_post, p), (Pthread_join 0, j)] \<and>
     ret a = 0 \<and> ret w = 0 \<and> ret c = 0 \<and> ret p = 0 \<and> ret j = 0)"

lemma restartable_sem_wait_thread_twp:
  assumes "restart_inv ids a nr M sem_wait_whole g L" and "own 1 L = []"
  shows "twp ids 1 (restart_inv ids a nr M sem_wait_whole) (restart_exit a nr M sem_wait_whole) S
     (Call Thread_start (\<lambda>_. restartable_sem_wait_thread))
     (\<lambda>_ g' L'. restart_inv ids a nr M sem_wait_whole g' (End 1 # L') \<and> active (own 1 L') = 0) g L"
  using assms
  by (auto simp: twp_calls restartable_sem_wait_thread_def sem_wait_whole_def
    intro!: restart_steps restart_fails)

lemma restartable_sem_wait_main_twp:
  "twp ids 0 (restart_inv ids a nr sem_wait_directed D) (restart_exit a nr sem_wait_directed D) (\<lambda>_ _ _. False)
     restartable_sem_wait_main (\<lambda>n. restart_exit a nr sem_wait_directed D n) restartable_memory []"
proof -
  have "restart_inv ids a nr sem_wait_directed D restartable_memory []"
    by (simp add: restart_inv_def restartable_memory_def sem_wait_directed_def read_byte_def)
  then show ?thesis
    by (auto simp: twp_calls restartable_sem_wait_main_def signal_child_def restart_action_def
      sem_wait_directed_def intro!: restart_steps restart_exits)
qed

interpretation restartable_sem_wait: restarting a "SYS_futex a" sem_wait_directed sem_wait_whole
    restartable_sem_wait_thread restartable_sem_wait_main restartable_memory for a
  by unfold_locales (simp_all only: restartable_sem_wait_thread_twp restartable_sem_wait_main_twp)

definition sem_wait_restarted :: "arch \<Rightarrow> tlog \<Rightarrow> bool" where
  "sem_wait_restarted a L \<longleftrightarrow> sem_wait_directed (main_calls (own 0 L)) \<and>
     sem_wait_whole (main_calls (own 1 L)) \<and> restarted a (SYS_futex a) L"

lemma restartable_sem_wait_decided:
  assumes "thread_numbers ids"
  shows "tdecides ids (restartable_sem_wait_handler a) [restartable_sem_wait_thread] restartable_sem_wait_main
    restartable_memory (sem_wait_restarted a)"
  using restartable_sem_wait.decided [OF assms]
  by (simp add: restartable_sem_wait_handler_def sem_wait_restarted_def [abs_def])

text \<open>
  C2. However the two threads are interleaved and interrupted, \<^verbatim>\<open>restartable-read\<close>, \<^verbatim>\<open>restartable-write\<close>
  and \<^verbatim>\<open>restartable-sem_wait\<close> exit 0 exactly on the runs in which the thread's call does not fail with
  \<^verbatim>\<open>EINTR\<close> but does its whole work, \<^verbatim>\<open>main\<close> has made its calls and joined the thread, handlers
  have returned on the thread only and at least once, and the context of each has its instruction pointer at the
  system call instruction, which the program has read there, and the number of the call in its register.
\<close>

theorem restarted_calls_decided:
  assumes "thread_numbers ids"
  shows "tdecides ids (restartable_read_handler a) [restartable_read_thread] restartable_read_main
      restartable_pipe_memory (read_restarted a) \<and>
    tdecides ids (restartable_write_handler a) [restartable_write_thread] restartable_write_main
      restartable_pipe_memory (write_restarted a) \<and>
    tdecides ids (restartable_sem_wait_handler a) [restartable_sem_wait_thread] restartable_sem_wait_main
      restartable_memory (sem_wait_restarted a)"
  by (intro conjI restartable_read_decided restartable_write_decided restartable_sem_wait_decided assms)

section \<open>Runs on the model of Linux\<close>

text \<open>
  If the threads take turns, the tests exit 0. If \<^verbatim>\<open>main\<close> sleeps for so short a time that the thread has not
  started to run, then there is no thread to send the signal to, and they fail.
\<close>

definition thread_late :: "tid list" where
  "thread_late = replicate 14 0 @ in_turns 40"

lemma restartable_read_linux:
  "scheduled_exit a (restartable_read_handler a) [restartable_read_thread] restartable_read_main
     restartable_pipe_memory (in_turns 40) = Some 0"
  by (cases a; simp only:; code_simp)

lemma restartable_write_linux:
  "scheduled_exit a (restartable_write_handler a) [restartable_write_thread] restartable_write_main
     restartable_pipe_memory (in_turns 40) = Some 0"
  by (cases a; simp only:; code_simp)

lemma restartable_sem_wait_linux:
  "scheduled_exit a (restartable_sem_wait_handler a) [restartable_sem_wait_thread] restartable_sem_wait_main
     restartable_memory (in_turns 40) = Some 0"
  by (cases a; simp only:; code_simp)

lemma restartable_read_late:
  "scheduled_exit a (restartable_read_handler a) [restartable_read_thread] restartable_read_main
     restartable_pipe_memory thread_late = Some 1"
  by (cases a; simp only:; code_simp)

lemma restartable_write_late:
  "scheduled_exit a (restartable_write_handler a) [restartable_write_thread] restartable_write_main
     restartable_pipe_memory thread_late = Some 1"
  by (cases a; simp only:; code_simp)

lemma restartable_sem_wait_late:
  "scheduled_exit a (restartable_sem_wait_handler a) [restartable_sem_wait_thread] restartable_sem_wait_main
     restartable_memory thread_late = Some 1"
  by (cases a; simp only:; code_simp)

theorem restarted_calls_decided_witness:
  "\<exists>ms g L. ttrial kernel_ids (restartable_read_handler X64) [restartable_read_thread] restartable_read_main
      restartable_pipe_memory ms = Halted (Exited 0) g L \<and> read_restarted X64 L"
  by (rule scheduled_witness [OF restartable_read_linux [of X64]])
    (use restarted_calls_decided [OF kernel_ids_numbers, of X64] in \<open>auto simp: tdecides_def\<close>)

lemma restarting_races:
  "scheduled_exit a (restartable_read_handler a) [restartable_read_thread] restartable_read_main
     restartable_pipe_memory (in_turns 40) = Some 0 \<and>
   scheduled_exit a (restartable_read_handler a) [restartable_read_thread] restartable_read_main
     restartable_pipe_memory thread_late = Some 1 \<and>
   scheduled_exit a (restartable_write_handler a) [restartable_write_thread] restartable_write_main
     restartable_pipe_memory (in_turns 40) = Some 0 \<and>
   scheduled_exit a (restartable_write_handler a) [restartable_write_thread] restartable_write_main
     restartable_pipe_memory thread_late = Some 1 \<and>
   scheduled_exit a (restartable_sem_wait_handler a) [restartable_sem_wait_thread] restartable_sem_wait_main
     restartable_memory (in_turns 40) = Some 0 \<and>
   scheduled_exit a (restartable_sem_wait_handler a) [restartable_sem_wait_thread] restartable_sem_wait_main
     restartable_memory thread_late = Some 1"
  by (intro conjI restartable_read_linux restartable_write_linux restartable_sem_wait_linux
    restartable_read_late restartable_write_late restartable_sem_wait_late)

end
