(* ===== verification/Runner.thy ===== *)
theory Runner
  imports Prelude
begin

text \<open>
  The build and the runner: which programs the \<^verbatim>\<open>Makefile\<close> builds from the sources, and what \<^verbatim>\<open>run.sh\<close>
  reports of the programs it finds.
\<close>

section \<open>\<^verbatim>\<open>Makefile\<close>\<close>

text \<open>The functions of make the file uses, on one file name.\<close>

definition notdir :: "string \<Rightarrow> string" where
  "notdir f = rev (takeWhile (\<lambda>c. c \<noteq> CHR ''/'') (rev f))"

definition basename :: "string \<Rightarrow> string" where
  "basename f = (let r = rev f; suffix = takeWhile (\<lambda>c. c \<noteq> CHR ''.'' \<and> c \<noteq> CHR ''/'') r; rest = drop (length suffix) r in
     case rest of c # cs \<Rightarrow> if c = CHR ''.'' then rev cs else f | [] \<Rightarrow> f)"

definition suffix_of :: "arch \<Rightarrow> string" where
  "suffix_of a = (case a of X64 \<Rightarrow> ''-64.out'' | X86 \<Rightarrow> ''-32.out'')"

text \<open>The name of the program built from a source for a target, and all of them: \<^verbatim>\<open>OUT64\<close> and \<^verbatim>\<open>OUT32\<close>.\<close>

definition output_of :: "arch \<Rightarrow> string \<Rightarrow> string" where
  "output_of a f = ''build/'' @ basename (notdir f) @ suffix_of a"

definition outputs :: "string list \<Rightarrow> string list" where
  "outputs srcs = map (output_of X64) srcs @ map (output_of X86) srcs"

text \<open>
  The pattern rules: the source and the target of a program, by the stem between directory and suffix.
\<close>

definition strip :: "string \<Rightarrow> string \<Rightarrow> string \<Rightarrow> string option" where
  "strip pre post f = (if length pre + length post \<le> length f \<and> take (length pre) f = pre \<and>
     drop (length f - length post) f = post
     then Some (take (length f - length pre - length post) (drop (length pre) f)) else None)"

definition rule_of :: "string \<Rightarrow> (arch \<times> string) option" where
  "rule_of out = (case strip ''build/'' (suffix_of X64) out of
      Some stem \<Rightarrow> Some (X64, ''src/'' @ stem @ ''.cpp'')
    | None \<Rightarrow> map_option (\<lambda>stem. (X86, ''src/'' @ stem @ ''.cpp'')) (strip ''build/'' (suffix_of X86) out))"

text \<open>The sources: all files of the repository that match \<^verbatim>\<open>src/*.cpp\<close>.\<close>

definition source :: "string \<Rightarrow> string" where
  "source n = ''src/'' @ n @ ''.cpp''"

definition test_names :: "string list" where
  "test_names =
     [''block-rtmin'', ''df-reset'', ''execve-inherit'', ''fork-inherit'', ''fpstate-legacy-32'',
      ''fpstate-x87-32'', ''frame-alignment'', ''illegal-cs'', ''longjmp-no-overflow'', ''mask-all'',
      ''multiple-realtime'', ''multiple-standard'', ''nodefer'', ''pause-pc-rax'', ''resethand'',
      ''restartable-read'', ''restartable-sem_wait'', ''restartable-write'', ''rt-order'',
      ''rt-order-only-one'', ''rt-sigaction-oldact'', ''same-signal'', ''segments'', ''segv-cr2'',
      ''segv-trapno'', ''sigaltstack-errors'', ''sigaltstack-query'', ''sigcontext-segments'',
      ''sigdfl-all'', ''sigdfl-segv'', ''sigdfl-urg'', ''sigdfl-usr1'', ''signal-table-fork'',
      ''signal-table-thread'', ''sigqueueinfo'', ''sigsuspend-mask'', ''sigsuspend-multiple'',
      ''sigsuspend-pc-rax'', ''sigwait-sigpending'', ''synchronous-div-zero'',
      ''synchronous-high-address'', ''synchronous-hlt'', ''synchronous-idiv-zero'',
      ''synchronous-int3'', ''synchronous-null'', ''synchronous-rip'', ''synchronous-ud2'',
      ''syscall-sigign'', ''thread-inherit'', ''trap-flag'', ''trap-flag-popf-clear'',
      ''trap-flag-popf-repeat'', ''two-signals'', ''two-signals-alt-stack'',
      ''two-signals-alt-stack-disarm'', ''uc-flags'', ''uc-oldmask'', ''uc-stack-always'',
      ''uc-stack-restore'', ''uc_mask'', ''xstate-bv-sse'', ''xstate-bv-x87'']"

definition SRCS :: "string list" where
  "SRCS = map source test_names"

lemma source_stem: "n \<in> set test_names \<Longrightarrow> rule_of (output_of a (source n)) = Some (a, source n)"
proof -
  have "list_all (\<lambda>n. \<forall>a \<in> set [X64, X86]. rule_of (output_of a (source n)) = Some (a, source n)) test_names"
    by code_simp
  then show "n \<in> set test_names \<Longrightarrow> ?thesis" by (cases a) (auto simp: list_all_iff)
qed

lemma rules_match:
  "map rule_of (outputs SRCS) = map (\<lambda>f. Some (X64, f)) SRCS @ map (\<lambda>f. Some (X86, f)) SRCS"
  by (auto simp: outputs_def SRCS_def source_stem)

lemma names_distinct: "distinct test_names"
  by code_simp

lemma outputs_distinct: "distinct (outputs SRCS)"
proof -
  have "distinct SRCS"
    by (simp add: SRCS_def distinct_map names_distinct inj_on_def source_def)
  then have "distinct (map rule_of (outputs SRCS))"
    unfolding rules_match by (auto simp: distinct_map inj_on_def)
  then show ?thesis by (simp add: distinct_map)
qed

section \<open>\<^verbatim>\<open>run.sh\<close>\<close>

text \<open>An entry of the build directory: a test is a regular file that is executable.\<close>

record entry =
  e_name :: string
  e_regular :: bool
  e_executable :: bool
  e_output :: string
  e_status :: nat

datatype line = No_build_directory | Running string | Failed | Test_output string | Passed | All_passed

fun run_tests :: "entry list \<Rightarrow> line list \<times> nat" where
  "run_tests [] = ([All_passed], 0)"
| "run_tests (e # es) =
     (if e_executable e \<and> e_regular e
      then if e_status e \<noteq> 0
        then ([Running (notdir (e_name e)), Failed, Test_output (e_output e)], 1)
        else (let (out, n) = run_tests es in (Running (notdir (e_name e)) # Passed # out, n))
      else run_tests es)"

text \<open>The shell's pattern for the entries of a directory stands for itself if there are none.\<close>

definition glob :: "entry list \<Rightarrow> entry list" where
  "glob es = (if es = []
     then [\<lparr>e_name = ''./build/*'', e_regular = False, e_executable = False, e_output = '''', e_status = 127\<rparr>]
     else es)"

text \<open>The argument is \<open>None\<close> where there is no build directory.\<close>

definition run_sh :: "entry list option \<Rightarrow> line list \<times> nat" where
  "run_sh dir = (case dir of None \<Rightarrow> ([No_build_directory], 1) | Some es \<Rightarrow> run_tests (glob es))"

definition tests_in :: "entry list \<Rightarrow> entry list" where
  "tests_in es = filter (\<lambda>e. e_executable e \<and> e_regular e) es"

text \<open>The report of tests that pass, and of the first one that does not.\<close>

definition passed :: "entry list \<Rightarrow> line list" where
  "passed es = concat (map (\<lambda>e. [Running (notdir (e_name e)), Passed]) es)"

definition failed :: "entry \<Rightarrow> line list" where
  "failed e = [Running (notdir (e_name e)), Failed, Test_output (e_output e)]"

definition report :: "entry list \<Rightarrow> line list \<times> nat" where
  "report es = (let ok = passed (takeWhile (\<lambda>e. e_status e = 0) es) in
     case find (\<lambda>e. e_status e \<noteq> 0) es of None \<Rightarrow> (ok @ [All_passed], 0) | Some e \<Rightarrow> (ok @ failed e, 1))"

lemma run_tests_eq: "run_tests es = report (tests_in es)"
  by (induction es rule: run_tests.induct)
    (simp_all add: report_def tests_in_def passed_def failed_def Let_def split: option.splits)

lemma tests_in_glob: "tests_in (glob es) = tests_in es"
  by (simp add: glob_def tests_in_def)

lemma report_status: "snd (report es) = 0 \<longleftrightarrow> list_all (\<lambda>e. e_status e = 0) es"
  by (induction es) (auto simp: report_def Let_def split: option.splits)

text \<open>
  C39. Of the sources \<^verbatim>\<open>make\<close> builds one program for each target, no two under the same name, and the rule
  that its pattern selects for a program compiles the source it is named after for the target it is named
  after. \<^verbatim>\<open>run.sh\<close> fails without a build directory. Otherwise it runs the executable regular files
  there in order, as long as they exit with 0: it reports each of these as passed, and the first other one
  as failed with its output, and then exits with 1. It exits with 0 exactly when the directory exists and
  every test in it exits with 0, and so also if there is none.
\<close>

theorem runner_verdict:
  "distinct (outputs SRCS) \<and>
   map rule_of (outputs SRCS) = map (\<lambda>f. Some (X64, f)) SRCS @ map (\<lambda>f. Some (X86, f)) SRCS \<and>
   run_sh None = ([No_build_directory], 1) \<and>
   run_sh (Some es) = report (tests_in es) \<and>
   (snd (run_sh dir) = 0) = (case dir of None \<Rightarrow> False | Some fs \<Rightarrow> list_all (\<lambda>e. e_status e = 0) (tests_in fs)) \<and>
   run_sh (Some []) = ([All_passed], 0)"
proof (intro conjI)
  show "map rule_of (outputs SRCS) = map (\<lambda>f. Some (X64, f)) SRCS @ map (\<lambda>f. Some (X86, f)) SRCS"
    by (rule rules_match)
  show "distinct (outputs SRCS)" by (rule outputs_distinct)
  show "(snd (run_sh dir) = 0) =
      (case dir of None \<Rightarrow> False | Some fs \<Rightarrow> list_all (\<lambda>e. e_status e = 0) (tests_in fs))"
    by (simp add: run_sh_def run_tests_eq tests_in_glob report_status split: option.splits)
  show "run_sh (Some []) = ([All_passed], 0)" by code_simp
qed (simp_all add: run_sh_def run_tests_eq tests_in_glob)

section \<open>Suites\<close>

text \<open>
  The entry of a test's program, given its name and the exit status of its run, or \<open>None\<close> for a run that does
  not end or is killed.
\<close>

definition test_entry :: "arch \<Rightarrow> string \<times> int option \<Rightarrow> entry" where
  "test_entry a p = \<lparr>e_name = ''./'' @ output_of a (source (fst p)), e_regular = True, e_executable = True,
     e_output = [], e_status = (case snd p of None \<Rightarrow> 255 | Some n \<Rightarrow> nat (n mod 256))\<rparr>"

text \<open>The build directory of programs for both targets.\<close>

definition built :: "(arch \<Rightarrow> (string \<times> int option) list) \<Rightarrow> entry list" where
  "built f = map (test_entry X64) (f X64) @ map (test_entry X86) (f X86)"

lemma built_passes:
  assumes "\<And>a. list_all (\<lambda>p. snd p = Some 0) (f a)"
  shows "run_sh (Some (built f)) = (passed (built f) @ [All_passed], 0)"
proof -
  have all_tests: "tests_in (built f) = built f"
    by (simp add: tests_in_def built_def test_entry_def filter_id_conv)
  have all_pass: "e_status e = 0" if "e \<in> set (built f)" for e
    using that assms by (auto simp: built_def test_entry_def list_all_iff)
  then have none: "find (\<lambda>e. e_status e \<noteq> 0) (built f) = None" by (auto simp: find_None_iff)
  have all: "takeWhile (\<lambda>e. e_status e = 0) (built f) = built f"
    by (rule takeWhile_eq_all_conv [THEN iffD2]) (use all_pass in blast)
  show ?thesis
    unfolding run_sh_def by (simp only: option.case run_tests_eq tests_in_glob all_tests report_def Let_def none all)
qed

end
