(* ===== verification/Spec2Isabelle.thy ===== *)
theory Spec2Isabelle
  imports Queueing Nesting Masks Contexts Faults Farjump Altstack Ordering Fpu Frames Popf Jumps Sharing Interrupting Restarting Runner
begin

text \<open>
  A model of the signal tests of \<^verbatim>\<open>src/src\<close>: 62 small C++ programs, built for both x86 targets, which
  check how a platform (a Linux kernel, or an emulator of one) delivers signals. Each installs handlers, causes
  signals, checks in its handlers and in \<^verbatim>\<open>main\<close> what it is given, and exits 0 if all was as
  expected. So what a test is worth is what its exit status says about the platform, and that is what the
  theorems are about: \<open>X_verdict\<close> and \<open>X_decided\<close> say for every behaviour of the platform which
  runs end with exit 0; the acceptance theorems say that the documented behaviour of Linux is among them.

  The parts and their interaction. A test program is a value of \<open>('g, 'a) prog\<close> (theory
  \<^verbatim>\<open>Program\<close>): a tree of requests to its platform over the record \<open>'g\<close> of its global variables. The
  machine keeps the stack of interrupted requests; a move of the platform answers the request on top, enters a
  handler over it, returns from the handler, jumps, or kills the program. The log records every answer, entry
  and return. \<open>trial\<close> runs a program under a list of moves, so a statement about every \<open>trial\<close> is one about
  every platform, however wrong. \<open>Undefined\<close> is undefined behaviour (signed overflow, a null
  pointer read); it is never an exit.

  The theories, in the order of their imports:
  \<^item> \<^verbatim>\<open>Prelude\<close>, \<^verbatim>\<open>Posix\<close>: the integer types of \<^verbatim>\<open>common.h\<close>, the targets (\<open>arch\<close>, for
    \<^verbatim>\<open>#ifdef __x86_64__\<close>), and the vocabulary of the system headers: signal numbers, sets, actions, contexts,
    requests and answers. Registers are named \<open>REG_RIP\<close> and \<open>REG_RAX\<close> on both targets, as in \<^verbatim>\<open>common.h\<close>.
  \<^item> \<^verbatim>\<open>Program\<close>, \<^verbatim>\<open>Logic\<close>, \<^verbatim>\<open>Libc\<close>: programs, \<open>ASSERT\<close>, the machine; weakest preconditions with
    an invariant, and the locale \<open>env_contract\<close> (with its extensions) from which the verdicts follow; the C library's calls
    over the raw ones, with \<^verbatim>\<open>errno\<close>.
  \<^item> \<^verbatim>\<open>Pending\<close>, \<^verbatim>\<open>Linux\<close>: the queue of pending signals behind the locale \<open>signal_queue\<close>, and the
    documented behaviour of one Linux thread as a platform. This is no code of the repository; no verdict depends on
    it.
  \<^item> \<^verbatim>\<open>Queueing\<close>, \<^verbatim>\<open>Nesting\<close>, \<^verbatim>\<open>Masks\<close>, \<^verbatim>\<open>Contexts\<close>, \<^verbatim>\<open>Faults\<close>, \<^verbatim>\<open>Altstack\<close>,
    \<^verbatim>\<open>Fpu\<close>, \<^verbatim>\<open>Stepping\<close>, \<^verbatim>\<open>Popf\<close>, \<^verbatim>\<open>Jumps\<close>: the tests with one process and one thread.
  \<^item> \<^verbatim>\<open>Layout\<close>, \<^verbatim>\<open>Frames\<close>, \<^verbatim>\<open>Farjump\<close>: what three of these leave abstract. The layout of the
    structs the programs declare, and the floating point handlers and the action of \<^verbatim>\<open>rt-sigaction-oldact\<close> on
    the bytes of memory, which are shown to be the same programs as those of \<^verbatim>\<open>Fpu\<close> and \<^verbatim>\<open>Masks\<close> on values; and the assembly of \<^verbatim>\<open>illegal-cs\<close>, which \<^verbatim>\<open>Faults\<close> has
    as one faulting instruction.
  \<^item> \<^verbatim>\<open>Defaults\<close>, \<^verbatim>\<open>Processes\<close>, \<^verbatim>\<open>Ordering\<close>: the tests that fork. A run is one of the parent or of the
    child, as the answer to \<^verbatim>\<open>fork\<close> says.
  \<^item> \<^verbatim>\<open>Threads\<close>, \<^verbatim>\<open>Scheduler\<close>: processes with several threads, the locale \<open>thread_contract\<close>, and a
    scheduler over the threads of the Linux model.
  \<^item> \<^verbatim>\<open>Sharing\<close>, \<^verbatim>\<open>Interrupting\<close>, \<^verbatim>\<open>Restarting\<close>: the tests with a second thread.
  \<^item> \<^verbatim>\<open>Runner\<close>: \<^verbatim>\<open>Makefile\<close> (the programs built from the sources, by name) and \<^verbatim>\<open>run.sh\<close> on a directory
    of programs with their exit statuses. \<open>suite_passes\<close> puts it on top of the tests.
  \<^verbatim>\<open>Interrupted\<close> holds the checks several tests make of an interrupted system call.

  The test \<^verbatim>\<open>x-y.cpp\<close> is modelled by the record \<open>x_y\<close> of its globals (its variables keep
  their names behind a prefix, as field names are global), \<open>x_y_memory\<close> (their initial values),
  \<open>x_y_handler\<close> (\<^verbatim>\<open>signal_handler\<close>) and \<open>x_y_main\<close> (\<^verbatim>\<open>main\<close>), and parts of these where a
  function is long or shared; \<open>x_y_thread\<close> is the function of the second thread.

  The groups of lemmas. For each test: an invariant \<open>x_y_inv\<close> of its memory and log; an interpretation of
  a contract, which is the proof that every handler keeps the invariant, whenever it is entered; that \<open>main\<close> meets
  the contract; and the verdict. \<open>decides\<close> (\<open>tdecides\<close> with threads) is the strong form: exit 0 on
  exactly the runs described. Some tests allow only one direction, as they check too little; what two of
  them fail to notice is the last property below. \<open>x_y_linux\<close> computes the run of a test on the model
  of Linux; such a run is also the witness that a verdict speaks of existing runs.

  Bounds and fuel. Only the waiting loops of \<^verbatim>\<open>rt-order\<close> and \<^verbatim>\<open>rt-order-only-one\<close> may run forever; they have
  fuel, and \<open>children_wait_for_lock\<close> shows that a child whose lock is held for \<open>n\<close> exchanges uses up \<open>n\<close> of it
  and one more, whatever \<open>n\<close> is: any fuel greater than \<open>n\<close> is enough. The theorems that hold of every run hold for every fuel. All
  other loops are structural. Machine integers keep their width: counters of type \<^verbatim>\<open>int\<close> become undefined where
  they overflow, words wrap around. Schedules are given by the number of turns; the ones chosen suffice for the
  exit, which the acceptance theorem states.

  Interleaving. A thread runs from one request to the next without interruption by the others. Between two
  requests the tests access at most one variable that another thread or a handler shares, so a finer
  interleaving has no other results. Handlers are entered at requests: a program that makes no request cannot be
  observed in between.

  Not modelled: the compiler, and the recipes of \<^verbatim>\<open>make\<close> that create and remove files; the text that
  \<^verbatim>\<open>printf\<close> writes, beyond that a check has failed or a
  signal was received; variables that are filled and never read; the encoding of instructions, which are requests
  that name the instruction (the tests that look at bytes read them through the platform). The
  addresses of code and of the heap, and the environment, are parameters. What a call stores through a pointer
  when it fails is whatever the platform's answer holds.
\<close>
text \<open>
  C14. \<^verbatim>\<open>mask-all\<close> exits 0 exactly when both \<^verbatim>\<open>sigaction\<close> calls and the final \<^verbatim>\<open>sigprocmask\<close>
  succeed and its handler is entered twice, for signal 40 and then for 41; \<^verbatim>\<open>two-signals\<close> exactly when
  its handler is entered for both signals, in any order and however often; \<^verbatim>\<open>resethand\<close> exactly when
  \<^verbatim>\<open>sigaction\<close> succeeds and its handler is entered once, although the signal is raised twice;
  \<^verbatim>\<open>block-rtmin\<close> exactly when the platform blocks every signal but \<^verbatim>\<open>SIGKILL\<close> and \<^verbatim>\<open>SIGSTOP\<close> on request,
  the library's own two included, and reports that mask; \<^verbatim>\<open>rt-sigaction-oldact\<close> exactly when the platform
  reports the action installed, its handler, flags, mask and restorer; \<^verbatim>\<open>uc_mask\<close> exactly when
  \<^verbatim>\<open>sigaction\<close> succeeds, no context a handler is given has \<^verbatim>\<open>SIGURG\<close> blocked, and a query of the mask
  shows \<^verbatim>\<open>SIGURG\<close> blocked just when a handler makes it.
\<close>

theorem delivery_tests_decided:
  "decides mask_all_handler mask_all_main mask_all_memory
     (\<lambda>l. calls_ok mask_all_checked l \<and> handled_signals l = [mysig, mysig + 1]) \<and>
   decides two_signals_handler two_signals_main two_signals_memory
     (\<lambda>l. {SIGURG, SIGPWR} \<subseteq> set (handled_signals l)) \<and>
   decides resethand_handler resethand_main resethand_memory
     (\<lambda>l. calls_ok checks_sigaction l \<and> length (handled l) = 1) \<and>
   decides no_handlers block_rtmin_main \<lparr>errno = 0\<rparr>
     (\<lambda>l. \<exists>r1 r2. l = [Ans (Rt_sigprocmask SIG_SETMASK None) r2,
                       Ans (Rt_sigprocmask SIG_BLOCK (Some full_mask)) r1] \<and>
        ret r1 = 0 \<and> ret r2 = 0 \<and> r_set r2 = blockable (- 1)) \<and>
   decides no_handlers (rt_sigaction_oldact_main a restorer) \<lparr>errno = 0\<rparr>
     (rt_sigaction_oldact_log a restorer) \<and>
   decides uc_mask_handler uc_mask_main \<lparr>errno = 0\<rparr> uc_mask_seen"
  by (simp only: queueing_decided resethand_decided raw_calls_decided uc_mask_decided simp_thms)

text \<open>
  C27. The tests of what a context holds exit 0 exactly when their calls succeed, their handler is entered
  and every context it is given is right. \<^verbatim>\<open>uc-flags\<close>: the flags have the extended state bit and, on
  the 64-bit target, both stack segment bits. \<^verbatim>\<open>uc-oldmask\<close>: the old mask is the one the program had
  blocked by the time of the entry. \<^verbatim>\<open>sigcontext-segments\<close>: the selectors are those of a Linux process.
  \<^verbatim>\<open>segments\<close>, whose 32-bit build asks for no entry at all: the selectors are those the program had
  read from its segment registers by then. The tests of the saved floating point and vector state: the
  context has the state the program has loaded (for the old format with the upper halves of the three
  words set), and the program finds in its registers what the handlers have put into the context: new
  values, or the initial values of a component whose bit they have cleared.
\<close>

theorem saved_contexts_decided:
  "decides (uc_flags_handler a) uc_flags_main uc_flags_memory (\<lambda>l. uc_flags_seen a l \<and> handled l \<noteq> []) \<and>
   decides (uc_oldmask_handler a) uc_oldmask_main uc_oldmask_memory
     (\<lambda>l. uc_oldmask_seen a l \<and> handled l \<noteq> []) \<and>
   decides (sigcontext_segments_handler a) sigcontext_segments_main sigcontext_segments_memory
     (\<lambda>l. sigcontext_segments_seen a l \<and> handled l \<noteq> []) \<and>
   decides (segments_handler X86) (segments_main X86) segments_memory (each_event (on_entry same_segments)) \<and>
   decides xstate_bv_sse_handler xstate_bv_sse_main xstate_bv_sse_memory sse_reset \<and>
   decides xstate_bv_x87_handler xstate_bv_x87_main xstate_bv_x87_memory x87_reset \<and>
   decides fpstate_x87_32_handler (fpstate_x87_32_main X86) fpstate_x87_32_memory x87_replaced \<and>
   decides fpstate_legacy_32_handler (fpstate_legacy_32_main X86) fpstate_legacy_32_memory legacy_replaced"
  by (simp only: contexts_decided fp_state_decided simp_thms)

text \<open>
  C25. \<^verbatim>\<open>sigdfl-segv\<close> and \<^verbatim>\<open>sigdfl-usr1\<close> exit 0 exactly in a parent that is told that the signal has
  killed its child; \<^verbatim>\<open>sigdfl-urg\<close> exits 0 exactly in a child that survives the signal or in a parent
  that is told so; \<^verbatim>\<open>syscall-sigign\<close> exits 0 exactly in a parent whose child outlives \<^verbatim>\<open>SIGUSR1\<close> and
  \<^verbatim>\<open>SIGURG\<close> and is then killed by \<^verbatim>\<open>SIGKILL\<close>. A failed \<^verbatim>\<open>fork\<close> is never a success, except in
  \<^verbatim>\<open>syscall-sigign\<close>, which does not check it. \<^verbatim>\<open>fork-inherit\<close> exits 0 exactly in a process, parent or
  child, that finds the five signals blocked after the \<^verbatim>\<open>fork\<close>, the parent also being told that its child
  exited with 0; \<^verbatim>\<open>execve-inherit\<close> exactly in its second image and if that finds the mask of the first;
  \<^verbatim>\<open>thread-inherit\<close>, however its threads are interleaved, exactly when both of them find the five signals
  blocked.
\<close>

theorem process_tests_decided:
  "decides no_handlers sigdfl_segv_main start_memory (killed_child SIGSEGV) \<and>
   decides no_handlers sigdfl_usr1_main start_memory (killed_child SIGUSR1) \<and>
   decides no_handlers sigdfl_urg_main start_memory urg_ignored \<and>
   decides no_handlers syscall_sigign_main start_memory only_kill_works \<and>
   decides no_handlers fork_inherit_main start_memory mask_inherited \<and>
   decides execve_inherit_handler (execve_inherit_main env) execve_inherit_memory (mask_survived env) \<and>
   tdecides ids no_handlers [thread_inherit_thread] thread_inherit_main \<lparr>errno = 0\<rparr> mask_inherited_by_thread"
  by (simp only: defaults_decided inheritance_decided simp_thms)

text \<open>
  The runs of the tests with one process and one thread.
\<close>

lemma single_process_tests_accept_linux:
  "linux_run (linux_init a pid u heap) multiple_standard_handler multiple_standard_main multiple_standard_memory
     = Some 0 \<and>
   linux_run (linux_init a pid u heap) mask_all_handler mask_all_main mask_all_memory
     = Some 0 \<and>
   linux_run (linux_init a pid u heap) two_signals_handler two_signals_main two_signals_memory
     = Some 0 \<and>
   linux_run (linux_init a pid u heap) same_signal_handler same_signal_main same_signal_memory
     = Some 0 \<and>
   linux_run (linux_init a pid u heap) nodefer_handler nodefer_main nodefer_memory = Some 0 \<and>
   linux_run (linux_init a pid u heap) resethand_handler resethand_main resethand_memory
     = Some 0 \<and>
   linux_run (linux_init a pid u heap) no_handlers block_rtmin_main \<lparr>errno = 0\<rparr>
     = Some 0 \<and>
   linux_run (linux_init a pid u heap) no_handlers (rt_sigaction_oldact_main a restorer) \<lparr>errno = 0\<rparr>
     = Some 0 \<and>
   linux_run (linux_init a pid u heap) uc_mask_handler uc_mask_main \<lparr>errno = 0\<rparr>
     = Some 0 \<and>
   linux_run (linux_init a pid u heap) (sigsuspend_mask_handler a) sigsuspend_mask_main sigsuspend_mask_memory
     = Some 0 \<and>
   linux_run (linux_init a pid u heap) (sigsuspend_multiple_handler a) sigsuspend_multiple_main sigsuspend_multiple_memory
     = Some 0 \<and>
   linux_run (linux_init a pid u heap) no_handlers sigwait_sigpending_main \<lparr>errno = 0\<rparr>
     = Some 0 \<and>
   linux_run (linux_init a pid u heap) (uc_flags_handler a) uc_flags_main uc_flags_memory
     = Some 0 \<and>
   linux_run (linux_init a pid u heap) (uc_oldmask_handler a) uc_oldmask_main uc_oldmask_memory
     = Some 0 \<and>
   linux_run (linux_init a pid u heap) (sigcontext_segments_handler a) sigcontext_segments_main sigcontext_segments_memory
     = Some 0 \<and>
   linux_run (linux_init a pid u heap) (segments_handler a) (segments_main a) segments_memory
     = Some 0 \<and>
   linux_run (linux_init a pid u heap) df_reset_handler df_reset_main \<lparr>errno = 0\<rparr>
     = Some 0 \<and>
   linux_run (linux_init a pid u heap) (segv_cr2_handler a) segv_cr2_main \<lparr>errno = 0\<rparr>
     = Some 0 \<and>
   linux_run (linux_init a pid u heap) (segv_trapno_handler a) segv_trapno_main \<lparr>errno = 0\<rparr>
     = Some 0 \<and>
   linux_run (linux_init a pid u heap) synchronous_null_handler synchronous_null_main \<lparr>errno = 0\<rparr>
     = Some 0 \<and>
   linux_run (linux_init a pid u heap) synchronous_high_address_handler synchronous_high_address_main \<lparr>errno = 0\<rparr>
     = Some 0 \<and>
   linux_run (linux_init a pid u heap) synchronous_hlt_handler (synchronous_hlt_main 0x401000) \<lparr>errno = 0\<rparr>
     = Some 0 \<and>
   linux_run (linux_init a pid u heap) (synchronous_int3_handler a 0x401000) (synchronous_int3_main 0x401000) \<lparr>errno = 0\<rparr>
     = Some 0 \<and>
   linux_run (linux_init a pid u heap) (synchronous_ud2_handler a) (synchronous_ud2_main 0x401000) \<lparr>errno = 0\<rparr>
     = Some 0 \<and>
   linux_run (linux_init a pid u heap) (synchronous_div_zero_handler a) (synchronous_div_zero_main 0x401000) \<lparr>errno = 0\<rparr>
     = Some 0 \<and>
   linux_run (linux_init a pid u heap) (synchronous_idiv_zero_handler a) (synchronous_idiv_zero_main 0x401000) \<lparr>errno = 0\<rparr>
     = Some 0 \<and>
   linux_run (linux_init a pid u [0x10000]) (synchronous_rip_handler a) (synchronous_rip_main a) synchronous_rip_memory
     = Some 0 \<and>
   linux_run (linux_init a pid u heap) (illegal_cs_handler a 0x402000) (illegal_cs_main 0x401000) illegal_cs_memory
     = Some 0 \<and>
   linux_run (linux_init a pid u [0x10000]) no_handlers sigaltstack_errors_main \<lparr>errno = 0\<rparr>
     = Some 0 \<and>
   linux_run (linux_init a pid u [0x10000]) sigaltstack_query_handler sigaltstack_query_main sigaltstack_query_memory
     = Some 0 \<and>
   linux_run (linux_init a pid u [0x10000]) two_signals_alt_stack_handler two_signals_alt_stack_main two_signals_alt_stack_memory
     = Some 0 \<and>
   linux_run (linux_init a pid u [0x10000]) uc_stack_always_handler uc_stack_always_main uc_stack_always_memory
     = Some 0 \<and>
   linux_run (linux_init a pid u [0x10000, 0x200000]) uc_stack_restore_handler uc_stack_restore_main uc_stack_restore_memory
     = Some 0 \<and>
   linux_run (linux_init a pid u [0x10000]) (alt_stack_disarm_handler a) alt_stack_disarm_main alt_stack_disarm_memory
     = Some 0 \<and>
   linux_run (linux_init a pid u [0x10000]) frame_alignment_handler (frame_alignment_main a) frame_alignment_memory
     = Some 0 \<and>
   linux_run (linux_init a pid u heap) xstate_bv_sse_handler xstate_bv_sse_main xstate_bv_sse_memory = Some 0 \<and>
   linux_run (linux_init a pid u heap) xstate_bv_x87_handler xstate_bv_x87_main xstate_bv_x87_memory = Some 0 \<and>
   linux_run (linux_init a pid u heap) fpstate_x87_32_handler (fpstate_x87_32_main a)
     fpstate_x87_32_memory = Some 0 \<and>
   linux_run (linux_init a pid u heap) fpstate_legacy_32_handler (fpstate_legacy_32_main a)
     fpstate_legacy_32_memory = Some 0 \<and>
   linux_run ((linux_init a pid u heap)\<lparr>l_bytes := trap_flag_text 0x400010\<rparr>) (trap_flag_handler a)
     (trap_flag_main 0x400010 0x401000) trap_flag_memory = Some 0 \<and>
   linux_run (linux_init a pid u heap) (popf_clear_handler a) (popf_clear_main a 0x400010 0x401000)
     popf_clear_memory = Some 0 \<and>
   linux_run (linux_init a pid u heap) (popf_repeat_handler a) (popf_repeat_main 0x400010 0x400000 0x401000)
     popf_repeat_memory = Some 0 \<and>
   linux_run (linux_init a pid u heap) longjmp_handler longjmp_main longjmp_memory = Some 0"
  by (simp only: queueing_accept_linux nesting_accept_linux masks_accept_linux contexts_accept_linux faults_accept_linux altstack_accept_linux fpu_accept_linux stepping_accept_linux longjmp_linux simp_thms)

text \<open>
  The tests with one thread and one process, all but \<^verbatim>\<open>multiple-realtime\<close> (whose run of 64 deliveries has a
  proof of its own, not a computation), and the exit status of the run of each on the model of Linux for a target. The
  addresses of code are arguments of some programs; the platform's heap is given where they allocate memory.
\<close>

definition single_process_runs :: "arch \<Rightarrow> int \<Rightarrow> int \<Rightarrow> u64 list \<Rightarrow> u64 \<Rightarrow> (string \<times> int option) list" where
  "single_process_runs a pid u heap restorer =
     [(''multiple-standard'', linux_run (linux_init a pid u heap) multiple_standard_handler multiple_standard_main multiple_standard_memory),
      (''mask-all'', linux_run (linux_init a pid u heap) mask_all_handler mask_all_main mask_all_memory),
      (''two-signals'', linux_run (linux_init a pid u heap) two_signals_handler two_signals_main two_signals_memory),
      (''same-signal'', linux_run (linux_init a pid u heap) same_signal_handler same_signal_main same_signal_memory),
      (''nodefer'', linux_run (linux_init a pid u heap) nodefer_handler nodefer_main nodefer_memory),
      (''resethand'', linux_run (linux_init a pid u heap) resethand_handler resethand_main resethand_memory),
      (''block-rtmin'', linux_run (linux_init a pid u heap) no_handlers block_rtmin_main \<lparr>errno = 0\<rparr>),
      (''rt-sigaction-oldact'', linux_run (linux_init a pid u heap) no_handlers (rt_sigaction_oldact_main a restorer) \<lparr>errno = 0\<rparr>),
      (''uc_mask'', linux_run (linux_init a pid u heap) uc_mask_handler uc_mask_main \<lparr>errno = 0\<rparr>),
      (''sigsuspend-mask'', linux_run (linux_init a pid u heap) (sigsuspend_mask_handler a) sigsuspend_mask_main sigsuspend_mask_memory),
      (''sigsuspend-multiple'', linux_run (linux_init a pid u heap) (sigsuspend_multiple_handler a) sigsuspend_multiple_main sigsuspend_multiple_memory),
      (''sigwait-sigpending'', linux_run (linux_init a pid u heap) no_handlers sigwait_sigpending_main \<lparr>errno = 0\<rparr>),
      (''uc-flags'', linux_run (linux_init a pid u heap) (uc_flags_handler a) uc_flags_main uc_flags_memory),
      (''uc-oldmask'', linux_run (linux_init a pid u heap) (uc_oldmask_handler a) uc_oldmask_main uc_oldmask_memory),
      (''sigcontext-segments'', linux_run (linux_init a pid u heap) (sigcontext_segments_handler a) sigcontext_segments_main sigcontext_segments_memory),
      (''segments'', linux_run (linux_init a pid u heap) (segments_handler a) (segments_main a) segments_memory),
      (''df-reset'', linux_run (linux_init a pid u heap) df_reset_handler df_reset_main \<lparr>errno = 0\<rparr>),
      (''segv-cr2'', linux_run (linux_init a pid u heap) (segv_cr2_handler a) segv_cr2_main \<lparr>errno = 0\<rparr>),
      (''segv-trapno'', linux_run (linux_init a pid u heap) (segv_trapno_handler a) segv_trapno_main \<lparr>errno = 0\<rparr>),
      (''synchronous-null'', linux_run (linux_init a pid u heap) synchronous_null_handler synchronous_null_main \<lparr>errno = 0\<rparr>),
      (''synchronous-high-address'', linux_run (linux_init a pid u heap) synchronous_high_address_handler synchronous_high_address_main \<lparr>errno = 0\<rparr>),
      (''synchronous-hlt'', linux_run (linux_init a pid u heap) synchronous_hlt_handler (synchronous_hlt_main 0x401000) \<lparr>errno = 0\<rparr>),
      (''synchronous-int3'', linux_run (linux_init a pid u heap) (synchronous_int3_handler a 0x401000) (synchronous_int3_main 0x401000) \<lparr>errno = 0\<rparr>),
      (''synchronous-ud2'', linux_run (linux_init a pid u heap) (synchronous_ud2_handler a) (synchronous_ud2_main 0x401000) \<lparr>errno = 0\<rparr>),
      (''synchronous-div-zero'', linux_run (linux_init a pid u heap) (synchronous_div_zero_handler a) (synchronous_div_zero_main 0x401000) \<lparr>errno = 0\<rparr>),
      (''synchronous-idiv-zero'', linux_run (linux_init a pid u heap) (synchronous_idiv_zero_handler a) (synchronous_idiv_zero_main 0x401000) \<lparr>errno = 0\<rparr>),
      (''synchronous-rip'', linux_run (linux_init a pid u [0x10000]) (synchronous_rip_handler a) (synchronous_rip_main a) synchronous_rip_memory),
      (''illegal-cs'', linux_run (linux_init a pid u heap) (illegal_cs_handler a 0x402000) (illegal_cs_main 0x401000) illegal_cs_memory),
      (''sigaltstack-errors'', linux_run (linux_init a pid u [0x10000]) no_handlers sigaltstack_errors_main \<lparr>errno = 0\<rparr>),
      (''sigaltstack-query'', linux_run (linux_init a pid u [0x10000]) sigaltstack_query_handler sigaltstack_query_main sigaltstack_query_memory),
      (''two-signals-alt-stack'', linux_run (linux_init a pid u [0x10000]) two_signals_alt_stack_handler two_signals_alt_stack_main two_signals_alt_stack_memory),
      (''uc-stack-always'', linux_run (linux_init a pid u [0x10000]) uc_stack_always_handler uc_stack_always_main uc_stack_always_memory),
      (''uc-stack-restore'', linux_run (linux_init a pid u [0x10000, 0x200000]) uc_stack_restore_handler uc_stack_restore_main uc_stack_restore_memory),
      (''two-signals-alt-stack-disarm'', linux_run (linux_init a pid u [0x10000]) (alt_stack_disarm_handler a) alt_stack_disarm_main alt_stack_disarm_memory),
      (''frame-alignment'', linux_run (linux_init a pid u [0x10000]) frame_alignment_handler (frame_alignment_main a) frame_alignment_memory),
      (''xstate-bv-sse'', linux_run (linux_init a pid u heap) xstate_bv_sse_handler xstate_bv_sse_main xstate_bv_sse_memory),
      (''xstate-bv-x87'', linux_run (linux_init a pid u heap) xstate_bv_x87_handler xstate_bv_x87_main xstate_bv_x87_memory),
      (''fpstate-x87-32'', linux_run (linux_init a pid u heap) fpstate_x87_32_handler (fpstate_x87_32_main a) fpstate_x87_32_memory),
      (''fpstate-legacy-32'', linux_run (linux_init a pid u heap) fpstate_legacy_32_handler (fpstate_legacy_32_main a) fpstate_legacy_32_memory),
      (''trap-flag'', linux_run ((linux_init a pid u heap)\<lparr>l_bytes := trap_flag_text 0x400010\<rparr>) (trap_flag_handler a) (trap_flag_main 0x400010 0x401000) trap_flag_memory),
      (''trap-flag-popf-clear'', linux_run (linux_init a pid u heap) (popf_clear_handler a) (popf_clear_main a 0x400010 0x401000) popf_clear_memory),
      (''trap-flag-popf-repeat'', linux_run (linux_init a pid u heap) (popf_repeat_handler a) (popf_repeat_main 0x400010 0x400000 0x401000) popf_repeat_memory),
      (''longjmp-no-overflow'', linux_run (linux_init a pid u heap) longjmp_handler longjmp_main longjmp_memory)]"

lemma single_process_runs_pass: "list_all (\<lambda>p. snd p = Some 0) (single_process_runs a pid u heap restorer)"
  by (simp only: single_process_runs_def list.pred_inject single_process_tests_accept_linux snd_conv simp_thms)

lemma single_process_runs_names:
  "list_all (\<lambda>p. fst p \<in> set test_names) (single_process_runs a pid u heap restorer)"
proof -
  have names: "map fst (single_process_runs a pid u heap restorer) =
      [''multiple-standard'',
       ''mask-all'',
       ''two-signals'',
       ''same-signal'',
       ''nodefer'',
       ''resethand'',
       ''block-rtmin'',
       ''rt-sigaction-oldact'',
       ''uc_mask'',
       ''sigsuspend-mask'',
       ''sigsuspend-multiple'',
       ''sigwait-sigpending'',
       ''uc-flags'',
       ''uc-oldmask'',
       ''sigcontext-segments'',
       ''segments'',
       ''df-reset'',
       ''segv-cr2'',
       ''segv-trapno'',
       ''synchronous-null'',
       ''synchronous-high-address'',
       ''synchronous-hlt'',
       ''synchronous-int3'',
       ''synchronous-ud2'',
       ''synchronous-div-zero'',
       ''synchronous-idiv-zero'',
       ''synchronous-rip'',
       ''illegal-cs'',
       ''sigaltstack-errors'',
       ''sigaltstack-query'',
       ''two-signals-alt-stack'',
       ''uc-stack-always'',
       ''uc-stack-restore'',
       ''two-signals-alt-stack-disarm'',
       ''frame-alignment'',
       ''xstate-bv-sse'',
       ''xstate-bv-x87'',
       ''fpstate-x87-32'',
       ''fpstate-legacy-32'',
       ''trap-flag'',
       ''trap-flag-popf-clear'',
       ''trap-flag-popf-repeat'',
       ''longjmp-no-overflow'']"
    by (simp only: single_process_runs_def list.map fst_conv)
  have "list_all (\<lambda>n. n \<in> set test_names) (map fst (single_process_runs a pid u heap restorer))"
    unfolding names by code_simp
  then show ?thesis by (simp only: list.pred_map comp_def)
qed

text \<open>
  C35. \<^verbatim>\<open>run.sh\<close> on the programs built from these 43 tests for both targets, on the platform
  with the documented behaviour, with any process and user number and any heap: every program runs to its
  end and exits 0, \<^verbatim>\<open>run.sh\<close> reports each as passed and exits 0. So they accept a correct platform. They
  are the tests of queueing, nesting and masks, of contexts, faults and alternate stacks, of the saved floating
  point state, of single-stepping, and the 131072 jumps of \<^verbatim>\<open>longjmp-no-overflow\<close>.
\<close>

theorem suite_passes:
  "list_all (\<lambda>p. fst p \<in> set test_names) (single_process_runs a pid u heap restorer) \<and>
   run_sh (Some (built (\<lambda>a. single_process_runs a pid u heap restorer))) =
     (passed (built (\<lambda>a. single_process_runs a pid u heap restorer)) @ [All_passed], 0)"
  by (intro conjI single_process_runs_names built_passes single_process_runs_pass)

text \<open>
  C36. The tests with two processes accept Linux too: run on the documented platform, the child of each ends as the
  test expects, and a parent that is told so exits 0. \<^verbatim>\<open>sigdfl-all\<close> meets the documented default action
  of every signal.
\<close>

theorem process_tests_accept_linux:
  "list_all (\<lambda>s. run_alone a (sigdfl_all_child s) start_memory = Some (default_outcome s))
     (remove1 SIGKILL [1..64]) \<and>
   (\<exists>g l. trial no_handlers sigdfl_all_main start_memory (concat (map sigdfl_all_moves [1..64])) =
     Dead (Exited 0) g l) \<and>
   run_alone a (bind sigdfl_segv_main Exit) start_memory = Some (Killed SIGSEGV) \<and>
   exit_status (trial no_handlers sigdfl_segv_main start_memory (fork_moves (Dies_of SIGSEGV True))) = Some 0 \<and>
   run_alone a (bind sigdfl_usr1_main Exit) start_memory = Some (Killed SIGUSR1) \<and>
   exit_status (trial no_handlers sigdfl_usr1_main start_memory (fork_moves (Dies_of SIGUSR1 False))) = Some 0 \<and>
   run_alone a (bind sigdfl_urg_main Exit) start_memory = Some (Exited 0) \<and>
   exit_status (trial no_handlers sigdfl_urg_main start_memory (fork_moves (Exits 0))) = Some 0 \<and>
   linux_run (linux_init a pid u heap) no_handlers fork_inherit_main start_memory = Some 0 \<and>
   execve_inherit_images a = Some 0 \<and>
   linux_run (linux_init a 77 u heap) signal_table_fork_handler signal_table_fork_main
     signal_table_fork_memory = Some 0 \<and>
   exit_status (trial signal_table_fork_handler signal_table_fork_main signal_table_fork_memory
     ([Answer resp0, Answer resp0] @ told @ [Answer resp0])) = Some 0 \<and>
   child_run [(custom_info a \<lparr>errno = 0, parent_pid = pid, uid = u\<rparr>)\<lparr>si_signo := queueinfo_sig\<rparr>]
     (linux_init a pid u heap) (sigqueueinfo_handler a) (sigqueueinfo_main a) sigqueueinfo_memory = Some 0 \<and>
   child_run (sent_signals 1 [36, 34, 35, 37, 39, 38]) (linux_init a pid u [0x10000]) rt_order_handler
     (rt_order_main 1) rt_order_memory = Some 0 \<and>
   exit_status (trial rt_order_handler (rt_order_main 1) rt_order_memory rt_order_told) = Some 0 \<and>
   child_run (sent_signals 1 [36, 35, 34, 37, 39, 38]) (linux_init a pid u [0x10000]) rt_order_one_handler
     (rt_order_one_main 1) rt_order_memory = Some 0 \<and>
   exit_status (trial rt_order_one_handler (rt_order_one_main 1) rt_order_memory rt_order_told) = Some 0"
  by (simp only: defaults_accept_linux processes_accept_linux ordering_accept_linux simp_thms)

text \<open>
  C37. On the model of Linux, \<^verbatim>\<open>thread-inherit\<close> and \<^verbatim>\<open>sigsuspend-pc-rax\<close> come to their exit with 0 in every
  schedule that gives each thread a turn in each of so many rounds, and no schedule whatever makes them end in
  another way. \<^verbatim>\<open>signal-table-thread\<close> exits 0 if its threads take turns.
\<close>

theorem thread_tests_live:
  "always_passes 20 a no_handlers [thread_inherit_thread] thread_inherit_main \<lparr>errno = 0\<rparr> \<and>
   always_passes 40 a (sigsuspend_pc_rax_handler a) [sigsuspend_pc_rax_thread] sigsuspend_pc_rax_main
     sigsuspend_pc_rax_memory \<and>
   scheduled_exit a signal_table_thread_handler [table_thread] signal_table_thread_main
     signal_table_thread_memory (in_turns 30) = Some 0"
  by (simp only: thread_inherit_live sigsuspend_pc_rax_live signal_table_thread_linux simp_thms)

text \<open>
  C38. The other four tests with threads exit 0 on this model if the threads take turns, and exit 1 under another
  order of the turns, although nothing is wrong with the platform: \<^verbatim>\<open>pause-pc-rax\<close> if the signal is sent before
  \<^verbatim>\<open>main\<close> has come to \<^verbatim>\<open>pause\<close>, the \<^verbatim>\<open>restartable-*\<close> tests if \<^verbatim>\<open>main\<close> sends it before the thread has
  stored its number. They rely on \<^verbatim>\<open>usleep\<close> for the order.
\<close>

theorem thread_tests_race:
  "scheduled_exit a (pause_pc_rax_handler a) [pause_pc_rax_thread] pause_pc_rax_main pause_pc_rax_memory
     (in_turns 30) = Some 0 \<and>
   scheduled_exit a (pause_pc_rax_handler a) [pause_pc_rax_thread] pause_pc_rax_main pause_pc_rax_memory
     main_late = Some 1 \<and>
   scheduled_exit a (restartable_read_handler a) [restartable_read_thread] restartable_read_main
     restartable_pipe_memory (in_turns 40) = Some 0 \<and>
   scheduled_exit a (restartable_read_handler a) [restartable_read_thread] restartable_read_main
     restartable_pipe_memory thread_late = Some 1 \<and>
   scheduled_exit a (restartable_write_handler a) [restartable_write_thread] restartable_write_main
     restartable_pipe_memory (in_turns 40) = Some 0 \<and>
   scheduled_exit a (restartable_write_handler a) [restartable_write_thread] restartable_write_main
     restartable_pipe_memory thread_late = Some 1 \<and>
   scheduled_exit a (restartable_sem_wait_handler a) [restartable_sem_wait_thread] restartable_sem_wait_main
     restartable_memory (in_turns 40) = Some 0 \<and>
   scheduled_exit a (restartable_sem_wait_handler a) [restartable_sem_wait_thread] restartable_sem_wait_main
     restartable_memory thread_late = Some 1"
  by (simp only: pause_pc_rax_races restarting_races simp_thms)

text \<open>
  C40. Two tests cannot tell whether their signals are delivered: \<^verbatim>\<open>uc_mask\<close> and
  \<^verbatim>\<open>two-signals-alt-stack-disarm\<close> also exit 0 on a platform that answers every call with success and
  never enters a handler, because \<^verbatim>\<open>main\<close> does not check what the handler has counted.
\<close>

theorem blind_tests:
  "(\<exists>g l. trial uc_mask_handler uc_mask_main \<lparr>errno = 0\<rparr>
       [Answer resp0, Answer resp0, Answer resp0] = Dead (Exited 0) g l \<and> handled l = []) \<and>
   (\<exists>g l. trial (alt_stack_disarm_handler a) alt_stack_disarm_main alt_stack_disarm_memory
       (replicate 10 (Answer resp0)) = Dead (Exited 0) g l \<and> handled l = [])"
  by (intro conjI uc_mask_blind alt_stack_disarm_blind)

end
